(* ===== verification/Prelude.thy ===== *)
theory Prelude
  imports Main
begin

text \<open>
  Shared vocabulary of the development: the effect type in which the stateful operations are
  written, the table operations the database calls are translated to, and the lemma collections
  the component theories build on.

  An \<open>async\<close> function of the program becomes a value of \<open>('s, 'a) eff\<close>: from a state it gives
  either the message of the exception it throws or its result, and the state it leaves. An
  exception keeps the state changes made before it (\<open>bnd\<close>), unless the code runs inside a
  database transaction, which rolls them back (\<open>transaction\<close>).
\<close>

named_theorems eff_simps \<open>running the effect combinators\<close>
named_theorems tbl_simps \<open>reading, updating and inserting rows\<close>

type_synonym error = string
type_synonym ident = string
type_synonym time = int  \<comment> \<open>milliseconds since the epoch, as \<open>Date.getTime\<close> gives them\<close>

type_synonym ('s, 'a) eff = "'s \<Rightarrow> (error + 'a) \<times> 's"

section \<open>Effects\<close>

definition ret :: "'a \<Rightarrow> ('s, 'a) eff" where
  "ret a = (\<lambda>s. (Inr a, s))"

definition throw :: "error \<Rightarrow> ('s, 'a) eff" where
  "throw e = (\<lambda>s. (Inl e, s))"

definition bnd :: "('s, 'a) eff \<Rightarrow> ('a \<Rightarrow> ('s, 'b) eff) \<Rightarrow> ('s, 'b) eff" where
  "bnd m k = (\<lambda>s. case m s of (r, s') \<Rightarrow> (case r of Inl e \<Rightarrow> (Inl e, s') | Inr a \<Rightarrow> k a s'))"

definition try_catch :: "('s, 'a) eff \<Rightarrow> (error \<Rightarrow> ('s, 'a) eff) \<Rightarrow> ('s, 'a) eff" where
  "try_catch m h = (\<lambda>s. case m s of (r, s') \<Rightarrow> (case r of Inl e \<Rightarrow> h e s' | Inr a \<Rightarrow> (Inr a, s')))"

definition gets :: "('s \<Rightarrow> 'a) \<Rightarrow> ('s, 'a) eff" where
  "gets f = (\<lambda>s. (Inr (f s), s))"

definition modify :: "('s \<Rightarrow> 's) \<Rightarrow> ('s, unit) eff" where
  "modify f = (\<lambda>s. (Inr (), f s))"

definition transaction :: "('s, 'a) eff \<Rightarrow> ('s, 'a) eff" where
  "transaction m = (\<lambda>s. case m s of (r, s') \<Rightarrow> (case r of Inl e \<Rightarrow> (Inl e, s) | Inr a \<Rightarrow> (Inr a, s')))"

text \<open>\<open>zoom\<close> runs an operation of a dependency on the part of the state that it owns.\<close>

definition zoom :: "('s \<Rightarrow> 'p) \<Rightarrow> ('p \<Rightarrow> 's \<Rightarrow> 's) \<Rightarrow> ('p, 'a) eff \<Rightarrow> ('s, 'a) eff" where
  "zoom get put m = (\<lambda>s. case m (get s) of (r, p) \<Rightarrow> (r, put p s))"

text \<open>\<open>collect\<close> is the loop \<open>for (const x of xs) results.push(await f(x))\<close>.\<close>

fun collect :: "('x \<Rightarrow> ('s, 'a) eff) \<Rightarrow> 'x list \<Rightarrow> ('s, 'a list) eff" where
  "collect f [] = ret []"
| "collect f (x # xs) = bnd (f x) (\<lambda>a. bnd (collect f xs) (\<lambda>as. ret (a # as)))"

lemma ret_run [eff_simps]: "ret a s = (Inr a, s)"
  by (simp add: ret_def)

lemma throw_run [eff_simps]: "throw e s = (Inl e, s)"
  by (simp add: throw_def)

lemma gets_run [eff_simps]: "gets f s = (Inr (f s), s)"
  by (simp add: gets_def)

lemma modify_run [eff_simps]: "modify f s = (Inr (), f s)"
  by (simp add: modify_def)

lemma bnd_run [eff_simps]:
  "bnd m k s = (case m s of (r, s') \<Rightarrow> (case r of Inl e \<Rightarrow> (Inl e, s') | Inr a \<Rightarrow> k a s'))"
  by (simp add: bnd_def)

lemma try_catch_run [eff_simps]:
  "try_catch m h s = (case m s of (r, s') \<Rightarrow> (case r of Inl e \<Rightarrow> h e s' | Inr a \<Rightarrow> (Inr a, s')))"
  by (simp add: try_catch_def)

lemma transaction_run [eff_simps]:
  "transaction m s = (case m s of (r, s') \<Rightarrow> (case r of Inl e \<Rightarrow> (Inl e, s) | Inr a \<Rightarrow> (Inr a, s')))"
  by (simp add: transaction_def)

lemma zoom_run [eff_simps]: "zoom get put m s = (case m (get s) of (r, p) \<Rightarrow> (r, put p s))"
  by (simp add: zoom_def)

text \<open>
  \<open>caught m\<close> hands the outcome of \<open>m\<close> to a \<open>catch\<close> block; \<open>finally_do m f\<close> is \<open>try { m } finally { f }\<close>, where an
  exception of \<open>f\<close> replaces the outcome of \<open>m\<close>.
\<close>

definition caught :: "('s, 'a) eff \<Rightarrow> ('s, error + 'a) eff" where
  "caught m = (\<lambda>s. case m s of (r, s') \<Rightarrow> (Inr r, s'))"

definition finally_do :: "('s, 'a) eff \<Rightarrow> ('s, unit) eff \<Rightarrow> ('s, 'a) eff" where
  "finally_do m f = (\<lambda>s. case m s of (r, s') \<Rightarrow> (case f s' of (q, t) \<Rightarrow> (case q of Inl e \<Rightarrow> (Inl e, t) | Inr _ \<Rightarrow> (r, t))))"

definition from_result :: "error + 'a \<Rightarrow> ('s, 'a) eff" where
  "from_result r = (\<lambda>s. (r, s))"

lemma caught_run [eff_simps]: "caught m s = (case m s of (r, s') \<Rightarrow> (Inr r, s'))"
  by (simp add: caught_def)

lemma finally_do_run [eff_simps]:
  "finally_do m f s = (case m s of (r, s') \<Rightarrow> (case f s' of (q, t) \<Rightarrow> (case q of Inl e \<Rightarrow> (Inl e, t) | Inr _ \<Rightarrow> (r, t))))"
  by (simp add: finally_do_def)

lemma from_result_run [eff_simps]: "from_result r s = (r, s)"
  by (simp add: from_result_def)

lemma bnd_Inr_E:
  assumes "bnd m k s = (Inr b, t)"
  obtains a s' where "m s = (Inr a, s')" and "k a s' = (Inr b, t)"
  using assms by (auto simp: bnd_def split: prod.splits sum.splits)

lemma transaction_throw_unchanged: "transaction m s = (Inl e, t) \<Longrightarrow> t = s"
  by (auto simp: transaction_def split: prod.splits sum.splits)

text \<open>
  \<open>keeps P m\<close>: the operation \<open>m\<close> preserves the state predicate \<open>P\<close>, whether it returns or
  throws. Compound operations inherit it from their parts.
\<close>

definition keeps :: "('s \<Rightarrow> bool) \<Rightarrow> ('s, 'a) eff \<Rightarrow> bool" where
  "keeps P m \<longleftrightarrow> (\<forall>s. P s \<longrightarrow> P (snd (m s)))"

named_theorems keeps_intro \<open>operations that preserve a state predicate\<close>

lemma keepsI: "(\<And>s. P s \<Longrightarrow> P (snd (m s))) \<Longrightarrow> keeps P m"
  by (simp add: keeps_def)

lemma keeps_apply: "keeps P m \<Longrightarrow> P s \<Longrightarrow> P (snd (m s))"
  by (simp add: keeps_def)

lemma keepsD: "keeps P m \<Longrightarrow> P s \<Longrightarrow> m s = (r, t) \<Longrightarrow> P t"
  by (metis keeps_def snd_conv)

lemma keeps_ret [keeps_intro]: "keeps P (ret a)"
  by (simp add: keeps_def ret_def)

lemma keeps_throw [keeps_intro]: "keeps P (throw e)"
  by (simp add: keeps_def throw_def)

lemma keeps_gets [keeps_intro]: "keeps P (gets f)"
  by (simp add: keeps_def gets_def)

lemma keeps_modify [keeps_intro]: "(\<And>s. P s \<Longrightarrow> P (f s)) \<Longrightarrow> keeps P (modify f)"
  by (simp add: keeps_def modify_def)

lemma keeps_bnd [keeps_intro]: "keeps P m \<Longrightarrow> (\<And>a. keeps P (k a)) \<Longrightarrow> keeps P (bnd m k)"
  by (fastforce simp: keeps_def bnd_def split: prod.splits sum.splits)

lemma keeps_try_catch [keeps_intro]:
  "keeps P m \<Longrightarrow> (\<And>e. keeps P (h e)) \<Longrightarrow> keeps P (try_catch m h)"
  by (fastforce simp: keeps_def try_catch_def split: prod.splits sum.splits)

lemma keeps_transaction [keeps_intro]: "keeps P m \<Longrightarrow> keeps P (transaction m)"
  by (fastforce simp: keeps_def transaction_def split: prod.splits sum.splits)

lemma keeps_caught [keeps_intro]: "keeps P m \<Longrightarrow> keeps P (caught m)"
  by (auto simp: keeps_def caught_def split: prod.splits)

lemma keeps_finally_do [keeps_intro]: "keeps P m \<Longrightarrow> keeps P f \<Longrightarrow> keeps P (finally_do m f)"
  by (fastforce simp: keeps_def finally_do_def split: prod.splits sum.splits)

lemma keeps_from_result [keeps_intro]: "keeps P (from_result r)"
  by (simp add: keeps_def from_result_def)

lemma keeps_let [keeps_intro]: "keeps P (k x) \<Longrightarrow> keeps P (let y = x in k y)"
  by simp

lemma keeps_case_prod [keeps_intro]: "(\<And>a b. keeps P (k a b)) \<Longrightarrow> keeps P (case x of (a, b) \<Rightarrow> k a b)"
  by (cases x) simp

text \<open>An operation of a dependency leaves the rest of the state alone.\<close>

lemma keeps_zoom:
  assumes "\<And>p s. P s \<Longrightarrow> P (put p s)"
  shows "keeps P (zoom get put m)"
  using assms by (auto simp: keeps_def zoom_def split: prod.splits)

lemma keeps_zoom_part:
  assumes "keeps Q m" and "\<And>p s. get (put p s) = p"
  shows "keeps (\<lambda>s. Q (get s)) (zoom get put m)"
  using assms by (fastforce simp: keeps_def zoom_def split: prod.splits)

lemma keeps_if [keeps_intro]: "(b \<Longrightarrow> keeps P m) \<Longrightarrow> (\<not> b \<Longrightarrow> keeps P n) \<Longrightarrow> keeps P (if b then m else n)"
  by simp

lemma keeps_case_option [keeps_intro]:
  "(x = None \<Longrightarrow> keeps P m) \<Longrightarrow> (\<And>a. x = Some a \<Longrightarrow> keeps P (k a)) \<Longrightarrow>
   keeps P (case x of None \<Rightarrow> m | Some a \<Rightarrow> k a)"
  by (cases x) auto

lemma keeps_case_sum [keeps_intro]:
  "(\<And>e. x = Inl e \<Longrightarrow> keeps P (h e)) \<Longrightarrow> (\<And>a. x = Inr a \<Longrightarrow> keeps P (k a)) \<Longrightarrow>
   keeps P (case x of Inl e \<Rightarrow> h e | Inr a \<Rightarrow> k a)"
  by (cases x) auto

lemma keeps_collect [keeps_intro]: "(\<And>x. keeps P (f x)) \<Longrightarrow> keeps P (collect f xs)"
  by (induction xs) (auto intro!: keeps_intro)

text \<open>
  \<open>triple P m Q E\<close>: started in a state satisfying \<open>P\<close>, the operation returns an \<open>a\<close> in a state
  satisfying \<open>Q a\<close>, or throws in a state satisfying \<open>E\<close>.
\<close>

definition triple :: "('s \<Rightarrow> bool) \<Rightarrow> ('s, 'a) eff \<Rightarrow> ('a \<Rightarrow> 's \<Rightarrow> bool) \<Rightarrow> ('s \<Rightarrow> bool) \<Rightarrow> bool" where
  "triple P m Q E \<longleftrightarrow>
     (\<forall>s e t. P s \<longrightarrow> m s = (Inl e, t) \<longrightarrow> E t) \<and> (\<forall>s a t. P s \<longrightarrow> m s = (Inr a, t) \<longrightarrow> Q a t)"

lemma tripleI:
  "(\<And>s e t. P s \<Longrightarrow> m s = (Inl e, t) \<Longrightarrow> E t) \<Longrightarrow> (\<And>s a t. P s \<Longrightarrow> m s = (Inr a, t) \<Longrightarrow> Q a t) \<Longrightarrow> triple P m Q E"
  by (auto simp: triple_def)

lemma triple_Inr: "triple P m Q E \<Longrightarrow> P s \<Longrightarrow> m s = (Inr a, t) \<Longrightarrow> Q a t"
  by (auto simp: triple_def)

lemma triple_Inl: "triple P m Q E \<Longrightarrow> P s \<Longrightarrow> m s = (Inl e, t) \<Longrightarrow> E t"
  by (auto simp: triple_def)

lemma eff_cases:
  obtains e t where "m s = (Inl e, t)" | a t where "m s = (Inr a, t)"
  by (metis surj_pair sumE)

lemma triple_snd: "triple P m (\<lambda>_. Q) Q \<Longrightarrow> P s \<Longrightarrow> Q (snd (m s))"
  by (cases m s rule: eff_cases) (auto simp: triple_def)

lemma triple_keeps: "keeps P m \<Longrightarrow> triple P m (\<lambda>_. P) P"
  by (auto simp: triple_def dest: keepsD)

lemma keeps_triple: "keeps P m = triple P m (\<lambda>_. P) P"
proof
  assume "triple P m (\<lambda>_. P) P"
  then have "P (snd (m s))" if "P s" for s using that by (rule triple_snd)
  then show "keeps P m" by (rule keepsI)
qed (rule triple_keeps)

lemma triple_bnd:
  "triple P m R E \<Longrightarrow> (\<And>a. triple (R a) (k a) Q E) \<Longrightarrow> triple P (bnd m k) Q E"
  by (fastforce simp: triple_def bnd_def split: prod.splits sum.splits)

lemma triple_ret: "(\<And>s. P s \<Longrightarrow> Q a s) \<Longrightarrow> triple P (ret a) Q E"
  by (simp add: triple_def ret_def)

lemma triple_throw: "(\<And>s. P s \<Longrightarrow> E s) \<Longrightarrow> triple P (throw e) Q E"
  by (simp add: triple_def throw_def)

lemma triple_gets: "(\<And>s. P s \<Longrightarrow> Q (f s) s) \<Longrightarrow> triple P (gets f) Q E"
  by (simp add: triple_def gets_def)

lemma triple_modify: "(\<And>s. P s \<Longrightarrow> Q () (f s)) \<Longrightarrow> triple P (modify f) Q E"
  by (simp add: triple_def modify_def)

lemma triple_if:
  "(b \<Longrightarrow> triple P m Q E) \<Longrightarrow> (\<not> b \<Longrightarrow> triple P n Q E) \<Longrightarrow> triple P (if b then m else n) Q E"
  by simp

lemma triple_case_option:
  "(x = None \<Longrightarrow> triple P m Q E) \<Longrightarrow> (\<And>a. x = Some a \<Longrightarrow> triple P (k a) Q E) \<Longrightarrow>
   triple P (case x of None \<Rightarrow> m | Some a \<Rightarrow> k a) Q E"
  by (cases x) auto

lemma triple_case_prod: "(\<And>a b. x = (a, b) \<Longrightarrow> triple P (k a b) Q E) \<Longrightarrow> triple P (case x of (a, b) \<Rightarrow> k a b) Q E"
  by (cases x) simp

lemma triple_pre: "triple P' m Q E \<Longrightarrow> (\<And>s. P s \<Longrightarrow> P' s) \<Longrightarrow> triple P m Q E"
  unfolding triple_def by blast

lemma triple_post:
  "triple P m Q' E' \<Longrightarrow> (\<And>a s. Q' a s \<Longrightarrow> Q a s) \<Longrightarrow> (\<And>s. E' s \<Longrightarrow> E s) \<Longrightarrow> triple P m Q E"
  by (fastforce simp: triple_def split: prod.splits sum.splits)

lemma triple_from_result:
  "(\<And>e s. r = Inl e \<Longrightarrow> P s \<Longrightarrow> E s) \<Longrightarrow> (\<And>a s. r = Inr a \<Longrightarrow> P s \<Longrightarrow> Q a s) \<Longrightarrow> triple P (from_result r) Q E"
  by (cases r) (simp_all add: triple_def from_result_def)

lemma triple_True: "triple P m (\<lambda>_ _. True) (\<lambda>_. True)"
  by (simp add: triple_def)

lemma triple_bnd_True:
  "(\<And>a. triple (\<lambda>_. True) (k a) Q (\<lambda>_. True)) \<Longrightarrow> triple (\<lambda>_. True) (bnd m k) Q (\<lambda>_. True)"
  by (rule triple_bnd [OF triple_True])

lemma map_sum_eq_Inr [simp]: "map_sum f id r = Inr a \<longleftrightarrow> r = Inr a"
  by (cases r) simp_all

text \<open>An assumption on what an operation returns, beside a state predicate that it keeps.\<close>

lemma triple_pure: "(c \<Longrightarrow> triple P m Q E) \<Longrightarrow> triple (\<lambda>s. c \<and> P s) m Q E"
  unfolding triple_def by blast

lemma keeps_bnd_result:
  "triple P m (\<lambda>a s. R a \<and> P s) P \<Longrightarrow> (\<And>a. R a \<Longrightarrow> keeps P (k a)) \<Longrightarrow> keeps P (bnd m k)"
  unfolding keeps_triple by (rule triple_bnd) (auto intro: triple_pure)

lemma triple_bnd_from_result:
  "(\<And>s. P s \<Longrightarrow> E s) \<Longrightarrow> (\<And>a. r = Inr a \<Longrightarrow> triple P (k a) Q E) \<Longrightarrow> triple P (bnd (from_result r) k) Q E"
  by (cases r) (simp_all add: triple_def bnd_def from_result_def)

lemma triple_bnd_keeps:
  assumes m: "keeps P m" and E: "\<And>s. P s \<Longrightarrow> E s" and k: "\<And>a. triple P (k a) Q E"
  shows "triple P (bnd m k) Q E"
proof (rule triple_bnd)
  show "triple P m (\<lambda>_. P) E" using triple_keeps [OF m] E unfolding triple_def by blast
qed (rule k)

lemma keeps_bnd_from_result:
  "(\<And>a. r = Inr a \<Longrightarrow> keeps P (k a)) \<Longrightarrow> keeps P (bnd (from_result r) k)"
  by (cases r) (simp_all add: keeps_def bnd_def from_result_def)

lemma triple_finally:
  assumes m: "triple P m Q E" and f: "\<And>a. triple (Q a) f (\<lambda>_. Q' a) E'" and e: "triple E f (\<lambda>_. E') E'"
  shows "triple P (finally_do m f) Q' E'"
proof (rule tripleI)
  show "E' t" if "P s" "finally_do m f s = (Inl x, t)" for s x t
    using that by (cases m s rule: eff_cases; cases f "snd (m s)" rule: eff_cases)
      (auto simp: finally_do_def dest: triple_Inl [OF m] triple_Inr [OF m] triple_Inl [OF f] triple_Inl [OF e] triple_Inr [OF e])
  show "Q' a t" if "P s" "finally_do m f s = (Inr a, t)" for s a t
    using that by (cases m s rule: eff_cases; cases f "snd (m s)" rule: eff_cases)
      (auto simp: finally_do_def dest: triple_Inr [OF m] triple_Inr [OF f])
qed

lemma triple_try_catch:
  assumes m: "triple P m Q F" and h: "\<And>e. triple F (h e) Q E"
  shows "triple P (try_catch m h) Q E"
proof (rule tripleI)
  show "E t" if "P s" "try_catch m h s = (Inl x, t)" for s x t
    using that by (cases m s rule: eff_cases)
      (auto simp: try_catch_def dest: triple_Inl [OF m] triple_Inl [OF h])
  show "Q a t" if "P s" "try_catch m h s = (Inr a, t)" for s a t
    using that by (cases m s rule: eff_cases)
      (auto simp: try_catch_def dest: triple_Inl [OF m] triple_Inr [OF m] triple_Inr [OF h])
qed

lemma triple_caught: "triple P m Q E \<Longrightarrow> triple P (caught m) (\<lambda>r s. case r of Inl e \<Rightarrow> E s | Inr a \<Rightarrow> Q a s) F"
  by (auto simp: triple_def caught_def split: prod.splits sum.splits)

lemma triple_zoom_part:
  assumes "triple P m Q E" and "\<And>p s. get (put p s) = p"
  shows "triple (\<lambda>s. P (get s)) (zoom get put m) (\<lambda>a s. Q a (get s)) (\<lambda>s. E (get s))"
  using assms by (auto simp: triple_def zoom_def split: prod.splits)

section \<open>Runs that return\<close>

text \<open>When a compound operation returns: the facts that take a run apart.\<close>

lemma bnd_Inr: "bnd m k s = (Inr b, t) \<longleftrightarrow> (\<exists>a u. m s = (Inr a, u) \<and> k a u = (Inr b, t))"
  by (auto simp: bnd_def split: prod.splits sum.splits)

lemma modify_Inr: "modify f s = (Inr u, t) \<longleftrightarrow> t = f s"
  by (auto simp: modify_def)

lemma gets_Inr: "gets f s = (Inr a, t) \<longleftrightarrow> a = f s \<and> t = s"
  by (auto simp: gets_def)

lemma ret_Inr: "ret x s = (Inr a, t) \<longleftrightarrow> a = x \<and> t = s"
  by (auto simp: ret_def)

lemma from_result_Inr: "from_result r s = (Inr a, t) \<longleftrightarrow> r = Inr a \<and> t = s"
  by (auto simp: from_result_def)

lemma throw_Inr: "throw e s = (Inr a, t) \<longleftrightarrow> False"
  by (simp add: throw_def)

lemma caught_Inr: "caught m s = (Inr a, t) \<longleftrightarrow> m s = (a, t)"
  by (auto simp: caught_def split: prod.splits)

lemma transaction_Inr: "transaction m s = (Inr a, t) \<longleftrightarrow> m s = (Inr a, t)"
  by (auto simp: transaction_def split: prod.splits sum.splits)

lemma if_Inr: "(if b then m else n) s = (Inr a, t) \<longleftrightarrow> b \<and> m s = (Inr a, t) \<or> \<not> b \<and> n s = (Inr a, t)"
  by simp

lemma option_Inr: "(case x of None \<Rightarrow> m | Some v \<Rightarrow> k v) s = (Inr a, t) \<longleftrightarrow>
    x = None \<and> m s = (Inr a, t) \<or> (\<exists>v. x = Some v \<and> k v s = (Inr a, t))"
  by (cases x) simp_all

lemma sum_Inr: "(case x of Inl e \<Rightarrow> h e | Inr v \<Rightarrow> k v) s = (Inr a, t) \<longleftrightarrow>
    (\<exists>e. x = Inl e \<and> h e s = (Inr a, t)) \<or> (\<exists>v. x = Inr v \<and> k v s = (Inr a, t))"
  by (cases x) simp_all

lemmas effect_Inr = bnd_Inr modify_Inr gets_Inr ret_Inr from_result_Inr throw_Inr caught_Inr transaction_Inr if_Inr option_Inr sum_Inr

section \<open>Tables\<close>

text \<open>
  A table is the list of its rows in the order of their creation. \<open>update_rows\<close> is
  \<open>UPDATE ... SET f WHERE p\<close>; \<open>find\<close> is \<open>SELECT ... LIMIT 1\<close>; inserting appends.
\<close>

definition update_rows :: "('r \<Rightarrow> bool) \<Rightarrow> ('r \<Rightarrow> 'r) \<Rightarrow> 'r list \<Rightarrow> 'r list" where
  "update_rows p f rows = map (\<lambda>r. if p r then f r else r) rows"

definition count_rows :: "('r \<Rightarrow> bool) \<Rightarrow> 'r list \<Rightarrow> nat" where
  "count_rows p rows = length (filter p rows)"

lemma update_rows_Nil [tbl_simps]: "update_rows p f [] = []"
  by (simp add: update_rows_def)

lemma update_rows_Cons [tbl_simps]:
  "update_rows p f (r # rs) = (if p r then f r else r) # update_rows p f rs"
  by (simp add: update_rows_def)

lemma update_rows_append [tbl_simps]:
  "update_rows p f (rs @ qs) = update_rows p f rs @ update_rows p f qs"
  by (simp add: update_rows_def)

lemma length_update_rows [simp]: "length (update_rows p f rows) = length rows"
  by (simp add: update_rows_def)

lemma set_update_rows:
  "set (update_rows p f rows) = (\<lambda>r. if p r then f r else r) ` set rows"
  by (simp add: update_rows_def)

lemma update_rows_none: "(\<And>r. r \<in> set rows \<Longrightarrow> \<not> p r) \<Longrightarrow> update_rows p f rows = rows"
  by (simp add: update_rows_def map_idI)

lemma map_update_rows:
  assumes "\<And>r. p r \<Longrightarrow> key (f r) = key r"
  shows "map key (update_rows p f rows) = map key rows"
  using assms by (induction rows) (auto simp: update_rows_def)

lemma find_update_rows:
  assumes "\<And>r. p r \<Longrightarrow> q (f r) = q r"
  shows "List.find q (update_rows p f rows) =
    map_option (\<lambda>r. if p r then f r else r) (List.find q rows)"
  using assms by (induction rows) (auto simp: update_rows_def)

lemma find_in_set: "List.find p xs = Some x \<Longrightarrow> x \<in> set xs \<and> p x"
  by (induction xs) (auto split: if_splits)

lemma find_None: "List.find p xs = None \<longleftrightarrow> (\<forall>x\<in>set xs. \<not> p x)"
  by (induction xs) auto

lemma find_append [tbl_simps]:
  "List.find p (xs @ ys) = (case List.find p xs of None \<Rightarrow> List.find p ys | Some x \<Rightarrow> Some x)"
  by (induction xs) auto

lemma find_key:
  assumes "distinct (map key rows)" and "r \<in> set rows"
  shows "List.find (\<lambda>x. key x = key r) rows = Some r"
  using assms by (induction rows) (auto simp: image_iff)

lemma find_key_unique:
  assumes "distinct (map key rows)" and "r \<in> set rows" and "q \<in> set rows" and "key r = key q"
  shows "r = q"
  using assms by (induction rows) (auto simp: image_iff)

lemma count_rows_pos: "0 < count_rows p rows \<longleftrightarrow> (\<exists>r\<in>set rows. p r)"
  by (auto simp: count_rows_def filter_empty_conv)

lemma list_all_update_rows:
  assumes "list_all P rows" and "\<And>r. P r \<Longrightarrow> p r \<Longrightarrow> P (f r)"
  shows "list_all P (update_rows p f rows)"
  using assms by (auto simp: update_rows_def list_all_iff)

text \<open>\<open>UPDATE ... WHERE key = k\<close> for a primary key touches the one row that has it.\<close>

fun update_key :: "('r \<Rightarrow> 'k) \<Rightarrow> 'k \<Rightarrow> ('r \<Rightarrow> 'r) \<Rightarrow> 'r list \<Rightarrow> 'r list" where
  "update_key key k f [] = []"
| "update_key key k f (r # rs) = (if key r = k then f r # rs else r # update_key key k f rs)"

definition find_by :: "('r \<Rightarrow> 'k) \<Rightarrow> 'k \<Rightarrow> 'r list \<Rightarrow> 'r option" where
  "find_by key k rows = List.find (\<lambda>r. key r = k) rows"

lemma find_by_update_key:
  assumes "\<And>r. key (f r) = key r"
  shows "find_by key i (update_key key k f rows) =
    (if i = k then map_option f (find_by key k rows) else find_by key i rows)"
  using assms by (induction rows) (auto simp: find_by_def)

lemma map_update_key: "(\<And>r. key' (f r) = key' r) \<Longrightarrow> map key' (update_key key k f rows) = map key' rows"
  by (induction rows) auto

lemma set_update_key: "set (update_key key k f rows) \<subseteq> set rows \<union> f ` {r \<in> set rows. key r = k}"
  by (induction rows) auto

lemma find_by_key: "find_by key k rows = Some r \<Longrightarrow> key r = k \<and> r \<in> set rows"
  unfolding find_by_def by (drule find_in_set) simp

lemma find_by_append_new:
  "find_by key k rows = None \<Longrightarrow> find_by key i (rows @ [r]) = (if i = key r \<and> find_by key i rows = None then Some r else find_by key i rows)"
  by (auto simp: find_by_def find_append split: option.splits)

text \<open>\<open>ORDER BY k ASC LIMIT n\<close>.\<close>

definition order_take :: "('r \<Rightarrow> int) \<Rightarrow> int \<Rightarrow> 'r list \<Rightarrow> 'r list" where
  "order_take k n rows = take (nat n) (sort_key k rows)"

lemma set_order_take: "set (order_take k n rows) \<subseteq> set rows"
  by (metis order_take_def set_sort set_take_subset)

lemma length_order_take: "length (order_take k n rows) \<le> nat n"
  by (simp add: order_take_def)

section \<open>Optional values\<close>

text \<open>\<open>x ?? d\<close>.\<close>

definition or_else :: "'a option \<Rightarrow> 'a \<Rightarrow> 'a" where
  "or_else x d = (case x of None \<Rightarrow> d | Some v \<Rightarrow> v)"

lemma or_else_simps [simp]: "or_else None d = d" "or_else (Some v) d = v"
  by (simp_all add: or_else_def)

text \<open>The truth value of an optional string: \<open>undefined\<close>, \<open>null\<close> and the empty string are false.\<close>

definition truthy :: "string option \<Rightarrow> bool" where
  "truthy x \<longleftrightarrow> x \<noteq> None \<and> x \<noteq> Some []"

lemma truthy_simps [simp]: "\<not> truthy None" "\<not> truthy (Some [])" "truthy (Some (c # cs))"
  by (simp_all add: truthy_def)

end
