(* ===== verification/Js_Runtime.thy ===== *)
theory Js_Runtime
  imports Prelude
begin

text \<open>
  The parts of the JavaScript standard library the modelled code calls: UTC calendar dates and
  \<open>Date.prototype.toISOString\<close>, and the string operations \<open>trim\<close>, \<open>toLowerCase\<close>, \<open>toUpperCase\<close>,
  \<open>startsWith\<close>, \<open>endsWith\<close>, \<open>includes\<close>, \<open>slice\<close>. Strings are lists of characters of the ASCII range; numbers
  are the integers the code uses them as, all far below \<open>2 ^ 53\<close>.
\<close>

section \<open>The UTC calendar\<close>

definition ms_per_day :: int where
  "ms_per_day = 86400000"

text \<open>
  Days since the epoch of a date of the proleptic Gregorian calendar, and back. Years start in
  March here, so that the leap day is the last day of a year.
\<close>

definition day_of_civil :: "int \<Rightarrow> int \<Rightarrow> int \<Rightarrow> int" where
  "day_of_civil y m d =
     (let y' = (if m \<le> 2 then y - 1 else y); era = y' div 400; yoe = y' mod 400;
          mp = (if m > 2 then m - 3 else m + 9); doy = (153 * mp + 2) div 5 + d - 1;
          doe = yoe * 365 + yoe div 4 - yoe div 100 + doy
      in era * 146097 + doe - 719468)"

text \<open>A day of a 400-year era, split into centuries, leap-year cycles and years.\<close>

definition split_era :: "int \<Rightarrow> int \<times> int" where
  "split_era doe =
     (let cent = min 3 (doe div 36524); r1 = doe - cent * 36524;
          quad = r1 div 1461; r2 = r1 mod 1461; yr = min 3 (r2 div 365)
      in (cent * 100 + quad * 4 + yr, r2 - yr * 365))"

definition civil_of_day :: "int \<Rightarrow> int \<times> int \<times> int" where
  "civil_of_day n =
     (let z = n + 719468; era = z div 146097; (yoe, doy) = split_era (z mod 146097);
          mp = (5 * doy + 2) div 153; m = (if mp < 10 then mp + 3 else mp - 9)
      in (yoe + era * 400 + (if m \<le> 2 then 1 else 0), m, doy - (153 * mp + 2) div 5 + 1))"

lemma div_bounds:
  fixes a k :: int
  assumes "0 < k"
  obtains r where "a = k * (a div k) + r" and "0 \<le> r" and "r < k" and "r = a mod k"
  using assms that [of "a mod k"] by simp

lemma div_floor:
  fixes a k :: int
  assumes "0 < k"
  shows "k * (a div k) \<le> a" and "a < k * (a div k) + k"
  using mult_div_mod_eq [of k a] pos_mod_sign [OF assms, of a] pos_mod_bound [OF assms, of a] by linarith+

text \<open>Division with the quotient capped, as the last century and the last year of a cycle are longer.\<close>

lemma capped_div:
  fixes a k :: int
  assumes "0 < k" and "0 \<le> a" and "a \<le> 4 * k"
  shows "0 \<le> min 3 (a div k)" "min 3 (a div k) \<le> 3"
    "0 \<le> a - min 3 (a div k) * k" "a - min 3 (a div k) * k \<le> k"
proof -
  obtain r where r: "a = k * (a div k) + r" "0 \<le> r" "r < k" using div_bounds [OF assms(1)] .
  have q: "0 \<le> a div k" using assms by (simp add: pos_imp_zdiv_nonneg_iff)
  show "0 \<le> min 3 (a div k)" "min 3 (a div k) \<le> 3" using q by simp_all
  have "0 \<le> a - min 3 (a div k) * k \<and> a - min 3 (a div k) * k \<le> k"
  proof (cases "a div k \<le> 3")
    case True
    then have "min 3 (a div k) * k = k * (a div k)" by (simp add: min_def)
    then show ?thesis using r by linarith
  next
    case False
    then have "k * 4 \<le> k * (a div k)" using assms(1) by simp
    with r assms(3) have "a = 4 * k" by linarith
    with False show ?thesis using assms(1) by (simp add: min_def)
  qed
  then show "0 \<le> a - min 3 (a div k) * k" "a - min 3 (a div k) * k \<le> k" by simp_all
qed

lemma split_era_correct:
  assumes "0 \<le> doe" and "doe < 146097" and "split_era doe = (yoe, doy)"
  shows "yoe * 365 + yoe div 4 - yoe div 100 + doy = doe"
    and "0 \<le> yoe" and "yoe < 400" and "0 \<le> doy" and "doy \<le> 365"
proof -
  define cent where "cent = min 3 (doe div 36524)"
  define r1 where "r1 = doe - cent * 36524"
  define quad where "quad = r1 div 1461"
  define r2 where "r2 = r1 mod 1461"
  define yr where "yr = min 3 (r2 div 365)"
  have split: "yoe = cent * 100 + quad * 4 + yr" "doy = r2 - yr * 365"
    using assms(3) by (simp_all add: split_era_def Let_def cent_def r1_def quad_def r2_def yr_def)
  have c: "0 \<le> cent" "cent \<le> 3" and r1: "0 \<le> r1" "r1 \<le> 36524"
    using capped_div [of 36524 doe] assms(1,2) by (simp_all add: cent_def r1_def)
  have q: "0 \<le> quad" "quad \<le> 24"
    unfolding quad_def using r1 zdiv_mono1 [of r1 36524 1461] by (simp_all add: pos_imp_zdiv_nonneg_iff)
  have "0 \<le> r2" "r2 \<le> 4 * 365" using pos_mod_bound [of 1461 r1] by (simp_all add: r2_def)
  then have y: "0 \<le> yr" "yr \<le> 3" and d: "0 \<le> doy" "doy \<le> 365"
    using capped_div [of 365 r2] by (simp_all add: yr_def split(2))
  have r: "r1 = 1461 * quad + r2" by (simp add: quad_def r2_def)
  have "yoe = yr + 4 * (cent * 25 + quad)" "yoe = (quad * 4 + yr) + 100 * cent"
    by (simp_all add: split)
  moreover have "yr div 4 = 0" "(quad * 4 + yr) div 100 = 0"
    using y q by (simp_all add: div_pos_pos_trivial)
  ultimately have q4: "yoe div 4 = cent * 25 + quad" and q100: "yoe div 100 = cent"
    using div_mult_self2 [of 4 yr "cent * 25 + quad"] div_mult_self2 [of 100 "quad * 4 + yr" cent]
    by simp_all
  have "r2 = doe - cent * 36524 - 1461 * quad" using r by (simp add: r1_def)
  then show "yoe * 365 + yoe div 4 - yoe div 100 + doy = doe"
    unfolding q4 q100 by (simp add: split algebra_simps)
  show "0 \<le> yoe" "yoe < 400" using c q y unfolding split by linarith+
  show "0 \<le> doy" "doy \<le> 365" by fact+
qed

theorem day_of_civil_of_day: "(case civil_of_day n of (y, m, d) \<Rightarrow> day_of_civil y m d) = n"
proof -
  define z where "z = n + 719468"
  define era where "era = z div 146097"
  define doe where "doe = z mod 146097"
  obtain yoe doy where s: "split_era doe = (yoe, doy)" by (cases "split_era doe")
  define mp where "mp = (5 * doy + 2) div 153"
  define m where "m = (if mp < 10 then mp + 3 else mp - 9)"
  have "0 \<le> doe" "doe < 146097" by (simp_all add: doe_def)
  note c = split_era_correct [OF this s]
  have mp: "0 \<le> mp" "mp \<le> 11"
    unfolding mp_def using c zdiv_mono1 [of "5 * doy + 2" 1827 153]
    by (simp_all add: pos_imp_zdiv_nonneg_iff)
  define y' where "y' = yoe + era * 400"
  have y: "y' div 400 = era" "y' mod 400 = yoe"
    using c by (simp_all add: y'_def)
  have civil: "civil_of_day n = (y' + (if m \<le> 2 then 1 else 0), m, doy - (153 * mp + 2) div 5 + 1)"
    using s by (simp add: civil_of_day_def Let_def y'_def era_def doe_def z_def mp_def m_def)
  have m: "(if m > 2 then m - 3 else m + 9) = mp" using mp by (auto simp: m_def)
  have y'': "(if m \<le> 2 then y' + (if m \<le> 2 then 1 else 0) - 1 else y' + (if m \<le> 2 then 1 else 0)) = y'"
    by simp
  have z: "era * 146097 + doe = n + 719468" by (simp add: era_def doe_def z_def)
  have "day_of_civil (y' + (if m \<le> 2 then 1 else 0)) m (doy - (153 * mp + 2) div 5 + 1) = n"
    unfolding day_of_civil_def Let_def y'' y m using c(1) z by simp
  then show ?thesis unfolding civil by simp
qed

lemma civil_of_day_inj: "civil_of_day a = civil_of_day b \<Longrightarrow> a = b"
  by (metis day_of_civil_of_day)

section \<open>Decimal output and ISO dates\<close>

text \<open>The character codes of the decimal digits start at 48.\<close>

definition digit :: "int \<Rightarrow> char" where
  "digit k = char_of (48 + nat (k mod 10))"

text \<open>\<open>pad w k\<close> is the number \<open>k\<close> in \<open>w\<close> decimal digits.\<close>

fun pad :: "nat \<Rightarrow> int \<Rightarrow> string" where
  "pad 0 k = []"
| "pad (Suc w) k = pad w (k div 10) @ [digit k]"

fun decimal_fuel :: "nat \<Rightarrow> int \<Rightarrow> string" where
  "decimal_fuel 0 k = []"
| "decimal_fuel (Suc n) k = (if k < 10 then [digit k] else decimal_fuel n (k div 10) @ [digit k])"

text \<open>The decimal notation \<open>`${k}`\<close> of a non-negative integer, which has at most \<open>k + 1\<close> digits.\<close>

definition decimal :: "int \<Rightarrow> string" where
  "decimal k = decimal_fuel (Suc (nat k)) k"

lemma length_pad [simp]: "length (pad w k) = w"
  by (induction w arbitrary: k) auto

lemma div_mod_cong:
  fixes a b k :: int
  assumes "a div k = b div k" and "a mod k = b mod k"
  shows "a = b"
proof -
  have "a = k * (a div k) + a mod k" by (rule mult_div_mod_eq [symmetric])
  also have "\<dots> = k * (b div k) + b mod k" by (simp only: assms)
  also have "\<dots> = b" by (rule mult_div_mod_eq)
  finally show ?thesis .
qed

lemma div_lt_mult:
  fixes k n :: int
  assumes "k < 10 * n"
  shows "k div 10 < n"
proof -
  have "10 * (k div 10) \<le> k" using mult_div_mod_eq [of 10 k] pos_mod_sign [of 10 k] by simp
  with assms show ?thesis by simp
qed

lemma digit_inj: "digit a = digit b \<Longrightarrow> a mod 10 = b mod 10"
proof -
  assume eq: "digit a = digit b"
  have code: "of_char (digit k) = 48 + nat (k mod 10)" for k :: int
  proof -
    have "48 + nat (k mod 10) < 256" using pos_mod_bound [of 10 k] by linarith
    then show ?thesis unfolding digit_def of_char_of by (rule mod_less)
  qed
  have "48 + nat (a mod 10) = 48 + nat (b mod 10)" using eq code by metis
  then show "a mod 10 = b mod 10" by (simp add: eq_nat_nat_iff)
qed

lemma pad_inj:
  assumes "pad w a = pad w b" and "0 \<le> a" "a < 10 ^ w" "0 \<le> b" "b < 10 ^ w"
  shows "a = b"
  using assms
proof (induction w arbitrary: a b)
  case (Suc w)
  have small: "k div 10 < 10 ^ w" if "k < 10 ^ Suc w" for k :: int
    by (rule div_lt_mult) (use that in \<open>simp only: power_Suc\<close>)
  have "a div 10 = b div 10"
  proof (rule Suc.IH)
    show "pad w (a div 10) = pad w (b div 10)" using Suc.prems(1) by simp
    show "0 \<le> a div 10" by (rule div_int_pos_iff [THEN iffD2]) (use Suc.prems(2) in simp)
    show "0 \<le> b div 10" by (rule div_int_pos_iff [THEN iffD2]) (use Suc.prems(4) in simp)
    show "a div 10 < 10 ^ w" by (rule small [OF Suc.prems(3)])
    show "b div 10 < 10 ^ w" by (rule small [OF Suc.prems(5)])
  qed
  moreover have "a mod 10 = b mod 10" by (rule digit_inj) (use Suc.prems(1) in \<open>simp only: pad.simps append1_eq_conv\<close>)
  ultimately show ?case by (rule div_mod_cong)
qed simp

definition iso_year :: "int \<Rightarrow> string" where
  "iso_year y = (if 0 \<le> y \<and> y \<le> 9999 then pad 4 y else if 0 \<le> y then ''+'' @ pad 6 y else ''-'' @ pad 6 (- y))"

definition toISOString :: "time \<Rightarrow> string" where
  "toISOString t =
     (let (y, m, d) = civil_of_day (t div ms_per_day); ms = t mod ms_per_day
      in iso_year y @ ''-'' @ pad 2 m @ ''-'' @ pad 2 d @ ''T'' @ pad 2 (ms div 3600000) @ '':'' @
         pad 2 (ms div 60000 mod 60) @ '':'' @ pad 2 (ms div 1000 mod 60) @ ''.'' @
         pad 3 (ms mod 1000) @ ''Z'')"

definition getUTCFullYear :: "time \<Rightarrow> int" where
  "getUTCFullYear t = fst (civil_of_day (t div ms_per_day))"

definition getUTCMonth :: "time \<Rightarrow> int" where
  "getUTCMonth t = fst (snd (civil_of_day (t div ms_per_day))) - 1"

definition getUTCDate :: "time \<Rightarrow> int" where
  "getUTCDate t = snd (snd (civil_of_day (t div ms_per_day)))"

definition getUTCDay :: "time \<Rightarrow> int" where
  "getUTCDay t = (t div ms_per_day + 4) mod 7"

text \<open>The years the program runs in are written with four digits.\<close>

definition four_digit_year :: "time \<Rightarrow> bool" where
  "four_digit_year t \<longleftrightarrow> 0 \<le> getUTCFullYear t \<and> getUTCFullYear t \<le> 9999"

lemma civil_of_day_ranges:
  assumes "civil_of_day n = (y, m, d)"
  shows "1 \<le> m" "m \<le> 12" "1 \<le> d" "d \<le> 31"
proof -
  obtain yoe doy where s: "split_era ((n + 719468) mod 146097) = (yoe, doy)"
    by (cases "split_era ((n + 719468) mod 146097)")
  have "0 \<le> (n + 719468) mod 146097" "(n + 719468) mod 146097 < 146097" by simp_all
  note c = split_era_correct [OF this s]
  define mp where "mp = (5 * doy + 2) div 153"
  have mp: "0 \<le> mp" "mp \<le> 11"
    unfolding mp_def using c zdiv_mono1 [of "5 * doy + 2" 1827 153]
    by (simp_all add: pos_imp_zdiv_nonneg_iff)
  have md: "m = (if mp < 10 then mp + 3 else mp - 9)" "d = doy - (153 * mp + 2) div 5 + 1"
    using assms s unfolding civil_of_day_def Let_def mp_def [symmetric]
    by (auto simp: mp_def [symmetric])
  show "1 \<le> m" "m \<le> 12" unfolding md(1) using mp by (simp_all split: if_splits)
  obtain r where r: "5 * doy + 2 = 153 * mp + r" "0 \<le> r" "r < 153"
    unfolding mp_def using div_bounds [of 153 "5 * doy + 2"] by (metis zero_less_numeral)
  obtain q where q: "153 * mp + 2 = 5 * ((153 * mp + 2) div 5) + q" "0 \<le> q" "q < 5"
    using div_bounds [of 5 "153 * mp + 2"] by (metis zero_less_numeral)
  show "1 \<le> d" "d \<le> 31" using r q by (simp_all add: md)
qed

lemma clock_parts:
  fixes a b :: int
  assumes "a div 3600000 = b div 3600000" and "a div 60000 mod 60 = b div 60000 mod 60"
    and "a div 1000 mod 60 = b div 1000 mod 60" and "a mod 1000 = b mod 1000"
  shows "a = b"
proof -
  have h: "k div 60000 div 60 = k div 3600000" "k div 1000 div 60 = k div 60000" for k :: int
  proof -
    have "k div (60000 * 60) = k div 60000 div 60" "k div (1000 * 60) = k div 1000 div 60"
      by (rule zdiv_zmult2_eq, rule zero_le_numeral)+
    moreover have "60000 * 60 = (3600000::int)" "1000 * 60 = (60000::int)" by simp_all
    ultimately show "k div 60000 div 60 = k div 3600000" "k div 1000 div 60 = k div 60000"
      by metis+
  qed
  have "a div 60000 = b div 60000"
    by (rule div_mod_cong [OF _ assms(2)]) (simp only: h assms(1))
  then have "a div 1000 = b div 1000"
    by (intro div_mod_cong [OF _ assms(3)]) (simp only: h)
  then show "a = b" by (rule div_mod_cong) (rule assms(4))
qed

theorem toISOString_inj:
  assumes "toISOString s = toISOString t" and "four_digit_year s" and "four_digit_year t"
  shows "s = t"
proof -
  obtain y m d where c: "civil_of_day (s div ms_per_day) = (y, m, d)"
    by (cases "civil_of_day (s div ms_per_day)")
  obtain y' m' d' where c': "civil_of_day (t div ms_per_day) = (y', m', d')"
    by (cases "civil_of_day (t div ms_per_day)")
  define a where "a = s mod ms_per_day"
  define b where "b = t mod ms_per_day"
  have y: "0 \<le> y" "y \<le> 9999" "0 \<le> y'" "y' \<le> 9999"
    using assms(2,3) c c' by (simp_all add: four_digit_year_def getUTCFullYear_def)
  note r = civil_of_day_ranges [OF c] civil_of_day_ranges [OF c']
  have eqs: "pad 4 y = pad 4 y'" "pad 2 m = pad 2 m'" "pad 2 d = pad 2 d'"
    "pad 2 (a div 3600000) = pad 2 (b div 3600000)"
    "pad 2 (a div 60000 mod 60) = pad 2 (b div 60000 mod 60)"
    "pad 2 (a div 1000 mod 60) = pad 2 (b div 1000 mod 60)"
    "pad 3 (a mod 1000) = pad 3 (b mod 1000)"
    using assms(1) y c c' by (simp_all del: pad.simps add: toISOString_def iso_year_def Let_def a_def b_def)
  have ymd: "y = y'" "m = m'" "d = d'"
    using pad_inj [OF eqs(1)] pad_inj [OF eqs(2)] pad_inj [OF eqs(3)] y r by simp_all
  have "s div ms_per_day = t div ms_per_day"
    using c c' ymd by (intro civil_of_day_inj) simp
  moreover have "a = b"
  proof -
    have day: "0 \<le> k div 3600000 \<and> k div 3600000 < 100" if "k = x mod ms_per_day" for k x :: int
    proof -
      have "0 \<le> k" "k < 86400000" using that by (simp_all add: ms_per_day_def)
      then show ?thesis using zdiv_mono1 [of k 86399999 3600000] by (simp add: pos_imp_zdiv_nonneg_iff)
    qed
    have sixty: "0 \<le> k mod 60 \<and> k mod 60 < 100" for k :: int
      using pos_mod_bound [of 60 k] pos_mod_sign [of 60 k] by linarith
    have h: "a div 3600000 = b div 3600000"
      using pad_inj [OF eqs(4)] day [OF a_def] day [OF b_def] by simp
    have mi: "a div 60000 mod 60 = b div 60000 mod 60"
      using pad_inj [OF eqs(5)] sixty by simp
    have sec: "a div 1000 mod 60 = b div 1000 mod 60"
      using pad_inj [OF eqs(6)] sixty by simp
    have ms: "a mod 1000 = b mod 1000" using pad_inj [OF eqs(7)] by simp
    show ?thesis by (rule clock_parts [OF h mi sec ms])
  qed
  ultimately show ?thesis unfolding a_def b_def by (rule div_mod_cong)
qed

section \<open>Strings\<close>

text \<open>The white space \<open>trim\<close> removes, among the ASCII characters: tab to carriage return, and space.\<close>

definition js_space :: "char \<Rightarrow> bool" where
  "js_space c \<longleftrightarrow> of_char c \<in> {9, 10, 11, 12, 13, 32 :: nat}"

definition js_trim :: "string \<Rightarrow> string" where
  "js_trim s = rev (dropWhile js_space (rev (dropWhile js_space s)))"

definition lower_char :: "char \<Rightarrow> char" where
  "lower_char c = (if 65 \<le> (of_char c :: nat) \<and> of_char c \<le> (90 :: nat) then char_of (of_char c + 32 :: nat) else c)"

definition upper_char :: "char \<Rightarrow> char" where
  "upper_char c = (if 97 \<le> (of_char c :: nat) \<and> of_char c \<le> (122 :: nat) then char_of (of_char c - 32 :: nat) else c)"

definition toLowerCase :: "string \<Rightarrow> string" where
  "toLowerCase s = map lower_char s"

definition toUpperCase :: "string \<Rightarrow> string" where
  "toUpperCase s = map upper_char s"

definition startsWith :: "string \<Rightarrow> string \<Rightarrow> bool" where
  "startsWith s p = (take (length p) s = p)"

definition endsWith :: "string \<Rightarrow> string \<Rightarrow> bool" where
  "endsWith s p = startsWith (rev s) (rev p)"

fun js_includes :: "string \<Rightarrow> string \<Rightarrow> bool" where
  "js_includes [] p = (p = [])"
| "js_includes (c # cs) p = (startsWith (c # cs) p \<or> js_includes cs p)"

text \<open>\<open>s.slice(0, n)\<close> is \<open>take n s\<close> and \<open>s.slice(n)\<close> is \<open>drop n s\<close>.\<close>

lemma js_trim_shorter: "length (js_trim s) \<le> length s"
  unfolding js_trim_def length_rev
  by (rule le_trans [OF length_dropWhile_le]) (simp add: length_dropWhile_le)

lemma lower_char_idem [simp]: "lower_char (lower_char c) = lower_char c"
  by (auto simp: lower_char_def)

lemma toLowerCase_idem [simp]: "toLowerCase (toLowerCase s) = toLowerCase s"
  by (simp add: toLowerCase_def)

lemma toUpperCase_idem [simp]: "toUpperCase (toUpperCase s) = toUpperCase s"
  by (auto simp: toUpperCase_def upper_char_def)

lemma startsWith_append [simp]: "startsWith (p @ s) p"
  by (simp add: startsWith_def)

lemma dropWhile_idem_last: "dropWhile p (rev (dropWhile p (rev (dropWhile p s)))) = rev (dropWhile p (rev (dropWhile p s)))"
proof (cases "dropWhile p s")
  case Nil
  then show ?thesis by (simp only: rev.simps dropWhile.simps)
next
  case (Cons c cs)
  then have c: "\<not> p c" by (metis hd_dropWhile list.distinct(1) list.sel(1))
  then have "dropWhile p (rev (c # cs)) = dropWhile p (rev cs) @ [c]"
    by (simp add: dropWhile_append dropWhile_eq_Nil_conv)
  then show ?thesis using c Cons by simp
qed

lemma js_trim_idem [simp]: "js_trim (js_trim s) = js_trim s"
  unfolding js_trim_def using dropWhile_idem_last [of js_space] by simp

section \<open>Objects, maps and regular expressions\<close>

text \<open>The scalar JSON values that summaries and event metadata hold.\<close>

datatype json = JString string | JNumber int | JBool bool | JNull

type_synonym json_object = "(string \<times> json) list"

text \<open>\<open>obj[key] = value\<close>, which keeps the position of a key that is present.\<close>

fun put_entry :: "'k \<Rightarrow> 'v \<Rightarrow> ('k \<times> 'v) list \<Rightarrow> ('k \<times> 'v) list" where
  "put_entry k v [] = [(k, v)]"
| "put_entry k v ((k', v') # es) = (if k' = k then (k, v) # es else (k', v') # put_entry k v es)"

definition fromEntries :: "('k \<times> 'v) list \<Rightarrow> ('k \<times> 'v) list" where
  "fromEntries es = fold (\<lambda>(k, v). put_entry k v) es []"

text \<open>\<open>new Map(entries).get(key)\<close>: a later entry replaces an earlier one with the same key.\<close>

definition js_map_get :: "('k \<times> 'v) list \<Rightarrow> 'k \<Rightarrow> 'v option" where
  "js_map_get es k = map_of (rev es) k"

text \<open>\<open>/A|B|C/.test(s)\<close> for literal alternatives.\<close>

definition matches_any :: "string list \<Rightarrow> string \<Rightarrow> bool" where
  "matches_any alts s = list_ex (js_includes s) alts"

definition char_between :: "char \<Rightarrow> char \<Rightarrow> char \<Rightarrow> bool" where
  "char_between lo hi c \<longleftrightarrow> (of_char lo :: nat) \<le> of_char c \<and> of_char c \<le> (of_char hi :: nat)"

lemma fst_set_put_entry: "fst ` set (put_entry k v es) = insert k (fst ` set es)"
  by (induction k v es rule: put_entry.induct) auto

lemma length_put_entry: "length (put_entry k v es) \<le> Suc (length es)"
  by (induction es) auto

lemma put_entry_fold_length:
  "length (fold (\<lambda>(k, v). put_entry k v) es acc) \<le> length es + length acc"
proof (induction es arbitrary: acc)
  case (Cons e es)
  obtain k v where e: "e = (k, v)" by (cases e)
  show ?case using Cons [of "put_entry k v acc"] length_put_entry [of k v acc] e by simp
qed simp

lemma length_fromEntries: "length (fromEntries es) \<le> length es"
  using put_entry_fold_length [of es "[]"] by (simp add: fromEntries_def)

lemma put_entry_all: "list_all P es \<Longrightarrow> P (k, v) \<Longrightarrow> list_all P (put_entry k v es)"
  by (induction k v es rule: put_entry.induct) auto

lemma fromEntries_all:
  assumes "list_all P es"
  shows "list_all P (fromEntries es)"
proof -
  have "list_all P acc \<Longrightarrow> list_all P es \<Longrightarrow> list_all P (fold (\<lambda>(k, v). put_entry k v) es acc)" for acc
    by (induction es arbitrary: acc) (auto simp: put_entry_all)
  then show ?thesis using assms by (simp add: fromEntries_def)
qed

lemma put_entry_new: "k \<notin> fst ` set es \<Longrightarrow> put_entry k v es = es @ [(k, v)]"
  by (induction k v es rule: put_entry.induct) auto

lemma fold_put_entry_new:
  "distinct (map fst (acc @ es)) \<Longrightarrow> fold (\<lambda>(k, v). put_entry k v) es acc = acc @ es"
  by (induction es arbitrary: acc) (auto simp: put_entry_new image_iff)

lemma fromEntries_distinct: "distinct (map fst es) \<Longrightarrow> fromEntries es = es"
  unfolding fromEntries_def using fold_put_entry_new [of "[]" es] by simp

lemma js_map_get_distinct:
  "distinct (map fst es) \<Longrightarrow> js_map_get es k = Some v \<longleftrightarrow> (k, v) \<in> set es"
  by (simp add: js_map_get_def rev_map [symmetric])

lemma js_map_get_in: "js_map_get es k = Some v \<Longrightarrow> (k, v) \<in> set es"
  using map_of_SomeD [of "rev es" k v] by (simp add: js_map_get_def)

lemma js_map_get_None: "js_map_get es k = None \<longleftrightarrow> k \<notin> fst ` set es"
  by (simp add: js_map_get_def map_of_eq_None_iff)

end
