(* ===== verification/Json.thy ===== *)
theory Json
  imports Js_Runtime "HOL-Library.List_Lexorder" "HOL-Library.Char_ord"
begin

text \<open>
  JSON values as the snapshot columns hold them, and their comparison in
  \<open>apps/web/payments/settlement-transaction.ts\<close> and \<open>apps/web/entitlements/refund-revocation.ts\<close>: \<open>canonicalJson\<close> sorts the
  keys of every object, and two values are equivalent when their canonical forms are written the same. Numbers
  are integers. The order of the keys is that of the character codes, where the program has \<open>localeCompare\<close>; any
  total order gives the same equivalence, as \<open>jsonEquivalent_same\<close> shows it to be equality up to the order of keys.
\<close>

datatype jvalue = JVNull | JVBool bool | JVNum int | JVStr string | JVArr "jvalue list" | JVObj "(string \<times> jvalue) list"

text \<open>An optional member of an object literal: \<open>undefined\<close> is left out, \<open>x ?? null\<close> is written as null.\<close>

definition jv_opt :: "string \<Rightarrow> string option \<Rightarrow> (string \<times> jvalue) list" where
  "jv_opt k x = (case x of None \<Rightarrow> [] | Some s \<Rightarrow> [(k, JVStr s)])"

definition jv_null :: "string option \<Rightarrow> jvalue" where
  "jv_null x = (case x of None \<Rightarrow> JVNull | Some s \<Rightarrow> JVStr s)"

fun canonicalJson :: "jvalue \<Rightarrow> jvalue" where
  "canonicalJson (JVArr values) = JVArr (map canonicalJson values)"
| "canonicalJson (JVObj entries) = JVObj (fromEntries (sort_key fst (map (\<lambda>(key, nested). (key, canonicalJson nested)) entries)))"
| "canonicalJson value = value"

text \<open>\<open>JSON.stringify\<close> writes different values differently, so the strings are compared as the values are.\<close>

definition jsonEquivalent :: "jvalue \<Rightarrow> jvalue \<Rightarrow> bool" where
  "jsonEquivalent left right = (canonicalJson left = canonicalJson right)"

section \<open>Equality up to the order of keys\<close>

inductive json_same :: "jvalue \<Rightarrow> jvalue \<Rightarrow> bool" where
  null_same: "json_same JVNull JVNull"
| bool_same: "json_same (JVBool b) (JVBool b)"
| num_same: "json_same (JVNum n) (JVNum n)"
| str_same: "json_same (JVStr s) (JVStr s)"
| arr_same: "list_all2 json_same xs ys \<Longrightarrow> json_same (JVArr xs) (JVArr ys)"
| obj_same: "(\<forall>k. rel_option json_same (map_of es k) (map_of fs k)) \<Longrightarrow> json_same (JVObj es) (JVObj fs)"
  monos list.rel_mono_strong option.rel_mono_strong

text \<open>An object has every key once.\<close>

fun json_ok :: "jvalue \<Rightarrow> bool" where
  "json_ok (JVArr values) = list_all json_ok values"
| "json_ok (JVObj entries) = (distinct (map fst entries) \<and> list_all (\<lambda>(k, v). json_ok v) entries)"
| "json_ok value = True"

abbreviation canonical_entries :: "(string \<times> jvalue) list \<Rightarrow> (string \<times> jvalue) list" where
  "canonical_entries es \<equiv> map (\<lambda>(key, nested). (key, canonicalJson nested)) es"

lemma fst_canonical_entries: "map fst (canonical_entries es) = map fst es"
  by (simp add: case_prod_unfold)

lemma map_of_canonical_entries: "map_of (canonical_entries es) k = map_option canonicalJson (map_of es k)"
  by (induction es) auto

lemma canonical_object:
  assumes "distinct (map fst es)"
  shows "canonicalJson (JVObj es) = JVObj (sort_key fst (canonical_entries es))"
proof -
  have "distinct (map fst (sort_key fst (canonical_entries es)))"
    using assms by (simp add: distinct_map inj_on_def case_prod_unfold) force
  then show ?thesis by (simp add: fromEntries_distinct)
qed

lemma sorted_entries_eq:
  assumes "distinct (map fst xs)" and "distinct (map fst ys)"
  shows "sort_key fst xs = sort_key fst ys \<longleftrightarrow> map_of xs = map_of ys"
proof
  assume "sort_key fst xs = sort_key fst ys"
  then have "set xs = set ys" by (metis set_sort)
  then show "map_of xs = map_of ys" using assms by (simp add: map_of_inject_set)
next
  assume "map_of xs = map_of ys"
  then have "set xs = set ys" using assms by (simp add: map_of_inject_set)
  then show "sort_key fst xs = sort_key fst ys"
    using assms by (intro map_sorted_distinct_set_unique [where f = fst])
      (auto simp: distinct_map intro: inj_on_subset)
qed

lemma canonical_object_eq:
  assumes "distinct (map fst es)" and "distinct (map fst fs)"
  shows "canonicalJson (JVObj es) = canonicalJson (JVObj fs) \<longleftrightarrow>
    (\<forall>k. map_option canonicalJson (map_of es k) = map_option canonicalJson (map_of fs k))"
proof -
  have "canonicalJson (JVObj es) = canonicalJson (JVObj fs) \<longleftrightarrow>
      map_of (canonical_entries es) = map_of (canonical_entries fs)"
    unfolding canonical_object [OF assms(1)] canonical_object [OF assms(2)] jvalue.inject
    by (rule sorted_entries_eq) (simp_all only: fst_canonical_entries assms)
  then show ?thesis by (simp add: fun_eq_iff map_of_canonical_entries)
qed

lemma json_ok_entry: "json_ok (JVObj es) \<Longrightarrow> map_of es k = Some v \<Longrightarrow> json_ok v \<and> (k, v) \<in> set es"
  by (auto simp: list_all_iff dest: map_of_SomeD)

lemma canonical_scalar:
  "JVNull = canonicalJson r \<longleftrightarrow> r = JVNull" "JVBool b = canonicalJson r \<longleftrightarrow> r = JVBool b"
  "JVNum n = canonicalJson r \<longleftrightarrow> r = JVNum n" "JVStr s = canonicalJson r \<longleftrightarrow> r = JVStr s"
  by (cases r; auto)+

lemma canonical_same: "canonicalJson l = canonicalJson r \<Longrightarrow> json_ok l \<Longrightarrow> json_ok r \<Longrightarrow> json_same l r"
proof (induction l arbitrary: r rule: canonicalJson.induct)
  case (1 xs)
  obtain ys where r: "r = JVArr ys" using 1(2) by (cases r) simp_all
  have "list_all2 (\<lambda>x y. canonicalJson x = canonicalJson y) xs ys"
    using 1(2) by (simp add: r list_all2_conv_all_nth list_eq_iff_nth_eq)
  then have "list_all2 json_same xs ys"
    using 1(1,3,4) by (auto simp: r list_all_iff intro: list.rel_mono_strong)
  then show ?case unfolding r by (rule arr_same)
next
  case (2 es)
  obtain fs where r: "r = JVObj fs" using 2(2) by (cases r) simp_all
  have d: "distinct (map fst es)" "distinct (map fst fs)" using 2(3,4) by (simp_all add: r)
  have eq: "map_option canonicalJson (map_of es k) = map_option canonicalJson (map_of fs k)" for k
    using 2(2) canonical_object_eq [OF d] unfolding r by blast
  have "rel_option json_same (map_of es k) (map_of fs k)" for k
    using eq [of k] 2(1) json_ok_entry [OF 2(3), of k] json_ok_entry [of fs k] 2(4)
    by (cases "map_of es k"; cases "map_of fs k") (auto simp: r)
  then show ?case unfolding r by (simp add: obj_same)
qed (simp_all add: canonical_scalar json_same.intros del: canonicalJson.simps(1,2))

lemma same_canonical: "json_same l r \<Longrightarrow> json_ok l \<Longrightarrow> json_ok r \<Longrightarrow> canonicalJson l = canonicalJson r"
proof (induction rule: json_same.induct)
  case (arr_same xs ys)
  then have "list_all2 (\<lambda>x y. canonicalJson x = canonicalJson y) xs ys"
    by (auto simp: list_all_iff intro: list.rel_mono_strong)
  then show ?case by (simp add: list_all2_conv_all_nth list_eq_iff_nth_eq)
next
  case (obj_same es fs)
  have d: "distinct (map fst es)" "distinct (map fst fs)" using obj_same(2,3) by simp_all
  have "map_option canonicalJson (map_of es k) = map_option canonicalJson (map_of fs k)" for k
  proof -
    have "rel_option (\<lambda>x y. json_same x y \<and> (json_ok x \<longrightarrow> json_ok y \<longrightarrow> canonicalJson x = canonicalJson y)) (map_of es k) (map_of fs k)"
      using obj_same(1) by blast
    then show ?thesis
      using json_ok_entry [OF obj_same(2), of k] json_ok_entry [OF obj_same(3), of k]
      by (cases "map_of es k"; cases "map_of fs k") auto
  qed
  then show ?case using canonical_object_eq [OF d] by blast
qed simp_all

text \<open>The comparison of stored and requested snapshots decides equality of JSON values up to the order of the keys of
  objects, at every depth.\<close>

theorem jsonEquivalent_same:
  assumes "json_ok left" and "json_ok right"
  shows "jsonEquivalent left right \<longleftrightarrow> json_same left right"
  unfolding jsonEquivalent_def using canonical_same same_canonical assms by blast

lemma jsonEquivalent_same_witness:
  "json_same (JVObj [(''a'', JVNum 1), (''b'', JVArr [JVObj [(''x'', JVNull), (''y'', JVBool True)]])])
     (JVObj [(''b'', JVArr [JVObj [(''y'', JVBool True), (''x'', JVNull)]]), (''a'', JVNum 1)])"
    (is "json_same ?l ?r")
proof -
  have "json_ok ?l" and "json_ok ?r" by simp_all
  moreover have "jsonEquivalent ?l ?r" unfolding jsonEquivalent_def by code_simp
  ultimately show ?thesis by (simp only: jsonEquivalent_same)
qed

end
