(* ===== verification/Audit_Log.thy ===== *)
theory Audit_Log
  imports Json
begin

text \<open>
  The audit log: the redaction of \<open>platform/audit/redaction.ts\<close>, the ports of \<open>platform/audit/audit.ts\<close> and
  \<open>platform/audit/postgres-transaction.ts\<close>, and the writer of \<open>apps/web/audit.ts\<close>. Metadata is a JSON value; identifiers
  and the clock are parameters, read at the position the state keeps.
\<close>

section \<open>Redaction\<close>

text \<open>\<open>x.?y\<close> in an expression without anchors: at most one character that ends no line stands between the two words.\<close>

definition line_end :: "char \<Rightarrow> bool" where
  "line_end c \<longleftrightarrow> c = CHR 0x0A \<or> c = CHR 0x0D"

definition gap_at :: "string \<Rightarrow> string \<Rightarrow> string \<Rightarrow> bool" where
  "gap_at s x y \<longleftrightarrow> startsWith s x \<and>
     (case drop (length x) s of
        [] \<Rightarrow> y = []
      | c # cs \<Rightarrow> startsWith (c # cs) y \<or> \<not> line_end c \<and> startsWith cs y)"

fun includes_gap :: "string \<Rightarrow> string \<Rightarrow> string \<Rightarrow> bool" where
  "includes_gap [] x y = gap_at [] x y"
| "includes_gap (c # cs) x y = (gap_at (c # cs) x y \<or> includes_gap cs x y)"

definition forbidden_key :: "string \<Rightarrow> bool" where
  "forbidden_key key \<longleftrightarrow>
     (let k = toLowerCase key in
      matches_any [''password'', ''passphrase'', ''secret'', ''token'', ''authorization'', ''cookie'', ''signature'', ''payload''] k \<or>
      list_ex (\<lambda>(x, y). includes_gap k x y)
        [(''api'', ''key''), (''access'', ''key''), (''private'', ''key''), (''license'', ''key''), (''checkout'', ''url''), (''request'', ''body'')])"

definition REDACTED :: jvalue where
  "REDACTED = JVStr ''[REDACTED]''"

fun redactAuditMetadata :: "jvalue \<Rightarrow> jvalue" where
  "redactAuditMetadata (JVArr values) = JVArr (map redactAuditMetadata values)"
| "redactAuditMetadata (JVObj entries) =
     JVObj (fromEntries (map (\<lambda>(key, nested). (key, if forbidden_key key then REDACTED else redactAuditMetadata nested)) entries))"
| "redactAuditMetadata value = value"

section \<open>Ports and writers\<close>

record AuditWriteInput =
  ai_actorId :: "ident option"
  ai_accountId :: "ident option"
  ai_action :: string
  ai_targetType :: string
  ai_targetId :: "ident option"
  ai_metadata :: "jvalue option"

record AuditRecord =
  ar_id :: ident
  ar_actorId :: "ident option"
  ar_accountId :: "ident option"
  ar_action :: string
  ar_targetType :: string
  ar_targetId :: "ident option"
  ar_metadata :: jvalue
  ar_createdAt :: time

text \<open>\<open>metadata ?? {}\<close>: \<open>null\<close> and \<open>undefined\<close> are both replaced.\<close>

definition metadata_or_empty :: "jvalue option \<Rightarrow> jvalue" where
  "metadata_or_empty m = (case m of None \<Rightarrow> JVObj [] | Some JVNull \<Rightarrow> JVObj [] | Some v \<Rightarrow> v)"

definition redacted_input :: "AuditWriteInput \<Rightarrow> AuditWriteInput" where
  "redacted_input input = input\<lparr>ai_metadata := Some (redactAuditMetadata (metadata_or_empty (ai_metadata input)))\<rparr>"

definition createAuditPort :: "(AuditWriteInput \<Rightarrow> ('s, 'r) eff) \<Rightarrow> AuditWriteInput \<Rightarrow> ('s, 'r) eff" where
  "createAuditPort write input = write (redacted_input input)"

record AuditLog =
  al_rows :: "AuditRecord list"
  al_drawn :: nat

text \<open>The \<open>INSERT ... RETURNING\<close> of the writers.\<close>

definition insert_audit :: "(nat \<Rightarrow> ident) \<Rightarrow> (nat \<Rightarrow> time) \<Rightarrow> AuditWriteInput \<Rightarrow> (AuditLog, AuditRecord) eff" where
  "insert_audit uuid clock input s =
     (let i = uuid (al_drawn s); s1 = s\<lparr>al_drawn := Suc (al_drawn s)\<rparr>;
          row = \<lparr>ar_id = i, ar_actorId = ai_actorId input, ar_accountId = ai_accountId input, ar_action = ai_action input,
            ar_targetType = ai_targetType input, ar_targetId = ai_targetId input,
            ar_metadata = metadata_or_empty (ai_metadata input), ar_createdAt = clock (al_drawn s)\<rparr>
      in if find_by ar_id i (al_rows s) \<noteq> None then (Inl ''duplicate key value violates unique constraint'', s1)
         else (Inr row, s1\<lparr>al_rows := al_rows s @ [row]\<rparr>))"

definition audit :: "(nat \<Rightarrow> ident) \<Rightarrow> (nat \<Rightarrow> time) \<Rightarrow> AuditWriteInput \<Rightarrow> (AuditLog, AuditRecord) eff" where
  "audit uuid clock = createAuditPort (insert_audit uuid clock)"

text \<open>The writer of a host that executes the statement in a transaction of its own.\<close>

definition writeAuditWithExecutor :: "(nat \<Rightarrow> ident) \<Rightarrow> (nat \<Rightarrow> time) \<Rightarrow> AuditWriteInput \<Rightarrow> (AuditLog, unit) eff" where
  "writeAuditWithExecutor uuid clock input = bnd (insert_audit uuid clock (redacted_input input)) (\<lambda>_. ret ())"

section \<open>What the log shows\<close>

text \<open>At no depth does a forbidden key hold anything but the mark.\<close>

fun clean :: "jvalue \<Rightarrow> bool" where
  "clean (JVArr values) = list_all clean values"
| "clean (JVObj entries) = list_all (\<lambda>(key, nested). (forbidden_key key \<longrightarrow> nested = REDACTED) \<and> clean nested) entries"
| "clean value = True"

lemma clean_mark [simp]: "clean REDACTED" "redactAuditMetadata REDACTED = REDACTED"
  by (simp_all add: REDACTED_def)

lemma redacted_clean: "clean (redactAuditMetadata v)"
proof (induction v rule: redactAuditMetadata.induct)
  case (2 entries)
  then show ?case by (simp, intro fromEntries_all) (fastforce simp: list_all_iff)
qed (simp_all add: list_all_iff)

lemma redacted_keys: "json_ok (JVObj entries) \<Longrightarrow> redactAuditMetadata (JVObj entries) =
    JVObj (map (\<lambda>(key, nested). (key, if forbidden_key key then REDACTED else redactAuditMetadata nested)) entries)"
  by (simp add: fromEntries_distinct comp_def case_prod_unfold)

lemma redacted_again: "clean v \<Longrightarrow> json_ok v \<Longrightarrow> redactAuditMetadata v = v"
proof (induction v rule: redactAuditMetadata.induct)
  case (1 vs)
  then show ?case by (simp add: list_all_iff map_idI)
next
  case (2 entries)
  have "(\<lambda>(key, nested). (key, if forbidden_key key then REDACTED else redactAuditMetadata nested)) e = e" if e: "e \<in> set entries" for e
    using 2(1) [of e] 2(2,3) e by (cases e) (fastforce simp: list_all_iff)
  then show ?case using redacted_keys [OF 2(3)] by (simp add: map_idI)
qed simp_all

lemma redacted_well_formed: "json_ok v \<Longrightarrow> json_ok (redactAuditMetadata v)"
proof (induction v rule: redactAuditMetadata.induct)
  case (2 entries)
  show ?case unfolding redacted_keys [OF 2(2)]
    using 2 by (auto simp: list_all_iff comp_def case_prod_unfold REDACTED_def)
qed (simp_all add: list_all_iff)

text \<open>A row as a write asked for it, its metadata redacted.\<close>

definition redacted_row_of :: "AuditRecord \<Rightarrow> AuditWriteInput \<Rightarrow> bool" where
  "redacted_row_of row input \<longleftrightarrow> ar_actorId row = ai_actorId input \<and> ar_accountId row = ai_accountId input \<and>
     ar_action row = ai_action input \<and> ar_targetType row = ai_targetType input \<and> ar_targetId row = ai_targetId input \<and>
     ar_metadata row = redactAuditMetadata (metadata_or_empty (ai_metadata input)) \<and> clean (ar_metadata row)"

lemma redacted_not_empty: "metadata_or_empty (Some (redactAuditMetadata (metadata_or_empty m))) = redactAuditMetadata (metadata_or_empty m)"
  by (cases "redactAuditMetadata (metadata_or_empty m)"; cases "metadata_or_empty m") (auto simp: metadata_or_empty_def split: option.splits jvalue.splits)

lemma insert_redacted:
  "insert_audit uuid clock (redacted_input input) s = (r, t) \<Longrightarrow>
     al_rows t = al_rows s \<or> (\<exists>row. al_rows t = al_rows s @ [row] \<and> redacted_row_of row input)"
  by (auto simp: insert_audit_def Let_def redacted_row_of_def redacted_input_def redacted_not_empty redacted_clean split: if_splits)

text \<open>The writes of a host to its log, over the pool and inside transactions that write for themselves.\<close>

fun audit_write :: "(nat \<Rightarrow> ident) \<Rightarrow> (nat \<Rightarrow> time) \<Rightarrow> bool \<times> AuditWriteInput \<Rightarrow> AuditLog \<Rightarrow> AuditLog" where
  "audit_write uuid clock (True, input) l = snd (writeAuditWithExecutor uuid clock input l)"
| "audit_write uuid clock (False, input) l = snd (audit uuid clock input l)"

lemma audit_write_adds: "al_rows (audit_write uuid clock (kind, input) l) = al_rows l \<or>
    (\<exists>row. al_rows (audit_write uuid clock (kind, input) l) = al_rows l @ [row] \<and> redacted_row_of row input)"
proof -
  obtain r t where run: "insert_audit uuid clock (redacted_input input) l = (r, t)" by (rule prod.exhaust)
  have "audit_write uuid clock (kind, input) l = t"
    by (cases kind; cases r) (simp_all add: audit_def createAuditPort_def writeAuditWithExecutor_def run bnd_def ret_def)
  then show ?thesis using insert_redacted [OF run] by simp
qed

text \<open>C34 The two writers of the audit port (over the pool, and in a transaction of the host) never touch the rows a log holds,
  and add at most one row for each write: the row asked for, with its metadata redacted, so that it holds nothing but the mark under a
  forbidden key, at any depth of objects and arrays. Code that inserts into the table without the port is not covered.\<close>

theorem audit_log_redacted:
  shows "\<exists>added. al_rows (fold (audit_write uuid clock) inputs l) = al_rows l @ added \<and> length added \<le> length inputs \<and>
    list_all (\<lambda>row. list_ex (\<lambda>(_, input). redacted_row_of row input) inputs) added"
proof (induction inputs arbitrary: l)
  case (Cons x inputs)
  obtain kind input where x: "x = (kind, input)" by (rule prod.exhaust)
  obtain first where first: "al_rows (audit_write uuid clock x l) = al_rows l @ first" "length first \<le> 1"
      "list_all (\<lambda>row. redacted_row_of row input) first"
    using audit_write_adds [of uuid clock kind input l] x that [of "[]"] that [of "[_]"] by auto
  obtain rest where "al_rows (fold (audit_write uuid clock) (x # inputs) l) = al_rows l @ (first @ rest)" "length rest \<le> length inputs"
      "list_all (\<lambda>row. list_ex (\<lambda>(_, input). redacted_row_of row input) inputs) rest"
    using Cons [of "audit_write uuid clock x l"] first(1) by auto
  then show ?case using first(2,3) x by (intro exI [of _ "first @ rest"]) (auto simp: list_all_iff)
qed simp

end
