(* ===== verification/Composition.thy ===== *)
theory Composition
  imports Js_Runtime "HOL-Library.Multiset"
begin

text \<open>
  The capability composer of \<open>platform/composition/composer.ts\<close> with the contracts of
  \<open>contracts/capability.ts\<close>: modules declare the capabilities they need and provide; the composer checks
  the declarations, starts every module once its needs are available, hands it a resolver for exactly
  the capabilities it declared, and compares what it returns with its manifest.

  A module's \<open>start\<close> is a parameter: an effect on the world \<open>'w\<close>. The Map of capabilities is the list of its
  entries in insertion order. The outer \<open>while\<close> loop is a partial function; that it returns is proved.
\<close>

section \<open>Contracts\<close>

record ModuleManifest =
  mf_moduleId :: string
  mf_needs :: "string list"
  mf_provides :: "string list"

record 'v CapabilityRegistration =
  rg_id :: string
  rg_value :: 'v

record 'v CapabilityResolver =
  rs_has :: "string \<Rightarrow> error + bool"
  rs_get :: "string \<Rightarrow> error + 'v"

record ('w, 'v) CapabilityModule =
  cm_manifest :: ModuleManifest
  cm_start :: "'v CapabilityResolver \<Rightarrow> ('w, 'v CapabilityRegistration list) eff"

type_synonym 'v capability_map = "(string \<times> 'v) list"

abbreviation module_id :: "('w, 'v) CapabilityModule \<Rightarrow> string" where
  "module_id m \<equiv> mf_moduleId (cm_manifest m)"

abbreviation needs :: "('w, 'v) CapabilityModule \<Rightarrow> string list" where
  "needs m \<equiv> mf_needs (cm_manifest m)"

abbreviation provides :: "('w, 'v) CapabilityModule \<Rightarrow> string list" where
  "provides m \<equiv> mf_provides (cm_manifest m)"

section \<open>Checks\<close>

definition unique :: "string list \<Rightarrow> bool" where
  "unique values = (card (set values) = length values)"

lemma unique_distinct [simp]: "unique xs = distinct xs"
  by (auto simp: unique_def card_distinct distinct_card)

definition assertManifest :: "ModuleManifest \<Rightarrow> error + unit" where
  "assertManifest manifest =
     (if js_trim (mf_moduleId manifest) = [] then Inl ''Module id must not be empty.''
      else if \<not> unique (mf_needs manifest) then
        Inl (''Module '' @ mf_moduleId manifest @ '' declares a capability need more than once.'')
      else if \<not> unique (mf_provides manifest) then
        Inl (''Module '' @ mf_moduleId manifest @ '' declares a capability provider more than once.'')
      else Inr ())"

fun join :: "string \<Rightarrow> string list \<Rightarrow> string" where
  "join sep [] = []"
| "join sep [x] = x"
| "join sep (x # xs) = x @ sep @ join sep xs"

definition or_none :: "string \<Rightarrow> string" where
  "or_none s = (if s = [] then ''none'' else s)"

definition assertRegistrationMatchesManifest ::
    "ModuleManifest \<Rightarrow> 'v CapabilityRegistration list \<Rightarrow> error + unit" where
  "assertRegistrationMatchesManifest manifest registrations =
     (let actualIds = map rg_id registrations;
          missing = filter (\<lambda>i. i \<notin> set actualIds) (mf_provides manifest);
          undeclared = filter (\<lambda>i. i \<notin> set (mf_provides manifest)) actualIds
      in if \<not> unique actualIds then
           Inl (''Module '' @ mf_moduleId manifest @ '' returned a capability more than once.'')
         else if 0 < length missing \<or> 0 < length undeclared then
           Inl (''Module '' @ mf_moduleId manifest @ '' provider output does not match its manifest. Missing: ''
             @ or_none (join '', '' missing) @ ''; undeclared: '' @ or_none (join '', '' undeclared) @ ''.'')
         else Inr ())"

definition has_capability :: "'v capability_map \<Rightarrow> string \<Rightarrow> bool" where
  "has_capability capabilities c = (c \<in> set (map fst capabilities))"

definition assertDeclared :: "ModuleManifest \<Rightarrow> string \<Rightarrow> error + unit" where
  "assertDeclared manifest c =
     (if c \<in> set (mf_needs manifest) then Inr ()
      else Inl (''Module '' @ mf_moduleId manifest @ '' attempted undeclared capability access: '' @ c @ ''.''))"

definition scopedResolver :: "ModuleManifest \<Rightarrow> 'v capability_map \<Rightarrow> 'v CapabilityResolver" where
  "scopedResolver manifest capabilities =
     \<lparr>rs_has = (\<lambda>c. case assertDeclared manifest c of Inl e \<Rightarrow> Inl e | Inr _ \<Rightarrow> Inr (has_capability capabilities c)),
      rs_get = (\<lambda>c. case assertDeclared manifest c of Inl e \<Rightarrow> Inl e
         | Inr _ \<Rightarrow> (case map_of capabilities c of
             None \<Rightarrow> Inl (''Capability '' @ c @ '' is not available to module '' @ mf_moduleId manifest @ ''.'')
           | Some v \<Rightarrow> Inr v))\<rparr>"

section \<open>Composition\<close>

text \<open>The first loop of \<open>composeCapabilities\<close>: who declares which capability.\<close>

fun declare_provides :: "string \<Rightarrow> (string \<times> string) list \<Rightarrow> string list \<Rightarrow> error + (string \<times> string) list" where
  "declare_provides owner providers [] = Inr providers"
| "declare_provides owner providers (c # cs) =
     (if truthy (map_of providers c) then
        Inl (''Capability '' @ c @ '' is declared by both '' @ the (map_of providers c) @ '' and '' @ owner @ ''.'')
      else declare_provides owner (put_entry c owner providers) cs)"

fun declare_modules :: "(string \<times> string) list \<Rightarrow> ('w, 'v) CapabilityModule list \<Rightarrow> error + (string \<times> string) list" where
  "declare_modules providers [] = Inr providers"
| "declare_modules providers (m # ms) =
     (case assertManifest (cm_manifest m) of Inl e \<Rightarrow> Inl e
      | Inr _ \<Rightarrow> (case declare_provides (module_id m) providers (provides m) of Inl e \<Rightarrow> Inl e
          | Inr providers' \<Rightarrow> declare_modules providers' ms))"

definition missing_needs :: "'v capability_map \<Rightarrow> ('w, 'v) CapabilityModule \<Rightarrow> string list" where
  "missing_needs capabilities m = filter (\<lambda>c. \<not> has_capability capabilities c) (needs m)"

definition register_all :: "'v CapabilityRegistration list \<Rightarrow> 'v capability_map \<Rightarrow> 'v capability_map" where
  "register_all registrations capabilities = fold (\<lambda>r. put_entry (rg_id r) (rg_value r)) registrations capabilities"

definition start_module :: "('w, 'v) CapabilityModule \<Rightarrow> 'v capability_map \<Rightarrow> ('w, 'v capability_map) eff" where
  "start_module m capabilities =
     bnd (cm_start m (scopedResolver (cm_manifest m) capabilities)) (\<lambda>registrations.
     bnd (from_result (assertRegistrationMatchesManifest (cm_manifest m) registrations)) (\<lambda>_.
     ret (register_all registrations capabilities)))"

text \<open>
  One pass of the \<open>for\<close> loop over the pending modules: the capabilities, the started ids, the modules that
  stay pending, and whether one was started.
\<close>

fun sweep :: "'v capability_map \<Rightarrow> string list \<Rightarrow> ('w, 'v) CapabilityModule list \<Rightarrow>
    ('w, 'v capability_map \<times> string list \<times> ('w, 'v) CapabilityModule list \<times> bool) eff" where
  "sweep capabilities started [] = ret (capabilities, started, [], False)"
| "sweep capabilities started (m # ms) =
     (if 0 < length (missing_needs capabilities m) then
        bnd (sweep capabilities started ms) (\<lambda>(capabilities', started', pending, progress).
        ret (capabilities', started', m # pending, progress))
      else
        bnd (start_module m capabilities) (\<lambda>capabilities1.
        bnd (sweep capabilities1 (started @ [module_id m]) ms) (\<lambda>(capabilities', started', pending, _).
        ret (capabilities', started', pending, True))))"

definition unresolved :: "'v capability_map \<Rightarrow> ('w, 'v) CapabilityModule list \<Rightarrow> error" where
  "unresolved capabilities pending =
     ''Composition cannot resolve remaining module needs: ''
     @ join ''; '' (map (\<lambda>m. module_id m @ '' -> ['' @ join '', '' (missing_needs capabilities m) @ '']'') pending) @ ''.''"

partial_function (option) compose_loop ::
    "'v capability_map \<Rightarrow> string list \<Rightarrow> ('w, 'v) CapabilityModule list \<Rightarrow> 'w \<Rightarrow>
     ((error + 'v capability_map \<times> string list) \<times> 'w) option" where
  [code]: "compose_loop capabilities started pending w =
     (if pending = [] then Some (Inr (capabilities, started), w)
      else (case sweep capabilities started pending w of (r, w') \<Rightarrow>
        (case r of Inl e \<Rightarrow> Some (Inl e, w')
         | Inr (capabilities', started', pending', progress) \<Rightarrow>
             (if \<not> progress then Some (Inl (unresolved capabilities' pending'), w')
              else compose_loop capabilities' started' pending' w'))))"

record 'v ComposedApplication =
  ca_moduleIds :: "string list"
  ca_capabilityIds :: "string list"
  ca_has :: "string \<Rightarrow> bool"
  ca_get :: "string \<Rightarrow> error + 'v"

definition composed :: "'v capability_map \<Rightarrow> string list \<Rightarrow> 'v ComposedApplication" where
  "composed capabilities started =
     \<lparr>ca_moduleIds = started, ca_capabilityIds = map fst capabilities,
      ca_has = has_capability capabilities,
      ca_get = (\<lambda>c. case map_of capabilities c of
          None \<Rightarrow> Inl (''Capability '' @ c @ '' is not composed.'') | Some v \<Rightarrow> Inr v)\<rparr>"

definition composeCapabilities ::
    "('w, 'v) CapabilityModule list \<Rightarrow> 'w \<Rightarrow> ((error + 'v ComposedApplication) \<times> 'w) option" where
  "composeCapabilities modules w =
     (if \<not> unique (map module_id modules) then Some (Inl ''Module ids must be unique.'', w)
      else (case declare_modules [] modules of
        Inl e \<Rightarrow> Some (Inl e, w)
      | Inr _ \<Rightarrow> map_option (\<lambda>(r, w'). (map_sum id (\<lambda>(capabilities, started). composed capabilities started) r, w'))
          (compose_loop [] [] modules w)))"

section \<open>Startup orders\<close>

text \<open>
  The abstract view of a composition: an order of the modules in which every module finds its needs among the
  capabilities \<open>K\<close> at hand and those the modules before it provide.
\<close>

definition provided :: "('w, 'v) CapabilityModule list \<Rightarrow> string set" where
  "provided ms = (\<Union>m\<in>set ms. set (provides m))"

fun startable :: "string set \<Rightarrow> ('w, 'v) CapabilityModule list \<Rightarrow> bool" where
  "startable K [] = True"
| "startable K (m # ms) = (set (needs m) \<subseteq> K \<and> startable (K \<union> set (provides m)) ms)"

lemma provided_simps [simp]:
  "provided [] = {}" "provided (m # ms) = set (provides m) \<union> provided ms"
  "provided (xs @ ys) = provided xs \<union> provided ys"
  by (auto simp: provided_def)

lemma startable_append [simp]:
  "startable K (xs @ ys) = (startable K xs \<and> startable (K \<union> provided xs) ys)"
  by (induction xs arbitrary: K) (auto simp: Un_assoc)

lemma shorter_rest:
  assumes "mset xs = mset ys + mset zs" and "ys \<noteq> []"
  shows "length zs < length xs"
  using arg_cong [OF assms(1), of size] assms(2) by simp

lemma startable_without:
  "startable K order \<Longrightarrow> K \<subseteq> K' \<Longrightarrow> (\<Union>m\<in>D. set (provides m)) \<subseteq> K' \<Longrightarrow>
   startable K' (filter (\<lambda>m. m \<notin> D) order)"
proof (induction order arbitrary: K K')
  case (Cons m ms)
  show ?case
  proof (cases "m \<in> D")
    case True
    then show ?thesis using Cons.prems Cons.IH [of "K \<union> set (provides m)" K'] by auto
  next
    case False
    then show ?thesis using Cons.prems Cons.IH [of "K \<union> set (provides m)" "K' \<union> set (provides m)"] by auto
  qed
qed simp

lemma provided_mset: "mset xs = mset ys \<Longrightarrow> provided xs = provided ys"
  by (metis provided_def set_mset_mset)

section \<open>Starting the modules\<close>

abbreviation keys :: "'v capability_map \<Rightarrow> string set" where
  "keys capabilities \<equiv> fst ` set capabilities"

lemma map_of_put_entry [simp]: "map_of (put_entry k v es) = (map_of es)(k \<mapsto> v)"
  by (induction k v es rule: put_entry.induct) (auto simp: fun_upd_twist)

lemma distinct_put_entry: "distinct (map fst es) \<Longrightarrow> distinct (map fst (put_entry k v es))"
proof (induction k v es rule: put_entry.induct)
  case (2 k v k' v' es)
  then show ?case using fst_set_put_entry [of k v es] by auto
qed simp

lemma keys_register_all [simp]: "keys (register_all rs capabilities) = keys capabilities \<union> set (map rg_id rs)"
  by (induction rs arbitrary: capabilities) (auto simp: register_all_def fst_set_put_entry)

lemma missing_needs_none: "missing_needs capabilities m = [] \<longleftrightarrow> set (needs m) \<subseteq> keys capabilities"
  by (auto simp: missing_needs_def has_capability_def filter_empty_conv)

lemma registration_ids:
  "assertRegistrationMatchesManifest manifest rs = Inr u \<longleftrightarrow>
   distinct (map rg_id rs) \<and> set (map rg_id rs) = set (mf_provides manifest)"
  by (auto simp: assertRegistrationMatchesManifest_def Let_def filter_empty_conv)

lemma start_module_Inr:
  assumes "start_module m capabilities w = (Inr capabilities', w')"
  shows "keys capabilities' = keys capabilities \<union> set (provides m)"
proof -
  obtain rs where "set (map rg_id rs) = set (provides m)" and "capabilities' = register_all rs capabilities"
    using assms by (auto simp: start_module_def eff_simps registration_ids split: prod.splits sum.splits)
  then show ?thesis by (simp only: keys_register_all)
qed

text \<open>A module that honours its manifest: with its needs at hand it starts and returns what it declared.\<close>

definition conforming :: "('w, 'v) CapabilityModule \<Rightarrow> bool" where
  "conforming m \<longleftrightarrow> (\<forall>capabilities w. set (needs m) \<subseteq> keys capabilities \<longrightarrow>
     (\<exists>rs w'. cm_start m (scopedResolver (cm_manifest m) capabilities) w = (Inr rs, w') \<and>
        distinct (map rg_id rs) \<and> set (map rg_id rs) = set (provides m)))"

lemma conforming_start:
  assumes "conforming m" and "set (needs m) \<subseteq> keys capabilities"
  obtains capabilities' w' where "start_module m capabilities w = (Inr capabilities', w')"
    and "keys capabilities' = keys capabilities \<union> set (provides m)"
proof -
  obtain rs w' where rs: "cm_start m (scopedResolver (cm_manifest m) capabilities) w = (Inr rs, w')"
      "distinct (map rg_id rs) \<and> set (map rg_id rs) = set (provides m)"
    using assms unfolding conforming_def by blast
  obtain u where "assertRegistrationMatchesManifest (cm_manifest m) rs = Inr u"
    using rs(2) registration_ids [of "cm_manifest m" rs "()"] by blast
  then have "start_module m capabilities w = (Inr (register_all rs capabilities), w')"
    using rs(1) by (simp add: start_module_def eff_simps)
  then show thesis by (rule that) (rule start_module_Inr, fact)
qed

lemma sweep_Inr:
  assumes "sweep capabilities started ms w = (Inr (capabilities', started', pending, progress), w')"
  obtains begun where "started' = started @ map module_id begun" and "mset ms = mset begun + mset pending"
    and "progress = (begun \<noteq> [])" and "keys capabilities' = keys capabilities \<union> provided begun"
    and "startable (keys capabilities) begun"
    and "begun = [] \<Longrightarrow> \<forall>m\<in>set ms. \<not> set (needs m) \<subseteq> keys capabilities"
  using assms
proof (induction ms arbitrary: capabilities started w pending progress thesis)
  case Nil
  then show ?case by (auto simp: eff_simps)
next
  case (Cons m ms)
  show ?case
  proof (cases "set (needs m) \<subseteq> keys capabilities")
    case True
    then obtain c1 w1 pr where m: "start_module m capabilities w = (Inr c1, w1)"
        and r: "sweep c1 (started @ [module_id m]) ms w1 = (Inr (capabilities', started', pending, pr), w')"
        and progress
      using Cons.prems(2) by (auto simp: missing_needs_none eff_simps split: prod.splits sum.splits)
    from Cons.IH [OF _ r] obtain begun where
      "started' = (started @ [module_id m]) @ map module_id begun" "mset ms = mset begun + mset pending"
      "keys capabilities' = keys c1 \<union> provided begun" "startable (keys c1) begun" by metis
    then show ?thesis
      using True \<open>progress\<close> start_module_Inr [OF m] by (intro Cons.prems(1) [of "m # begun"]) auto
  next
    case False
    then obtain p where r: "sweep capabilities started ms w = (Inr (capabilities', started', p, progress), w')"
        and p: "pending = m # p"
      using Cons.prems(2) by (auto simp: missing_needs_none eff_simps split: prod.splits sum.splits)
    from Cons.IH [OF _ r] obtain begun where
      "started' = started @ map module_id begun" "mset ms = mset begun + mset p" "progress = (begun \<noteq> [])"
      "keys capabilities' = keys capabilities \<union> provided begun" "startable (keys capabilities) begun"
      "begun = [] \<Longrightarrow> \<forall>m\<in>set ms. \<not> set (needs m) \<subseteq> keys capabilities" by metis
    then show ?thesis using False p by (intro Cons.prems(1) [of begun]) auto
  qed
qed

lemma sweep_conforming:
  assumes "\<forall>m\<in>set ms. conforming m"
  shows "\<exists>r w'. sweep capabilities started ms w = (Inr r, w')"
  using assms
proof (induction ms arbitrary: capabilities started w)
  case (Cons m ms)
  show ?case
  proof (cases "set (needs m) \<subseteq> keys capabilities")
    case True
    moreover obtain c1 w1 where "start_module m capabilities w = (Inr c1, w1)"
      using conforming_start True Cons.prems by (metis list.set_intros(1))
    ultimately show ?thesis using Cons.IH [of c1 "started @ [module_id m]" w1] Cons.prems
      by (auto simp: missing_needs_none eff_simps)
  next
    case False
    then show ?thesis using Cons.IH [of capabilities started w] Cons.prems
      by (auto simp: missing_needs_none eff_simps)
  qed
qed (simp only: sweep.simps ret_run, blast)

section \<open>The loop\<close>

lemma compose_loop_returns: "\<exists>r w'. compose_loop capabilities started pending w = Some (r, w')"
proof (induction pending arbitrary: capabilities started w rule: length_induct)
  case (1 pending)
  show ?case
  proof (cases rule: eff_cases [of "sweep capabilities started pending" w])
    case (2 q w')
    obtain c' s' p' pr where q: "q = (c', s', p', pr)" by (cases q)
    obtain begun where "mset pending = mset begun + mset p'" "pr = (begun \<noteq> [])"
      using 2 unfolding q by (rule sweep_Inr)
    then have "length p' < length pending" if pr
      using that by (simp add: shorter_rest)
    then show ?thesis using 1 2 q by (subst compose_loop.simps) auto
  qed (subst compose_loop.simps, simp)
qed

lemma compose_loop_Inr:
  assumes "compose_loop capabilities started pending w = Some (Inr (capabilities', started'), w')"
  obtains order where "started' = started @ map module_id order" and "mset order = mset pending"
    and "keys capabilities' = keys capabilities \<union> provided order" and "startable (keys capabilities) order"
  using assms
proof (induction pending arbitrary: capabilities started w thesis rule: length_induct)
  case (1 pending)
  show ?case
  proof (cases "pending = []")
    case True
    with 1(3) show ?thesis by (subst (asm) compose_loop.simps) (auto intro: 1(2) [of "[]"])
  next
    case False
    with 1(3) obtain c1 s1 p1 w1 where s: "sweep capabilities started pending w = (Inr (c1, s1, p1, True), w1)"
        and r: "compose_loop c1 s1 p1 w1 = Some (Inr (capabilities', started'), w')"
      by (subst (asm) compose_loop.simps) (auto split: prod.splits sum.splits if_splits)
    obtain begun where b: "s1 = started @ map module_id begun" "mset pending = mset begun + mset p1"
        "begun \<noteq> []" "keys c1 = keys capabilities \<union> provided begun" "startable (keys capabilities) begun"
      using s by (rule sweep_Inr) simp
    have "length p1 < length pending" using b(2,3) by (rule shorter_rest)
    with 1(1) have IH: "(\<And>order. started' = s1 @ map module_id order \<Longrightarrow> mset order = mset p1 \<Longrightarrow>
        keys capabilities' = keys c1 \<union> provided order \<Longrightarrow> startable (keys c1) order \<Longrightarrow> P) \<Longrightarrow> P" for P
      using r by blast
    obtain order where "started' = s1 @ map module_id order" "mset order = mset p1"
        "keys capabilities' = keys c1 \<union> provided order" "startable (keys c1) order" by (rule IH)
    then show ?thesis using b by (intro 1(2) [of "begun @ order"]) auto
  qed
qed

lemma startable_head:
  assumes "startable K order" and "order \<noteq> []" and "mset order = mset ms"
  shows "\<exists>m\<in>set ms. set (needs m) \<subseteq> K"
proof -
  obtain m ms' where "order = m # ms'" using assms(2) by (cases order) auto
  then show ?thesis using assms(1) mset_eq_setD [OF assms(3)] by auto
qed

lemma compose_loop_conforming:
  assumes "\<forall>m\<in>set pending. conforming m" and "distinct pending"
    and "startable (keys capabilities) order" and "mset order = mset pending"
  shows "\<exists>r w'. compose_loop capabilities started pending w = Some (Inr r, w')"
  using assms
proof (induction pending arbitrary: capabilities started w order rule: length_induct)
  case (1 pending)
  show ?case
  proof (cases "pending = []")
    case True
    then show ?thesis by (subst compose_loop.simps) auto
  next
    case False
    from sweep_conforming 1(2) obtain c1 s1 p1 pr w1
      where s: "sweep capabilities started pending w = (Inr (c1, s1, p1, pr), w1)" by (metis prod_cases4)
    obtain begun where b: "mset pending = mset begun + mset p1" "pr = (begun \<noteq> [])"
        "keys c1 = keys capabilities \<union> provided begun"
        "begun = [] \<Longrightarrow> \<forall>m\<in>set pending. \<not> set (needs m) \<subseteq> keys capabilities"
      using s by (rule sweep_Inr) blast
    have "order \<noteq> []" using 1(5) False by auto
    then have ne: "begun \<noteq> []" using startable_head [OF 1(4) _ 1(5)] b(4) by blast
    have shorter: "length p1 < length pending" using b(1) ne by (rule shorter_rest)
    have same: "mset pending = mset (begun @ p1)" using b(1) by simp
    have parts: "distinct (begun @ p1)" "set p1 \<subseteq> set pending" "mset order = mset (begun @ p1)"
      using 1(3,5) same mset_eq_imp_distinct_iff [OF same] mset_eq_setD [OF same] by auto
    let ?order = "filter (\<lambda>m. m \<notin> set begun) order"
    have "mset ?order = filter_mset (\<lambda>m. m \<notin> set begun) (mset (begun @ p1))"
      using parts(3) by (metis mset_filter)
    also have "\<dots> = mset (filter (\<lambda>m. m \<notin> set begun) (begun @ p1))" by simp
    also have "filter (\<lambda>m. m \<notin> set begun) (begun @ p1) = p1"
      using parts(1) by (auto simp: filter_empty_conv intro!: filter_True)
    finally have rest: "mset ?order = mset p1" .
    have "startable (keys c1) ?order"
      by (rule startable_without [OF 1(4)]) (auto simp: b(3) provided_def)
    moreover have "\<forall>m\<in>set p1. conforming m" "distinct p1" using 1(2) parts by auto
    ultimately obtain r w' where "compose_loop c1 s1 p1 w1 = Some (Inr r, w')"
      using 1(1) shorter rest by blast
    then show ?thesis using s b(2) ne False by (subst compose_loop.simps) simp
  qed
qed

section \<open>Declarations\<close>

lemma truthy_owner: "[] \<notin> snd ` set ps \<Longrightarrow> truthy (map_of ps c) = (c \<in> keys ps)"
  by (cases "map_of ps c") (force simp: truthy_def map_of_eq_None_iff dest: map_of_SomeD)+

lemma snd_set_put_entry: "snd ` set (put_entry k v es) \<subseteq> insert v (snd ` set es)"
  by (induction k v es rule: put_entry.induct) auto

lemma put_owner: "[] \<notin> snd ` set ps \<Longrightarrow> owner \<noteq> [] \<Longrightarrow> [] \<notin> snd ` set (put_entry c owner ps)"
  using snd_set_put_entry [of c owner ps] by blast

lemma declare_provides_cases:
  assumes "[] \<notin> snd ` set ps" and "owner \<noteq> []"
  shows "if distinct cs \<and> set cs \<inter> keys ps = {}
    then \<exists>ps'. declare_provides owner ps cs = Inr ps' \<and> keys ps' = keys ps \<union> set cs \<and> [] \<notin> snd ` set ps'
    else \<exists>e. declare_provides owner ps cs = Inl e"
  using assms(1)
proof (induction cs arbitrary: ps)
  case Nil
  then show ?case by simp
next
  case (Cons c cs)
  show ?case
  proof (cases "c \<in> keys ps")
    case True
    then have "\<exists>e. declare_provides owner ps (c # cs) = Inl e" using truthy_owner [OF Cons.prems] by simp
    then show ?thesis using True by simp
  next
    case False
    then have step: "declare_provides owner ps (c # cs) = declare_provides owner (put_entry c owner ps) cs"
      using truthy_owner [OF Cons.prems] by simp
    have k: "keys (put_entry c owner ps) = insert c (keys ps)" by (rule fst_set_put_entry)
    have "distinct (c # cs) \<and> set (c # cs) \<inter> keys ps = {} \<longleftrightarrow>
        distinct cs \<and> set cs \<inter> keys (put_entry c owner ps) = {}"
      using False unfolding k by auto
    then show ?thesis
      using Cons.IH [OF put_owner [OF Cons.prems assms(2), of c]] unfolding step k by (auto split: if_splits)
  qed
qed

lemma assertManifest_id: "assertManifest (cm_manifest m) = Inr u \<Longrightarrow> module_id m \<noteq> []"
  by (auto simp: assertManifest_def js_trim_def split: if_splits)

lemma assertManifest_provides: "assertManifest mf = Inr u \<Longrightarrow> distinct (mf_provides mf)"
  by (auto simp: assertManifest_def split: if_splits)

lemma declare_modules_succeeds:
  assumes "[] \<notin> snd ` set ps"
  shows "(\<exists>ps'. declare_modules ps ms = Inr ps') \<longleftrightarrow>
    (\<forall>m\<in>set ms. assertManifest (cm_manifest m) = Inr ()) \<and> distinct (concat (map provides ms)) \<and>
    keys ps \<inter> provided ms = {}"
  using assms
proof (induction ms arbitrary: ps)
  case (Cons m ms)
  have all: "set (concat (map provides ms)) = provided ms" by (simp add: provided_def)
  show ?case
  proof (cases "assertManifest (cm_manifest m)")
    case ok: (Inr u)
    have case_ps: "if set (provides m) \<inter> keys ps = {}
      then \<exists>ps'. declare_provides (module_id m) ps (provides m) = Inr ps' \<and> keys ps' = keys ps \<union> set (provides m) \<and> [] \<notin> snd ` set ps'
      else \<exists>e. declare_provides (module_id m) ps (provides m) = Inl e"
      using declare_provides_cases [OF Cons.prems assertManifest_id [OF ok], of "provides m"]
        assertManifest_provides [OF ok] by simp
    show ?thesis
    proof (cases "set (provides m) \<inter> keys ps = {}")
      case True
      then obtain ps' where p: "declare_provides (module_id m) ps (provides m) = Inr ps'"
          and k: "keys ps' = keys ps \<union> set (provides m)" and n: "[] \<notin> snd ` set ps'" using case_ps by auto
      have step: "declare_modules ps (m # ms) = declare_modules ps' ms" using ok p by simp
      have "keys ps \<inter> provided (m # ms) = {} \<and> set (provides m) \<inter> provided ms = {} \<longleftrightarrow> keys ps' \<inter> provided ms = {}"
        using True unfolding k by auto
      moreover have "(\<forall>x\<in>set (m # ms). assertManifest (cm_manifest x) = Inr ()) \<longleftrightarrow>
          (\<forall>x\<in>set ms. assertManifest (cm_manifest x) = Inr ())" using ok by simp
      moreover have "distinct (concat (map provides (m # ms))) \<longleftrightarrow>
          distinct (concat (map provides ms)) \<and> set (provides m) \<inter> provided ms = {}"
        using assertManifest_provides [OF ok] all by auto
      ultimately show ?thesis using Cons.IH [OF n] unfolding step by argo
    next
      case False
      then obtain e where "declare_provides (module_id m) ps (provides m) = Inl e" using case_ps by auto
      then show ?thesis using ok False by (auto simp: Int_commute)
    qed
  qed auto
qed simp

definition declarations_ok :: "('w, 'v) CapabilityModule list \<Rightarrow> bool" where
  "declarations_ok modules \<longleftrightarrow> distinct (map module_id modules) \<and>
     (\<forall>m\<in>set modules. assertManifest (cm_manifest m) = Inr ()) \<and> distinct (concat (map provides modules))"

lemma composeCapabilities_cases:
  obtains (refused) e where "\<not> declarations_ok modules" and "composeCapabilities modules w = Some (Inl e, w)"
  | (accepted) "declarations_ok modules" and "composeCapabilities modules w =
      map_option (\<lambda>(r, w'). (map_sum id (\<lambda>(c, s). composed c s) r, w')) (compose_loop [] [] modules w)"
proof (cases "distinct (map module_id modules)")
  case False
  then show ?thesis by (intro refused) (auto simp: composeCapabilities_def declarations_ok_def)
next
  case True
  then show ?thesis
    using declare_modules_succeeds [of "[]" modules] refused accepted
    by (cases "declare_modules [] modules") (auto simp: composeCapabilities_def declarations_ok_def)
qed

lemma compose_startable:
  assumes "composeCapabilities modules w = Some (Inr app, w')"
  obtains order c where "mset order = mset modules" and "startable {} order" and "app = composed c (map module_id order)"
    and "keys c = provided order"
proof (cases rule: composeCapabilities_cases [of modules w])
  case accepted
  obtain r v where r: "compose_loop [] [] modules w = Some (r, v)"
    using compose_loop_returns [of "[]" "[]" modules w] by blast
  with assms accepted obtain c s where loop: "compose_loop [] [] modules w = Some (Inr (c, s), w')" and app: "app = composed c s"
    by (cases r) auto
  obtain order where "s = map module_id order" "mset order = mset modules" "keys c = provided order" "startable {} order"
    using loop by (rule compose_loop_Inr) simp
  then show thesis using that app by blast
qed (use assms in simp)

section \<open>Properties\<close>

text \<open>C38 Composition always ends: for any modules and any world the loop over the pending modules returns a result, an
  application or a composition error, however the modules' needs are tied to each other.\<close>

theorem composition_terminates:
  "\<exists>r w'. composeCapabilities modules w = Some (r, w')"
  by (cases rule: composeCapabilities_cases [of modules w])
    (use compose_loop_returns [of "[]" "[]" modules w] in \<open>force+\<close>)

text \<open>C14 A composed application has started every module once, in an order in which each module found all its needs
  among the capabilities provided by the modules before it; it holds exactly the capabilities the modules
  declare, each of which it resolves to a value, and refuses every other.\<close>

theorem composition_ordered:
  assumes "composeCapabilities modules w = Some (Inr app, w')"
  shows "\<exists>order. mset order = mset modules \<and> startable {} order \<and> ca_moduleIds app = map module_id order \<and>
    set (ca_capabilityIds app) = provided modules \<and>
    (\<forall>c. (\<exists>v. ca_get app c = Inr v) = (c \<in> provided modules) \<and> ca_has app c = (c \<in> provided modules))"
proof -
  obtain order c where o: "mset order = mset modules" "startable {} order" "app = composed c (map module_id order)"
      "keys c = provided order" using assms by (rule compose_startable)
  have "(\<exists>v. ca_get app i = Inr v) = (i \<in> keys c)" for i
    using map_of_eq_None_iff [of c i] by (cases "map_of c i") (simp_all add: o(3) composed_def)
  then show ?thesis using o provided_mset [OF o(1)]
    by (intro exI [of _ order]) (auto simp: composed_def has_capability_def)
qed

text \<open>C15 Composition agrees with its specification: over modules that honour their manifests it yields an
  application exactly when the declarations are sound (distinct module ids, sound manifests, no capability
  declared twice) and the modules have some startup order; the order in which the loop visits
  the modules does not matter. Unsound declarations are refused before any module starts.\<close>

theorem composition_complete:
  assumes "\<forall>m\<in>set modules. conforming m"
  shows "((\<exists>app w'. composeCapabilities modules w = Some (Inr app, w')) \<longleftrightarrow>
      declarations_ok modules \<and> (\<exists>order. mset order = mset modules \<and> startable {} order)) \<and>
    (declarations_ok modules \<or> (\<exists>e. composeCapabilities modules w = Some (Inl e, w)))"
proof (cases rule: composeCapabilities_cases [of modules w])
  case accepted
  have "distinct modules" using accepted(1) by (simp add: declarations_ok_def distinct_map)
  then have "\<exists>app w'. composeCapabilities modules w = Some (Inr app, w')"
    if "startable {} order" "mset order = mset modules" for order
    using compose_loop_conforming [OF assms, of "[]" order "[]" w] that accepted(2) by force
  moreover have "\<exists>order. mset order = mset modules \<and> startable {} order"
    if "composeCapabilities modules w = Some (Inr app, w')" for app w'
    using compose_startable [OF that] by blast
  ultimately show ?thesis using accepted(1) by blast
qed auto

text \<open>The resolver a module is started with depends on nothing but the capabilities its manifest declares: maps that
  agree on them give the same resolver, and any other capability is refused with an error,
  also to a \<open>has\<close>.\<close>

theorem resolver_scoped:
  assumes "\<forall>c\<in>set (mf_needs manifest). map_of capabilities c = map_of capabilities' c"
  shows "scopedResolver manifest capabilities = scopedResolver manifest capabilities' \<and>
    (\<forall>c. c \<notin> set (mf_needs manifest) \<longrightarrow>
      (\<exists>e. rs_get (scopedResolver manifest capabilities) c = Inl e \<and> rs_has (scopedResolver manifest capabilities) c = Inl e))"
proof -
  have "has_capability capabilities c = has_capability capabilities' c" if "c \<in> set (mf_needs manifest)" for c
    using assms that map_of_eq_None_iff [of capabilities c] map_of_eq_None_iff [of capabilities' c]
    by (auto simp: has_capability_def)
  then show ?thesis using assms by (auto simp: scopedResolver_def assertDeclared_def fun_eq_iff)
qed

section \<open>The echo module\<close>

text \<open>
  The module of \<open>modules/echo\<close> and the orchestrator host of \<open>apps/orchestrator/bootstrap.ts\<close>, which composes it
  alone, calls it once and reports.
\<close>

record EchoCapabilityV1 =
  ec_echo :: "string \<Rightarrow> string"

definition ECHO_CAPABILITY_ID :: string where
  "ECHO_CAPABILITY_ID = ''bke.echo.v1''"

definition createEchoCapability :: EchoCapabilityV1 where
  "createEchoCapability = \<lparr>ec_echo = (\<lambda>input. ''echo:'' @ input)\<rparr>"

definition echoModuleManifest :: ModuleManifest where
  "echoModuleManifest = \<lparr>mf_moduleId = ''echo'', mf_needs = [], mf_provides = [ECHO_CAPABILITY_ID]\<rparr>"

definition echoModule :: "('w, EchoCapabilityV1) CapabilityModule" where
  "echoModule = \<lparr>cm_manifest = echoModuleManifest,
     cm_start = (\<lambda>resolver. ret [\<lparr>rg_id = ECHO_CAPABILITY_ID, rg_value = createEchoCapability\<rparr>])\<rparr>"

definition orchestrator_bootstrap :: "'w \<Rightarrow> ((error + string) \<times> 'w) option" where
  "orchestrator_bootstrap w = map_option (\<lambda>(r, w'). (case r of Inl e \<Rightarrow> Inl e
     | Inr application \<Rightarrow> (case ca_get application ECHO_CAPABILITY_ID of Inl e \<Rightarrow> Inl e
        | Inr echo \<Rightarrow> (let result = ec_echo echo ''composition'' in
            if result \<noteq> ''echo:composition'' then Inl (''Unexpected composed Echo output: '' @ result)
            else Inr (''V2 composition GREEN: '' @ result))), w')) (composeCapabilities [echoModule] w)"

text \<open>A client of the echo capability, listed before its provider.\<close>

definition echo_client :: "(nat, EchoCapabilityV1) CapabilityModule" where
  "echo_client = \<lparr>cm_manifest = \<lparr>mf_moduleId = ''client'', mf_needs = [ECHO_CAPABILITY_ID], mf_provides = [''client.v1'']\<rparr>,
     cm_start = (\<lambda>resolver. bnd (from_result (rs_get resolver ECHO_CAPABILITY_ID)) (\<lambda>echo.
       bnd (modify Suc) (\<lambda>_. ret [\<lparr>rg_id = ''client.v1'', rg_value = echo\<rparr>])))\<rparr>"

lemmas composition_eval = composeCapabilities_def compose_loop.simps eff_simps start_module_def missing_needs_def
  has_capability_def assertRegistrationMatchesManifest_def register_all_def scopedResolver_def assertDeclared_def
  assertManifest_def composed_def echoModule_def echoModuleManifest_def ECHO_CAPABILITY_ID_def js_trim_def js_space_def
  Let_def

lemma orchestrator_green: "orchestrator_bootstrap w = Some (Inr ''V2 composition GREEN: echo:composition'', w)"
  by (simp add: orchestrator_bootstrap_def composition_eval createEchoCapability_def)

lemma client_composes:
  "\<exists>app. composeCapabilities [echo_client, echoModule] 0 = Some (Inr app, 1) \<and>
     ca_moduleIds app = [''echo'', ''client'']"
  by (simp add: composition_eval echo_client_def truthy_def)

lemma composition_ordered_witness:
  "\<exists>app. composeCapabilities [echo_client, echoModule] 0 = Some (Inr app, 1) \<and>
    set (ca_capabilityIds app) = provided [echo_client, echoModule]"
  using client_composes composition_ordered by metis

lemma conforming_demo: "conforming echo_client" "conforming echoModule"
proof -
  show "conforming echoModule" by (simp add: conforming_def echoModule_def echoModuleManifest_def eff_simps)
  show "conforming echo_client"
    unfolding conforming_def
  proof (intro allI impI)
    fix capabilities :: "EchoCapabilityV1 capability_map" and w :: nat
    assume "set (needs echo_client) \<subseteq> keys capabilities"
    then obtain v where "map_of capabilities ECHO_CAPABILITY_ID = Some v"
      by (cases "map_of capabilities ECHO_CAPABILITY_ID") (auto simp: echo_client_def map_of_eq_None_iff)
    then show "\<exists>rs w'. cm_start echo_client (scopedResolver (cm_manifest echo_client) capabilities) w = (Inr rs, w') \<and>
        distinct (map rg_id rs) \<and> set (map rg_id rs) = set (provides echo_client)"
      by (simp add: echo_client_def scopedResolver_def assertDeclared_def eff_simps)
  qed
qed

lemma composition_complete_witness:
  "\<exists>order. mset order = mset [echo_client, echoModule] \<and> startable {} order"
proof -
  have "\<forall>m\<in>set [echo_client, echoModule]. conforming m" using conforming_demo by simp
  from composition_complete [OF this, of 0] client_composes show ?thesis by blast
qed

lemma resolver_scoped_witness:
  "scopedResolver (cm_manifest echo_client) [(''secret'', createEchoCapability), (ECHO_CAPABILITY_ID, createEchoCapability)] =
   scopedResolver (cm_manifest echo_client) [(ECHO_CAPABILITY_ID, createEchoCapability)]"
proof -
  have "\<forall>c\<in>set (mf_needs (cm_manifest echo_client)).
      map_of [(''secret'', createEchoCapability), (ECHO_CAPABILITY_ID, createEchoCapability)] c =
      map_of [(ECHO_CAPABILITY_ID, createEchoCapability)] c"
    by (simp add: echo_client_def ECHO_CAPABILITY_ID_def)
  from resolver_scoped [OF this] show ?thesis by blast
qed

end
