(* ===== verification/Commerce_Db.thy ===== *)
theory Commerce_Db
  imports Json
begin

text \<open>
  The tables that a purchase lives in: orders with their items, invoice and offer redemption, payments and
  checkout attempts, provider events and settlement facts, licenses with their activations and renewal
  operations, subscriptions, entitlements, claim codes, notifications and the audit log, as
  \<open>prisma/schema.prisma\<close> and the migrations declare them. A statement that would break a constraint
  of its table throws and changes nothing. Foreign keys are not checked, and columns that the modelled code neither reads nor
  decides are left out.
\<close>

section \<open>Orders\<close>

datatype OrderStatus = ORDER_PENDING | ORDER_PAID | ORDER_CANCELLED | ORDER_REFUNDED | ORDER_PARTIALLY_REFUNDED

datatype FulfillmentMode = ACCOUNT_ENTITLEMENT | CLAIM_CODE

record OrderRow =
  or_id :: ident
  or_number :: string
  or_accountId :: ident
  or_status :: OrderStatus
  or_currency :: string
  or_totalMinor :: int
  or_paidAt :: "time option"
  or_renewalSubscriptionId :: "ident option"
  or_fulfillmentMode :: FulfillmentMode
  or_fulfillmentSnapshot :: jvalue

datatype BillingType = ONE_TIME | SUBSCRIPTION

datatype IntervalUnit = MONTH | YEAR

text \<open>The policy and pricing snapshots of an item, as the code reads them.\<close>

record PolicySnapshot =
  ps_maxSeats :: int
  ps_maxDevicesPerSeat :: int
  ps_validityDays :: "int option"

record OfferPricing =
  op_discountBps :: "int option"
  op_discountedBillingCycles :: "int option"

record PricingSnapshot =
  pr_catalogAmountMinor :: "int option"
  pr_finalAmountMinor :: "int option"
  pr_offer :: "OfferPricing option"

record OrderItemRow =
  oi_id :: ident
  oi_orderId :: ident
  oi_productId :: ident
  oi_priceId :: ident
  oi_quantity :: int
  oi_unitAmountMinor :: int
  oi_billingType :: BillingType
  oi_policySnapshot :: PolicySnapshot
  oi_editionId :: "ident option"
  oi_purchasePlanId :: "ident option"
  oi_planType :: "string option"
  oi_intervalUnit :: "IntervalUnit option"
  oi_intervalCount :: "int option"
  oi_entitlementSnapshot :: "jvalue option"
  oi_pricingSnapshot :: "PricingSnapshot option"
  oi_offerId :: "ident option"
  oi_pricingVersion :: "string option"

datatype InvoiceStatus = INVOICE_DRAFT | INVOICE_FINAL | INVOICE_VOID

record InvoiceRow =
  in_id :: ident
  in_number :: string
  in_orderId :: ident
  in_status :: InvoiceStatus
  in_issuedAt :: "time option"

datatype RedemptionStatus = RD_RESERVED | RD_APPLIED | RD_RELEASED | RD_REFUNDED

record RedemptionRow =
  rd_id :: ident
  rd_offerId :: ident
  rd_accountId :: ident
  rd_orderId :: ident
  rd_status :: RedemptionStatus
  rd_discountBps :: int
  rd_baseMinor :: int
  rd_discountMinor :: int
  rd_finalMinor :: int
  rd_currency :: string
  rd_pricingVersion :: string
  rd_appliedAt :: "time option"

section \<open>Payments\<close>

datatype PaymentStatus = PAYMENT_PENDING | PAYMENT_PAID | PAYMENT_FAILED | PAYMENT_REFUNDED | PAYMENT_PARTIALLY_REFUNDED

record PaymentRow =
  pm_id :: ident
  pm_orderId :: ident
  pm_provider :: string
  pm_externalId :: string
  pm_status :: PaymentStatus
  pm_amountMinor :: int
  pm_currency :: string
  pm_paidAt :: "time option"

record AttemptRow =
  at_id :: ident
  at_orderId :: ident
  at_externalCheckoutId :: "string option"
  at_status :: string

record CheckoutAttemptRow =
  ck_id :: ident
  ck_sourceReference :: string
  ck_commercialReference :: string
  ck_provider :: string
  ck_requestFingerprint :: string
  ck_amountMinor :: int
  ck_currency :: string
  ck_payerSnapshot :: jvalue
  ck_itemsSnapshot :: jvalue
  ck_status :: string
  ck_externalCheckoutId :: "string option"
  ck_checkoutUrl :: "string option"
  ck_failureCode :: "string option"
  ck_createdAt :: time
  ck_updatedAt :: time

datatype EventType = PAYMENT_PAID_EVENT | PAYMENT_FAILED_EVENT | PAYMENT_REFUNDED_EVENT | PAYMENT_REFUND_UPDATED | UNKNOWN_EVENT

datatype RefundStatus = RS_PENDING | RS_SUCCEEDED | RS_FAILED

record ProviderEventRow =
  pe_id :: ident
  pe_provider :: string
  pe_eventId :: string
  pe_payloadHash :: string
  pe_eventFingerprint :: string
  pe_rawType :: "string option"
  pe_type :: EventType
  pe_externalPaymentId :: "string option"
  pe_externalCheckoutId :: "string option"
  pe_reference :: "string option"
  pe_externalRefundId :: "string option"
  pe_refundStatus :: "RefundStatus option"
  pe_amountMinor :: "int option"
  pe_currency :: "string option"
  pe_livemode :: bool
  pe_occurredAt :: time
  pe_receivedAt :: time

record SettlementFactRow =
  sf_id :: ident
  sf_providerEventRecordId :: ident
  sf_checkoutAttemptId :: ident
  sf_provider :: string
  sf_eventId :: string
  sf_externalPaymentId :: string
  sf_externalCheckoutId :: string
  sf_commercialReference :: string
  sf_amountMinor :: int
  sf_currency :: string
  sf_livemode :: bool
  sf_settledAt :: time
  sf_createdAt :: time

record RefundOperationRow =
  ro_id :: ident
  ro_orderId :: ident
  ro_paymentId :: ident
  ro_externalRefundId :: "string option"
  ro_status :: string
  ro_lastErrorCode :: "string option"
  ro_completedAt :: "time option"

text \<open>The normalized event kept with a webhook (\<open>StoredProviderEvent\<close>).\<close>

record StoredEvent =
  st_eventId :: string
  st_rawType :: "string option"
  st_type :: EventType
  st_externalPaymentId :: "string option"
  st_externalCheckoutId :: "string option"
  st_reference :: "string option"
  st_externalRefundId :: "string option"
  st_refundStatus :: "RefundStatus option"
  st_amountMinor :: "int option"
  st_currency :: "string option"
  st_livemode :: bool
  st_occurredAt :: time
  st_eventFingerprint :: "string option"

datatype WebhookStatus = WH_RECEIVED | WH_PROCESSED | WH_FAILED | WH_IGNORED

datatype ResolutionStatus = RES_OPEN | RES_ACKNOWLEDGED | RES_RESOLVED

record WebhookRow =
  wh_id :: ident
  wh_provider :: string
  wh_externalEventId :: string
  wh_rawEventType :: "string option"
  wh_eventType :: EventType
  wh_livemode :: bool
  wh_payloadHash :: string
  wh_normalizedData :: "StoredEvent option"
  wh_status :: WebhookStatus
  wh_error :: "string option"
  wh_lastErrorCode :: "string option"
  wh_mismatchCategory :: "string option"
  wh_processingAttempts :: int
  wh_conflictCount :: int
  wh_receivedAt :: time
  wh_lastAttemptAt :: "time option"
  wh_processedAt :: "time option"
  wh_occurredAt :: "time option"
  wh_orderId :: "ident option"
  wh_paymentAttemptId :: "ident option"
  wh_paymentId :: "ident option"
  wh_providerCheckoutId :: "string option"
  wh_providerPaymentId :: "string option"
  wh_providerRefundId :: "string option"
  wh_resolutionStatus :: ResolutionStatus

section \<open>Rights\<close>

datatype EntitlementStatus = ENTITLEMENT_ACTIVE | ENTITLEMENT_REVOKED

record EntitlementRow =
  en_id :: ident
  en_subjectId :: ident
  en_resourceId :: ident
  en_sourceReference :: string
  en_status :: EntitlementStatus
  en_quantity :: int
  en_scopeSnapshot :: jvalue
  en_grantSnapshot :: jvalue
  en_validFrom :: time
  en_validUntil :: "time option"
  en_createdAt :: time
  en_revokedAt :: "time option"
  en_revocationReference :: "string option"
  en_revocationSnapshot :: "jvalue option"

datatype ClaimCodeStatus = CODE_AVAILABLE | CODE_CLAIMED | CODE_REVOKED | CODE_EXPIRED

record ClaimCodeRow =
  cc_id :: ident
  cc_orderId :: ident
  cc_orderItemId :: ident
  cc_unitIndex :: nat
  cc_purchaserAccountId :: ident
  cc_codeHash :: string
  cc_codeCiphertext :: "string option"
  cc_codeLastFour :: string
  cc_status :: ClaimCodeStatus
  cc_resourceId :: ident
  cc_productId :: ident
  cc_editionId :: "ident option"
  cc_purchasePlanId :: "ident option"
  cc_scopeSnapshot :: jvalue
  cc_grantSnapshot :: jvalue
  cc_validFrom :: time
  cc_validUntil :: "time option"
  cc_expiresAt :: "time option"
  cc_claimedAt :: "time option"
  cc_claimedByUserId :: "ident option"
  cc_claimedToAccountId :: "ident option"
  cc_entitlementId :: "ident option"
  cc_revokedAt :: "time option"

datatype LicenseStatus = LICENSE_ACTIVE | LICENSE_SUSPENDED | LICENSE_EXPIRED | LICENSE_REVOKED

record LicenseRow =
  li_id :: ident
  li_publicId :: ident
  li_keyHash :: string
  li_keyLastFour :: string
  li_keyCiphertext :: "string option"
  li_accountId :: ident
  li_orderId :: ident
  li_orderItemId :: ident
  li_productId :: ident
  li_editionId :: "ident option"
  li_purchasePlanId :: "ident option"
  li_subscriptionId :: "ident option"
  li_status :: LicenseStatus
  li_maxSeats :: int
  li_maxDevicesPerSeat :: int
  li_expiresAt :: "time option"

record ActivationRow =
  da_id :: ident
  da_licenseId :: ident
  da_deviceHash :: string
  da_active :: bool
  da_deactivatedAt :: "time option"

datatype SubscriptionStatus = SUB_PENDING | SUB_ACTIVE | SUB_PAST_DUE | SUB_EXPIRED | SUB_CANCELLED

record SubscriptionRow =
  su_id :: ident
  su_accountId :: ident
  su_orderId :: ident
  su_productId :: ident
  su_editionId :: "ident option"
  su_purchasePlanId :: "ident option"
  su_status :: SubscriptionStatus
  su_seats :: int
  su_currentPeriodStart :: time
  su_currentPeriodEnd :: time
  su_renewalReminderAt :: time
  su_currency :: "string option"
  su_normalRecurringAmountMinor :: "int option"
  su_discountedRecurringAmountMinor :: "int option"
  su_promotionalDiscountBps :: "int option"
  su_discountedCyclesTotal :: "int option"
  su_discountedCyclesConsumed :: int
  su_offerId :: "ident option"
  su_offerSnapshot :: "OfferPricing option"
  su_pricingVersion :: "string option"

record PriceRow =
  pc_id :: ident
  pc_intervalUnit :: "IntervalUnit option"
  pc_intervalCount :: "int option"

record LeaseOperationRow =
  lo_operationId :: string
  lo_licenseId :: ident
  lo_action :: string
  lo_status :: string
  lo_metadata :: jvalue
  lo_completedAt :: "time option"

record LeaseRecordRow =
  lr_id :: ident
  lr_licenseId :: ident
  lr_status :: string
  lr_issuedAt :: time
  lr_installationId :: string
  lr_deviceId :: string
  lr_version :: string

record LicenseEventRow =
  le_licenseId :: ident
  le_type :: string
  le_metadata :: jvalue

section \<open>Messages and records\<close>

record NotificationRow =
  nm_id :: ident
  nm_idempotencyKey :: string
  nm_sourceModule :: string
  nm_sourceEvent :: string
  nm_sourceReference :: "string option"
  nm_audienceKind :: string
  nm_audiencePrincipalId :: "ident option"
  nm_audienceAccountId :: "ident option"
  nm_audienceSegmentKey :: "string option"
  nm_audienceVisitorId :: "string option"
  nm_title :: string
  nm_body :: string
  nm_category :: string
  nm_priority :: string
  nm_trigger :: "string option"
  nm_placementHint :: "string option"
  nm_attributes :: jvalue
  nm_data :: "jvalue option"
  nm_productId :: "ident option"
  nm_createdAt :: time
  nm_expiresAt :: "time option"

datatype ReceiptState = RECEIPT_UNREAD | RECEIPT_READ | RECEIPT_DISMISSED

record ReceiptRow =
  rc_notificationId :: ident
  rc_userId :: ident
  rc_state :: ReceiptState
  rc_readAt :: "time option"
  rc_dismissedAt :: "time option"

record AccountNameRow =
  an_id :: ident
  an_ownerId :: ident
  an_displayName :: string
  an_members :: "ident list"

record CommerceAudit =
  al_accountId :: ident
  al_action :: string
  al_targetType :: string
  al_targetId :: ident
  al_metadata :: jvalue

text \<open>\<open>cd_drawn\<close> counts the identifiers and random bytes drawn so far.\<close>

record CommerceDb =
  cd_orders :: "OrderRow list"
  cd_items :: "OrderItemRow list"
  cd_invoices :: "InvoiceRow list"
  cd_redemptions :: "RedemptionRow list"
  cd_payments :: "PaymentRow list"
  cd_attempts :: "AttemptRow list"
  cd_checkouts :: "CheckoutAttemptRow list"
  cd_events :: "ProviderEventRow list"
  cd_facts :: "SettlementFactRow list"
  cd_refunds :: "RefundOperationRow list"
  cd_webhooks :: "WebhookRow list"
  cd_entitlements :: "EntitlementRow list"
  cd_claims :: "ClaimCodeRow list"
  cd_licenses :: "LicenseRow list"
  cd_activations :: "ActivationRow list"
  cd_subscriptions :: "SubscriptionRow list"
  cd_prices :: "PriceRow list"
  cd_leaseOps :: "LeaseOperationRow list"
  cd_leases :: "LeaseRecordRow list"
  cd_licenseEvents :: "LicenseEventRow list"
  cd_notifications :: "NotificationRow list"
  cd_receipts :: "ReceiptRow list"
  cd_accounts :: "AccountNameRow list"
  cd_audit :: "CommerceAudit list"
  cd_drawn :: nat

section \<open>Constraints\<close>

text \<open>The values of a nullable unique column.\<close>

abbreviation present :: "('r \<Rightarrow> 'v option) \<Rightarrow> 'r list \<Rightarrow> 'v list" where
  "present column rows \<equiv> List.map_filter column rows"

definition orders_ok :: "OrderRow list \<Rightarrow> bool" where
  "orders_ok rows \<longleftrightarrow> distinct (map or_id rows) \<and> distinct (map or_number rows)"

definition invoices_ok :: "InvoiceRow list \<Rightarrow> bool" where
  "invoices_ok rows \<longleftrightarrow> distinct (map in_id rows) \<and> distinct (map in_number rows) \<and> distinct (map in_orderId rows)"

definition redemptions_ok :: "RedemptionRow list \<Rightarrow> bool" where
  "redemptions_ok rows \<longleftrightarrow> distinct (map rd_id rows) \<and> distinct (map rd_orderId rows)"

definition payments_ok :: "PaymentRow list \<Rightarrow> bool" where
  "payments_ok rows \<longleftrightarrow> distinct (map pm_id rows) \<and> distinct (map (\<lambda>r. (pm_provider r, pm_externalId r)) rows)"

definition attempts_ok :: "AttemptRow list \<Rightarrow> bool" where
  "attempts_ok rows \<longleftrightarrow> distinct (map at_id rows) \<and> distinct (present at_externalCheckoutId rows)"

text \<open>\<open>"currency" ~ '^[A-Z]{3}$'\<close>.\<close>

definition currency_code :: "string \<Rightarrow> bool" where
  "currency_code c \<longleftrightarrow> length c = 3 \<and> list_all (char_between CHR ''A'' CHR ''Z'') c"

definition checkout_check :: "CheckoutAttemptRow \<Rightarrow> bool" where
  "checkout_check r \<longleftrightarrow> 0 < ck_amountMinor r \<and> currency_code (ck_currency r) \<and>
     (ck_status r \<noteq> ''PENDING'' \<or> (ck_externalCheckoutId r \<noteq> None \<and> ck_checkoutUrl r \<noteq> None)) \<and>
     (ck_status r \<noteq> ''FAILED'' \<or> ck_failureCode r \<noteq> None)"

definition checkouts_ok :: "CheckoutAttemptRow list \<Rightarrow> bool" where
  "checkouts_ok rows \<longleftrightarrow> distinct (map ck_id rows) \<and> distinct (map ck_sourceReference rows) \<and>
     distinct (present (\<lambda>r. map_option (Pair (ck_provider r)) (ck_externalCheckoutId r)) rows) \<and> list_all checkout_check rows"

definition event_check :: "ProviderEventRow \<Rightarrow> bool" where
  "event_check r \<longleftrightarrow> (case pe_amountMinor r of None \<Rightarrow> True | Some a \<Rightarrow> 0 \<le> a) \<and>
     (case pe_currency r of None \<Rightarrow> True | Some c \<Rightarrow> currency_code c)"

definition events_ok :: "ProviderEventRow list \<Rightarrow> bool" where
  "events_ok rows \<longleftrightarrow> distinct (map pe_id rows) \<and> distinct (map (\<lambda>r. (pe_provider r, pe_eventId r)) rows) \<and> list_all event_check rows"

definition facts_ok :: "SettlementFactRow list \<Rightarrow> bool" where
  "facts_ok rows \<longleftrightarrow> distinct (map sf_id rows) \<and> distinct (map sf_providerEventRecordId rows) \<and>
     distinct (map (\<lambda>r. (sf_provider r, sf_externalPaymentId r)) rows) \<and> list_all (\<lambda>r. 0 < sf_amountMinor r \<and> length (sf_currency r) = 3) rows"

definition refunds_ok :: "RefundOperationRow list \<Rightarrow> bool" where
  "refunds_ok rows \<longleftrightarrow> distinct (map ro_id rows) \<and> distinct (present ro_externalRefundId rows)"

definition webhooks_ok :: "WebhookRow list \<Rightarrow> bool" where
  "webhooks_ok rows \<longleftrightarrow> distinct (map wh_id rows) \<and> distinct (map (\<lambda>r. (wh_provider r, wh_externalEventId r)) rows)"

definition entitlement_check :: "EntitlementRow \<Rightarrow> bool" where
  "entitlement_check r \<longleftrightarrow> 0 < en_quantity r \<and>
     (case en_validUntil r of None \<Rightarrow> True | Some u \<Rightarrow> en_validFrom r < u) \<and>
     (case en_status r of
        ENTITLEMENT_ACTIVE \<Rightarrow> en_revokedAt r = None \<and> en_revocationReference r = None \<and> en_revocationSnapshot r = None
      | ENTITLEMENT_REVOKED \<Rightarrow> en_revokedAt r \<noteq> None \<and> en_revocationReference r \<noteq> None \<and> en_revocationSnapshot r \<noteq> None)"

definition entitlements_ok :: "EntitlementRow list \<Rightarrow> bool" where
  "entitlements_ok rows \<longleftrightarrow> list_all entitlement_check rows \<and> distinct (map en_id rows) \<and> distinct (map en_sourceReference rows)"

definition claim_check :: "ClaimCodeRow \<Rightarrow> bool" where
  "claim_check r \<longleftrightarrow>
     (case cc_validUntil r of None \<Rightarrow> True | Some u \<Rightarrow> cc_validFrom r < u) \<and>
     (cc_status r \<noteq> CODE_CLAIMED \<or>
        (cc_claimedAt r \<noteq> None \<and> cc_claimedByUserId r \<noteq> None \<and> cc_claimedToAccountId r \<noteq> None \<and> cc_entitlementId r \<noteq> None)) \<and>
     (cc_status r \<noteq> CODE_REVOKED \<or> cc_revokedAt r \<noteq> None) \<and>
     (cc_status r = CODE_AVAILABLE \<longleftrightarrow> cc_codeCiphertext r \<noteq> None)"

definition claims_ok :: "ClaimCodeRow list \<Rightarrow> bool" where
  "claims_ok rows \<longleftrightarrow> list_all claim_check rows \<and> distinct (map cc_id rows) \<and> distinct (map cc_codeHash rows) \<and>
     distinct (present cc_entitlementId rows) \<and> distinct (map (\<lambda>r. (cc_orderItemId r, cc_unitIndex r)) rows)"

definition licenses_ok :: "LicenseRow list \<Rightarrow> bool" where
  "licenses_ok rows \<longleftrightarrow> distinct (map li_id rows) \<and> distinct (map li_publicId rows) \<and> distinct (map li_keyHash rows) \<and>
     distinct (map li_orderItemId rows)"

definition activations_ok :: "ActivationRow list \<Rightarrow> bool" where
  "activations_ok rows \<longleftrightarrow> distinct (map da_id rows) \<and> distinct (map (\<lambda>r. (da_licenseId r, da_deviceHash r)) rows)"

definition subscriptions_ok :: "SubscriptionRow list \<Rightarrow> bool" where
  "subscriptions_ok rows \<longleftrightarrow> distinct (map su_id rows)"

definition lease_ops_ok :: "LeaseOperationRow list \<Rightarrow> bool" where
  "lease_ops_ok rows \<longleftrightarrow> distinct (map lo_operationId rows)"

definition notifications_ok :: "NotificationRow list \<Rightarrow> bool" where
  "notifications_ok rows \<longleftrightarrow> distinct (map nm_id rows) \<and> distinct (map nm_idempotencyKey rows)"

definition receipts_ok :: "ReceiptRow list \<Rightarrow> bool" where
  "receipts_ok rows \<longleftrightarrow> distinct (map (\<lambda>r. (rc_notificationId r, rc_userId r)) rows)"

section \<open>Statements\<close>

definition VIOLATION :: error where
  "VIOLATION = ''violates constraint''"

definition RECORD_NOT_FOUND :: error where
  "RECORD_NOT_FOUND = ''record not found''"

definition write_table :: "(CommerceDb \<Rightarrow> 'r list) \<Rightarrow> ('r list \<Rightarrow> CommerceDb \<Rightarrow> CommerceDb) \<Rightarrow> ('r list \<Rightarrow> bool) \<Rightarrow>
    ('r list \<Rightarrow> 'r list) \<Rightarrow> (CommerceDb, unit) eff" where
  "write_table get put ok f s = (if ok (f (get s)) then (Inr (), put (f (get s)) s) else (Inl VIOLATION, s))"

abbreviation write_orders where "write_orders \<equiv> write_table cd_orders (\<lambda>rows s. s\<lparr>cd_orders := rows\<rparr>) orders_ok"
abbreviation write_invoices where "write_invoices \<equiv> write_table cd_invoices (\<lambda>rows s. s\<lparr>cd_invoices := rows\<rparr>) invoices_ok"
abbreviation write_redemptions where "write_redemptions \<equiv> write_table cd_redemptions (\<lambda>rows s. s\<lparr>cd_redemptions := rows\<rparr>) redemptions_ok"
abbreviation write_payments where "write_payments \<equiv> write_table cd_payments (\<lambda>rows s. s\<lparr>cd_payments := rows\<rparr>) payments_ok"
abbreviation write_attempts where "write_attempts \<equiv> write_table cd_attempts (\<lambda>rows s. s\<lparr>cd_attempts := rows\<rparr>) attempts_ok"
abbreviation write_checkouts where "write_checkouts \<equiv> write_table cd_checkouts (\<lambda>rows s. s\<lparr>cd_checkouts := rows\<rparr>) checkouts_ok"
abbreviation write_events where "write_events \<equiv> write_table cd_events (\<lambda>rows s. s\<lparr>cd_events := rows\<rparr>) events_ok"
abbreviation write_facts where "write_facts \<equiv> write_table cd_facts (\<lambda>rows s. s\<lparr>cd_facts := rows\<rparr>) facts_ok"
abbreviation write_refunds where "write_refunds \<equiv> write_table cd_refunds (\<lambda>rows s. s\<lparr>cd_refunds := rows\<rparr>) refunds_ok"
abbreviation write_webhooks where "write_webhooks \<equiv> write_table cd_webhooks (\<lambda>rows s. s\<lparr>cd_webhooks := rows\<rparr>) webhooks_ok"
abbreviation write_entitlements where "write_entitlements \<equiv> write_table cd_entitlements (\<lambda>rows s. s\<lparr>cd_entitlements := rows\<rparr>) entitlements_ok"
abbreviation write_claims where "write_claims \<equiv> write_table cd_claims (\<lambda>rows s. s\<lparr>cd_claims := rows\<rparr>) claims_ok"
abbreviation write_licenses where "write_licenses \<equiv> write_table cd_licenses (\<lambda>rows s. s\<lparr>cd_licenses := rows\<rparr>) licenses_ok"
abbreviation write_activations where "write_activations \<equiv> write_table cd_activations (\<lambda>rows s. s\<lparr>cd_activations := rows\<rparr>) activations_ok"
abbreviation write_subscriptions where "write_subscriptions \<equiv> write_table cd_subscriptions (\<lambda>rows s. s\<lparr>cd_subscriptions := rows\<rparr>) subscriptions_ok"
abbreviation write_lease_ops where "write_lease_ops \<equiv> write_table cd_leaseOps (\<lambda>rows s. s\<lparr>cd_leaseOps := rows\<rparr>) lease_ops_ok"
abbreviation write_notifications where "write_notifications \<equiv> write_table cd_notifications (\<lambda>rows s. s\<lparr>cd_notifications := rows\<rparr>) notifications_ok"
abbreviation write_receipts where "write_receipts \<equiv> write_table cd_receipts (\<lambda>rows s. s\<lparr>cd_receipts := rows\<rparr>) receipts_ok"

definition license_event :: "LicenseEventRow \<Rightarrow> (CommerceDb, unit) eff" where
  "license_event e = modify (\<lambda>s. s\<lparr>cd_licenseEvents := cd_licenseEvents s @ [e]\<rparr>)"

definition commerce_audit :: "CommerceAudit \<Rightarrow> (CommerceDb, unit) eff" where
  "commerce_audit e = modify (\<lambda>s. s\<lparr>cd_audit := cd_audit s @ [e]\<rparr>)"

text \<open>\<open>findUniqueOrThrow\<close>.\<close>

definition find_or_throw :: "(CommerceDb \<Rightarrow> 'r option) \<Rightarrow> (CommerceDb, 'r) eff" where
  "find_or_throw query = bnd (gets query) (\<lambda>found. case found of None \<Rightarrow> throw RECORD_NOT_FOUND | Some r \<Rightarrow> ret r)"

text \<open>The number of the next random draw.\<close>

definition draw :: "(CommerceDb, nat) eff" where
  "draw = bnd (gets cd_drawn) (\<lambda>n. bnd (modify (\<lambda>s. s\<lparr>cd_drawn := Suc n\<rparr>)) (\<lambda>_. ret n))"

text \<open>\<open>for (const x of xs) await f(x)\<close>.\<close>

definition for_each :: "('x \<Rightarrow> ('s, unit) eff) \<Rightarrow> 'x list \<Rightarrow> ('s, unit) eff" where
  "for_each f xs = bnd (collect f xs) (\<lambda>_. ret ())"

lemma write_table_Inr: "write_table get put ok f s = (Inr u, t) \<longleftrightarrow> ok (f (get s)) \<and> t = put (f (get s)) s"
  by (auto simp: write_table_def)

lemma find_or_throw_Inr: "find_or_throw query s = (Inr r, t) \<longleftrightarrow> query s = Some r \<and> t = s"
  by (auto simp: find_or_throw_def effect_Inr)

lemma draw_Inr: "draw s = (Inr n, t) \<longleftrightarrow> n = cd_drawn s \<and> t = s\<lparr>cd_drawn := Suc n\<rparr>"
  by (auto simp: draw_def effect_Inr)

lemma license_event_Inr: "license_event e s = (Inr u, t) \<longleftrightarrow> t = s\<lparr>cd_licenseEvents := cd_licenseEvents s @ [e]\<rparr>"
  by (simp add: license_event_def modify_Inr)

lemma commerce_audit_Inr: "commerce_audit e s = (Inr u, t) \<longleftrightarrow> t = s\<lparr>cd_audit := cd_audit s @ [e]\<rparr>"
  by (simp add: commerce_audit_def modify_Inr)

lemmas commerce_Inr = effect_Inr write_table_Inr find_or_throw_Inr draw_Inr license_event_Inr commerce_audit_Inr

text \<open>A statement keeps what its put keeps.\<close>

lemma keeps_write_table:
  "(\<And>s. P s \<Longrightarrow> ok (f (get s)) \<Longrightarrow> P (put (f (get s)) s)) \<Longrightarrow> keeps P (write_table get put ok f)"
  by (simp add: keeps_def write_table_def)

lemma keeps_find_or_throw [keeps_intro]: "keeps P (find_or_throw query)"
  unfolding find_or_throw_def by (intro keeps_intro)

lemma keeps_draw: "(\<And>s n. P s \<Longrightarrow> P (s\<lparr>cd_drawn := n\<rparr>)) \<Longrightarrow> keeps P draw"
  unfolding draw_def by (intro keeps_intro)

lemma keeps_for_each [keeps_intro]: "(\<And>x. keeps P (f x)) \<Longrightarrow> keeps P (for_each f xs)"
  unfolding for_each_def by (intro keeps_intro)

section \<open>What an operation leaves alone\<close>

text \<open>\<open>frame part m\<close>: when \<open>m\<close> returns, \<open>part\<close> of the state is as it was.\<close>

definition frame :: "('s \<Rightarrow> 'v) \<Rightarrow> ('s, 'a) eff \<Rightarrow> bool" where
  "frame part m \<longleftrightarrow> (\<forall>s a t. m s = (Inr a, t) \<longrightarrow> part t = part s)"

named_theorems frame_intro \<open>operations that leave a part of the state alone\<close>

lemma frameD: "frame part m \<Longrightarrow> m s = (Inr a, t) \<Longrightarrow> part t = part s"
  by (simp add: frame_def)

lemma frame_bnd [frame_intro]: "frame part m \<Longrightarrow> (\<And>a. frame part (k a)) \<Longrightarrow> frame part (bnd m k)"
  unfolding frame_def bnd_Inr by metis

lemma frame_basic [frame_intro]: "frame part (ret x)" "frame part (throw e)" "frame part (gets g)" "frame part (from_result r)"
  by (auto simp: frame_def effect_Inr)

lemma frame_modify: "(\<And>s. part (f s) = part s) \<Longrightarrow> frame part (modify f)"
  by (auto simp: frame_def effect_Inr)

lemma frame_if [frame_intro]: "frame part m \<Longrightarrow> frame part n \<Longrightarrow> frame part (if b then m else n)"
  by simp

lemma frame_let [frame_intro]: "frame part (k x) \<Longrightarrow> frame part (let y = x in k y)"
  by simp

lemma frame_option [frame_intro]: "frame part m \<Longrightarrow> (\<And>a. frame part (k a)) \<Longrightarrow> frame part (case x of None \<Rightarrow> m | Some a \<Rightarrow> k a)"
  by (cases x) simp_all

lemma frame_sum [frame_intro]: "(\<And>e. frame part (h e)) \<Longrightarrow> (\<And>a. frame part (k a)) \<Longrightarrow> frame part (case x of Inl e \<Rightarrow> h e | Inr a \<Rightarrow> k a)"
  by (cases x) simp_all

lemma frame_prod [frame_intro]: "(\<And>a b. frame part (k a b)) \<Longrightarrow> frame part (case x of (a, b) \<Rightarrow> k a b)"
  by (cases x) simp

lemma frame_collect [frame_intro]: "(\<And>x. frame part (f x)) \<Longrightarrow> frame part (collect f xs)"
  by (induction xs) (auto intro!: frame_intro)

lemma frame_for_each [frame_intro]: "(\<And>x. frame part (f x)) \<Longrightarrow> frame part (for_each f xs)"
  unfolding for_each_def by (intro frame_intro)

lemma frame_write_table: "(\<And>rows s. part (put rows s) = part s) \<Longrightarrow> frame part (write_table get put ok f)"
  by (auto simp: frame_def write_table_Inr)

lemma frame_find_or_throw [frame_intro]: "frame part (find_or_throw query)"
  by (auto simp: frame_def find_or_throw_Inr)

lemma frame_draw: "(\<And>s n. part (s\<lparr>cd_drawn := n\<rparr>) = part s) \<Longrightarrow> frame part draw"
  by (auto simp: frame_def draw_Inr)

end
