(* ===== verification/Agent_Material.thy ===== *)
theory Agent_Material
  imports Js_Runtime
begin

text \<open>
  The secret material of agent sessions: \<open>apps/web/agent-sessions/material.ts\<close>. Bytes are characters.
  HMAC, SHA-256 and AES-GCM over the JSON text are parameters; base64url, the user code, the peppered hashes
  of the four kinds of secret and the format of the sealed token bundle are definitions. The lemmas show the
  round trip of the bundle and the separation of the hash domains.
\<close>

section \<open>base64url\<close>

definition base64_alphabet :: string where
  "base64_alphabet = ''ABCDEFGHIJKLMNOPQRSTUVWXYZabcdefghijklmnopqrstuvwxyz0123456789-_''"

definition sextet :: "nat \<Rightarrow> char" where
  "sextet n = base64_alphabet ! n"

fun base64url_bytes :: "nat list \<Rightarrow> string" where
  "base64url_bytes (a # b # c # bs) =
     sextet (a div 4) # sextet (a mod 4 * 16 + b div 16) # sextet (b mod 16 * 4 + c div 64) # sextet (c mod 64) # base64url_bytes bs"
| "base64url_bytes [a, b] = [sextet (a div 4), sextet (a mod 4 * 16 + b div 16), sextet (b mod 16 * 4)]"
| "base64url_bytes [a] = [sextet (a div 4), sextet (a mod 4 * 16)]"
| "base64url_bytes [] = []"

text \<open>\<open>bytes.toString("base64url")\<close>.\<close>

definition base64url :: "string \<Rightarrow> string" where
  "base64url s = base64url_bytes (map of_char s)"

definition sextet_value :: "char \<Rightarrow> nat option" where
  "sextet_value c =
     (if char_between CHR ''A'' CHR ''Z'' c then Some (of_char c - 65)
      else if char_between CHR ''a'' CHR ''z'' c then Some (of_char c - 71)
      else if char_between CHR ''0'' CHR ''9'' c then Some (of_char c + 4)
      else if c \<in> {CHR ''-'', CHR ''+''} then Some 62
      else if c \<in> {CHR ''_'', CHR ''/''} then Some 63
      else None)"

fun sextets_bytes :: "nat list \<Rightarrow> nat list" where
  "sextets_bytes (p # q # r # s # ss) =
     (p * 4 + q div 16) # (q mod 16 * 16 + r div 4) # (r mod 4 * 64 + s) # sextets_bytes ss"
| "sextets_bytes [p, q, r] = [p * 4 + q div 16, q mod 16 * 16 + r div 4]"
| "sextets_bytes [p, q] = [p * 4 + q div 16]"
| "sextets_bytes _ = []"

text \<open>\<open>Buffer.from(s, "base64url")\<close>: reading stops at the padding, other characters are skipped.\<close>

definition from_base64url :: "string \<Rightarrow> string" where
  "from_base64url s = map char_of (sextets_bytes (List.map_filter sextet_value (takeWhile (\<lambda>c. c \<noteq> CHR ''='') s)))"

text \<open>\<open>value.split(".")\<close>.\<close>

fun split_dots :: "string \<Rightarrow> string list" where
  "split_dots [] = [[]]"
| "split_dots (c # cs) =
     (if c = CHR ''.'' then [] # split_dots cs
      else case split_dots cs of [] \<Rightarrow> [[c]] | w # ws \<Rightarrow> (c # w) # ws)"

section \<open>Material\<close>

text \<open>
  The cryptographic functions: the hexadecimal HMAC of key and message, SHA-256, and AES-256-GCM sealing of
  a JSON object under key and nonce as ciphertext and tag; opening gives the object, or nothing when the tag
  does not match or the text is no JSON object.
\<close>

record CryptoRuntime =
  cr_hmac :: "string \<Rightarrow> string \<Rightarrow> string"
  cr_sha256 :: "string \<Rightarrow> string"
  cr_seal :: "string \<Rightarrow> string \<Rightarrow> json_object \<Rightarrow> string \<times> string"
  cr_open :: "string \<Rightarrow> string \<Rightarrow> string \<Rightarrow> string \<Rightarrow> json_object option"

datatype AccountType = INDIVIDUAL | ORGANIZATION

record AgentAccountTokenBundle =
  bu_sessionId :: ident
  bu_accessToken :: string
  bu_refreshToken :: string
  bu_accessExpiresAt :: string
  bu_refreshExpiresAt :: string
  bu_userId :: ident
  bu_email :: string
  bu_accountId :: ident
  bu_accountType :: AccountType
  bu_accountDisplayName :: string

definition USER_CODE_ALPHABET :: string where
  "USER_CODE_ALPHABET = ''ABCDEFGHJKLMNPQRSTUVWXYZ23456789''"

definition TOKEN_BUNDLE_VERSION :: string where
  "TOKEN_BUNDLE_VERSION = ''v1''"

definition requiredSecret :: "string \<Rightarrow> error \<Rightarrow> error + string" where
  "requiredSecret secret code = (if length (js_trim secret) < 32 then Inl code else Inr (js_trim secret))"

definition hmac :: "CryptoRuntime \<Rightarrow> string \<Rightarrow> string \<Rightarrow> string \<Rightarrow> error + string" where
  "hmac rt value pepper domain =
     map_sum id (\<lambda>key. cr_hmac rt key (domain @ CHR 0x00 # value)) (requiredSecret pepper ''AGENT_ACCOUNT_SESSION_PEPPER_REQUIRED'')"

text \<open>The generators are given the random bytes they ask for: 32, 48 and 8.\<close>

definition generateAgentDeviceCode :: "string \<Rightarrow> string" where
  "generateAgentDeviceCode bytes = base64url bytes"

definition generateAgentSessionToken :: "string \<Rightarrow> string" where
  "generateAgentSessionToken bytes = base64url bytes"

definition generateAgentUserCode :: "string \<Rightarrow> string" where
  "generateAgentUserCode bytes =
     (let body = map (\<lambda>b. USER_CODE_ALPHABET ! (of_char b mod length USER_CODE_ALPHABET)) bytes
      in ''BKE-'' @ take 4 body @ ''-'' @ drop 4 body)"

definition normalizeAgentUserCode :: "string \<Rightarrow> string" where
  "normalizeAgentUserCode value = toUpperCase (js_trim value)"

definition hashAgentDeviceCode :: "CryptoRuntime \<Rightarrow> string \<Rightarrow> string \<Rightarrow> error + string" where
  "hashAgentDeviceCode rt value pepper = hmac rt (js_trim value) pepper ''bke-agent-device-code-v1''"

definition hashAgentUserCode :: "CryptoRuntime \<Rightarrow> string \<Rightarrow> string \<Rightarrow> error + string" where
  "hashAgentUserCode rt value pepper = hmac rt (normalizeAgentUserCode value) pepper ''bke-agent-user-code-v1''"

definition hashAgentAccessToken :: "CryptoRuntime \<Rightarrow> string \<Rightarrow> string \<Rightarrow> error + string" where
  "hashAgentAccessToken rt value pepper = hmac rt (js_trim value) pepper ''bke-agent-access-token-v1''"

definition hashAgentRefreshToken :: "CryptoRuntime \<Rightarrow> string \<Rightarrow> string \<Rightarrow> error + string" where
  "hashAgentRefreshToken rt value pepper = hmac rt (js_trim value) pepper ''bke-agent-refresh-token-v1''"

definition bundleKey :: "CryptoRuntime \<Rightarrow> string \<Rightarrow> error + string" where
  "bundleKey rt secret =
     map_sum id (\<lambda>key. cr_sha256 rt (''bke-agent-account-session-handoff-v1'' @ CHR 0x00 # key))
       (requiredSecret secret ''AGENT_ACCOUNT_SESSION_ENCRYPTION_KEY_REQUIRED'')"

definition account_type_name :: "AccountType \<Rightarrow> string" where
  "account_type_name t = (case t of INDIVIDUAL \<Rightarrow> ''INDIVIDUAL'' | ORGANIZATION \<Rightarrow> ''ORGANIZATION'')"

definition bundle_json :: "AgentAccountTokenBundle \<Rightarrow> json_object" where
  "bundle_json b =
     [(''sessionId'', JString (bu_sessionId b)), (''accessToken'', JString (bu_accessToken b)),
      (''refreshToken'', JString (bu_refreshToken b)), (''accessExpiresAt'', JString (bu_accessExpiresAt b)),
      (''refreshExpiresAt'', JString (bu_refreshExpiresAt b)), (''userId'', JString (bu_userId b)),
      (''email'', JString (bu_email b)), (''accountId'', JString (bu_accountId b)),
      (''accountType'', JString (account_type_name (bu_accountType b))),
      (''accountDisplayName'', JString (bu_accountDisplayName b))]"

definition encryptAgentTokenBundle :: "CryptoRuntime \<Rightarrow> string \<Rightarrow> AgentAccountTokenBundle \<Rightarrow> string \<Rightarrow> error + string" where
  "encryptAgentTokenBundle rt iv bundle secret =
     map_sum id (\<lambda>key. case cr_seal rt key iv (bundle_json bundle) of (ciphertext, tag) \<Rightarrow>
         TOKEN_BUNDLE_VERSION @ ''.'' @ base64url iv @ ''.'' @ base64url tag @ ''.'' @ base64url ciphertext)
       (bundleKey rt secret)"

definition string_member :: "json_object \<Rightarrow> string \<Rightarrow> string option" where
  "string_member object key = (case js_map_get object key of Some (JString s) \<Rightarrow> Some s | _ \<Rightarrow> None)"

definition account_type_of :: "string \<Rightarrow> AccountType option" where
  "account_type_of s = (if s = ''INDIVIDUAL'' then Some INDIVIDUAL else if s = ''ORGANIZATION'' then Some ORGANIZATION else None)"

definition parse_bundle :: "json_object \<Rightarrow> AgentAccountTokenBundle option" where
  "parse_bundle parsed =
     (case (map (string_member parsed) [''sessionId'', ''accessToken'', ''refreshToken'', ''accessExpiresAt'', ''refreshExpiresAt'',
              ''userId'', ''email'', ''accountId'', ''accountDisplayName''],
            Option.bind (string_member parsed ''accountType'') account_type_of) of
        ([Some s, Some a, Some r, Some ae, Some re, Some u, Some e, Some i, Some n], Some t) \<Rightarrow>
          Some \<lparr>bu_sessionId = s, bu_accessToken = a, bu_refreshToken = r, bu_accessExpiresAt = ae, bu_refreshExpiresAt = re,
                bu_userId = u, bu_email = e, bu_accountId = i, bu_accountType = t, bu_accountDisplayName = n\<rparr>
      | _ \<Rightarrow> None)"

definition INVALID_BUNDLE :: error where
  "INVALID_BUNDLE = ''INVALID_AGENT_TOKEN_BUNDLE''"

definition decryptAgentTokenBundle :: "CryptoRuntime \<Rightarrow> string \<Rightarrow> string \<Rightarrow> error + AgentAccountTokenBundle" where
  "decryptAgentTokenBundle rt value secret =
     (case split_dots value of
        [version, ivText, tagText, ciphertextText] \<Rightarrow>
          (if version \<noteq> TOKEN_BUNDLE_VERSION \<or> ivText = [] \<or> tagText = [] \<or> ciphertextText = [] then Inl INVALID_BUNDLE
           else
             (let iv = from_base64url ivText; tag = from_base64url tagText; ciphertext = from_base64url ciphertextText in
              if length iv \<noteq> 12 \<or> length tag \<noteq> 16 \<or> length ciphertext = 0 then Inl INVALID_BUNDLE
              else
                (case bundleKey rt secret of
                   Inl e \<Rightarrow> Inl e
                 | Inr key \<Rightarrow>
                     (case cr_open rt key iv tag ciphertext of
                        None \<Rightarrow> Inl ''Unsupported state or unable to authenticate data''
                      | Some parsed \<Rightarrow> (case parse_bundle parsed of None \<Rightarrow> Inl INVALID_BUNDLE | Some b \<Rightarrow> Inr b)))))
      | _ \<Rightarrow> Inl INVALID_BUNDLE)"

section \<open>Round trips\<close>

lemma sextet_ok: "n < 64 \<Longrightarrow> sextet_value (sextet n) = Some n \<and> sextet n \<noteq> CHR ''.'' \<and> sextet n \<noteq> CHR ''=''"
proof -
  have "list_all (\<lambda>n. sextet_value (sextet n) = Some n \<and> sextet n \<noteq> CHR ''.'' \<and> sextet n \<noteq> CHR ''='') [0..<64]"
    by code_simp
  then show "n < 64 \<Longrightarrow> ?thesis" by (simp add: list_all_iff)
qed

lemma digits_div: "y < k \<Longrightarrow> (x * k + y) div k = x" for x y k :: nat
  by simp

lemma digits_mod: "y < k \<Longrightarrow> (x * k + y) mod k = y" for x y k :: nat
  by simp

lemma part_bounds:
  "b < 256 \<Longrightarrow> b div 4 < 64" "b < 256 \<Longrightarrow> b div 16 < 16" "b < 256 \<Longrightarrow> b div 64 < 4" for b :: nat
  by (simp_all add: less_mult_imp_div_less)

fun byte_sextets :: "nat list \<Rightarrow> nat list" where
  "byte_sextets (a # b # c # bs) = (a div 4) # (a mod 4 * 16 + b div 16) # (b mod 16 * 4 + c div 64) # (c mod 64) # byte_sextets bs"
| "byte_sextets [a, b] = [a div 4, a mod 4 * 16 + b div 16, b mod 16 * 4]"
| "byte_sextets [a] = [a div 4, a mod 4 * 16]"
| "byte_sextets [] = []"

lemma base64url_sextets: "base64url_bytes bs = map sextet (byte_sextets bs)"
  by (induction bs rule: byte_sextets.induct) simp_all

lemma sum_below: "x < k \<Longrightarrow> y < m \<Longrightarrow> x * m + y < k * m" for x y k m :: nat
  by (metis add_less_cancel_left mult_Suc Suc_leI add.commute le_trans less_le_trans mult_le_mono1)

lemma middle_sextet: "b < 256 \<Longrightarrow> a mod 4 * 16 + b div 16 < 64" "c < 256 \<Longrightarrow> b mod 16 * 4 + c div 64 < 64" for a b c :: nat
  using sum_below [of "a mod 4" 4 "b div 16" 16] sum_below [of "b mod 16" 16 "c div 64" 4] part_bounds(2) [of b] part_bounds(3) [of c]
  by simp_all

lemma last_sextet: "a mod 4 * 16 < 64" "b mod 16 * 4 < 64" "c mod 64 < 64" for a b c :: nat
  using sum_below [of "a mod 4" 4 0 16] sum_below [of "b mod 16" 16 0 4] by simp_all

lemma byte_sextets_bound: "list_all (\<lambda>b. b < 256) bs \<Longrightarrow> list_all (\<lambda>n. n < 64) (byte_sextets bs)"
  by (induction bs rule: byte_sextets.induct) (simp_all only: byte_sextets.simps list.pred_inject part_bounds middle_sextet last_sextet simp_thms)

lemma sextets_byte_sextets: "list_all (\<lambda>b. b < 256) bs \<Longrightarrow> sextets_bytes (byte_sextets bs) = bs"
proof (induction bs rule: byte_sextets.induct)
  case (1 a b c bs)
  then have b: "b < 256" and c: "c < 256" by simp_all
  have "sextets_bytes (byte_sextets bs) = bs" using 1 by simp
  moreover note digits_div [OF part_bounds(2) [OF b], of "a mod 4"] digits_mod [OF part_bounds(2) [OF b], of "a mod 4"]
    digits_div [OF part_bounds(3) [OF c], of "b mod 16"] digits_mod [OF part_bounds(3) [OF c], of "b mod 16"]
  ultimately show ?case
    by (simp only: byte_sextets.simps sextets_bytes.simps div_mult_mod_eq list.inject simp_thms)
next
  case (2 a b)
  then have b: "b < 256" by simp
  have "b mod 16 * 4 div 4 = b mod 16" by simp
  then show ?case using digits_div [OF part_bounds(2) [OF b], of "a mod 4"] digits_mod [OF part_bounds(2) [OF b], of "a mod 4"]
    by (simp only: byte_sextets.simps sextets_bytes.simps div_mult_mod_eq list.inject simp_thms)
next
  case (3 a)
  have "a mod 4 * 16 div 16 = a mod 4" by simp
  then show ?case by (simp only: byte_sextets.simps sextets_bytes.simps div_mult_mod_eq list.inject simp_thms)
qed simp

lemma from_base64url [simp]: "from_base64url (base64url s) = s"
proof -
  let ?ns = "byte_sextets (map of_char s)"
  have bytes: "list_all (\<lambda>b. b < (256 :: nat)) (map of_char s)" by (auto simp: list_all_iff nat_of_char_less_256)
  note bound = byte_sextets_bound [OF this]
  have "takeWhile (\<lambda>c. c \<noteq> CHR ''='') (map sextet ?ns) = map sextet ?ns"
    using bound sextet_ok by (auto simp: takeWhile_eq_all_conv list_all_iff)
  moreover have "List.map_filter sextet_value (map sextet ns) = ns" if "list_all (\<lambda>n. n < 64) ns" for ns
    using that sextet_ok by (induction ns) (auto simp: List.map_filter_simps)
  ultimately have "List.map_filter sextet_value (takeWhile (\<lambda>c. c \<noteq> CHR ''='') (base64url s)) = ?ns"
    using bound by (simp only: base64url_def base64url_sextets)
  then show ?thesis unfolding from_base64url_def
    by (simp add: sextets_byte_sextets [OF bytes] comp_def)
qed

lemma base64url_no_dot: "CHR ''.'' \<notin> set (base64url s)"
proof -
  have "list_all (\<lambda>n. n < 64) (byte_sextets (map of_char s))"
    by (rule byte_sextets_bound) (auto simp: list_all_iff nat_of_char_less_256)
  then show ?thesis using sextet_ok by (force simp: base64url_def base64url_sextets list_all_iff)
qed

lemma base64url_Nil [simp]: "base64url s = [] \<longleftrightarrow> s = []"
  by (cases s rule: list.exhaust; cases "tl s" rule: list.exhaust; cases "tl (tl s)") (auto simp: base64url_def)

lemma split_dots_last: "CHR ''.'' \<notin> set w \<Longrightarrow> split_dots w = [w]"
  by (induction w) auto

lemma split_dots_first: "CHR ''.'' \<notin> set w \<Longrightarrow> split_dots (w @ CHR ''.'' # s) = w # split_dots s"
  by (induction w) auto

lemma parse_bundle_json [simp]: "parse_bundle (bundle_json b) = Some b"
proof -
  show ?thesis
    by (cases "bu_accountType b") (simp_all add: parse_bundle_def string_member_def js_map_get_def bundle_json_def account_type_name_def account_type_of_def)
qed

lemma hmac_domain_inj:
  assumes "\<And>x y. cr_hmac rt key x = cr_hmac rt key y \<Longrightarrow> x = y"
    and "cr_hmac rt key (d @ CHR 0x00 # v) = cr_hmac rt key (d' @ CHR 0x00 # v')"
    and "CHR 0x00 \<notin> set d" and "CHR 0x00 \<notin> set d'"
  shows "d = d' \<and> v = v'"
proof -
  have e: "d @ CHR 0x00 # v = d' @ CHR 0x00 # v'" by (rule assms(1) [OF assms(2)])
  have "takeWhile (\<lambda>c. c \<noteq> CHR 0x00) (d @ CHR 0x00 # v) = d" if "CHR 0x00 \<notin> set d" for d v
    using that by (induction d) auto
  then have "d = d'" using e assms(3,4) by metis
  then show ?thesis using e by simp
qed

lemma hmac_Inr: "hmac rt v pepper d = Inr h \<longleftrightarrow> 32 \<le> length (js_trim pepper) \<and> h = cr_hmac rt (js_trim pepper) (d @ CHR 0x00 # v)"
  by (auto simp: hmac_def requiredSecret_def)

lemma sealed_bundle_opens:
  assumes "\<And>key c t. cr_seal rt key iv (bundle_json bundle) = (c, t) \<Longrightarrow>
      cr_open rt key iv t c = Some (bundle_json bundle) \<and> length t = 16 \<and> c \<noteq> []"
    and "length iv = 12" and "encryptAgentTokenBundle rt iv bundle secret = Inr sealed"
  shows "decryptAgentTokenBundle rt sealed secret = Inr bundle"
proof -
  obtain key where key: "bundleKey rt secret = Inr key" using assms(3) by (cases "bundleKey rt secret") (auto simp: encryptAgentTokenBundle_def)
  obtain c t where seal: "cr_seal rt key iv (bundle_json bundle) = (c, t)" by fastforce
  note laws = assms(1) [OF seal]
  have sealed: "sealed = ''v1'' @ CHR ''.'' # base64url iv @ CHR ''.'' # base64url t @ CHR ''.'' # base64url c"
    using assms(3) key seal by (simp add: encryptAgentTokenBundle_def TOKEN_BUNDLE_VERSION_def)
  have "split_dots sealed = [''v1'', base64url iv, base64url t, base64url c]"
    unfolding sealed by (simp add: split_dots_first [of "''v1''", simplified] split_dots_first base64url_no_dot split_dots_last)
  then show ?thesis
    using laws key assms(2) by (auto simp: decryptAgentTokenBundle_def TOKEN_BUNDLE_VERSION_def Let_def)
qed

text \<open>C36 Sealing and opening a token bundle round trips: for a cipher that opens what it sealed of the bundle, with a
  16-byte tag and a non-empty ciphertext, decrypting an encrypted bundle with the same secret and a 12-byte nonce gives the
  bundle back, whatever its contents.\<close>

theorem bundle_roundtrip:
  assumes "\<And>key c t. cr_seal rt key iv (bundle_json bundle) = (c, t) \<Longrightarrow>
      cr_open rt key iv t c = Some (bundle_json bundle) \<and> length t = 16 \<and> c \<noteq> []"
    and "length iv = 12" and "encryptAgentTokenBundle rt iv bundle secret = Inr sealed"
  shows "decryptAgentTokenBundle rt sealed secret = Inr bundle"
  by (rule sealed_bundle_opens [OF assms])

text \<open>Secrets of different kinds never share a hash: when the keyed hash does not collide, equal stored hashes of
  an access token, a refresh token, a device code and a user code come from the same kind of secret, so no
  token of one kind is found in the column of another.\<close>

theorem hash_domains_disjoint:
  assumes "\<And>key x y. cr_hmac rt key x = cr_hmac rt key y \<Longrightarrow> x = y"
  shows "(\<forall>h. hashAgentAccessToken rt a pepper = Inr h \<longrightarrow> hashAgentRefreshToken rt b pepper \<noteq> Inr h \<and>
      hashAgentDeviceCode rt b pepper \<noteq> Inr h \<and> hashAgentUserCode rt b pepper \<noteq> Inr h) \<and>
    (\<forall>h. hashAgentRefreshToken rt a pepper = Inr h \<longrightarrow> hashAgentDeviceCode rt b pepper \<noteq> Inr h \<and> hashAgentUserCode rt b pepper \<noteq> Inr h) \<and>
    (\<forall>h. hashAgentDeviceCode rt a pepper = Inr h \<longrightarrow> hashAgentUserCode rt b pepper \<noteq> Inr h)"
proof -
  have differ: "hmac rt v pepper d = Inr h \<Longrightarrow> hmac rt v' pepper d' \<noteq> Inr h"
    if "CHR 0x00 \<notin> set d" "CHR 0x00 \<notin> set d'" "d \<noteq> d'" for d d' v v' h
    using hmac_domain_inj [OF assms, where d = d and d' = d' and v = v and v' = v'] that by (auto simp: hmac_Inr)
  show ?thesis
    unfolding hashAgentAccessToken_def hashAgentRefreshToken_def hashAgentDeviceCode_def hashAgentUserCode_def
    by (intro conjI allI impI; erule differ [rotated 3]; simp)
qed

section \<open>A small runtime\<close>

text \<open>
  A keyed hash that writes key and message out, and a cipher that writes the members of an object of strings
  out, each character marked, with the key and the nonce before them.
\<close>

definition mark :: "string \<Rightarrow> string" where
  "mark s = concat (map (\<lambda>c. [CHR ''x'', c]) s) @ ''.''"

fun unmark :: "string \<Rightarrow> string \<times> string" where
  "unmark (x # c # s) = (if x = CHR ''x'' then (case unmark s of (w, rest) \<Rightarrow> (c # w, rest)) else ([], c # s))"
| "unmark s = ([], drop 1 s)"

definition mark_object :: "json_object \<Rightarrow> string" where
  "mark_object v = concat (map (\<lambda>(k, j). mark k @ mark (case j of JString s \<Rightarrow> s | _ \<Rightarrow> [])) v)"

fun unmark_object :: "nat \<Rightarrow> string \<Rightarrow> json_object" where
  "unmark_object 0 s = []"
| "unmark_object (Suc n) s =
     (if s = [] then [] else case unmark s of (k, s') \<Rightarrow> (case unmark s' of (w, rest) \<Rightarrow> (k, JString w) # unmark_object n rest))"

definition plain_runtime :: CryptoRuntime where
  "plain_runtime = \<lparr>cr_hmac = (\<lambda>key m. m), cr_sha256 = (\<lambda>m. m),
     cr_seal = (\<lambda>key iv v. (mark key @ mark iv @ mark_object v, ''sixteen byte tag'')),
     cr_open = (\<lambda>key iv tag c. let pre = mark key @ mark iv in
       if startsWith c pre \<and> tag = ''sixteen byte tag'' then Some (unmark_object (length c) (drop (length pre) c)) else None)\<rparr>"

lemma unmark_mark: "unmark (mark s @ r) = (s, r)"
proof -
  have "unmark (concat (map (\<lambda>c. [CHR ''x'', c]) s) @ CHR ''.'' # r) = (s, r)"
  proof (induction s)
    case Nil
    show ?case by (cases r) simp_all
  qed simp
  then show ?thesis by (simp add: mark_def)
qed

lemma mark_nonempty: "mark s @ r \<noteq> []"
  by (simp add: mark_def)

lemma unmark_mark_object:
  assumes "\<forall>(k, j)\<in>set v. \<exists>s. j = JString s" and "length v \<le> n"
  shows "unmark_object n (mark_object v) = v"
  using assms
proof (induction v arbitrary: n)
  case Nil
  then show ?case by (cases n) (simp_all add: mark_object_def)
next
  case (Cons e v)
  obtain k s where e: "e = (k, JString s)" using Cons.prems(1) by auto
  obtain m where n: "n = Suc m" and m: "length v \<le> m" using Cons.prems(2) by (cases n) auto
  have "mark_object (e # v) = mark k @ mark s @ mark_object v" by (simp add: mark_object_def e)
  then show ?case using Cons.IH [OF _ m] Cons.prems(1) mark_nonempty by (simp add: n e unmark_mark)
qed

lemma mark_object_longer: "length v \<le> length (mark_object v)"
proof (induction v)
  case (Cons e v)
  obtain k j where "e = (k, j)" by fastforce
  then show ?case using Cons by (simp add: mark_object_def mark_def)
qed (simp add: mark_object_def)

lemma plain_runtime_opens:
  assumes "cr_seal plain_runtime key iv (bundle_json b) = (c, t)"
  shows "cr_open plain_runtime key iv t c = Some (bundle_json b) \<and> length t = 16 \<and> c \<noteq> []"
proof -
  have c: "c = (mark key @ mark iv) @ mark_object (bundle_json b)" and t: "t = ''sixteen byte tag''"
    using assms by (simp_all add: plain_runtime_def)
  have "\<forall>(k, j)\<in>set (bundle_json b). \<exists>s. j = JString s" by (simp add: bundle_json_def)
  then have "unmark_object (length c) (mark_object (bundle_json b)) = bundle_json b"
    by (rule unmark_mark_object) (simp add: c mark_object_longer trans_le_add2)
  then show ?thesis using mark_nonempty by (simp add: plain_runtime_def c t Let_def startsWith_def mark_def)
qed

definition demo_bundle :: AgentAccountTokenBundle where
  "demo_bundle = \<lparr>bu_sessionId = ''s1'', bu_accessToken = ''a'', bu_refreshToken = ''r'', bu_accessExpiresAt = ''t1'',
     bu_refreshExpiresAt = ''t2'', bu_userId = ''u1'', bu_email = ''e'', bu_accountId = ''c1'', bu_accountType = ORGANIZATION,
     bu_accountDisplayName = ''n''\<rparr>"

definition demo_secret :: string where
  "demo_secret = ''0123456789abcdef0123456789abcdef''"

lemma bundle_roundtrip_witness:
  "\<exists>sealed. encryptAgentTokenBundle plain_runtime ''twelve bytes'' demo_bundle demo_secret = Inr sealed \<and>
     decryptAgentTokenBundle plain_runtime sealed demo_secret = Inr demo_bundle"
proof -
  have "\<not> isl (encryptAgentTokenBundle plain_runtime ''twelve bytes'' demo_bundle demo_secret)" by code_simp
  then obtain sealed where e: "encryptAgentTokenBundle plain_runtime ''twelve bytes'' demo_bundle demo_secret = Inr sealed"
    by (cases "encryptAgentTokenBundle plain_runtime ''twelve bytes'' demo_bundle demo_secret") simp_all
  have "decryptAgentTokenBundle plain_runtime sealed demo_secret = Inr demo_bundle"
    by (rule bundle_roundtrip [OF plain_runtime_opens _ e]) simp_all
  then show ?thesis using e by blast
qed

lemma hash_domains_disjoint_witness:
  "hashAgentAccessToken plain_runtime ''t'' demo_secret = Inr (''bke-agent-access-token-v1'' @ CHR 0x00 # ''t'') \<and>
   hashAgentRefreshToken plain_runtime ''t'' demo_secret \<noteq> Inr (''bke-agent-access-token-v1'' @ CHR 0x00 # ''t'')"
proof
  show h: "hashAgentAccessToken plain_runtime ''t'' demo_secret = Inr (''bke-agent-access-token-v1'' @ CHR 0x00 # ''t'')" by code_simp
  have "\<forall>h. hashAgentAccessToken plain_runtime ''t'' demo_secret = Inr h \<longrightarrow>
      hashAgentRefreshToken plain_runtime ''t'' demo_secret \<noteq> Inr h"
    using hash_domains_disjoint [of plain_runtime "''t''" demo_secret "''t''"] by (simp add: plain_runtime_def)
  then show "hashAgentRefreshToken plain_runtime ''t'' demo_secret \<noteq> Inr (''bke-agent-access-token-v1'' @ CHR 0x00 # ''t'')"
    using h by blast
qed

end
