(* ===== verification/Claim_Material.thy ===== *)
theory Claim_Material
  imports Agent_Material
begin

text \<open>
  The secret material of purchases: claim codes (\<open>apps/web/entitlements/claim-code-material.ts\<close>) and license keys
  (\<open>platform/host/security/crypto.ts\<close>). Bytes are characters; HMAC, SHA-256 and AES-256-GCM over UTF-8 text are
  parameters. The theorems show that generated codes are well formed and that sealed codes open to themselves.
\<close>

record TextCrypto =
  tc_hmac :: "string \<Rightarrow> string \<Rightarrow> string"
  tc_sha256 :: "string \<Rightarrow> string"
  tc_seal :: "string \<Rightarrow> string \<Rightarrow> string \<Rightarrow> string \<times> string"
  tc_open :: "string \<Rightarrow> string \<Rightarrow> string \<Rightarrow> string \<Rightarrow> string option"

section \<open>Hexadecimal groups\<close>

definition hex_digit :: "nat \<Rightarrow> char" where
  "hex_digit n = (if n < 10 then char_of (48 + n) else char_of (55 + n))"

text \<open>\<open>bytes.toString("hex").toUpperCase()\<close>.\<close>

definition upper_hex :: "string \<Rightarrow> string" where
  "upper_hex bytes = concat (map (\<lambda>b. [hex_digit (of_char b div 16), hex_digit (of_char b mod 16)]) bytes)"

text \<open>\<open>s.match(/.{1,5}/g)\<close>.\<close>

fun fives :: "string \<Rightarrow> string list" where
  "fives [] = []"
| "fives (c # cs) = (c # take 4 cs) # fives (drop 4 cs)"

fun join_dash :: "string list \<Rightarrow> string" where
  "join_dash [] = []"
| "join_dash [w] = w"
| "join_dash (w # ws) = w @ ''-'' @ join_dash ws"

definition is_upper_hex :: "char \<Rightarrow> bool" where
  "is_upper_hex c \<longleftrightarrow> char_between CHR ''A'' CHR ''F'' c \<or> char_between CHR ''0'' CHR ''9'' c"

section \<open>Claim codes\<close>

text \<open>The expression \<open>/^BKE-CLM-(?:[A-F0-9]{5}-){5}[A-F0-9]{5}$/\<close>.\<close>

definition CLAIM_CODE_PATTERN :: "string \<Rightarrow> bool" where
  "CLAIM_CODE_PATTERN s \<longleftrightarrow> startsWith s ''BKE-CLM-'' \<and> length s = 43 \<and>
     list_all (\<lambda>(i, c). if i mod 6 = 5 then c = CHR ''-'' else is_upper_hex c) (enumerate 0 (drop 8 s))"

definition normalizeClaimCode :: "string \<Rightarrow> string" where
  "normalizeClaimCode value = toUpperCase (js_trim value)"

definition validClaimCode :: "string \<Rightarrow> bool" where
  "validClaimCode value = CLAIM_CODE_PATTERN (normalizeClaimCode value)"

text \<open>The generator is given the 15 random bytes it asks for.\<close>

definition generateClaimCode :: "string \<Rightarrow> string" where
  "generateClaimCode bytes = ''BKE-CLM-'' @ join_dash (fives (upper_hex bytes))"

definition hashClaimCode :: "TextCrypto \<Rightarrow> string \<Rightarrow> string \<Rightarrow> error + string" where
  "hashClaimCode tc value pepper =
     (let normalized = normalizeClaimCode value; secret = js_trim pepper in
      if \<not> CLAIM_CODE_PATTERN normalized then Inl ''INVALID_CLAIM_CODE''
      else if secret = [] then Inl ''CLAIM_CODE_PEPPER_REQUIRED''
      else Inr (tc_hmac tc secret normalized))"

definition claimEncryptionKey :: "TextCrypto \<Rightarrow> string \<Rightarrow> error + string" where
  "claimEncryptionKey tc secret =
     (let normalized = js_trim secret in
      if length normalized < 32 then Inl ''CLAIM_CODE_ENCRYPTION_KEY_REQUIRED''
      else Inr (tc_sha256 tc (''bke-claim-code-encryption-v1'' @ CHR 0x00 # normalized)))"

definition encryptClaimCode :: "TextCrypto \<Rightarrow> string \<Rightarrow> string \<Rightarrow> string \<Rightarrow> error + string" where
  "encryptClaimCode tc iv value secret =
     (let normalized = normalizeClaimCode value in
      if \<not> CLAIM_CODE_PATTERN normalized then Inl ''INVALID_CLAIM_CODE''
      else map_sum id (\<lambda>key. case tc_seal tc key iv normalized of (encrypted, tag) \<Rightarrow>
          ''v1.'' @ base64url iv @ ''.'' @ base64url tag @ ''.'' @ base64url encrypted) (claimEncryptionKey tc secret))"

definition INVALID_CIPHERTEXT :: error where
  "INVALID_CIPHERTEXT = ''INVALID_CLAIM_CODE_CIPHERTEXT''"

definition decryptClaimCode :: "TextCrypto \<Rightarrow> string \<Rightarrow> string \<Rightarrow> error + string" where
  "decryptClaimCode tc value secret =
     (case split_dots value of
        [version, ivText, tagText, ciphertextText] \<Rightarrow>
          (if version \<noteq> ''v1'' \<or> ivText = [] \<or> tagText = [] \<or> ciphertextText = [] then Inl INVALID_CIPHERTEXT
           else
             (let iv = from_base64url ivText; tag = from_base64url tagText; ciphertext = from_base64url ciphertextText in
              if length iv \<noteq> 12 \<or> length tag \<noteq> 16 \<or> length ciphertext = 0 then Inl INVALID_CIPHERTEXT
              else
                (case claimEncryptionKey tc secret of
                   Inl e \<Rightarrow> Inl e
                 | Inr key \<Rightarrow>
                     (case tc_open tc key iv tag ciphertext of
                        None \<Rightarrow> Inl ''Unsupported state or unable to authenticate data''
                      | Some plaintext \<Rightarrow>
                          (let normalized = normalizeClaimCode plaintext in
                           if \<not> CLAIM_CODE_PATTERN normalized then Inl INVALID_CIPHERTEXT else Inr normalized)))))
      | _ \<Rightarrow> Inl INVALID_CIPHERTEXT)"

section \<open>License keys\<close>

text \<open>The generator is given the 20 random bytes it asks for.\<close>

definition generateLicenseKey :: "string \<Rightarrow> string" where
  "generateLicenseKey bytes = ''BKE-'' @ join_dash (fives (upper_hex bytes))"

definition hashLicenseKey :: "TextCrypto \<Rightarrow> string \<Rightarrow> string \<Rightarrow> string" where
  "hashLicenseKey tc pepper key = tc_hmac tc pepper key"

definition encryptLicenseKey :: "TextCrypto \<Rightarrow> string \<Rightarrow> string \<Rightarrow> string \<Rightarrow> string" where
  "encryptLicenseKey tc pepper iv value =
     (case tc_seal tc (tc_sha256 tc pepper) iv value of (encrypted, tag) \<Rightarrow>
        base64url iv @ ''.'' @ base64url tag @ ''.'' @ base64url encrypted)"

definition decryptLicenseKey :: "TextCrypto \<Rightarrow> string \<Rightarrow> string \<Rightarrow> error + string" where
  "decryptLicenseKey tc pepper value =
     (case split_dots value of
        iv # tag # encrypted # _ \<Rightarrow>
          (case tc_open tc (tc_sha256 tc pepper) (from_base64url iv) (from_base64url tag) (from_base64url encrypted) of
             None \<Rightarrow> Inl ''Unsupported state or unable to authenticate data''
           | Some plaintext \<Rightarrow> Inr plaintext)
      | _ \<Rightarrow> Inl ''INVALID_CIPHERTEXT'')"

section \<open>Generated codes\<close>

lemma hex_digit_ok: "n < 16 \<Longrightarrow> is_upper_hex (hex_digit n)"
  by (auto simp: is_upper_hex_def hex_digit_def char_between_def)

lemma is_upper_hex_char: "is_upper_hex c \<Longrightarrow> upper_char c = c \<and> \<not> js_space c"
  by (auto simp: is_upper_hex_def char_between_def upper_char_def js_space_def)

lemma six_positions:
  "6 * k mod 6 \<noteq> (5 :: nat)" "Suc (6 * k) mod 6 \<noteq> 5" "Suc (Suc (6 * k)) mod 6 \<noteq> 5" "Suc (Suc (Suc (6 * k))) mod 6 \<noteq> 5"
  "Suc (Suc (Suc (Suc (6 * k)))) mod 6 \<noteq> 5" "Suc (Suc (Suc (Suc (Suc (6 * k))))) mod 6 = 5"
  "Suc (Suc (Suc (Suc (Suc (Suc (6 * k)))))) = 6 * Suc k"
  by presburger+

lemma nibbles: "of_char b div 16 < (16 :: nat)" "of_char b mod 16 < (16 :: nat)" for b :: char
  using nat_of_char_less_256 [of b] by (simp_all add: less_mult_imp_div_less)

lemma upper_hex_Cons: "upper_hex (b # bs) = hex_digit (of_char b div 16) # hex_digit (of_char b mod 16) # upper_hex bs"
  by (simp add: upper_hex_def)

lemma upper_hex_digits: "list_all is_upper_hex (upper_hex bytes)"
proof (induction bytes)
  case (Cons b bs)
  then show ?case using hex_digit_ok [OF nibbles(1) [of b]] hex_digit_ok [OF nibbles(2) [of b]]
    by (simp add: upper_hex_Cons)
qed (simp add: upper_hex_def)

lemma length_upper_hex: "length (upper_hex bytes) = 2 * length bytes"
  by (induction bytes) (simp_all add: upper_hex_def)

lemma five_or_more:
  assumes "length ds = 5 * Suc n"
  obtains a b c d e rest where "ds = a # b # c # d # e # rest" and "length rest = 5 * n"
proof -
  obtain a as where 1: "ds = a # as" "length as = 4 + 5 * n" using assms by (cases ds) auto
  obtain b bs where 2: "as = b # bs" "length bs = 3 + 5 * n" using 1(2) by (cases as) auto
  obtain c cs where 3: "bs = c # cs" "length cs = 2 + 5 * n" using 2(2) by (cases bs) auto
  obtain d es where 4: "cs = d # es" "length es = 1 + 5 * n" using 3(2) by (cases cs) auto
  obtain e rest where 5: "es = e # rest" "length rest = 5 * n" using 4(2) by (cases es) auto
  show thesis using that [of a b c d e rest] 1(1) 2(1) 3(1) 4(1) 5 by simp
qed

abbreviation dashed :: "nat \<times> char \<Rightarrow> bool" where
  "dashed p \<equiv> (case p of (i, c) \<Rightarrow> if i mod 6 = 5 then c = CHR ''-'' else is_upper_hex c)"

lemma dashed_groups:
  "length ds = 5 * Suc n \<Longrightarrow> list_all is_upper_hex ds \<Longrightarrow>
   list_all dashed (enumerate (6 * k) (join_dash (fives ds))) \<and> length (join_dash (fives ds)) = 6 * n + 5"
proof (induction n arbitrary: ds k)
  case 0
  then obtain a b c d e where "ds = [a, b, c, d, e]" by (elim five_or_more) simp
  then show ?case using 0 by (simp add: six_positions)
next
  case (Suc n)
  obtain a b c d e rest where ds: "ds = a # b # c # d # e # rest" "length rest = 5 * Suc n"
    using Suc.prems(1) by (rule five_or_more)
  then obtain w ws where w: "fives rest = w # ws" by (cases rest) simp_all
  have j: "join_dash (fives ds) = a # b # c # d # e # CHR ''-'' # join_dash (fives rest)"
    by (simp add: ds w)
  have "list_all dashed (enumerate (6 * Suc k) (join_dash (fives rest))) \<and> length (join_dash (fives rest)) = 6 * n + 5"
    using Suc.prems(2) by (intro Suc.IH ds(2)) (simp add: ds(1))
  then show ?case using Suc.prems(2) unfolding j
    by (simp add: ds(1) six_positions del: mult_Suc_right) simp
qed

lemma pattern_normal:
  assumes "CLAIM_CODE_PATTERN s"
  shows "normalizeClaimCode s = s"
proof -
  have plain: "list_all (\<lambda>c. upper_char c = c \<and> \<not> js_space c) ''BKE-CLM-''"
    by (simp add: upper_char_def js_space_def)
  have dash: "upper_char CHR ''-'' = CHR ''-''" "\<not> js_space CHR ''-''" by (simp_all add: upper_char_def js_space_def)
  have rest: "list_all dashed (enumerate k cs) \<Longrightarrow> list_all (\<lambda>c. upper_char c = c \<and> \<not> js_space c) cs" for k cs
  proof (induction cs arbitrary: k)
    case (Cons c cs)
    then show ?case using Cons.IH [of "Suc k"] by (cases "k mod 6 = 5") (simp_all add: is_upper_hex_char dash)
  qed simp
  have "take (length ''BKE-CLM-'') s = ''BKE-CLM-''" and groups: "list_all dashed (enumerate 0 (drop 8 s))"
    using assms unfolding CLAIM_CODE_PATTERN_def startsWith_def by blast+
  moreover have "length ''BKE-CLM-'' = 8" by simp
  ultimately have s: "s = ''BKE-CLM-'' @ drop 8 s" by (metis append_take_drop_id)
  have "list_all (\<lambda>c. upper_char c = c \<and> \<not> js_space c) (''BKE-CLM-'' @ drop 8 s)"
    unfolding list_all_append using plain rest [OF groups] by blast
  then have all: "list_all (\<lambda>c. upper_char c = c \<and> \<not> js_space c) s" by (rule ssubst [OF s])
  have "map upper_char s = s" using all by (auto simp: list_all_iff intro: map_idI)
  moreover have "js_trim s = s"
  proof -
    have none: "dropWhile js_space t = t" if "set t \<subseteq> set s" for t
      using that all by (cases t) (auto simp: list_all_iff)
    show ?thesis unfolding js_trim_def using none [of s] none [of "rev s"] by simp
  qed
  ultimately show ?thesis by (simp add: normalizeClaimCode_def toUpperCase_def)
qed

lemma generated_pattern: "length bytes = 15 \<Longrightarrow> CLAIM_CODE_PATTERN (generateClaimCode bytes)"
  using dashed_groups [of "upper_hex bytes" 5 0] upper_hex_digits [of bytes]
  by (simp add: CLAIM_CODE_PATTERN_def generateClaimCode_def length_upper_hex startsWith_def)

text \<open>C37 Every generated claim code has the form that \<open>validClaimCode\<close> and \<open>hashClaimCode\<close> accept, and is its own
  normal form, whatever the 15 random bytes are.\<close>

theorem generated_code_valid:
  assumes "length bytes = 15"
  shows "validClaimCode (generateClaimCode bytes) \<and> normalizeClaimCode (generateClaimCode bytes) = generateClaimCode bytes"
  using generated_pattern [OF assms] pattern_normal by (simp add: validClaimCode_def)

lemma sealed_code_opens:
  assumes "\<And>key c t. tc_seal tc key iv (normalizeClaimCode code) = (c, t) \<Longrightarrow>
      tc_open tc key iv t c = Some (normalizeClaimCode code) \<and> length t = 16 \<and> c \<noteq> []"
    and "length iv = 12" and "encryptClaimCode tc iv code secret = Inr sealed"
  shows "decryptClaimCode tc sealed secret = Inr (normalizeClaimCode code) \<and> CLAIM_CODE_PATTERN (normalizeClaimCode code)"
proof -
  obtain key where key: "claimEncryptionKey tc secret = Inr key" and ok: "CLAIM_CODE_PATTERN (normalizeClaimCode code)"
    using assms(3) by (cases "claimEncryptionKey tc secret") (auto simp: encryptClaimCode_def Let_def split: if_splits)
  obtain c t where seal: "tc_seal tc key iv (normalizeClaimCode code) = (c, t)" by fastforce
  note laws = assms(1) [OF seal]
  have sealed: "sealed = ''v1'' @ CHR ''.'' # base64url iv @ CHR ''.'' # base64url t @ CHR ''.'' # base64url c"
    using assms(3) key ok seal by (simp add: encryptClaimCode_def Let_def)
  have "split_dots sealed = [''v1'', base64url iv, base64url t, base64url c]"
    unfolding sealed by (simp add: split_dots_first [of "''v1''", simplified] split_dots_first base64url_no_dot split_dots_last)
  then show ?thesis
    using laws key ok assms(2) by (auto simp: decryptClaimCode_def Let_def pattern_normal)
qed

text \<open>A claim code read back from its sealed form is the code that was sealed, in normal form, and finds the same row: for a
  cipher that opens what it sealed, with a 16-byte tag and a non-empty ciphertext, the decrypted code has
  the hash of the original.\<close>

theorem claim_code_roundtrip:
  assumes "\<And>key c t. tc_seal tc key iv (normalizeClaimCode code) = (c, t) \<Longrightarrow>
      tc_open tc key iv t c = Some (normalizeClaimCode code) \<and> length t = 16 \<and> c \<noteq> []"
    and "length iv = 12" and "encryptClaimCode tc iv code secret = Inr sealed"
  shows "\<exists>revealed. decryptClaimCode tc sealed secret = Inr revealed \<and> hashClaimCode tc revealed pepper = hashClaimCode tc code pepper"
  using sealed_code_opens [OF assms] by (auto simp: hashClaimCode_def pattern_normal)

section \<open>A concrete cipher\<close>

definition plain_crypto :: TextCrypto where
  "plain_crypto = \<lparr>tc_hmac = (\<lambda>k m. k @ ''/'' @ m), tc_sha256 = (\<lambda>m. m), tc_seal = (\<lambda>k iv m. (''c'' @ m, ''0123456789abcdef'')),
     tc_open = (\<lambda>k iv t c. Some (drop 1 c))\<rparr>"

definition demo_bytes :: string where
  "demo_bytes = ''fifteen bytes!!''"

definition demo_key :: string where
  "demo_key = ''0123456789abcdef0123456789abcdef''"

lemma generated_code_valid_witness:
  "validClaimCode (generateClaimCode demo_bytes) \<and> generateClaimCode demo_bytes = ''BKE-CLM-66696-67465-656E2-06279-74657-32121''"
proof -
  have "generateClaimCode demo_bytes = ''BKE-CLM-66696-67465-656E2-06279-74657-32121''" by code_simp
  then show ?thesis using generated_code_valid [of demo_bytes] by (simp add: demo_bytes_def)
qed

lemma claim_code_roundtrip_witness:
  "\<exists>sealed revealed. encryptClaimCode plain_crypto ''123456789012'' (generateClaimCode demo_bytes) demo_key = Inr sealed \<and>
     decryptClaimCode plain_crypto sealed demo_key = Inr revealed \<and>
     hashClaimCode plain_crypto revealed ''pepper'' = hashClaimCode plain_crypto (generateClaimCode demo_bytes) ''pepper''"
proof -
  have "CLAIM_CODE_PATTERN (normalizeClaimCode (generateClaimCode demo_bytes))"
    using generated_pattern [of demo_bytes] pattern_normal by (simp add: demo_bytes_def)
  moreover have "length (js_trim demo_key) = 32" by code_simp
  ultimately obtain sealed where e: "encryptClaimCode plain_crypto ''123456789012'' (generateClaimCode demo_bytes) demo_key = Inr sealed"
    by (simp add: encryptClaimCode_def claimEncryptionKey_def Let_def plain_crypto_def)
  have "tc_seal plain_crypto key iv m = (c, t) \<Longrightarrow> tc_open plain_crypto key iv t c = Some m \<and> length t = 16 \<and> c \<noteq> []" for key iv m c t
    by (auto simp: plain_crypto_def)
  from claim_code_roundtrip [OF this _ e, of "''pepper''"] e show ?thesis by auto
qed

end
