(* ===== verification/Licensing_Fulfillment.thy ===== *)
theory Licensing_Fulfillment
  imports Commerce_Db Claim_Material
begin

text \<open>
  Fulfilment of a paid order with licenses: \<open>apps/web/licensing/entitlement-management.ts\<close>. The capability of the package
  \<open>@bke/licensing\<close> is a parameter: it is given the repository modelled here and answers whether it was
  \<open>OK\<close>. \<open>new Date()\<close> is the time of the call, and the list that renewal requests are pushed to is returned.
\<close>

section \<open>The host\<close>

text \<open>The environment variables the purchase code reads, the time of a call and its random draws.\<close>

record CommerceCall =
  cx_now :: time
  cx_uuid :: "nat \<Rightarrow> ident"
  cx_bytes :: "nat \<Rightarrow> nat \<Rightarrow> string"  \<comment> \<open>\<open>n\<close> random bytes of the \<open>i\<close>-th draw\<close>
  cx_crypto :: TextCrypto
  cx_LICENSE_PEPPER :: string
  cx_CLAIM_CODE_ENCRYPTION_KEY :: "string option"
  cx_PAYMONGO_LIVEMODE :: "string option"

definition fresh_uuid :: "CommerceCall \<Rightarrow> (CommerceDb, ident) eff" where
  "fresh_uuid cx = bnd draw (\<lambda>n. ret (cx_uuid cx n))"

definition fresh_bytes :: "CommerceCall \<Rightarrow> nat \<Rightarrow> (CommerceDb, string) eff" where
  "fresh_bytes cx k = bnd draw (\<lambda>n. ret (cx_bytes cx n k))"

section \<open>Dates\<close>

definition addDays :: "time \<Rightarrow> int \<Rightarrow> time" where
  "addDays value count = value + count * 86400000"

text \<open>\<open>setUTCFullYear\<close> and \<open>setUTCMonth\<close>: a day past the end of the month runs over into the next.\<close>

definition addBillingInterval :: "time \<Rightarrow> IntervalUnit \<Rightarrow> int \<Rightarrow> time" where
  "addBillingInterval value unit count =
     (case civil_of_day (value div ms_per_day) of (y, m, d) \<Rightarrow>
        let months = (case unit of YEAR \<Rightarrow> m - 1 | MONTH \<Rightarrow> m - 1 + count);
            year = (case unit of YEAR \<Rightarrow> y + count | MONTH \<Rightarrow> y + months div 12)
        in (day_of_civil year (months mod 12 + 1) 1 + d - 1) * ms_per_day + value mod ms_per_day)"

section \<open>The repository\<close>

record KeyMaterial =
  km_publicId :: ident
  km_keyHash :: string
  km_keyLastFour :: string
  km_keyCiphertext :: string

record IssueInput =
  ii_keyMaterial :: KeyMaterial
  ii_accountId :: ident
  ii_orderId :: ident
  ii_orderItemId :: ident
  ii_productId :: ident
  ii_editionId :: "ident option"
  ii_purchasePlanId :: "ident option"
  ii_subscriptionId :: "ident option"
  ii_maxSeats :: int
  ii_maxDevicesPerSeat :: int
  ii_expiresAt :: "time option"
  ii_eventMetadata :: jvalue

record LicenseSnapshot =
  ls_id :: ident
  ls_publicId :: ident
  ls_subscriptionId :: "ident option"
  ls_expiresAt :: "time option"

definition new_license :: "ident \<Rightarrow> IssueInput \<Rightarrow> LicenseRow" where
  "new_license i input =
     \<lparr>li_id = i, li_publicId = km_publicId (ii_keyMaterial input), li_keyHash = km_keyHash (ii_keyMaterial input),
      li_keyLastFour = km_keyLastFour (ii_keyMaterial input), li_keyCiphertext = Some (km_keyCiphertext (ii_keyMaterial input)),
      li_accountId = ii_accountId input, li_orderId = ii_orderId input, li_orderItemId = ii_orderItemId input,
      li_productId = ii_productId input, li_editionId = ii_editionId input, li_purchasePlanId = ii_purchasePlanId input,
      li_subscriptionId = ii_subscriptionId input, li_status = LICENSE_ACTIVE, li_maxSeats = ii_maxSeats input,
      li_maxDevicesPerSeat = ii_maxDevicesPerSeat input, li_expiresAt = ii_expiresAt input\<rparr>"

definition license_issue :: "CommerceCall \<Rightarrow> IssueInput \<Rightarrow> (CommerceDb, LicenseSnapshot) eff" where
  "license_issue cx input =
     bnd (fresh_uuid cx) (\<lambda>i.
     bnd (write_licenses (\<lambda>rows. rows @ [new_license i input])) (\<lambda>_.
     bnd (license_event \<lparr>le_licenseId = i, le_type = ''ISSUED'', le_metadata = ii_eventMetadata input\<rparr>) (\<lambda>_.
     ret \<lparr>ls_id = i, ls_publicId = km_publicId (ii_keyMaterial input), ls_subscriptionId = ii_subscriptionId input,
          ls_expiresAt = ii_expiresAt input\<rparr>)))"

record RenewInput =
  ri_subscriptionId :: ident
  ri_orderId :: ident
  ri_periodStart :: time
  ri_periodEnd :: time
  ri_effectiveAt :: time
  ri_discountedCycleConsumed :: bool
  ri_paymentId :: "ident option"
  ri_paymentEventId :: "string option"

record RenewalOperation =
  rn_operationId :: string
  rn_licenseId :: ident
  rn_deviceHash :: "string option"
  rn_prepared :: bool  \<comment> \<open>\<open>PREPARED\<close> rather than \<open>COMPLETED\<close>\<close>
  rn_effectiveExpiry :: time

definition iso_or_null :: "time option \<Rightarrow> jvalue" where
  "iso_or_null t = (case t of None \<Rightarrow> JVNull | Some t \<Rightarrow> JVStr (toISOString t))"

definition renewal_metadata :: "RenewInput \<Rightarrow> LicenseRow \<Rightarrow> time \<Rightarrow> int \<Rightarrow> string option \<Rightarrow> jvalue" where
  "renewal_metadata input license effectiveExpiry durationMs deviceHash =
     JVObj ([(''orderId'', JVStr (ri_orderId input))] @ jv_opt ''paymentId'' (ri_paymentId input)
       @ jv_opt ''paymentEventId'' (ri_paymentEventId input)
       @ [(''oldExpiry'', iso_or_null (li_expiresAt license)), (''newExpiry'', JVStr (toISOString effectiveExpiry)),
          (''durationMs'', JVNum durationMs),
          (''decision'', JVStr (if deviceHash = None then ''ENTITLEMENT_RENEWED_NO_ACTIVE_INSTALLATION'' else ''SUCCESSOR_LEASE_PENDING''))]
       @ jv_opt ''deviceHash'' deviceHash)"

text \<open>\<open>upsert\<close> with an empty update: a row that exists is left as it is.\<close>

definition upsert_lease_op :: "LeaseOperationRow \<Rightarrow> (CommerceDb, unit) eff" where
  "upsert_lease_op r = write_lease_ops (\<lambda>rows. if lo_operationId r \<in> lo_operationId ` set rows then rows else rows @ [r])"

definition renewal_op :: "RenewInput \<Rightarrow> LicenseRow \<Rightarrow> time \<Rightarrow> int \<Rightarrow> string option \<Rightarrow> (CommerceDb, RenewalOperation) eff" where
  "renewal_op input license effectiveExpiry durationMs deviceHash =
     (let operationId = ''renewal:'' @ ri_orderId input @ '':'' @ li_id license @ '':'' @ or_else deviceHash ''none'' in
      bnd (upsert_lease_op
             \<lparr>lo_operationId = operationId, lo_licenseId = li_id license, lo_action = ''RENEWAL'',
              lo_status = (if deviceHash = None then ''COMPLETED'' else ''PREPARED''),
              lo_metadata = renewal_metadata input license effectiveExpiry durationMs deviceHash,
              lo_completedAt = (if deviceHash = None then Some (ri_effectiveAt input) else None)\<rparr>) (\<lambda>_.
      ret \<lparr>rn_operationId = operationId, rn_licenseId = li_id license, rn_deviceHash = deviceHash,
           rn_prepared = (deviceHash \<noteq> None), rn_effectiveExpiry = effectiveExpiry\<rparr>))"

definition active_devices :: "ident \<Rightarrow> CommerceDb \<Rightarrow> string list" where
  "active_devices i s = map da_deviceHash (filter (\<lambda>a. da_licenseId a = i \<and> da_active a) (cd_activations s))"

definition renew_license :: "(time option \<Rightarrow> time \<Rightarrow> int \<Rightarrow> time) \<Rightarrow> RenewInput \<Rightarrow> LicenseRow \<times> string list \<Rightarrow>
    (CommerceDb, LicenseSnapshot \<times> RenewalOperation list) eff" where
  "renew_license renewalExpiration input = (\<lambda>(license, devices).
     (let durationMs = ri_periodEnd input - ri_periodStart input;
          effectiveExpiry = renewalExpiration (li_expiresAt license) (ri_effectiveAt input) durationMs in
      bnd (write_licenses (update_rows (\<lambda>r. li_id r = li_id license)
             (\<lambda>r. r\<lparr>li_status := LICENSE_ACTIVE, li_expiresAt := Some effectiveExpiry\<rparr>))) (\<lambda>_.
      bnd (if devices \<noteq> [] then collect (\<lambda>d. renewal_op input license effectiveExpiry durationMs (Some d)) devices
           else collect (renewal_op input license effectiveExpiry durationMs) [None]) (\<lambda>operations.
      bnd (license_event \<lparr>le_licenseId = li_id license, le_type = ''RENEWED'',
             le_metadata = JVObj [(''orderId'', JVStr (ri_orderId input)),
               (''discountedCycle'', JVBool (ri_discountedCycleConsumed input)),
               (''renewalOperationId'', JVStr (''renewal:'' @ ri_orderId input @ '':'' @ li_id license)),
               (''oldExpiry'', iso_or_null (li_expiresAt license)), (''newExpiry'', JVStr (toISOString effectiveExpiry))]\<rparr>) (\<lambda>_.
      ret (\<lparr>ls_id = li_id license, ls_publicId = li_publicId license, ls_subscriptionId = Some (ri_subscriptionId input),
            ls_expiresAt = Some effectiveExpiry\<rparr>, operations))))))"

definition license_renew :: "(time option \<Rightarrow> time \<Rightarrow> int \<Rightarrow> time) \<Rightarrow> RenewInput \<Rightarrow>
    (CommerceDb, LicenseSnapshot list \<times> RenewalOperation list) eff" where
  "license_renew renewalExpiration input =
     bnd (gets (\<lambda>s. map (\<lambda>l. (l, active_devices (li_id l) s))
            (filter (\<lambda>l. li_subscriptionId l = Some (ri_subscriptionId input)) (cd_licenses s)))) (\<lambda>licenses.
     bnd (collect (renew_license renewalExpiration input) licenses) (\<lambda>results.
     ret (map fst results, concat (map snd results))))"

section \<open>Fulfilment\<close>

text \<open>
  The capability of the package over the repository: \<open>issue\<close> answers whether it was OK, \<open>renewSubscription\<close> gives the
  renewal operations when it was.
\<close>

record LicensingService =
  lc_initialExpiration :: "time \<Rightarrow> int option \<Rightarrow> time option"
  lc_renewalExpiration :: "time option \<Rightarrow> time \<Rightarrow> int \<Rightarrow> time"
  lc_issue :: "(IssueInput \<Rightarrow> (CommerceDb, LicenseSnapshot) eff) \<Rightarrow> IssueInput \<Rightarrow> (CommerceDb, bool) eff"
  lc_renewSubscription :: "(RenewInput \<Rightarrow> (CommerceDb, LicenseSnapshot list \<times> RenewalOperation list) eff) \<Rightarrow>
    RenewInput \<Rightarrow> (CommerceDb, RenewalOperation list option) eff"

record RenewalLeaseRequest =
  rq_operationId :: string
  rq_licenseId :: ident
  rq_deviceHash :: string

record PaymentEvidence =
  ev_paymentId :: "ident option"
  ev_paymentEventId :: "string option"

record FulfillmentTarget =
  ft_accountId :: "ident option"
  ft_orderItemId :: "ident option"

definition PROCESSING_FAILED :: error where "PROCESSING_FAILED = ''PAYMENT_PROCESSING_FAILED''"
definition PROCESSING_RETRYABLE :: error where "PROCESSING_RETRYABLE = ''PAYMENT_PROCESSING_RETRYABLE''"

text \<open>The interval of an item, from the item or else from its legacy price.\<close>

definition item_interval :: "OrderItemRow \<Rightarrow> (CommerceDb, IntervalUnit \<times> int) eff" where
  "item_interval item =
     (case oi_intervalUnit item of
        Some unit \<Rightarrow> ret (unit, or_else (oi_intervalCount item) 1)
      | None \<Rightarrow> bnd (find_or_throw (\<lambda>s. find_by pc_id (oi_priceId item) (cd_prices s))) (\<lambda>legacyPrice.
          case pc_intervalUnit legacyPrice of
            None \<Rightarrow> throw PROCESSING_FAILED
          | Some unit \<Rightarrow> ret (unit, or_else (pc_intervalCount legacyPrice) 1)))"

definition reminder_at :: "time \<Rightarrow> IntervalUnit \<Rightarrow> time" where
  "reminder_at periodEnd unit = addDays periodEnd (if unit = MONTH then -7 else -30)"

definition consumes_discount :: "OrderItemRow \<Rightarrow> SubscriptionRow \<Rightarrow> bool" where
  "consumes_discount item existing \<longleftrightarrow> truthy (oi_offerId item) \<and>
     (case su_discountedCyclesTotal existing of None \<Rightarrow> False
      | Some cycles \<Rightarrow> cycles \<noteq> 0 \<and> su_discountedCyclesConsumed existing < cycles)"

definition renew_requests :: "RenewalOperation list \<Rightarrow> RenewalLeaseRequest list" where
  "renew_requests operations = List.map_filter (\<lambda>oper. if rn_prepared oper \<and> truthy (rn_deviceHash oper)
     then Some \<lparr>rq_operationId = rn_operationId oper, rq_licenseId = rn_licenseId oper, rq_deviceHash = the (rn_deviceHash oper)\<rparr>
     else None) operations"

text \<open>The renewal branch of the loop: the subscription is extended, and its licenses with it.\<close>

definition renew_item :: "LicensingService \<Rightarrow> CommerceCall \<Rightarrow> ident \<Rightarrow> PaymentEvidence \<Rightarrow> OrderItemRow \<Rightarrow> SubscriptionRow \<Rightarrow>
    IntervalUnit \<Rightarrow> time \<Rightarrow> time \<Rightarrow> (CommerceDb, RenewalLeaseRequest list) eff" where
  "renew_item svc cx orderId evidence item existing unit periodStart periodEnd =
     (let consumeDiscount = consumes_discount item existing in
      bnd (write_subscriptions (update_rows (\<lambda>r. su_id r = su_id existing)
             (\<lambda>r. r\<lparr>su_status := SUB_ACTIVE, su_currentPeriodStart := periodStart, su_currentPeriodEnd := periodEnd,
                  su_renewalReminderAt := reminder_at periodEnd unit,
                  su_discountedCyclesConsumed := (if consumeDiscount then su_discountedCyclesConsumed r + 1 else su_discountedCyclesConsumed r)\<rparr>))) (\<lambda>_.
      bnd (lc_renewSubscription svc (license_renew (lc_renewalExpiration svc))
             \<lparr>ri_subscriptionId = su_id existing, ri_orderId = orderId, ri_periodStart = periodStart, ri_periodEnd = periodEnd,
              ri_effectiveAt = cx_now cx, ri_discountedCycleConsumed = consumeDiscount,
              ri_paymentId = ev_paymentId evidence, ri_paymentEventId = ev_paymentEventId evidence\<rparr>) (\<lambda>renewal.
      case renewal of None \<Rightarrow> throw PROCESSING_RETRYABLE | Some operations \<Rightarrow> ret (renew_requests operations))))"

definition new_subscription :: "ident \<Rightarrow> OrderRow \<Rightarrow> ident \<Rightarrow> OrderItemRow \<Rightarrow> IntervalUnit \<Rightarrow> time \<Rightarrow> time \<Rightarrow> SubscriptionRow" where
  "new_subscription i order accountId item unit periodStart periodEnd =
     (let pricing = oi_pricingSnapshot item; policy = oi_policySnapshot item;
          offer = Option.bind pricing pr_offer;
          cycles = Option.bind offer op_discountedBillingCycles in
      \<lparr>su_id = i, su_accountId = accountId, su_orderId = or_id order, su_productId = oi_productId item,
       su_editionId = oi_editionId item, su_purchasePlanId = oi_purchasePlanId item, su_status = SUB_ACTIVE,
       su_seats = oi_quantity item * ps_maxSeats policy, su_currentPeriodStart = periodStart, su_currentPeriodEnd = periodEnd,
       su_renewalReminderAt = reminder_at periodEnd unit, su_currency = Some (or_currency order),
       su_normalRecurringAmountMinor = Some (or_else (Option.bind pricing pr_catalogAmountMinor) (oi_unitAmountMinor item)),
       su_discountedRecurringAmountMinor = (if offer = None then None else Option.bind pricing pr_finalAmountMinor),
       su_promotionalDiscountBps = Option.bind offer op_discountBps, su_discountedCyclesTotal = cycles,
       su_discountedCyclesConsumed = (if cycles \<noteq> None \<and> cycles \<noteq> Some 0 then 1 else 0), su_offerId = oi_offerId item,
       su_offerSnapshot = offer, su_pricingVersion = oi_pricingVersion item\<rparr>)"

text \<open>The license of an item with its key.\<close>

definition issue_item :: "LicensingService \<Rightarrow> CommerceCall \<Rightarrow> OrderRow \<Rightarrow> ident \<Rightarrow> OrderItemRow \<Rightarrow> ident option \<Rightarrow> time option \<Rightarrow>
    (CommerceDb, unit) eff" where
  "issue_item svc cx order accountId item subscriptionId expiresAt =
     (let policy = oi_policySnapshot item in
      bnd (fresh_bytes cx 20) (\<lambda>bytes.
      let plaintextKey = generateLicenseKey bytes in
      bnd (fresh_uuid cx) (\<lambda>publicId.
      bnd (fresh_bytes cx 12) (\<lambda>iv.
      bnd (lc_issue svc (license_issue cx)
             \<lparr>ii_keyMaterial = \<lparr>km_publicId = publicId, km_keyHash = hashLicenseKey (cx_crypto cx) (cx_LICENSE_PEPPER cx) plaintextKey,
                km_keyLastFour = drop (length plaintextKey - 4) plaintextKey,
                km_keyCiphertext = encryptLicenseKey (cx_crypto cx) (cx_LICENSE_PEPPER cx) iv plaintextKey\<rparr>,
              ii_accountId = accountId, ii_orderId = or_id order, ii_orderItemId = oi_id item, ii_productId = oi_productId item,
              ii_editionId = oi_editionId item, ii_purchasePlanId = oi_purchasePlanId item, ii_subscriptionId = subscriptionId,
              ii_maxSeats = oi_quantity item * ps_maxSeats policy, ii_maxDevicesPerSeat = ps_maxDevicesPerSeat policy,
              ii_expiresAt = expiresAt,
              ii_eventMetadata = JVObj [(''orderId'', JVStr (or_id order)), (''editionId'', jv_null (oi_editionId item)),
                (''purchasePlanId'', jv_null (oi_purchasePlanId item)), (''planType'', jv_null (oi_planType item))]\<rparr>) (\<lambda>ok.
      if ok then ret () else throw PROCESSING_RETRYABLE)))))"

definition fulfill_item :: "LicensingService \<Rightarrow> CommerceCall \<Rightarrow> OrderRow \<Rightarrow> ident \<Rightarrow> PaymentEvidence \<Rightarrow> OrderItemRow \<Rightarrow>
    (CommerceDb, RenewalLeaseRequest list) eff" where
  "fulfill_item svc cx order accountId evidence item =
     (if oi_billingType item = SUBSCRIPTION then
        bnd (item_interval item) (\<lambda>(unit, count).
        bnd (case or_renewalSubscriptionId order of None \<Rightarrow> ret None
             | Some i \<Rightarrow> bnd (find_or_throw (\<lambda>s. find_by su_id i (cd_subscriptions s))) (\<lambda>r. ret (Some r))) (\<lambda>existing.
        let periodStart = (case existing of None \<Rightarrow> cx_now cx | Some e \<Rightarrow> max (su_currentPeriodEnd e) (cx_now cx));
            periodEnd = addBillingInterval periodStart unit count in
        case existing of
          Some e \<Rightarrow> renew_item svc cx (or_id order) evidence item e unit periodStart periodEnd
        | None \<Rightarrow>
            bnd (fresh_uuid cx) (\<lambda>i.
            bnd (write_subscriptions (\<lambda>rows. rows @ [new_subscription i order accountId item unit periodStart periodEnd])) (\<lambda>_.
            bnd (issue_item svc cx order accountId item (Some i) (Some periodEnd)) (\<lambda>_. ret [])))))
      else
        bnd (issue_item svc cx order accountId item None
               (lc_initialExpiration svc (cx_now cx) (ps_validityDays (oi_policySnapshot item)))) (\<lambda>_. ret []))"

definition fulfillOrderLicensing :: "LicensingService \<Rightarrow> CommerceCall \<Rightarrow> ident \<Rightarrow> PaymentEvidence \<Rightarrow> FulfillmentTarget \<Rightarrow>
    (CommerceDb, RenewalLeaseRequest list) eff" where
  "fulfillOrderLicensing svc cx orderId evidence target =
     bnd (find_or_throw (\<lambda>s. find_by or_id orderId (cd_orders s))) (\<lambda>order.
     bnd (gets (\<lambda>s. filter (\<lambda>item. oi_orderId item = orderId) (cd_items s))) (\<lambda>all_items.
     let accountId = or_else (ft_accountId target) (or_accountId order);
         items = (if truthy (ft_orderItemId target) then filter (\<lambda>item. Some (oi_id item) = ft_orderItemId target) all_items else all_items) in
     if truthy (ft_orderItemId target) \<and> length items \<noteq> 1 then throw PROCESSING_FAILED
     else bnd (collect (fulfill_item svc cx order accountId evidence) items) (\<lambda>requests. ret (concat requests))))"

end
