(* ===== verification/Claim_Codes.thy ===== *)
theory Claim_Codes
  imports Licensing_Fulfillment
begin

text \<open>
  Claim codes: \<open>apps/web/entitlements/claim-codes.ts\<close>. The codes of a paid order item are issued once, revealed to their
  purchaser while they are available, and redeemed once for an account, which receives an entitlement and
  the license of the item.
\<close>

section \<open>Issuing\<close>

record ClaimCodeIssueInput =
  ci_orderId :: ident
  ci_orderItemId :: ident
  ci_purchaserAccountId :: ident
  ci_productId :: ident
  ci_editionId :: "ident option"
  ci_purchasePlanId :: "ident option"
  ci_resourceId :: ident
  ci_units :: int
  ci_scopeSnapshot :: jvalue
  ci_grantSnapshot :: jvalue
  ci_validFrom :: time
  ci_validUntil :: "time option"
  ci_expiresAt :: "time option"

datatype ClaimCodeIssueResult =
    ClaimsIssued nat "ident list" | ClaimsExisting nat "ident list" | ClaimsRejected string | ClaimsFailed string

definition nonblank :: "string \<Rightarrow> bool" where
  "nonblank s \<longleftrightarrow> js_trim s \<noteq> []"

definition validIssueInput :: "ClaimCodeIssueInput \<Rightarrow> bool" where
  "validIssueInput input \<longleftrightarrow>
     nonblank (ci_orderId input) \<and> nonblank (ci_orderItemId input) \<and> nonblank (ci_purchaserAccountId input) \<and>
     nonblank (ci_productId input) \<and> nonblank (ci_resourceId input) \<and> 0 < ci_units input \<and> ci_units input \<le> 1000 \<and>
     (case ci_validUntil input of None \<Rightarrow> True | Some u \<Rightarrow> ci_validFrom input < u) \<and>
     (case ci_expiresAt input of None \<Rightarrow> True | Some e \<Rightarrow> 0 < e)"

definition delivery_key :: "CommerceCall \<Rightarrow> string option" where
  "delivery_key cx = (let key = map_option js_trim (cx_CLAIM_CODE_ENCRYPTION_KEY cx) in if truthy key then key else None)"

definition same_source :: "ClaimCodeIssueInput \<Rightarrow> ClaimCodeRow list \<Rightarrow> bool" where
  "same_source input existing \<longleftrightarrow> int (length existing) = ci_units input \<and>
     list_all (\<lambda>(index, row). cc_orderId row = ci_orderId input \<and> cc_unitIndex row = index \<and>
       cc_purchaserAccountId row = ci_purchaserAccountId input \<and> cc_productId row = ci_productId input \<and>
       cc_editionId row = ci_editionId input \<and> cc_purchasePlanId row = ci_purchasePlanId input \<and>
       cc_resourceId row = ci_resourceId input) (enumerate 0 existing)"

definition new_claim :: "ident \<Rightarrow> ClaimCodeIssueInput \<Rightarrow> nat \<Rightarrow> string \<Rightarrow> string \<Rightarrow> string \<Rightarrow> ClaimCodeRow" where
  "new_claim i input unitIndex codeHash codeCiphertext normalized =
     \<lparr>cc_id = i, cc_orderId = ci_orderId input, cc_orderItemId = ci_orderItemId input, cc_unitIndex = unitIndex,
      cc_purchaserAccountId = ci_purchaserAccountId input, cc_codeHash = codeHash, cc_codeCiphertext = Some codeCiphertext,
      cc_codeLastFour = drop (length normalized - 4) normalized, cc_status = CODE_AVAILABLE,
      cc_resourceId = ci_resourceId input, cc_productId = ci_productId input, cc_editionId = ci_editionId input,
      cc_purchasePlanId = ci_purchasePlanId input, cc_scopeSnapshot = ci_scopeSnapshot input,
      cc_grantSnapshot = ci_grantSnapshot input, cc_validFrom = ci_validFrom input, cc_validUntil = ci_validUntil input,
      cc_expiresAt = ci_expiresAt input, cc_claimedAt = None, cc_claimedByUserId = None, cc_claimedToAccountId = None,
      cc_entitlementId = None, cc_revokedAt = None\<rparr>"

definition issue_unit :: "CommerceCall \<Rightarrow> string \<Rightarrow> ClaimCodeIssueInput \<Rightarrow> nat \<Rightarrow> (CommerceDb, ident) eff" where
  "issue_unit cx deliveryKey input unitIndex =
     bnd (fresh_bytes cx 15) (\<lambda>bytes.
     let normalized = normalizeClaimCode (generateClaimCode bytes) in
     bnd (from_result (hashClaimCode (cx_crypto cx) normalized (cx_LICENSE_PEPPER cx))) (\<lambda>codeHash.
     bnd (fresh_bytes cx 12) (\<lambda>iv.
     bnd (from_result (encryptClaimCode (cx_crypto cx) iv normalized deliveryKey)) (\<lambda>codeCiphertext.
     bnd (fresh_uuid cx) (\<lambda>claimCodeId.
     bnd (write_claims (\<lambda>rows. rows @ [new_claim claimCodeId input unitIndex codeHash codeCiphertext normalized])) (\<lambda>_.
     ret claimCodeId))))))"

definition issueClaimCodes :: "CommerceCall \<Rightarrow> ClaimCodeIssueInput \<Rightarrow> (CommerceDb, ClaimCodeIssueResult) eff" where
  "issueClaimCodes cx input =
     (if \<not> validIssueInput input then ret (ClaimsRejected ''INVALID_INPUT'')
      else case delivery_key cx of
        None \<Rightarrow> ret (ClaimsFailed ''DELIVERY_KEY_UNAVAILABLE'')
      | Some deliveryKey \<Rightarrow>
          bnd (gets (\<lambda>s. sort_key cc_unitIndex (filter (\<lambda>r. cc_orderItemId r = ci_orderItemId input) (cd_claims s)))) (\<lambda>existing.
          if 0 < length existing then
            (if \<not> same_source input existing then ret (ClaimsRejected ''SOURCE_CONFLICT'')
             else ret (ClaimsExisting (length existing) (map cc_id existing)))
          else
            bnd (collect (issue_unit cx deliveryKey input) [0..<nat (ci_units input)]) (\<lambda>claimCodeIds.
            ret (ClaimsIssued (length claimCodeIds) claimCodeIds))))"

section \<open>Revealing\<close>

datatype ClaimCodeRevealResult = RevealAvailable string | RevealRejected string | RevealFailed string

definition code_expired :: "CommerceCall \<Rightarrow> ClaimCodeRow \<Rightarrow> bool" where
  "code_expired cx claim \<longleftrightarrow> cc_status claim = CODE_EXPIRED \<or>
     (case cc_expiresAt claim of None \<Rightarrow> False | Some e \<Rightarrow> e \<le> cx_now cx)"

definition expire_claim :: "ident \<Rightarrow> (CommerceDb, unit) eff" where
  "expire_claim i = write_claims (update_rows (\<lambda>r. cc_id r = i \<and> cc_status r = CODE_AVAILABLE)
     (\<lambda>r. r\<lparr>cc_status := CODE_EXPIRED, cc_codeCiphertext := None\<rparr>))"

definition revealClaimCode :: "CommerceCall \<Rightarrow> ident \<Rightarrow> ident \<Rightarrow> (CommerceDb, ClaimCodeRevealResult) eff" where
  "revealClaimCode cx claimCodeId purchaserAccountId =
     (if \<not> nonblank claimCodeId \<or> \<not> nonblank purchaserAccountId then ret (RevealRejected ''NOT_FOUND'')
      else
      bnd (gets (\<lambda>s. List.find (\<lambda>r. cc_id r = claimCodeId \<and> cc_purchaserAccountId r = purchaserAccountId) (cd_claims s))) (\<lambda>found.
      case found of
        None \<Rightarrow> ret (RevealRejected ''NOT_FOUND'')
      | Some claim \<Rightarrow>
          if cc_status claim = CODE_CLAIMED then ret (RevealRejected ''ALREADY_CLAIMED'')
          else if cc_status claim = CODE_REVOKED then ret (RevealRejected ''REVOKED'')
          else if code_expired cx claim then bnd (expire_claim (cc_id claim)) (\<lambda>_. ret (RevealRejected ''EXPIRED''))
          else (case delivery_key cx of
              None \<Rightarrow> ret (RevealFailed ''DELIVERY_KEY_UNAVAILABLE'')
            | Some deliveryKey \<Rightarrow>
                (if \<not> truthy (cc_codeCiphertext claim) then ret (RevealFailed ''INVALID_CIPHERTEXT'')
                 else case decryptClaimCode (cx_crypto cx) (the (cc_codeCiphertext claim)) deliveryKey of
                    Inl _ \<Rightarrow> ret (RevealFailed ''INVALID_CIPHERTEXT'')
                  | Inr code \<Rightarrow> ret (RevealAvailable code)))))"

section \<open>Redeeming\<close>

datatype ClaimCodeConsumeResult = Claimed ident ident | ConsumeRejected string

text \<open>The grant of a claim is the grant of the code, an object or wrapped in one, with who claimed it.\<close>

definition claim_grant :: "ClaimCodeRow \<Rightarrow> ident \<Rightarrow> ident \<Rightarrow> jvalue" where
  "claim_grant claim userId accountId =
     JVObj (fold (\<lambda>(k, v). put_entry k v)
       [(''source'', JVStr ''claim-code''), (''claimCodeId'', JVStr (cc_id claim)),
        (''claimedByUserId'', JVStr userId), (''claimedToAccountId'', JVStr accountId)]
       (case cc_grantSnapshot claim of JVObj es \<Rightarrow> es | other \<Rightarrow> [(''sourceGrant'', other)]))"

definition claim_entitlement :: "ident \<Rightarrow> ClaimCodeRow \<Rightarrow> ident \<Rightarrow> ident \<Rightarrow> time \<Rightarrow> EntitlementRow" where
  "claim_entitlement i claim userId accountId now =
     \<lparr>en_id = i, en_subjectId = accountId, en_resourceId = cc_resourceId claim, en_sourceReference = ''claim:'' @ cc_id claim,
      en_status = ENTITLEMENT_ACTIVE, en_quantity = 1, en_scopeSnapshot = cc_scopeSnapshot claim,
      en_grantSnapshot = claim_grant claim userId accountId, en_validFrom = cc_validFrom claim,
      en_validUntil = cc_validUntil claim, en_createdAt = now, en_revokedAt = None, en_revocationReference = None,
      en_revocationSnapshot = None\<rparr>"

definition no_evidence :: PaymentEvidence where
  "no_evidence = \<lparr>ev_paymentId = None, ev_paymentEventId = None\<rparr>"

definition mark_claimed :: "CommerceCall \<Rightarrow> ident \<Rightarrow> ident \<Rightarrow> ident \<Rightarrow> ident \<Rightarrow> (CommerceDb, nat) eff" where
  "mark_claimed cx i userId accountId entitlementId =
     (let open_row = (\<lambda>r. cc_id r = i \<and> cc_status r = CODE_AVAILABLE) in
      bnd (gets (\<lambda>s. count_rows open_row (cd_claims s))) (\<lambda>changed.
      bnd (write_claims (update_rows open_row
             (\<lambda>r. r\<lparr>cc_status := CODE_CLAIMED, cc_claimedAt := Some (cx_now cx), cc_claimedByUserId := Some userId,
                  cc_claimedToAccountId := Some accountId, cc_entitlementId := Some entitlementId, cc_codeCiphertext := None\<rparr>))) (\<lambda>_.
      ret changed)))"

definition consumeClaimCode :: "LicensingService \<Rightarrow> CommerceCall \<Rightarrow> string \<Rightarrow> ident \<Rightarrow> ident \<Rightarrow>
    (CommerceDb, ClaimCodeConsumeResult) eff" where
  "consumeClaimCode svc cx code userId accountId =
     (if \<not> nonblank userId \<or> \<not> nonblank accountId \<or> \<not> validClaimCode code then ret (ConsumeRejected ''INVALID_CODE'')
      else
      bnd (from_result (hashClaimCode (cx_crypto cx) code (cx_LICENSE_PEPPER cx))) (\<lambda>codeHash.
      bnd (gets (\<lambda>s. find_by cc_codeHash codeHash (cd_claims s))) (\<lambda>found.
      case found of
        None \<Rightarrow> ret (ConsumeRejected ''INVALID_CODE'')
      | Some claim \<Rightarrow>
          if cc_status claim = CODE_CLAIMED then ret (ConsumeRejected ''ALREADY_CLAIMED'')
          else if cc_status claim = CODE_REVOKED then ret (ConsumeRejected ''REVOKED'')
          else if code_expired cx claim then bnd (expire_claim (cc_id claim)) (\<lambda>_. ret (ConsumeRejected ''EXPIRED''))
          else
          bnd (fresh_uuid cx) (\<lambda>entitlementId.
          bnd (write_entitlements (\<lambda>rows. rows @ [claim_entitlement entitlementId claim userId accountId (cx_now cx)])) (\<lambda>_.
          bnd (fulfillOrderLicensing svc cx (cc_orderId claim) no_evidence
                 \<lparr>ft_accountId = Some accountId, ft_orderItemId = Some (cc_orderItemId claim)\<rparr>) (\<lambda>_.
          bnd (mark_claimed cx (cc_id claim) userId accountId entitlementId) (\<lambda>changed.
          if changed \<noteq> 1 then throw ''CLAIM_CODE_STATE_CHANGED'' else ret (Claimed entitlementId accountId))))))))"

end
