(* ===== verification/Claim_Facts.thy ===== *)
theory Claim_Facts
  imports Claim_Codes
begin

text \<open>
  What fulfilment and the claim codes guarantee: a redeemed code was open and becomes an entitlement and a license of
  the claiming account, codes move only from available to one final state, and what the unique license of an order item means
  for its other codes.
\<close>

section \<open>The licensing service\<close>

text \<open>
  The contract of the package \<open>@bke/licensing\<close>: when \<open>issue\<close> answers OK it has run the repository on the request it
  was given, and nothing after it; \<open>renewSubscription\<close> likewise, with the operations the repository returned.
\<close>

definition issues_through :: "LicensingService \<Rightarrow> bool" where
  "issues_through svc \<longleftrightarrow>
     (\<forall>repo req s t. lc_issue svc repo req s = (Inr True, t) \<longrightarrow> (\<exists>r. repo req s = (Inr r, t))) \<and>
     (\<forall>repo req s t operations. lc_renewSubscription svc repo req s = (Inr (Some operations), t) \<longrightarrow>
        (\<exists>snapshots. repo req s = (Inr (snapshots, operations), t)))"

lemma issues_throughD:
  "issues_through svc \<Longrightarrow> lc_issue svc repo req s = (Inr True, t) \<Longrightarrow> \<exists>r. repo req s = (Inr r, t)"
  "issues_through svc \<Longrightarrow> lc_renewSubscription svc repo' req' s = (Inr (Some operations), t) \<Longrightarrow>
    \<exists>snapshots. repo' req' s = (Inr (snapshots, operations), t)"
  by (auto simp: issues_through_def)

lemma issue_checked_Inr:
  assumes "issues_through svc"
    and "bnd (lc_issue svc repo req) (\<lambda>ok. if ok then ret () else throw e) s = (Inr u, t)"
  shows "\<exists>r. repo req s = (Inr r, t)"
proof -
  obtain ok where "lc_issue svc repo req s = (Inr ok, t)" and ok
    using assms(2) by (auto simp: effect_Inr)
  then show ?thesis using issues_throughD(1) [OF assms(1), of repo req s t] by simp
qed

lemma bnd_fresh:
  "bnd (fresh_bytes cx k) f s = f (cx_bytes cx (cd_drawn s) k) (s\<lparr>cd_drawn := Suc (cd_drawn s)\<rparr>)"
  "bnd (fresh_uuid cx) g s = g (cx_uuid cx (cd_drawn s)) (s\<lparr>cd_drawn := Suc (cd_drawn s)\<rparr>)"
  by (simp_all add: fresh_bytes_def fresh_uuid_def draw_def eff_simps)

lemma issue_item_run:
  assumes svc: "issues_through svc" and run: "issue_item svc cx order accountId item subscriptionId expiresAt s = (Inr u, t)"
  shows "\<exists>i input. cd_licenses t = cd_licenses s @ [new_license i input] \<and> licenses_ok (cd_licenses t) \<and>
    ii_orderItemId input = oi_id item \<and> ii_accountId input = accountId \<and> ii_orderId input = or_id order \<and>
    ii_subscriptionId input = subscriptionId \<and> ii_expiresAt input = expiresAt \<and>
    ii_maxSeats input = oi_quantity item * ps_maxSeats (oi_policySnapshot item)"
proof -
  obtain s1 input where s1: "cd_licenses s1 = cd_licenses s"
      and input: "ii_orderItemId input = oi_id item" "ii_accountId input = accountId" "ii_orderId input = or_id order"
        "ii_subscriptionId input = subscriptionId" "ii_expiresAt input = expiresAt"
        "ii_maxSeats input = oi_quantity item * ps_maxSeats (oi_policySnapshot item)"
      and issue: "bnd (lc_issue svc (license_issue cx) input) (\<lambda>ok. if ok then ret () else throw PROCESSING_RETRYABLE) s1 = (Inr u, t)"
    using run unfolding issue_item_def Let_def bnd_fresh by (rule that [rotated -1]) simp_all
  obtain r where "license_issue cx input s1 = (Inr r, t)" using issue_checked_Inr [OF svc issue] by blast
  then have "\<exists>i. cd_licenses t = cd_licenses s1 @ [new_license i input] \<and> licenses_ok (cd_licenses t)"
    by (auto simp: license_issue_def bnd_fresh commerce_Inr)
  then show ?thesis using s1 input by auto
qed

lemma frame_issue_item:
  assumes svc: "issues_through svc" and L: "\<And>rows s. part (s\<lparr>cd_licenses := rows\<rparr>) = part s"
    and E: "\<And>rows s. part (s\<lparr>cd_licenseEvents := rows\<rparr>) = part s" and D: "\<And>n s. part (s\<lparr>cd_drawn := n\<rparr>) = part s"
  shows "frame part (issue_item svc cx order accountId item subscriptionId expiresAt)"
proof -
  have repo: "frame part (license_issue cx input)" for input
    unfolding license_issue_def fresh_uuid_def license_event_def
    by (intro frame_intro frame_draw frame_write_table frame_modify L E D)
  have issue: "frame part (bnd (lc_issue svc (license_issue cx) req) (\<lambda>ok. if ok then ret () else throw e))" for req e
    using issue_checked_Inr [OF svc] frameD [OF repo] unfolding frame_def by blast
  show ?thesis
    unfolding issue_item_def fresh_uuid_def fresh_bytes_def Let_def
    by (intro frame_bnd issue frame_draw D frame_basic)
qed

lemma frame_license_renew:
  assumes L: "\<And>rows s. part (s\<lparr>cd_licenses := rows\<rparr>) = part s" and E: "\<And>rows s. part (s\<lparr>cd_licenseEvents := rows\<rparr>) = part s"
    and O: "\<And>rows s. part (s\<lparr>cd_leaseOps := rows\<rparr>) = part s"
  shows "frame part (license_renew renewalExpiration input)"
  unfolding license_renew_def renew_license_def renewal_op_def upsert_lease_op_def license_event_def Let_def case_prod_unfold
  by (intro frame_intro frame_write_table frame_modify L E O)

lemma frame_fulfill:
  assumes svc: "issues_through svc" and L: "\<And>rows s. part (s\<lparr>cd_licenses := rows\<rparr>) = part s"
    and E: "\<And>rows s. part (s\<lparr>cd_licenseEvents := rows\<rparr>) = part s" and D: "\<And>n s. part (s\<lparr>cd_drawn := n\<rparr>) = part s"
    and O: "\<And>rows s. part (s\<lparr>cd_leaseOps := rows\<rparr>) = part s" and S: "\<And>rows s. part (s\<lparr>cd_subscriptions := rows\<rparr>) = part s"
  shows "frame part (fulfillOrderLicensing svc cx orderId evidence target)"
proof -
  have renew: "frame part (bnd (lc_renewSubscription svc (license_renew x) req)
      (\<lambda>renewal. case renewal of None \<Rightarrow> throw e | Some operations \<Rightarrow> ret (renew_requests operations)))" for x req e
    unfolding frame_def
  proof (intro allI impI)
    fix s a t
    assume "bnd (lc_renewSubscription svc (license_renew x) req)
      (\<lambda>renewal. case renewal of None \<Rightarrow> throw e | Some operations \<Rightarrow> ret (renew_requests operations)) s = (Inr a, t)"
    then obtain operations where "lc_renewSubscription svc (license_renew x) req s = (Inr (Some operations), t)"
      by (auto simp: effect_Inr)
    from issues_throughD(2) [OF svc this] show "part t = part s"
      using frameD [OF frame_license_renew [OF L E O]] by blast
  qed
  show ?thesis
    unfolding fulfillOrderLicensing_def fulfill_item_def item_interval_def renew_item_def fresh_uuid_def Let_def case_prod_unfold
    by (intro frame_intro frame_draw frame_write_table frame_issue_item renew svc L E D O S)
qed

section \<open>Redeeming\<close>

lemma fulfill_target_license:
  assumes svc: "issues_through svc" and i: "i \<noteq> []"
    and run: "fulfillOrderLicensing svc cx orderId evidence \<lparr>ft_accountId = Some a, ft_orderItemId = Some i\<rparr> s = (Inr requests, t)"
    and order: "find_by or_id orderId (cd_orders s) = Some order" and first: "or_renewalSubscriptionId order = None"
  shows "\<exists>l input. cd_licenses t = cd_licenses s @ [new_license l input] \<and> licenses_ok (cd_licenses t) \<and>
    ii_orderItemId input = i \<and> ii_accountId input = a \<and> ii_orderId input = orderId"
proof -
  have i': "truthy (Some i)" using i by (simp add: truthy_def)
  let ?items = "filter (\<lambda>item. Some (oi_id item) = Some i) (filter (\<lambda>item. oi_orderId item = orderId) (cd_items s))"
  have "length ?items = 1" and c: "\<exists>rs. collect (fulfill_item svc cx order a evidence) ?items s = (Inr rs, t)"
    using run i' order unfolding fulfillOrderLicensing_def Let_def by (auto simp: commerce_Inr)
  then obtain item where one_item: "?items = [item]" by (auto simp: length_Suc_conv simp del: filter_filter)
  then have "item \<in> set ?items" by simp
  then have item: "oi_id item = i" by simp
  have one: "\<exists>r. fulfill_item svc cx order a evidence item s = (Inr r, t)"
    using c unfolding one_item by (auto simp: effect_Inr)
  have oid: "or_id order = orderId" using find_by_key [OF order] by simp
  have frame: "frame cd_licenses (write_subscriptions f)" "frame cd_licenses (item_interval item)" for f
    unfolding item_interval_def by (intro frame_intro frame_write_table; simp)+
  from one obtain s' sub e u where "cd_licenses s' = cd_licenses s" and "issue_item svc cx order a item sub e s' = (Inr u, t)"
    unfolding fulfill_item_def first Let_def
    by (auto simp: effect_Inr fresh_uuid_def draw_Inr dest!: frameD [OF frame(1)] frameD [OF frame(2)] split: prod.splits)
  from issue_item_run [OF svc this(2)] this(1) show ?thesis using item oid by auto
qed

definition claimed_row :: "CommerceCall \<Rightarrow> ident \<Rightarrow> ident \<Rightarrow> ident \<Rightarrow> ClaimCodeRow \<Rightarrow> ClaimCodeRow" where
  "claimed_row cx userId accountId entitlementId r =
     r\<lparr>cc_status := CODE_CLAIMED, cc_claimedAt := Some (cx_now cx), cc_claimedByUserId := Some userId,
       cc_claimedToAccountId := Some accountId, cc_entitlementId := Some entitlementId, cc_codeCiphertext := None\<rparr>"

lemma consume_run:
  assumes svc: "issues_through svc" and run: "consumeClaimCode svc cx code userId accountId s = (Inr (Claimed e a), t)"
  obtains h claim s1 s2 requests where "hashClaimCode (cx_crypto cx) code (cx_LICENSE_PEPPER cx) = Inr h"
    and "find_by cc_codeHash h (cd_claims s) = Some claim" and "cc_status claim = CODE_AVAILABLE" and "\<not> code_expired cx claim"
    and "a = accountId" and "validClaimCode code" and "nonblank userId" and "nonblank accountId"
    and "cd_entitlements t = cd_entitlements s @ [claim_entitlement e claim userId accountId (cx_now cx)]"
    and "cd_claims t = update_rows (\<lambda>r. cc_id r = cc_id claim \<and> cc_status r = CODE_AVAILABLE) (claimed_row cx userId accountId e) (cd_claims s)"
    and "claims_ok (cd_claims t)"
    and "fulfillOrderLicensing svc cx (cc_orderId claim) no_evidence
           \<lparr>ft_accountId = Some accountId, ft_orderItemId = Some (cc_orderItemId claim)\<rparr> s1 = (Inr requests, s2)"
    and "cd_orders s1 = cd_orders s" and "cd_licenses s1 = cd_licenses s" and "cd_licenses t = cd_licenses s2"
proof -
  obtain h claim where hash: "hashClaimCode (cx_crypto cx) code (cx_LICENSE_PEPPER cx) = Inr h"
      and found: "find_by cc_codeHash h (cd_claims s) = Some claim"
      and open_code: "cc_status claim \<noteq> CODE_CLAIMED" "cc_status claim \<noteq> CODE_REVOKED" "\<not> code_expired cx claim"
      and ok: "validClaimCode code" "nonblank userId" "nonblank accountId"
      and rest: "bnd (fresh_uuid cx) (\<lambda>entitlementId.
          bnd (write_entitlements (\<lambda>rows. rows @ [claim_entitlement entitlementId claim userId accountId (cx_now cx)])) (\<lambda>_.
          bnd (fulfillOrderLicensing svc cx (cc_orderId claim) no_evidence
                 \<lparr>ft_accountId = Some accountId, ft_orderItemId = Some (cc_orderItemId claim)\<rparr>) (\<lambda>_.
          bnd (mark_claimed cx (cc_id claim) userId accountId entitlementId) (\<lambda>changed.
          if changed \<noteq> 1 then throw ''CLAIM_CODE_STATE_CHANGED'' else ret (Claimed entitlementId accountId))))) s = (Inr (Claimed e a), t)"
    using run unfolding consumeClaimCode_def by (auto simp: effect_Inr split: if_splits)
  have avail: "cc_status claim = CODE_AVAILABLE"
    using open_code by (cases "cc_status claim") (auto simp: code_expired_def)
  define s1 where "s1 = s\<lparr>cd_drawn := Suc (cd_drawn s),
      cd_entitlements := cd_entitlements s @ [claim_entitlement (cx_uuid cx (cd_drawn s)) claim userId accountId (cx_now cx)]\<rparr>"
  obtain s2 requests where f: "fulfillOrderLicensing svc cx (cc_orderId claim) no_evidence
      \<lparr>ft_accountId = Some accountId, ft_orderItemId = Some (cc_orderItemId claim)\<rparr> s1 = (Inr requests, s2)"
      and e: "e = cx_uuid cx (cd_drawn s)" "a = accountId"
      and t: "t = s2\<lparr>cd_claims := update_rows (\<lambda>r. cc_id r = cc_id claim \<and> cc_status r = CODE_AVAILABLE)
            (claimed_row cx userId accountId e) (cd_claims s2)\<rparr>" and c: "claims_ok (cd_claims t)"
    using rest unfolding bnd_fresh s1_def mark_claimed_def Let_def claimed_row_def
    by (auto simp: commerce_Inr)
  have "frame (\<lambda>s. (cd_claims s, cd_entitlements s)) (fulfillOrderLicensing svc cx (cc_orderId claim) no_evidence
      \<lparr>ft_accountId = Some accountId, ft_orderItemId = Some (cc_orderItemId claim)\<rparr>)"
    by (rule frame_fulfill [OF svc]) simp_all
  from frameD [OF this f] have same: "cd_claims s2 = cd_claims s" "cd_entitlements s2 = cd_entitlements s1"
    by (simp_all add: s1_def)
  show thesis
    by (rule that [OF hash found avail open_code(3) e(2) ok _ _ c f]) (simp_all add: t same s1_def e)
qed

text \<open>C17 A code is redeemed only while it is available and unexpired, and then for exactly the account it was presented for: the
  account gains one active entitlement of quantity one to the resource of the code, and the code's row is
  claimed by the user, without its ciphertext. The codes of other rows are untouched.\<close>

theorem redeemed_code:
  assumes "issues_through svc" and "consumeClaimCode svc cx code userId accountId s = (Inr (Claimed e a), t)"
    and "distinct (map cc_id (cd_claims s))"
  shows "\<exists>claim\<in>set (cd_claims s).
    hashClaimCode (cx_crypto cx) code (cx_LICENSE_PEPPER cx) = Inr (cc_codeHash claim) \<and>
    cc_status claim = CODE_AVAILABLE \<and> (\<forall>x. cc_expiresAt claim = Some x \<longrightarrow> cx_now cx < x) \<and> a = accountId \<and>
    cd_entitlements t = cd_entitlements s @ [claim_entitlement e claim userId accountId (cx_now cx)] \<and>
    cd_claims t = map (\<lambda>r. if cc_id r = cc_id claim then claimed_row cx userId accountId e r else r) (cd_claims s)"
proof -
  from assms(1,2) show ?thesis
  proof (rule consume_run)
    fix h claim
    assume h: "hashClaimCode (cx_crypto cx) code (cx_LICENSE_PEPPER cx) = Inr h"
      and found: "find_by cc_codeHash h (cd_claims s) = Some claim" and avail: "cc_status claim = CODE_AVAILABLE"
      and alive: "\<not> code_expired cx claim" and a: "a = accountId"
      and en: "cd_entitlements t = cd_entitlements s @ [claim_entitlement e claim userId accountId (cx_now cx)]"
      and cl: "cd_claims t = update_rows (\<lambda>r. cc_id r = cc_id claim \<and> cc_status r = CODE_AVAILABLE) (claimed_row cx userId accountId e) (cd_claims s)"
    have claim: "claim \<in> set (cd_claims s)" "cc_codeHash claim = h" using find_by_key [OF found] by auto
    have "cc_status r = CODE_AVAILABLE" if "r \<in> set (cd_claims s)" "cc_id r = cc_id claim" for r
      using find_key_unique [OF assms(3) that(1) claim(1)] that(2) avail by simp
    then have "cd_claims t = map (\<lambda>r. if cc_id r = cc_id claim then claimed_row cx userId accountId e r else r) (cd_claims s)"
      unfolding cl update_rows_def by auto
    moreover have "\<forall>x. cc_expiresAt claim = Some x \<longrightarrow> cx_now cx < x" using alive by (auto simp: code_expired_def)
    ultimately show ?thesis using claim h avail a en by blast
  qed
qed

section \<open>The life of a code\<close>

text \<open>
  Between two states a code either has its row unchanged, or was available and now has its final status and no
  ciphertext, with its identity unchanged.
\<close>

definition code_identity :: "ClaimCodeRow \<Rightarrow> ident \<times> ident \<times> ident \<times> nat \<times> ident \<times> string" where
  "code_identity r = (cc_id r, cc_orderId r, cc_orderItemId r, cc_unitIndex r, cc_purchaserAccountId r, cc_codeHash r)"

definition code_next :: "ClaimCodeRow \<Rightarrow> ClaimCodeRow \<Rightarrow> bool" where
  "code_next r r' \<longleftrightarrow> r' = r \<or> cc_status r = CODE_AVAILABLE \<and> cc_status r' \<noteq> CODE_AVAILABLE \<and>
     cc_codeCiphertext r' = None \<and> code_identity r' = code_identity r"

definition codes_evolve :: "CommerceDb \<Rightarrow> CommerceDb \<Rightarrow> bool" where
  "codes_evolve s t \<longleftrightarrow> claims_ok (cd_claims t) \<and> (\<forall>r\<in>set (cd_claims s). \<exists>r'\<in>set (cd_claims t). code_next r r')"

datatype CodeRequest = IssueCodes ClaimCodeIssueInput | RevealCode ident ident | RedeemCode string ident ident

text \<open>A request runs in a transaction of its route.\<close>

fun after_request :: "LicensingService \<Rightarrow> CommerceCall \<Rightarrow> CodeRequest \<Rightarrow> CommerceDb \<Rightarrow> CommerceDb" where
  "after_request svc cx (IssueCodes input) s = snd (transaction (issueClaimCodes cx input) s)"
| "after_request svc cx (RevealCode i purchaser) s = snd (transaction (revealClaimCode cx i purchaser) s)"
| "after_request svc cx (RedeemCode code userId accountId) s = snd (transaction (consumeClaimCode svc cx code userId accountId) s)"

text \<open>Any requests after each other, each with its own clock and random draws.\<close>

inductive code_history :: "LicensingService \<Rightarrow> CommerceDb \<Rightarrow> CommerceDb \<Rightarrow> bool" for svc where
  history_start: "code_history svc s s"
| history_step: "code_history svc s t \<Longrightarrow> code_history svc s (after_request svc cx request t)"

lemma code_next_trans: "code_next r q \<Longrightarrow> code_next q p \<Longrightarrow> code_next r p"
  by (auto simp: code_next_def)

lemma codes_evolve_trans: "codes_evolve s t \<Longrightarrow> codes_evolve t u \<Longrightarrow> codes_evolve s u"
  unfolding codes_evolve_def using code_next_trans by blast

lemma codes_evolve_same: "codes_evolve s t \<Longrightarrow> cd_claims u = cd_claims t \<Longrightarrow> codes_evolve s u"
  by (simp add: codes_evolve_def)

lemma codes_evolve_refl: "claims_ok (cd_claims s) \<Longrightarrow> codes_evolve s s"
  by (auto simp: codes_evolve_def code_next_def)

text \<open>Success-only preservation of the history so far.\<close>

abbreviation evolves :: "CommerceDb \<Rightarrow> (CommerceDb, 'a) eff \<Rightarrow> bool" where
  "evolves s m \<equiv> triple (codes_evolve s) m (\<lambda>_. codes_evolve s) (\<lambda>_. True)"

lemma evolves_frame: "frame cd_claims m \<Longrightarrow> evolves s m"
  by (rule tripleI) (auto dest: frameD codes_evolve_same)

lemma evolves_write:
  assumes "\<And>rows r. r \<in> set rows \<Longrightarrow> \<exists>r'\<in>set (f rows). code_next r r'"
  shows "evolves s (write_claims f)"
proof (rule tripleI)
  fix t a u
  assume t: "codes_evolve s t" and "write_claims f t = (Inr a, u)"
  then have u: "claims_ok (f (cd_claims t))" "cd_claims u = f (cd_claims t)" by (auto simp: write_table_Inr)
  then have "codes_evolve t u" using assms by (auto simp: codes_evolve_def)
  with t show "codes_evolve s u" by (rule codes_evolve_trans)
qed simp

lemma evolves_update:
  assumes "\<And>r. p r \<Longrightarrow> code_next r (f r)"
  shows "evolves s (write_claims (update_rows p f))"
  by (rule evolves_write) (use assms in \<open>auto simp: set_update_rows code_next_def image_iff\<close>)

lemma evolves_bnd: "evolves s m \<Longrightarrow> (\<And>a. evolves s (k a)) \<Longrightarrow> evolves s (bnd m k)"
  by (rule triple_bnd)

lemma evolves_collect: "(\<And>x. evolves s (f x)) \<Longrightarrow> evolves s (collect f xs)"
proof (induction xs)
  case (Cons x xs)
  show ?case unfolding collect.simps by (intro evolves_bnd triple_ret Cons.IH Cons.prems)
qed (simp add: triple_ret)

lemma frame_fresh: "frame cd_claims (fresh_uuid cx)" "frame cd_claims (fresh_bytes cx n)"
  unfolding fresh_uuid_def fresh_bytes_def by (intro frame_intro frame_draw; simp)+

lemmas evolves_intro = evolves_bnd triple_if triple_case_option triple_ret evolves_frame [OF frame_basic(1)]
  evolves_frame [OF frame_basic(2)] evolves_frame [OF frame_basic(3)] evolves_frame [OF frame_basic(4)]
  evolves_frame [OF frame_fresh(1)] evolves_frame [OF frame_fresh(2)]

lemma expire_evolves: "evolves s (expire_claim i)"
  unfolding expire_claim_def by (rule evolves_update) (auto simp: code_next_def code_identity_def)

lemma issue_evolves: "evolves s (issueClaimCodes cx input)"
proof -
  have "evolves s (write_claims (\<lambda>rows. rows @ [r]))" for r
    by (rule evolves_write) (auto simp: code_next_def)
  then show ?thesis unfolding issueClaimCodes_def issue_unit_def Let_def
    by (intro evolves_intro evolves_collect)
qed

lemma reveal_evolves: "evolves s (revealClaimCode cx i purchaser)"
  unfolding revealClaimCode_def
  by (intro evolves_intro expire_evolves; simp add: evolves_frame frame_basic split: sum.split)

lemma consume_evolves: "issues_through svc \<Longrightarrow> evolves s (consumeClaimCode svc cx code userId accountId)"
proof -
  assume svc: "issues_through svc"
  have "evolves s (fulfillOrderLicensing svc cx orderId evidence target)" for orderId evidence target
    by (rule evolves_frame, rule frame_fulfill [OF svc]) simp_all
  moreover have "evolves s (write_entitlements f)" for f
    by (rule evolves_frame, rule frame_write_table) simp
  moreover have "evolves s (mark_claimed cx i u a e)" for i u a e
    unfolding mark_claimed_def Let_def
    by (intro evolves_intro evolves_update) (auto simp: code_next_def code_identity_def)
  ultimately show ?thesis unfolding consumeClaimCode_def
    by (intro evolves_intro expire_evolves)
qed

lemma transaction_evolves: "evolves s m \<Longrightarrow> codes_evolve s t \<Longrightarrow> codes_evolve s (snd (transaction m t))"
  by (cases m t rule: eff_cases) (auto simp: transaction_def dest: triple_Inr)

lemma history_evolves:
  assumes svc: "issues_through svc" and "code_history svc s t" and "claims_ok (cd_claims s)"
  shows "codes_evolve s t"
  using assms(2,3)
proof induction
  case history_start
  then show ?case by (rule codes_evolve_refl)
next
  case (history_step s t cx request)
  then show ?case
    by (cases request) (simp_all add: transaction_evolves issue_evolves reveal_evolves consume_evolves [OF svc])
qed

section \<open>Properties of codes\<close>

lemma find_by_unique_key:
  assumes "distinct (map key rows)" and "r \<in> set rows"
  shows "find_by key (key r) rows = Some r"
  unfolding find_by_def by (rule find_key [OF assms])

text \<open>C16 A redeemed code is spent for good: after a redemption, and after any further requests of anybody, presenting the same code
  again, for any account, answers ALREADY_CLAIMED and changes nothing.\<close>

theorem code_single_use:
  assumes svc: "issues_through svc" and s: "claims_ok (cd_claims s)"
    and redeemed: "consumeClaimCode svc cx code userId accountId s = (Inr (Claimed e a), t)"
    and later: "code_history svc t u"
    and same: "normalizeClaimCode code' = normalizeClaimCode code" "cx_crypto cx' = cx_crypto cx" "cx_LICENSE_PEPPER cx' = cx_LICENSE_PEPPER cx"
    and who: "nonblank userId'" "nonblank accountId'"
  shows "consumeClaimCode svc cx' code' userId' accountId' u = (Inr (ConsumeRejected ''ALREADY_CLAIMED''), u)"
  using svc redeemed
proof (rule consume_run)
  fix h claim
  assume h: "hashClaimCode (cx_crypto cx) code (cx_LICENSE_PEPPER cx) = Inr h"
    and found: "find_by cc_codeHash h (cd_claims s) = Some claim" and avail: "cc_status claim = CODE_AVAILABLE"
    and valid: "validClaimCode code" and ok: "claims_ok (cd_claims t)"
    and cl: "cd_claims t = update_rows (\<lambda>r. cc_id r = cc_id claim \<and> cc_status r = CODE_AVAILABLE) (claimed_row cx userId accountId e) (cd_claims s)"
  have "claim \<in> set (cd_claims s)" and hash: "cc_codeHash claim = h" using find_by_key [OF found] by auto
  then have "claimed_row cx userId accountId e claim \<in> set (cd_claims t)"
    using avail unfolding cl set_update_rows by (intro image_eqI [of _ _ claim]) simp_all
  then obtain r where r: "r \<in> set (cd_claims u)" "code_next (claimed_row cx userId accountId e claim) r"
    using history_evolves [OF svc later ok] unfolding codes_evolve_def by blast
  then have status: "cc_status r = CODE_CLAIMED" "cc_codeHash r = h"
    by (auto simp: code_next_def claimed_row_def hash)
  have "distinct (map cc_codeHash (cd_claims u))"
    using history_evolves [OF svc later ok] by (simp add: codes_evolve_def claims_ok_def)
  from find_by_unique_key [OF this r(1)] status have "find_by cc_codeHash h (cd_claims u) = Some r" by simp
  moreover have "hashClaimCode (cx_crypto cx') code' (cx_LICENSE_PEPPER cx') = Inr h" "validClaimCode code'"
    using h valid same by (simp_all add: hashClaimCode_def validClaimCode_def)
  ultimately show ?thesis
    using who status by (simp add: consumeClaimCode_def eff_simps)
qed

text \<open>C18 Under any requests in any order a code leaves the available state once, for a final status, and keeps its identity
  (order, item, unit, purchaser and hash); a final code is never changed again and no code disappears. A code that
  is not available has no ciphertext.\<close>

theorem code_life:
  assumes "issues_through svc" and "code_history svc s t" and "claims_ok (cd_claims s)" and "r \<in> set (cd_claims s)"
  shows "\<exists>r'\<in>set (cd_claims t). code_next r r' \<and> (cc_status r' \<noteq> CODE_AVAILABLE \<longleftrightarrow> cc_codeCiphertext r' = None)"
proof -
  obtain r' where r': "r' \<in> set (cd_claims t)" "code_next r r'" and ok: "claims_ok (cd_claims t)"
    using history_evolves [OF assms(1-3)] assms(4) unfolding codes_evolve_def by blast
  then have "claim_check r'" by (simp add: claims_ok_def list_all_iff)
  then have "cc_status r' = CODE_AVAILABLE \<longleftrightarrow> cc_codeCiphertext r' \<noteq> None" by (simp add: claim_check_def)
  then have "cc_status r' \<noteq> CODE_AVAILABLE \<longleftrightarrow> cc_codeCiphertext r' = None" by blast
  with r'(2) show ?thesis by (intro bexI [OF _ r'(1)] conjI)
qed

text \<open>The license of an order item is unique, so only one of the codes issued for an item can ever be redeemed: with a license
  for the item on record, presenting another available and unexpired code of it fails and
  leaves the database as it was.\<close>

theorem second_unit_unredeemable:
  assumes svc: "issues_through svc" and valid: "nonblank userId" "nonblank accountId" "validClaimCode code"
    and code: "hashClaimCode (cx_crypto cx) code (cx_LICENSE_PEPPER cx) = Inr h" "find_by cc_codeHash h (cd_claims s) = Some claim"
      "cc_status claim = CODE_AVAILABLE" "\<not> code_expired cx claim" "cc_orderItemId claim \<noteq> []"
    and order: "find_by or_id (cc_orderId claim) (cd_orders s) = Some order" "or_renewalSubscriptionId order = None"
    and license: "license \<in> set (cd_licenses s)" "li_orderItemId license = cc_orderItemId claim"
  shows "\<exists>error. transaction (consumeClaimCode svc cx code userId accountId) s = (Inl error, s)"
proof (cases rule: eff_cases [of "consumeClaimCode svc cx code userId accountId" s])
  case (1 error t)
  then show ?thesis by (simp add: transaction_def)
next
  case (2 result t)
  have "\<exists>e. result = Claimed e accountId"
    using 2 valid code unfolding consumeClaimCode_def by (auto simp: effect_Inr split: if_splits)
  then obtain e where run: "consumeClaimCode svc cx code userId accountId s = (Inr (Claimed e accountId), t)" using 2 by auto
  from svc run have False
  proof (rule consume_run)
    fix h' claim' s1 s2 requests
    assume "hashClaimCode (cx_crypto cx) code (cx_LICENSE_PEPPER cx) = Inr h'" "find_by cc_codeHash h' (cd_claims s) = Some claim'"
    then have c: "claim' = claim" using code(1,2) by simp
    assume f: "fulfillOrderLicensing svc cx (cc_orderId claim') no_evidence
        \<lparr>ft_accountId = Some accountId, ft_orderItemId = Some (cc_orderItemId claim')\<rparr> s1 = (Inr requests, s2)"
      and s1: "cd_orders s1 = cd_orders s" "cd_licenses s1 = cd_licenses s"
    obtain l input where "cd_licenses s2 = cd_licenses s1 @ [new_license l input]" "licenses_ok (cd_licenses s2)"
        "ii_orderItemId input = cc_orderItemId claim"
      using fulfill_target_license [OF svc _ f] code(5) order s1(1) c by auto
    moreover have "cc_orderItemId claim \<in> li_orderItemId ` set (cd_licenses s)" using license by (metis imageI)
    ultimately show False using s1(2) by (simp add: licenses_ok_def new_license_def)
  qed
  then show ?thesis ..
qed

end
