(* ===== verification/Claim_Demo.thy ===== *)
theory Claim_Demo
  imports Claim_Facts
begin

text \<open>
  A concrete purchase: an order of one item with two claim codes, with a licensing capability that
  runs its repository. The properties of \<open>Claim_Facts\<close> are applied to it.
\<close>

definition demo_licensing :: LicensingService where
  "demo_licensing =
     \<lparr>lc_initialExpiration = (\<lambda>now days. map_option (addDays now) days),
      lc_renewalExpiration = (\<lambda>old now ms. max (or_else old now) now + ms),
      lc_issue = (\<lambda>repo req. bnd (repo req) (\<lambda>_. ret True)),
      lc_renewSubscription = (\<lambda>repo req. bnd (repo req) (\<lambda>(_, operations). ret (Some operations)))\<rparr>"

lemma demo_licensing_issues: "issues_through demo_licensing"
  by (auto simp: issues_through_def demo_licensing_def effect_Inr split: prod.splits)

definition demo_call :: CommerceCall where
  "demo_call =
     \<lparr>cx_now = 1000, cx_uuid = (\<lambda>n. ''id'' @ replicate n CHR ''x''), cx_bytes = (\<lambda>i n. replicate n CHR ''b''),
      cx_crypto = plain_crypto, cx_LICENSE_PEPPER = ''pepper'', cx_CLAIM_CODE_ENCRYPTION_KEY = Some demo_key,
      cx_PAYMONGO_LIVEMODE = Some ''true''\<rparr>"

definition demo_code :: string where
  "demo_code = ''BKE-CLM-66696-67465-656E2-06279-74657-32121''"

definition other_code :: string where
  "other_code = ''bke-clm-66696-67465-656e2-06279-74657-32122''"

definition demo_order :: OrderRow where
  "demo_order = \<lparr>or_id = ''o1'', or_number = ''BKE-1'', or_accountId = ''buyer'', or_status = ORDER_PAID, or_currency = ''PHP'',
     or_totalMinor = 1000, or_paidAt = Some 500, or_renewalSubscriptionId = None, or_fulfillmentMode = CLAIM_CODE,
     or_fulfillmentSnapshot = JVNull\<rparr>"

definition demo_item :: OrderItemRow where
  "demo_item = \<lparr>oi_id = ''i1'', oi_orderId = ''o1'', oi_productId = ''p1'', oi_priceId = ''pr1'', oi_quantity = 2, oi_unitAmountMinor = 500,
     oi_billingType = ONE_TIME, oi_policySnapshot = \<lparr>ps_maxSeats = 1, ps_maxDevicesPerSeat = 2, ps_validityDays = Some 30\<rparr>,
     oi_editionId = None, oi_purchasePlanId = None, oi_planType = None, oi_intervalUnit = None, oi_intervalCount = None,
     oi_entitlementSnapshot = None, oi_pricingSnapshot = None, oi_offerId = None, oi_pricingVersion = None\<rparr>"

definition demo_claim :: "ident \<Rightarrow> nat \<Rightarrow> string \<Rightarrow> ClaimCodeRow" where
  "demo_claim i unitIndex code = new_claim i
     \<lparr>ci_orderId = ''o1'', ci_orderItemId = ''i1'', ci_purchaserAccountId = ''buyer'', ci_productId = ''p1'', ci_editionId = None,
      ci_purchasePlanId = None, ci_resourceId = ''p1'', ci_units = 2, ci_scopeSnapshot = JVNull, ci_grantSnapshot = JVNull,
      ci_validFrom = 500, ci_validUntil = None, ci_expiresAt = Some 9000\<rparr>
     unitIndex (''pepper/'' @ normalizeClaimCode code) ''sealed'' (normalizeClaimCode code)"

definition demo_db :: CommerceDb where
  "demo_db = \<lparr>cd_orders = [demo_order], cd_items = [demo_item], cd_invoices = [], cd_redemptions = [], cd_payments = [],
     cd_attempts = [], cd_checkouts = [], cd_events = [], cd_facts = [], cd_refunds = [], cd_webhooks = [], cd_entitlements = [],
     cd_claims = [demo_claim ''c1'' 0 demo_code, demo_claim ''c2'' 1 other_code], cd_licenses = [], cd_activations = [],
     cd_subscriptions = [], cd_prices = [], cd_leaseOps = [], cd_leases = [], cd_licenseEvents = [],
     cd_notifications = [], cd_receipts = [], cd_accounts = [], cd_audit = [], cd_drawn = 0\<rparr>"

definition demo_redeem :: "(error + ClaimCodeConsumeResult) \<times> CommerceDb" where
  "demo_redeem = consumeClaimCode demo_licensing demo_call demo_code ''ann'' ''acct'' demo_db"


lemma demo_codes_normal:
  "normalizeClaimCode demo_code = demo_code" "normalizeClaimCode other_code = ''BKE-CLM-66696-67465-656E2-06279-74657-32122''"
  by code_simp+

lemma demo_codes_valid: "CLAIM_CODE_PATTERN demo_code" "CLAIM_CODE_PATTERN ''BKE-CLM-66696-67465-656E2-06279-74657-32122''"
  by code_simp+

lemma demo_trims: "js_trim ''pepper'' = ''pepper''" "nonblank ''ann''" "nonblank ''acct''"
  by code_simp+

lemmas demo_rows = demo_db_def demo_claim_def demo_item_def demo_order_def new_claim_def demo_code_def

lemma demo_claims_ok: "claims_ok (cd_claims demo_db)"
  by (simp add: claims_ok_def claim_check_def demo_rows demo_codes_normal [unfolded demo_code_def] map_filter_simps)

lemma demo_hash: "hashClaimCode (cx_crypto demo_call) demo_code (cx_LICENSE_PEPPER demo_call) = Inr (''pepper/'' @ demo_code)"
  by (simp add: hashClaimCode_def demo_codes_normal demo_codes_valid demo_trims demo_call_def plain_crypto_def Let_def)

lemma demo_found: "find_by cc_codeHash (''pepper/'' @ demo_code) (cd_claims demo_db) = Some (demo_claim ''c1'' 0 demo_code)"
  by (simp add: find_by_def demo_db_def demo_claim_def new_claim_def demo_codes_normal)

lemma demo_fulfill:
  "\<exists>t. fulfillOrderLicensing demo_licensing demo_call ''o1'' no_evidence \<lparr>ft_accountId = Some a, ft_orderItemId = Some ''i1''\<rparr>
     (demo_db\<lparr>cd_drawn := n, cd_entitlements := es\<rparr>) = (Inr [], t) \<and> cd_claims t = cd_claims demo_db"
  by (simp add: fulfillOrderLicensing_def fulfill_item_def issue_item_def license_issue_def fresh_uuid_def fresh_bytes_def
      find_or_throw_def draw_def write_table_def license_event_def eff_simps Let_def demo_licensing_def
      demo_db_def demo_item_def demo_order_def find_by_def truthy_def licenses_ok_def)

lemma demo_redeem:
  "\<exists>t. consumeClaimCode demo_licensing demo_call demo_code ''ann'' ''acct'' demo_db = (Inr (Claimed ''id'' ''acct''), t)"
proof -
  let ?claim = "demo_claim ''c1'' 0 demo_code"
  let ?es = "[claim_entitlement ''id'' ?claim ''ann'' ''acct'' 1000]"
  obtain t where f: "fulfillOrderLicensing demo_licensing demo_call ''o1'' no_evidence \<lparr>ft_accountId = Some ''acct'', ft_orderItemId = Some ''i1''\<rparr>
     (demo_db\<lparr>cd_drawn := Suc 0, cd_entitlements := ?es\<rparr>) = (Inr [], t)" "cd_claims t = cd_claims demo_db"
    using demo_fulfill by blast
  have open_claim: "cc_status ?claim = CODE_AVAILABLE" "\<not> code_expired demo_call ?claim" "cc_orderId ?claim = ''o1''" "cc_orderItemId ?claim = ''i1''"
      "cc_id ?claim = ''c1''"
    by (simp_all add: demo_claim_def new_claim_def code_expired_def demo_call_def)
  have ok: "entitlements_ok ?es" "cd_entitlements demo_db = []" "cx_uuid demo_call 0 = ''id''" "cx_now demo_call = 1000"
      "cd_drawn demo_db = 0"
    by (simp_all add: entitlements_ok_def entitlement_check_def claim_entitlement_def demo_claim_def new_claim_def demo_db_def demo_call_def)
  have claims: "claims_ok (update_rows (\<lambda>r. cc_id r = ''c1'' \<and> cc_status r = CODE_AVAILABLE)
      (claimed_row demo_call ''ann'' ''acct'' ''id'') (cd_claims demo_db))"
    by (simp add: claims_ok_def claim_check_def claimed_row_def demo_rows update_rows_def demo_codes_normal [unfolded demo_code_def] map_filter_simps)
  have "count_rows (\<lambda>r. cc_id r = ''c1'' \<and> cc_status r = CODE_AVAILABLE) (cd_claims demo_db) = 1"
    by (simp add: count_rows_def demo_db_def demo_claim_def new_claim_def)
  with f claims have marked: "\<exists>t'. mark_claimed demo_call ''c1'' ''ann'' ''acct'' ''id'' t = (Inr 1, t')"
    by (simp add: mark_claimed_def Let_def effect_Inr write_table_def eff_simps claimed_row_def [abs_def])
  have valid: "validClaimCode demo_code" by (simp add: validClaimCode_def demo_codes_normal demo_codes_valid)
  show ?thesis
    unfolding consumeClaimCode_def
    using f(1) marked by (auto simp: fresh_uuid_def draw_def ok eff_simps valid demo_trims demo_hash demo_found [simplified] open_claim write_table_def)
qed

lemma redeemed_code_witness:
  "\<exists>t. consumeClaimCode demo_licensing demo_call demo_code ''ann'' ''acct'' demo_db = (Inr (Claimed ''id'' ''acct''), t) \<and>
     map en_subjectId (cd_entitlements t) = [''acct''] \<and> map cc_status (cd_claims t) = [CODE_CLAIMED, CODE_AVAILABLE]"
proof -
  obtain t where run: "consumeClaimCode demo_licensing demo_call demo_code ''ann'' ''acct'' demo_db = (Inr (Claimed ''id'' ''acct''), t)"
    using demo_redeem by blast
  have d: "distinct (map cc_id (cd_claims demo_db))" by (simp add: demo_rows)
  obtain claim where c: "claim \<in> set (cd_claims demo_db)"
      "hashClaimCode (cx_crypto demo_call) demo_code (cx_LICENSE_PEPPER demo_call) = Inr (cc_codeHash claim)"
      "cd_entitlements t = cd_entitlements demo_db @ [claim_entitlement ''id'' claim ''ann'' ''acct'' (cx_now demo_call)]"
      "cd_claims t = map (\<lambda>r. if cc_id r = cc_id claim then claimed_row demo_call ''ann'' ''acct'' ''id'' r else r) (cd_claims demo_db)"
    using redeemed_code [OF demo_licensing_issues run d] by blast
  have "distinct (map cc_codeHash (cd_claims demo_db))" using demo_claims_ok by (simp add: claims_ok_def)
  moreover have "demo_claim ''c1'' 0 demo_code \<in> set (cd_claims demo_db)" by (simp add: demo_db_def)
  moreover have "cc_codeHash claim = cc_codeHash (demo_claim ''c1'' 0 demo_code)"
    using c(2) by (simp add: demo_hash demo_claim_def new_claim_def demo_codes_normal)
  ultimately have "claim = demo_claim ''c1'' 0 demo_code" using c(1) by (blast intro: find_key_unique)
  with c run show ?thesis
    by (simp add: demo_db_def demo_claim_def new_claim_def claim_entitlement_def claimed_row_def)
qed

lemma code_single_use_witness:
  "\<exists>t. consumeClaimCode demo_licensing demo_call demo_code ''ann'' ''acct'' demo_db = (Inr (Claimed ''id'' ''acct''), t) \<and>
     consumeClaimCode demo_licensing demo_call demo_code ''ann'' ''acct'' t = (Inr (ConsumeRejected ''ALREADY_CLAIMED''), t)"
proof -
  obtain t where run: "consumeClaimCode demo_licensing demo_call demo_code ''ann'' ''acct'' demo_db = (Inr (Claimed ''id'' ''acct''), t)"
    using demo_redeem by blast
  with code_single_use [OF demo_licensing_issues demo_claims_ok run history_start refl refl refl demo_trims(2,3)]
  show ?thesis by blast
qed

lemma code_life_witness:
  "\<exists>r'. r' \<in> set (cd_claims (after_request demo_licensing demo_call (RedeemCode demo_code ''ann'' ''acct'') demo_db)) \<and>
     code_next (demo_claim ''c1'' 0 demo_code) r' \<and> (cc_status r' \<noteq> CODE_AVAILABLE \<longleftrightarrow> cc_codeCiphertext r' = None)"
proof -
  have "demo_claim ''c1'' 0 demo_code \<in> set (cd_claims demo_db)" by (simp add: demo_db_def)
  from code_life [OF demo_licensing_issues history_step [OF history_start] demo_claims_ok this,
      of demo_call "RedeemCode demo_code ''ann'' ''acct''"]
  show ?thesis by (simp only: Bex_def)
qed

definition licensed_db :: CommerceDb where
  "licensed_db = demo_db\<lparr>cd_licenses := [new_license ''l1''
     \<lparr>ii_keyMaterial = \<lparr>km_publicId = ''pub'', km_keyHash = ''kh'', km_keyLastFour = ''last'', km_keyCiphertext = ''key''\<rparr>,
      ii_accountId = ''acct'', ii_orderId = ''o1'', ii_orderItemId = ''i1'', ii_productId = ''p1'', ii_editionId = None,
      ii_purchasePlanId = None, ii_subscriptionId = None, ii_maxSeats = 2, ii_maxDevicesPerSeat = 2, ii_expiresAt = None,
      ii_eventMetadata = JVNull\<rparr>]\<rparr>"

lemma other_hash: "hashClaimCode (cx_crypto demo_call) other_code (cx_LICENSE_PEPPER demo_call) = Inr (cc_codeHash (demo_claim ''c2'' 1 other_code))"
  by (simp add: hashClaimCode_def demo_codes_normal demo_codes_valid demo_trims demo_call_def plain_crypto_def Let_def demo_claim_def new_claim_def)

lemma second_unit_unredeemable_witness:
  "\<exists>error. transaction (consumeClaimCode demo_licensing demo_call other_code ''bob'' ''acct2'') licensed_db = (Inl error, licensed_db)"
proof (rule second_unit_unredeemable [OF demo_licensing_issues _ _ _ other_hash])
  show "nonblank ''bob''" "nonblank ''acct2''" by code_simp+
  show "validClaimCode other_code" by (simp add: validClaimCode_def demo_codes_normal demo_codes_valid)
  show "find_by cc_codeHash (cc_codeHash (demo_claim ''c2'' 1 other_code)) (cd_claims licensed_db) = Some (demo_claim ''c2'' 1 other_code)"
    by (simp add: find_by_def licensed_db_def demo_db_def demo_claim_def new_claim_def demo_codes_normal) (simp add: demo_code_def)
  show "cc_status (demo_claim ''c2'' 1 other_code) = CODE_AVAILABLE" "\<not> code_expired demo_call (demo_claim ''c2'' 1 other_code)"
      "cc_orderItemId (demo_claim ''c2'' 1 other_code) \<noteq> []"
    by (simp_all add: demo_claim_def new_claim_def code_expired_def demo_call_def)
  show "find_by or_id (cc_orderId (demo_claim ''c2'' 1 other_code)) (cd_orders licensed_db) = Some demo_order"
      "or_renewalSubscriptionId demo_order = None"
    by (simp_all add: find_by_def licensed_db_def demo_db_def demo_claim_def new_claim_def demo_order_def)
  show "hd (cd_licenses licensed_db) \<in> set (cd_licenses licensed_db)"
      "li_orderItemId (hd (cd_licenses licensed_db)) = cc_orderItemId (demo_claim ''c2'' 1 other_code)"
    by (simp_all add: licensed_db_def demo_claim_def new_claim_def new_license_def)
qed

end
