(* ===== verification/Notification_Center.thy ===== *)
theory Notification_Center
  imports Licensing_Fulfillment
begin

text \<open>
  The notification centre: \<open>apps/web/notifications/center.ts\<close>. Messages are written once per idempotency key, listed for the
  principals of their audience, and read or dismissed by a receipt per user. The two capabilities of the package
  \<open>@bke/notifications\<close> (the intent policy and the inbox policy) are parameters.
\<close>

section \<open>Messages\<close>

datatype Audience = ToPrincipal ident | ToAccount ident | ToAdministrators | ToSegment string | ToAllUsers
  | ToActiveClients | ToVisitor "string option"

record NotificationIntent =
  it_moduleId :: string
  it_event :: string
  it_sourceReference :: "string option"
  it_audience :: Audience
  it_title :: string
  it_body :: string
  it_category :: string
  it_data :: "jvalue option"
  it_trigger :: string
  it_placementHint :: "string option"
  it_attributes :: "(string \<times> jvalue) list"
  it_priority :: string
  it_idempotencyKey :: string

record NotificationSnapshot =
  sn_notificationId :: ident
  sn_moduleId :: string
  sn_event :: string
  sn_sourceReference :: "string option"
  sn_audience :: Audience
  sn_title :: string
  sn_body :: string
  sn_category :: string
  sn_data :: "jvalue option"
  sn_trigger :: "string option"
  sn_placementHint :: "string option"
  sn_attributes :: "(string \<times> jvalue) list"
  sn_priority :: string
  sn_idempotencyKey :: string
  sn_createdAt :: time
  sn_expiresAt :: "time option"

record Principal =
  pn_principalId :: ident
  pn_role :: string
  pn_accountIds :: "ident list"
  pn_segmentKeys :: "string list"
  pn_activeClient :: bool
  pn_visitorId :: "string option"

datatype ReceiptAction = MARK_READ | DISMISS

datatype Visibility = Visible | Hidden string

datatype ReceiptTransition = TransitionFailed string | TransitionUnchanged ReceiptState | TransitionChanged ReceiptState

text \<open>The capabilities: \<open>create\<close> gives the intent to notify of, if any; \<open>materialize\<close> its durable form or the code of its failure.\<close>

record NotificationPolicy =
  np_create :: "NotificationIntent \<Rightarrow> NotificationIntent option"
  np_materialize :: "ident \<Rightarrow> NotificationIntent \<Rightarrow> time \<Rightarrow> string + NotificationSnapshot"
  np_visibility :: "NotificationSnapshot \<Rightarrow> Principal \<Rightarrow> ReceiptState option \<Rightarrow> Visibility"
  np_transitionReceipt :: "ReceiptState \<Rightarrow> ReceiptAction \<Rightarrow> ReceiptTransition"

definition slice :: "nat \<Rightarrow> nat \<Rightarrow> string \<Rightarrow> string" where
  "slice i j s = take (j - i) (drop i s)"

definition notificationId :: "TextCrypto \<Rightarrow> string \<Rightarrow> string" where
  "notificationId tc idempotencyKey =
     (let hash = tc_sha256 tc (''bke-notification-message-v1'' @ [char_of (0 :: nat)] @ idempotencyKey) in
      ''bke-'' @ slice 0 8 hash @ ''-'' @ slice 8 12 hash @ ''-'' @ slice 12 16 hash @ ''-'' @ slice 16 20 hash @ ''-'' @ slice 20 32 hash)"

text \<open>The five columns of an audience: its kind, who, account, segment and visitor.\<close>

fun audienceColumns :: "Audience \<Rightarrow> string \<times> ident option \<times> ident option \<times> string option \<times> string option" where
  "audienceColumns (ToPrincipal i) = (''PRINCIPAL'', Some i, None, None, None)"
| "audienceColumns (ToAccount i) = (''ACCOUNT'', None, Some i, None, None)"
| "audienceColumns ToAdministrators = (''ADMINISTRATORS'', None, None, None, None)"
| "audienceColumns (ToSegment k) = (''SEGMENT'', None, None, Some k, None)"
| "audienceColumns ToAllUsers = (''ALL_USERS'', None, None, None, None)"
| "audienceColumns ToActiveClients = (''ALL_ACTIVE_CLIENTS'', None, None, None, None)"
| "audienceColumns (ToVisitor v) = (''VISITOR'', None, None, None, v)"

definition AUDIENCE_CORRUPT :: error where "AUDIENCE_CORRUPT = ''NOTIFICATION_AUDIENCE_CORRUPT''"

definition required :: "string option \<Rightarrow> (string \<Rightarrow> Audience) \<Rightarrow> error + Audience" where
  "required x f = (if truthy x then Inr (f (the x)) else Inl AUDIENCE_CORRUPT)"

definition rowAudience :: "NotificationRow \<Rightarrow> error + Audience" where
  "rowAudience row =
     (if nm_audienceKind row = ''PRINCIPAL'' then required (nm_audiencePrincipalId row) ToPrincipal
      else if nm_audienceKind row = ''ACCOUNT'' then required (nm_audienceAccountId row) ToAccount
      else if nm_audienceKind row = ''ADMINISTRATORS'' then Inr ToAdministrators
      else if nm_audienceKind row = ''SEGMENT'' then required (nm_audienceSegmentKey row) ToSegment
      else if nm_audienceKind row = ''ALL_USERS'' then Inr ToAllUsers
      else if nm_audienceKind row = ''ALL_ACTIVE_CLIENTS'' then Inr ToActiveClients
      else if nm_audienceKind row = ''VISITOR'' then Inr (ToVisitor (nm_audienceVisitorId row))
      else Inl AUDIENCE_CORRUPT)"

definition rowSnapshot :: "NotificationRow \<Rightarrow> error + NotificationSnapshot" where
  "rowSnapshot row = map_sum id (\<lambda>audience.
     \<lparr>sn_notificationId = nm_id row, sn_moduleId = nm_sourceModule row, sn_event = nm_sourceEvent row,
      sn_sourceReference = nm_sourceReference row, sn_audience = audience, sn_title = nm_title row, sn_body = nm_body row,
      sn_category = nm_category row, sn_data = nm_data row, sn_trigger = nm_trigger row, sn_placementHint = nm_placementHint row,
      sn_attributes = (case nm_attributes row of JVObj es \<Rightarrow> es | _ \<Rightarrow> []), sn_priority = nm_priority row,
      sn_idempotencyKey = nm_idempotencyKey row, sn_createdAt = nm_createdAt row, sn_expiresAt = nm_expiresAt row\<rparr>) (rowAudience row)"

definition new_notification :: "NotificationSnapshot \<Rightarrow> ident option \<Rightarrow> NotificationRow" where
  "new_notification snapshot productId =
     (case audienceColumns (sn_audience snapshot) of (kind, principalId, accountId, segmentKey, visitorId) \<Rightarrow>
     \<lparr>nm_id = sn_notificationId snapshot, nm_idempotencyKey = sn_idempotencyKey snapshot, nm_sourceModule = sn_moduleId snapshot,
      nm_sourceEvent = sn_event snapshot, nm_sourceReference = sn_sourceReference snapshot, nm_audienceKind = kind,
      nm_audiencePrincipalId = principalId, nm_audienceAccountId = accountId, nm_audienceSegmentKey = segmentKey,
      nm_audienceVisitorId = visitorId, nm_title = sn_title snapshot, nm_body = sn_body snapshot, nm_category = sn_category snapshot,
      nm_priority = sn_priority snapshot, nm_trigger = sn_trigger snapshot, nm_placementHint = sn_placementHint snapshot,
      nm_attributes = JVObj (sn_attributes snapshot), nm_data = sn_data snapshot, nm_productId = productId,
      nm_createdAt = sn_createdAt snapshot, nm_expiresAt = sn_expiresAt snapshot\<rparr>)"

datatype PersistResult = NotNotified | AlreadyNotified NotificationRow | NotificationCreated NotificationRow

definition persistNotification :: "NotificationPolicy \<Rightarrow> CommerceCall \<Rightarrow> NotificationIntent \<Rightarrow> time option \<Rightarrow> ident option \<Rightarrow>
    (CommerceDb, PersistResult) eff" where
  "persistNotification pol cx input createdAt productId =
     (case np_create pol input of
        None \<Rightarrow> ret NotNotified
      | Some intent \<Rightarrow>
          (case np_materialize pol (notificationId (cx_crypto cx) (it_idempotencyKey intent)) intent (or_else createdAt (cx_now cx)) of
             Inl code \<Rightarrow> throw (''NOTIFICATION_MATERIALIZATION_'' @ code)
           | Inr snapshot \<Rightarrow>
               bnd (gets (\<lambda>s. find_by nm_idempotencyKey (sn_idempotencyKey snapshot) (cd_notifications s))) (\<lambda>existing.
               case existing of
                 Some row \<Rightarrow> ret (AlreadyNotified row)
               | None \<Rightarrow>
                   bnd (write_notifications (\<lambda>rows. rows @ [new_notification snapshot productId])) (\<lambda>_.
                   ret (NotificationCreated (new_notification snapshot productId))))))"

definition persistNotificationOutsideTransaction :: "NotificationPolicy \<Rightarrow> CommerceCall \<Rightarrow> NotificationIntent \<Rightarrow> time option \<Rightarrow>
    ident option \<Rightarrow> (CommerceDb, PersistResult) eff" where
  "persistNotificationOutsideTransaction pol cx input createdAt productId =
     transaction (persistNotification pol cx input createdAt productId)"

section \<open>Listing\<close>

text \<open>The first error of a list of results, or all of them.\<close>

fun those_sum :: "(error + 'a) list \<Rightarrow> error + 'a list" where
  "those_sum [] = Inr []"
| "those_sum (Inl e # rs) = Inl e"
| "those_sum (Inr a # rs) = map_sum id (Cons a) (those_sum rs)"

definition principalContext :: "ident \<Rightarrow> string \<Rightarrow> CommerceDb \<Rightarrow> Principal" where
  "principalContext userId role s =
     \<lparr>pn_principalId = userId, pn_role = role,
      pn_accountIds = map an_id (filter (\<lambda>a. an_ownerId a = userId \<or> userId \<in> set (an_members a)) (cd_accounts s)),
      pn_segmentKeys = [], pn_activeClient = False, pn_visitorId = None\<rparr>"

definition agentNotificationPrincipal :: "ident \<Rightarrow> ident \<Rightarrow> Principal" where
  "agentNotificationPrincipal userId accountId =
     \<lparr>pn_principalId = userId, pn_role = ''CUSTOMER'', pn_accountIds = [accountId], pn_segmentKeys = [],
      pn_activeClient = True, pn_visitorId = None\<rparr>"

definition is_some_of :: "ident option \<Rightarrow> ident list \<Rightarrow> bool" where
  "is_some_of x xs = (case x of None \<Rightarrow> False | Some i \<Rightarrow> i \<in> set xs)"

definition candidateWhere :: "Principal \<Rightarrow> NotificationRow \<Rightarrow> bool" where
  "candidateWhere who row \<longleftrightarrow>
     nm_audienceKind row = ''PRINCIPAL'' \<and> nm_audiencePrincipalId row = Some (pn_principalId who) \<or>
     nm_audienceKind row = ''ALL_USERS'' \<or>
     (pn_accountIds who \<noteq> [] \<and> nm_audienceKind row = ''ACCOUNT'' \<and> is_some_of (nm_audienceAccountId row) (pn_accountIds who)) \<or>
     (pn_role who = ''ADMIN'' \<and> nm_audienceKind row = ''ADMINISTRATORS'') \<or>
     (pn_activeClient who \<and> nm_audienceKind row = ''ALL_ACTIVE_CLIENTS'') \<or>
     (pn_segmentKeys who \<noteq> [] \<and> nm_audienceKind row = ''SEGMENT'' \<and> is_some_of (nm_audienceSegmentKey row) (pn_segmentKeys who))"

text \<open>\<open>ORDER BY createdAt DESC LIMIT n\<close>.\<close>

definition newest :: "int \<Rightarrow> NotificationRow list \<Rightarrow> NotificationRow list" where
  "newest n rows = order_take (\<lambda>r. - nm_createdAt r) n rows"

definition receipt_of :: "ident \<Rightarrow> ident \<Rightarrow> CommerceDb \<Rightarrow> ReceiptRow option" where
  "receipt_of notification userId s =
     List.find (\<lambda>r. rc_notificationId r = notification \<and> rc_userId r = userId) (cd_receipts s)"

definition receipt_state :: "ident \<Rightarrow> ident \<Rightarrow> CommerceDb \<Rightarrow> ReceiptState" where
  "receipt_state notification userId s = or_else (map_option rc_state (receipt_of notification userId s)) RECEIPT_UNREAD"

record WebNotificationItem =
  wn_id :: ident
  wn_source :: string
  wn_event :: string
  wn_title :: string
  wn_body :: string
  wn_category :: string
  wn_priority :: string
  wn_createdAt :: time
  wn_expiresAt :: "time option"
  wn_state :: ReceiptState
  wn_audienceKind :: string
  wn_accountId :: "ident option"
  wn_accountName :: "string option"
  wn_productId :: "ident option"
  wn_data :: "jvalue option"

definition notification_item :: "(ident \<Rightarrow> string option) \<Rightarrow> NotificationRow \<Rightarrow> ReceiptState \<Rightarrow> WebNotificationItem" where
  "notification_item accountNames row state =
     \<lparr>wn_id = nm_id row, wn_source = nm_sourceModule row, wn_event = nm_sourceEvent row, wn_title = nm_title row,
      wn_body = nm_body row, wn_category = nm_category row, wn_priority = nm_priority row, wn_createdAt = nm_createdAt row,
      wn_expiresAt = nm_expiresAt row, wn_state = state, wn_audienceKind = nm_audienceKind row,
      wn_accountId = nm_audienceAccountId row,
      wn_accountName = (if truthy (nm_audienceAccountId row) then Option.bind (nm_audienceAccountId row) accountNames else None),
      wn_productId = nm_productId row, wn_data = nm_data row\<rparr>"

text \<open>The loop over the rows until the limit is reached; a row whose audience is corrupt throws.\<close>

fun visible_items :: "NotificationPolicy \<Rightarrow> Principal \<Rightarrow> bool \<Rightarrow> (ident \<Rightarrow> string option) \<Rightarrow> (ident \<Rightarrow> ReceiptState) \<Rightarrow> nat \<Rightarrow>
    NotificationRow list \<Rightarrow> error + WebNotificationItem list" where
  "visible_items pol who includeDismissed names states n [] = Inr []"
| "visible_items pol who includeDismissed names states n (row # rows) =
     (case rowSnapshot row of
        Inl e \<Rightarrow> Inl e
      | Inr snapshot \<Rightarrow>
          (let state = states (nm_id row); visibility = np_visibility pol snapshot who (Some state) in
           if visibility \<noteq> Visible \<and> \<not> (includeDismissed \<and> visibility = Hidden ''DISMISSED'')
           then visible_items pol who includeDismissed names states n rows
           else if n \<le> 1 then Inr [notification_item names row state]
           else map_sum id (Cons (notification_item names row state)) (visible_items pol who includeDismissed names states (n - 1) rows)))"

definition account_name :: "CommerceDb \<Rightarrow> ident \<Rightarrow> string option" where
  "account_name s i = map_option an_displayName (find_by an_id i (cd_accounts s))"

definition listNotificationsForPrincipal :: "NotificationPolicy \<Rightarrow> Principal \<Rightarrow> int option \<Rightarrow> bool \<Rightarrow> CommerceDb \<Rightarrow>
    error + WebNotificationItem list" where
  "listNotificationsForPrincipal pol who limit includeDismissed s =
     (let limit = min (max (or_else limit 100) 1) 200;
          rows = newest (min (limit * 3) 600) (filter (candidateWhere who) (cd_notifications s)) in
      visible_items pol who includeDismissed (account_name s) (\<lambda>i. receipt_state i (pn_principalId who) s) (nat limit) rows)"

definition listNotificationsForUser :: "NotificationPolicy \<Rightarrow> ident \<Rightarrow> string \<Rightarrow> int option \<Rightarrow> bool \<Rightarrow> CommerceDb \<Rightarrow>
    error + WebNotificationItem list" where
  "listNotificationsForUser pol userId role limit includeDismissed s =
     listNotificationsForPrincipal pol (principalContext userId role s) limit includeDismissed s"

definition listNotificationsForAgentSession :: "NotificationPolicy \<Rightarrow> ident \<Rightarrow> ident \<Rightarrow> int option \<Rightarrow> CommerceDb \<Rightarrow>
    error + WebNotificationItem list" where
  "listNotificationsForAgentSession pol userId accountId limit s =
     listNotificationsForPrincipal pol (agentNotificationPrincipal userId accountId) limit False s"

definition unreadNotificationCount :: "NotificationPolicy \<Rightarrow> ident \<Rightarrow> string \<Rightarrow> CommerceDb \<Rightarrow> error + nat" where
  "unreadNotificationCount pol userId role s =
     map_sum id (\<lambda>items. length (filter (\<lambda>item. wn_state item = RECEIPT_UNREAD) items))
       (listNotificationsForUser pol userId role (Some 200) False s)"

definition listAccountProductNotifications :: "ident \<Rightarrow> ident \<Rightarrow> int option \<Rightarrow> time \<Rightarrow> CommerceDb \<Rightarrow>
    error + NotificationSnapshot list" where
  "listAccountProductNotifications accountId productId limit now s =
     those_sum (map rowSnapshot (newest (min (max (or_else limit 50) 1) 200)
       (filter (\<lambda>r. nm_audienceKind r = ''ACCOUNT'' \<and> nm_audienceAccountId r = Some accountId \<and> nm_productId r = Some productId \<and>
          (case nm_expiresAt r of None \<Rightarrow> True | Some e \<Rightarrow> now < e)) (cd_notifications s))))"

section \<open>Receipts\<close>

datatype ReceiptResult = ReceiptNotFound | ReceiptUnchanged ReceiptState | ReceiptUpdated ReceiptState

definition new_receipt :: "ident \<Rightarrow> ident \<Rightarrow> ReceiptState \<Rightarrow> time \<Rightarrow> ReceiptRow" where
  "new_receipt notification userId state now =
     \<lparr>rc_notificationId = notification, rc_userId = userId, rc_state = state,
      rc_readAt = (if state = RECEIPT_READ then Some now else None),
      rc_dismissedAt = (if state = RECEIPT_DISMISSED then Some now else None)\<rparr>"

definition update_receipt :: "ReceiptState \<Rightarrow> time \<Rightarrow> ReceiptRow \<Rightarrow> ReceiptRow" where
  "update_receipt state now r =
     r\<lparr>rc_state := state, rc_readAt := (if state = RECEIPT_READ then Some now else rc_readAt r),
       rc_dismissedAt := (if state = RECEIPT_DISMISSED then Some now else rc_dismissedAt r)\<rparr>"

definition upsert_receipt :: "ident \<Rightarrow> ident \<Rightarrow> ReceiptState \<Rightarrow> time \<Rightarrow> (CommerceDb, unit) eff" where
  "upsert_receipt notification userId state now =
     (let this = (\<lambda>r. rc_notificationId r = notification \<and> rc_userId r = userId) in
      write_receipts (\<lambda>rows. if List.find this rows \<noteq> None then update_rows this (update_receipt state now) rows
        else rows @ [new_receipt notification userId state now]))"

definition mutateReceiptForPrincipal :: "NotificationPolicy \<Rightarrow> time \<Rightarrow> Principal \<Rightarrow> ident \<Rightarrow> ident \<Rightarrow> ReceiptAction \<Rightarrow>
    (CommerceDb, ReceiptResult) eff" where
  "mutateReceiptForPrincipal pol now who userId notification action =
     bnd (gets (\<lambda>s. find_by nm_id notification (cd_notifications s))) (\<lambda>found.
     case found of
       None \<Rightarrow> ret ReceiptNotFound
     | Some row \<Rightarrow>
         bnd (gets (receipt_state notification userId)) (\<lambda>current.
         bnd (from_result (rowSnapshot row)) (\<lambda>snapshot.
         if np_visibility pol snapshot who (if current = RECEIPT_DISMISSED then None else Some current) \<noteq> Visible
         then ret ReceiptNotFound
         else (case np_transitionReceipt pol current action of
             TransitionFailed code \<Rightarrow> throw (''NOTIFICATION_RECEIPT_'' @ code)
           | TransitionUnchanged state \<Rightarrow> ret (ReceiptUnchanged state)
           | TransitionChanged state \<Rightarrow>
               bnd (upsert_receipt notification userId state now) (\<lambda>_. ret (ReceiptUpdated state))))))"

definition mutateReceipt :: "NotificationPolicy \<Rightarrow> time \<Rightarrow> ident \<Rightarrow> string \<Rightarrow> ident \<Rightarrow> ReceiptAction \<Rightarrow> (CommerceDb, ReceiptResult) eff" where
  "mutateReceipt pol now userId role notification action =
     bnd (gets (principalContext userId role)) (\<lambda>who.
     mutateReceiptForPrincipal pol now who userId notification action)"

definition mutateNotificationReceiptForAgentSession :: "NotificationPolicy \<Rightarrow> time \<Rightarrow> ident \<Rightarrow> ident \<Rightarrow> ident \<Rightarrow> ReceiptAction \<Rightarrow>
    (CommerceDb, ReceiptResult) eff" where
  "mutateNotificationReceiptForAgentSession pol now userId accountId notification action =
     mutateReceiptForPrincipal pol now (agentNotificationPrincipal userId accountId) userId notification action"

definition markNotificationRead :: "NotificationPolicy \<Rightarrow> time \<Rightarrow> ident \<Rightarrow> string \<Rightarrow> ident \<Rightarrow> (CommerceDb, ReceiptResult) eff" where
  "markNotificationRead pol now userId role notification = mutateReceipt pol now userId role notification MARK_READ"

definition dismissNotification :: "NotificationPolicy \<Rightarrow> time \<Rightarrow> ident \<Rightarrow> string \<Rightarrow> ident \<Rightarrow> (CommerceDb, ReceiptResult) eff" where
  "dismissNotification pol now userId role notification = mutateReceipt pol now userId role notification DISMISS"

section \<open>What a message keeps\<close>

text \<open>Whom an audience names, in words: the specification of the query.\<close>

fun addressed :: "Principal \<Rightarrow> Audience \<Rightarrow> bool" where
  "addressed who (ToPrincipal i) \<longleftrightarrow> i = pn_principalId who"
| "addressed who (ToAccount i) \<longleftrightarrow> i \<in> set (pn_accountIds who)"
| "addressed who ToAdministrators \<longleftrightarrow> pn_role who = ''ADMIN''"
| "addressed who (ToSegment k) \<longleftrightarrow> k \<in> set (pn_segmentKeys who)"
| "addressed who ToAllUsers \<longleftrightarrow> True"
| "addressed who ToActiveClients \<longleftrightarrow> pn_activeClient who"
| "addressed who (ToVisitor v) \<longleftrightarrow> False"

lemma candidate_addressed:
  "candidateWhere who row \<Longrightarrow> rowAudience row = Inr a \<Longrightarrow> addressed who a"
  by (auto simp: candidateWhere_def rowAudience_def required_def is_some_of_def split: if_splits option.splits)

lemma candidate_complete:
  "addressed who a \<Longrightarrow> rowAudience row = Inr a \<Longrightarrow> candidateWhere who row"
  by (auto simp: candidateWhere_def rowAudience_def required_def is_some_of_def truthy_def split: if_splits option.splits)

lemma visible_items_from:
  "visible_items pol who includeDismissed names states n rows = Inr items \<Longrightarrow>
   length items \<le> max 1 n \<and> list_all (\<lambda>item. \<exists>row\<in>set rows. \<exists>snapshot. rowSnapshot row = Inr snapshot \<and> item = notification_item names row (states (nm_id row)) \<and>
     (np_visibility pol snapshot who (Some (wn_state item)) = Visible \<or>
      includeDismissed \<and> np_visibility pol snapshot who (Some (wn_state item)) = Hidden ''DISMISSED'')) items"
proof (induction pol who includeDismissed names states n rows arbitrary: items rule: visible_items.induct)
  case (2 pol who includeDismissed names states n row rows)
  obtain snapshot where snap: "rowSnapshot row = Inr snapshot" using 2(3) by (cases "rowSnapshot row") auto
  let ?st = "states (nm_id row)"
  show ?case
  proof (cases "np_visibility pol snapshot who (Some ?st) \<noteq> Visible \<and> \<not> (includeDismissed \<and> np_visibility pol snapshot who (Some ?st) = Hidden ''DISMISSED'')")
    case True
    then have "visible_items pol who includeDismissed names states n rows = Inr items" using 2(3) snap by (simp add: Let_def)
    from 2(1) [OF snap refl refl True this] show ?thesis by (auto simp: list_all_iff)
  next
    case shown: False
    have item: "wn_state (notification_item names row ?st) = ?st" by (simp add: notification_item_def)
    show ?thesis
    proof (cases "n \<le> 1")
      case True
      then have "items = [notification_item names row ?st]" using 2(3) snap shown by (auto simp: Let_def split: if_splits)
      then show ?thesis using snap shown item by auto
    next
      case False
      then obtain rest where rest: "visible_items pol who includeDismissed names states (n - 1) rows = Inr rest"
          "items = notification_item names row ?st # rest"
        using 2(3) snap shown by (cases "visible_items pol who includeDismissed names states (n - 1) rows") (auto simp: Let_def)
      from 2(2) [OF snap refl refl shown False rest(1)] show ?thesis
        using rest(2) snap shown item False by (auto simp: list_all_iff)
    qed
  qed
qed simp

text \<open>C39 What a user is shown is addressed to the user: every item of the list is a stored message whose audience names the user, an
  account the user owns or is a member of, the administrators when the user is one, or everybody, and which the inbox policy shows (or
  hides only as dismissed, when dismissed messages are asked for); at most 200 are listed.\<close>

theorem listed_notifications_addressed:
  assumes "listNotificationsForUser pol userId role limit includeDismissed s = Inr items"
  shows "length items \<le> 200 \<and> list_all (\<lambda>item. \<exists>row\<in>set (cd_notifications s). \<exists>snapshot. rowSnapshot row = Inr snapshot \<and>
    wn_id item = nm_id row \<and> addressed (principalContext userId role s) (sn_audience snapshot) \<and>
    (np_visibility pol snapshot (principalContext userId role s) (Some (wn_state item)) = Visible \<or>
     includeDismissed \<and> np_visibility pol snapshot (principalContext userId role s) (Some (wn_state item)) = Hidden ''DISMISSED'')) items"
proof -
  define n where "n = min (max (or_else limit 100) 1) 200"
  define who where "who = principalContext userId role s"
  define rows where "rows = newest (min (n * 3) 600) (filter (candidateWhere who) (cd_notifications s))"
  have run: "visible_items pol who includeDismissed (account_name s) (\<lambda>i. receipt_state i (pn_principalId who) s) (nat n) rows = Inr items"
    using assms unfolding listNotificationsForUser_def listNotificationsForPrincipal_def Let_def n_def who_def rows_def .
  have "set rows \<subseteq> set (filter (candidateWhere who) (cd_notifications s))" unfolding rows_def newest_def by (rule set_order_take)
  then have row: "row \<in> set (cd_notifications s) \<and> candidateWhere who row" if "row \<in> set rows" for row using that by auto
  have audience: "rowAudience row = Inr (sn_audience snapshot)" if "rowSnapshot row = Inr snapshot" for row snapshot
    using that by (cases "rowAudience row") (auto simp: rowSnapshot_def)
  have "nat n \<le> 200" by (simp add: n_def)
  moreover note visible_items_from [OF run]
  ultimately show ?thesis unfolding who_def [symmetric] list_all_iff
    using row audience candidate_addressed by (fastforce simp: notification_item_def)
qed

text \<open>A message with an audience the database can hold is read back as it was written.\<close>

definition audience_ok :: "Audience \<Rightarrow> bool" where
  "audience_ok a = (case a of ToPrincipal i \<Rightarrow> i \<noteq> [] | ToAccount i \<Rightarrow> i \<noteq> [] | ToSegment k \<Rightarrow> k \<noteq> [] | _ \<Rightarrow> True)"

lemma snapshot_roundtrip:
  "audience_ok (sn_audience snapshot) \<Longrightarrow> rowSnapshot (new_notification snapshot productId) = Inr snapshot"
  by (cases "sn_audience snapshot")
    (auto simp: rowSnapshot_def new_notification_def rowAudience_def required_def audience_ok_def truthy_def)

text \<open>What persisting leaves alone, and that it keeps every predicate insensitive to messages.\<close>

lemma frame_persist:
  "(\<And>rows s. part (s\<lparr>cd_notifications := rows\<rparr>) = part s) \<Longrightarrow> frame part (persistNotification pol cx input createdAt productId)"
  unfolding persistNotification_def by (intro frame_intro frame_write_table)

lemma keeps_persist:
  "(\<And>rows s. P s \<Longrightarrow> notifications_ok rows \<Longrightarrow> P (s\<lparr>cd_notifications := rows\<rparr>)) \<Longrightarrow> keeps P (persistNotification pol cx input createdAt productId)"
  unfolding persistNotification_def by (intro keeps_intro keeps_write_table)

lemma frame_transition [frame_intro]:
  "(\<And>code. frame part (f code)) \<Longrightarrow> (\<And>state. frame part (g state)) \<Longrightarrow> (\<And>state. frame part (h state)) \<Longrightarrow>
   frame part (case t of TransitionFailed code \<Rightarrow> f code | TransitionUnchanged state \<Rightarrow> g state | TransitionChanged state \<Rightarrow> h state)"
  by (cases t) simp_all

lemma mutate_receipt_frame:
  "(\<And>rows s. part (s\<lparr>cd_receipts := rows\<rparr>) = part s) \<Longrightarrow> frame part (mutateReceiptForPrincipal pol now who userId notification action)"
  unfolding mutateReceiptForPrincipal_def upsert_receipt_def Let_def
  by (intro frame_intro frame_write_table)

end
