(* ===== verification/Settlement.thy ===== *)
theory Settlement
  imports Claim_Codes
begin

text \<open>
  What a confirmed payment and a confirmed refund do to an order: \<open>apps/web/payments/settlement-transaction.ts\<close>,
  \<open>apps/web/entitlements/commerce-claim-unit-issuer.ts\<close> and \<open>apps/web/entitlements/refund-revocation.ts\<close>. The repositories
  are modelled; the capabilities of the packages \<open>@bke/payments\<close>, \<open>@bke/commerce\<close> and \<open>@bke/entitlements\<close> over
  them are parameters.
\<close>

section \<open>Settlement facts\<close>

record SettlementFactClaim =
  fc_id :: ident
  fc_providerEventRecordId :: ident
  fc_checkoutAttemptId :: ident
  fc_provider :: string
  fc_eventId :: string
  fc_externalPaymentId :: string
  fc_externalCheckoutId :: string
  fc_commercialReference :: string
  fc_amountMinor :: int
  fc_currency :: string
  fc_livemode :: bool
  fc_settledAt :: time

record SettlementFactSnapshot =
  ss_settlementFactId :: ident
  ss_providerEventRecordId :: ident
  ss_checkoutAttemptId :: ident
  ss_provider :: string
  ss_eventId :: string
  ss_externalPaymentId :: string
  ss_externalCheckoutId :: string
  ss_commercialReference :: string
  ss_amountMinor :: int
  ss_currency :: string
  ss_livemode :: bool
  ss_settledAt :: time
  ss_createdAt :: time

definition settlementRecord :: "SettlementFactRow \<Rightarrow> SettlementFactSnapshot" where
  "settlementRecord row =
     \<lparr>ss_settlementFactId = sf_id row, ss_providerEventRecordId = sf_providerEventRecordId row,
      ss_checkoutAttemptId = sf_checkoutAttemptId row, ss_provider = sf_provider row, ss_eventId = sf_eventId row,
      ss_externalPaymentId = sf_externalPaymentId row, ss_externalCheckoutId = sf_externalCheckoutId row,
      ss_commercialReference = sf_commercialReference row, ss_amountMinor = sf_amountMinor row, ss_currency = sf_currency row,
      ss_livemode = sf_livemode row, ss_settledAt = sf_settledAt row, ss_createdAt = sf_createdAt row\<rparr>"

definition new_fact :: "SettlementFactClaim \<Rightarrow> time \<Rightarrow> SettlementFactRow" where
  "new_fact input now =
     \<lparr>sf_id = fc_id input, sf_providerEventRecordId = fc_providerEventRecordId input, sf_checkoutAttemptId = fc_checkoutAttemptId input,
      sf_provider = fc_provider input, sf_eventId = fc_eventId input, sf_externalPaymentId = fc_externalPaymentId input,
      sf_externalCheckoutId = fc_externalCheckoutId input, sf_commercialReference = fc_commercialReference input,
      sf_amountMinor = fc_amountMinor input, sf_currency = fc_currency input, sf_livemode = fc_livemode input,
      sf_settledAt = fc_settledAt input, sf_createdAt = now\<rparr>"

definition findProviderEventById :: "ident \<Rightarrow> (CommerceDb, ProviderEventRow option) eff" where
  "findProviderEventById i = gets (\<lambda>s. find_by pe_id i (cd_events s))"

definition findCheckoutAttempt :: "string \<Rightarrow> string \<Rightarrow> (CommerceDb, CheckoutAttemptRow option) eff" where
  "findCheckoutAttempt provider externalCheckoutId = gets (\<lambda>s.
     List.find (\<lambda>r. ck_provider r = provider \<and> ck_externalCheckoutId r = Some externalCheckoutId) (cd_checkouts s))"

text \<open>\<open>ON CONFLICT DO NOTHING\<close> skips a row that a unique index refuses; a check constraint still throws.\<close>

definition fact_conflict :: "SettlementFactClaim \<Rightarrow> SettlementFactRow \<Rightarrow> bool" where
  "fact_conflict input r \<longleftrightarrow> sf_id r = fc_id input \<or> sf_providerEventRecordId r = fc_providerEventRecordId input \<or>
     (sf_provider r = fc_provider input \<and> sf_externalPaymentId r = fc_externalPaymentId input)"

text \<open>The rows that match, the one of the same provider event first.\<close>

definition existing_fact :: "SettlementFactClaim \<Rightarrow> CommerceDb \<Rightarrow> SettlementFactRow option" where
  "existing_fact input s =
     (case List.find (\<lambda>r. sf_providerEventRecordId r = fc_providerEventRecordId input) (cd_facts s) of
        Some r \<Rightarrow> Some r
      | None \<Rightarrow> List.find (\<lambda>r. sf_provider r = fc_provider input \<and> sf_externalPaymentId r = fc_externalPaymentId input) (cd_facts s))"

definition claim_fact :: "CommerceCall \<Rightarrow> SettlementFactClaim \<Rightarrow> (CommerceDb, bool \<times> SettlementFactSnapshot) eff" where
  "claim_fact cx input =
     bnd (gets (\<lambda>s. list_ex (fact_conflict input) (cd_facts s))) (\<lambda>conflict.
     if \<not> conflict then
       bnd (write_facts (\<lambda>rows. rows @ [new_fact input (cx_now cx)])) (\<lambda>_.
       ret (True, settlementRecord (new_fact input (cx_now cx))))
     else
       bnd (gets (existing_fact input)) (\<lambda>existing.
       case existing of
         None \<Rightarrow> throw ''PAYMENTS_SETTLEMENT_FACT_DISAPPEARED''
       | Some row \<Rightarrow> ret (False, settlementRecord row)))"

record SettlementFactRepository =
  fr_findProviderEventById :: "ident \<Rightarrow> (CommerceDb, ProviderEventRow option) eff"
  fr_findCheckoutAttempt :: "string \<Rightarrow> string \<Rightarrow> (CommerceDb, CheckoutAttemptRow option) eff"
  fr_claim :: "SettlementFactClaim \<Rightarrow> (CommerceDb, bool \<times> SettlementFactSnapshot) eff"

definition createPaymentsRepository :: "CommerceCall \<Rightarrow> SettlementFactRepository" where
  "createPaymentsRepository cx =
     \<lparr>fr_findProviderEventById = findProviderEventById, fr_findCheckoutAttempt = findCheckoutAttempt, fr_claim = claim_fact cx\<rparr>"

section \<open>Granting rights\<close>

record GrantInput =
  gr_subjectId :: ident
  gr_resourceId :: ident
  gr_sourceReference :: string
  gr_quantity :: int
  gr_scopeSnapshot :: jvalue
  gr_grantSnapshot :: jvalue
  gr_validFrom :: time
  gr_validUntil :: "time option"

datatype GrantResult = Granted EntitlementRow | GrantExisting EntitlementRow | GrantRejected string

definition new_entitlement :: "ident \<Rightarrow> GrantInput \<Rightarrow> time \<Rightarrow> EntitlementRow" where
  "new_entitlement i input now =
     \<lparr>en_id = i, en_subjectId = gr_subjectId input, en_resourceId = gr_resourceId input, en_sourceReference = gr_sourceReference input,
      en_status = ENTITLEMENT_ACTIVE, en_quantity = gr_quantity input, en_scopeSnapshot = gr_scopeSnapshot input,
      en_grantSnapshot = gr_grantSnapshot input, en_validFrom = gr_validFrom input, en_validUntil = gr_validUntil input,
      en_createdAt = now, en_revokedAt = None, en_revocationReference = None, en_revocationSnapshot = None\<rparr>"

definition same_grant :: "EntitlementRow \<Rightarrow> GrantInput \<Rightarrow> bool" where
  "same_grant row input \<longleftrightarrow> en_subjectId row = gr_subjectId input \<and> en_resourceId row = gr_resourceId input \<and>
     en_quantity row = gr_quantity input \<and> jsonEquivalent (en_scopeSnapshot row) (gr_scopeSnapshot input) \<and>
     jsonEquivalent (en_grantSnapshot row) (gr_grantSnapshot input) \<and> en_validFrom row = gr_validFrom input \<and>
     en_validUntil row = gr_validUntil input"

definition grant_right :: "CommerceCall \<Rightarrow> GrantInput \<Rightarrow> (CommerceDb, GrantResult) eff" where
  "grant_right cx input =
     bnd (fresh_uuid cx) (\<lambda>i.
     bnd (gets (\<lambda>s. find_by en_sourceReference (gr_sourceReference input) (cd_entitlements s))) (\<lambda>existing.
     case existing of
       None \<Rightarrow>
         bnd (write_entitlements (\<lambda>rows. rows @ [new_entitlement i input (cx_now cx)])) (\<lambda>_.
         ret (Granted (new_entitlement i input (cx_now cx))))
     | Some row \<Rightarrow> ret (if same_grant row input then GrantExisting row else GrantRejected ''SOURCE_CONFLICT'')))"

section \<open>Claim units\<close>

record ClaimUnitInput =
  cu_orderId :: ident
  cu_orderItemId :: ident
  cu_purchaserAccountId :: ident
  cu_productId :: ident
  cu_editionId :: "ident option"
  cu_purchasePlanId :: "ident option"
  cu_resourceId :: ident
  cu_quantity :: int
  cu_scopeSnapshot :: jvalue
  cu_grantSnapshot :: jvalue
  cu_validFrom :: time

datatype ClaimUnitResult = UnitsIssued nat | UnitsExisting nat | UnitsRejected | UnitsFailed

definition issueCommerceClaimUnits :: "CommerceCall \<Rightarrow> ClaimUnitInput \<Rightarrow> (CommerceDb, ClaimUnitResult) eff" where
  "issueCommerceClaimUnits cx input =
     bnd (issueClaimCodes cx
       \<lparr>ci_orderId = cu_orderId input, ci_orderItemId = cu_orderItemId input, ci_purchaserAccountId = cu_purchaserAccountId input,
        ci_productId = cu_productId input, ci_editionId = cu_editionId input, ci_purchasePlanId = cu_purchasePlanId input,
        ci_resourceId = cu_resourceId input, ci_units = cu_quantity input, ci_scopeSnapshot = cu_scopeSnapshot input,
        ci_grantSnapshot = cu_grantSnapshot input, ci_validFrom = cu_validFrom input, ci_validUntil = None, ci_expiresAt = None\<rparr>) (\<lambda>result.
     ret (case result of
            ClaimsIssued n _ \<Rightarrow> UnitsIssued n
          | ClaimsExisting n _ \<Rightarrow> UnitsExisting n
          | ClaimsRejected _ \<Rightarrow> UnitsRejected
          | ClaimsFailed _ \<Rightarrow> UnitsFailed))"

definition createCommerceClaimUnitIssuer :: "CommerceCall \<Rightarrow> ClaimUnitInput \<Rightarrow> (CommerceDb, ClaimUnitResult) eff" where
  "createCommerceClaimUnitIssuer cx input = transaction (issueCommerceClaimUnits cx input)"

section \<open>Settling the order\<close>

record SettleInput =
  si_orderId :: ident
  si_expectedAmountMinor :: int
  si_expectedCurrency :: string
  si_settledAt :: time

datatype Disposition = STANDARD | AFTER_LOCAL_CANCELLATION

record SettledItem =
  sm_orderItemId :: ident
  sm_productId :: ident
  sm_editionId :: "ident option"
  sm_purchasePlanId :: "ident option"
  sm_quantity :: int
  sm_entitlementSnapshot :: "jvalue option"
  sm_policySnapshot :: PolicySnapshot

record SettledOrder =
  so_orderId :: ident
  so_invoiceId :: ident
  so_accountId :: ident
  so_amountMinor :: int
  so_currency :: string
  so_settlementDisposition :: Disposition
  so_fulfillmentMode :: FulfillmentMode
  so_fulfillmentSnapshot :: jvalue
  so_items :: "SettledItem list"

datatype SettleResult = SettleRejected string | Settled SettledOrder

definition settled_item :: "OrderItemRow \<Rightarrow> SettledItem" where
  "settled_item item =
     \<lparr>sm_orderItemId = oi_id item, sm_productId = oi_productId item, sm_editionId = oi_editionId item,
      sm_purchasePlanId = oi_purchasePlanId item, sm_quantity = oi_quantity item, sm_entitlementSnapshot = oi_entitlementSnapshot item,
      sm_policySnapshot = oi_policySnapshot item\<rparr>"

definition settled_order :: "OrderRow \<Rightarrow> InvoiceRow \<Rightarrow> OrderItemRow list \<Rightarrow> SettledOrder" where
  "settled_order order invoice items =
     \<lparr>so_orderId = or_id order, so_invoiceId = in_id invoice, so_accountId = or_accountId order, so_amountMinor = or_totalMinor order,
      so_currency = or_currency order,
      so_settlementDisposition = (if or_status order = ORDER_CANCELLED then AFTER_LOCAL_CANCELLATION else STANDARD),
      so_fulfillmentMode = or_fulfillmentMode order, so_fulfillmentSnapshot = or_fulfillmentSnapshot order,
      so_items = map settled_item items\<rparr>"

definition unpaid :: "OrderRow \<Rightarrow> bool" where
  "unpaid order \<longleftrightarrow> or_status order = ORDER_PENDING \<or> or_status order = ORDER_CANCELLED"

definition released_after_cancellation :: "OrderRow \<Rightarrow> RedemptionRow option \<Rightarrow> bool" where
  "released_after_cancellation order redemption \<longleftrightarrow>
     or_status order = ORDER_CANCELLED \<and> map_option rd_status redemption = Some RD_RELEASED"

definition not_settleable :: "OrderRow \<Rightarrow> InvoiceRow \<Rightarrow> RedemptionRow option \<Rightarrow> bool" where
  "not_settleable order invoice redemption \<longleftrightarrow>
     (unpaid order \<and> in_status invoice \<noteq> INVOICE_DRAFT) \<or> (or_status order = ORDER_PAID \<and> in_status invoice \<noteq> INVOICE_FINAL) \<or>
     (case redemption of None \<Rightarrow> False
      | Some r \<Rightarrow> rd_status r \<noteq> RD_RESERVED \<and> rd_status r \<noteq> RD_APPLIED \<and> \<not> released_after_cancellation order redemption)"

definition pay_order :: "OrderRow \<Rightarrow> InvoiceRow \<Rightarrow> RedemptionRow option \<Rightarrow> time \<Rightarrow> (CommerceDb, unit) eff" where
  "pay_order order invoice redemption settledAt =
     bnd (if unpaid order then
            bnd (write_orders (update_rows (\<lambda>r. or_id r = or_id order) (\<lambda>r. r\<lparr>or_status := ORDER_PAID, or_paidAt := Some settledAt\<rparr>))) (\<lambda>_.
            write_invoices (update_rows (\<lambda>r. in_id r = in_id invoice) (\<lambda>r. r\<lparr>in_status := INVOICE_FINAL, in_issuedAt := Some settledAt\<rparr>)))
          else ret ()) (\<lambda>_.
     case redemption of
       None \<Rightarrow> ret ()
     | Some r \<Rightarrow>
         if rd_status r = RD_RESERVED \<or> released_after_cancellation order redemption then
           write_redemptions (update_rows (\<lambda>q. rd_id q = rd_id r) (\<lambda>q. q\<lparr>rd_status := RD_APPLIED, rd_appliedAt := Some settledAt\<rparr>))
         else ret ())"

definition settle_order :: "SettleInput \<Rightarrow> (CommerceDb, SettleResult) eff" where
  "settle_order input =
     bnd (gets (\<lambda>s. find_by or_id (si_orderId input) (cd_orders s))) (\<lambda>found.
     case found of
       None \<Rightarrow> ret (SettleRejected ''ORDER_NOT_FOUND'')
     | Some order \<Rightarrow>
         bnd (gets (\<lambda>s. filter (\<lambda>item. oi_orderId item = or_id order) (cd_items s))) (\<lambda>items.
         bnd (gets (\<lambda>s. find_by in_orderId (or_id order) (cd_invoices s))) (\<lambda>invoice.
         bnd (gets (\<lambda>s. find_by rd_orderId (or_id order) (cd_redemptions s))) (\<lambda>redemption.
         if or_totalMinor order \<noteq> si_expectedAmountMinor input \<or> or_currency order \<noteq> si_expectedCurrency input
         then ret (SettleRejected ''SETTLEMENT_MISMATCH'')
         else if or_status order \<noteq> ORDER_PENDING \<and> or_status order \<noteq> ORDER_PAID \<and> or_status order \<noteq> ORDER_CANCELLED
         then ret (SettleRejected ''ORDER_NOT_SETTLEABLE'')
         else (case invoice of
                 None \<Rightarrow> throw ''COMMERCE_INVOICE_MISSING''
               | Some invoice \<Rightarrow>
                   if not_settleable order invoice redemption then ret (SettleRejected ''ORDER_NOT_SETTLEABLE'')
                   else bnd (pay_order order invoice redemption (si_settledAt input)) (\<lambda>_.
                     ret (Settled (settled_order order invoice items))))))))"

definition rejectionCode :: "string \<Rightarrow> error" where
  "rejectionCode code =
     (if code = ''MODE_MISMATCH'' then ''PAYMENT_MODE_MISMATCH''
      else if code = ''CHECKOUT_MISMATCH'' then ''PAYMENT_CHECKOUT_MISMATCH''
      else if code = ''REFERENCE_MISMATCH'' then ''PAYMENT_REFERENCE_MISMATCH''
      else if code = ''AMOUNT_MISMATCH'' then ''PAYMENT_AMOUNT_MISMATCH''
      else if code = ''CURRENCY_MISMATCH'' then ''PAYMENT_CURRENCY_MISMATCH''
      else if code = ''PAYMENT_REFERENCE_MISSING'' then ''PAYMENT_REFERENCE_MISMATCH''
      else ''PAYMENT_RECONCILIATION_REQUIRED'')"

section \<open>Revoking rights\<close>

record RevocationInput =
  rv_entitlementId :: ident
  rv_revocationReference :: string
  rv_revocationSnapshot :: jvalue
  rv_revokedAt :: time

datatype RevocationResult = Revoked EntitlementRow | RevocationExisting EntitlementRow | RevocationRejected string

definition revoked_row :: "RevocationInput \<Rightarrow> EntitlementRow \<Rightarrow> EntitlementRow" where
  "revoked_row input r =
     r\<lparr>en_status := ENTITLEMENT_REVOKED, en_revokedAt := Some (rv_revokedAt input),
       en_revocationReference := Some (rv_revocationReference input), en_revocationSnapshot := Some (rv_revocationSnapshot input)\<rparr>"

text \<open>The shape a revoked row must have; a JSON null counts as no snapshot.\<close>

definition revocation_shape :: "EntitlementRow \<Rightarrow> bool" where
  "revocation_shape row \<longleftrightarrow> en_status row = ENTITLEMENT_REVOKED \<and> en_revokedAt row \<noteq> None \<and> truthy (en_revocationReference row) \<and>
     en_revocationSnapshot row \<noteq> None \<and> en_revocationSnapshot row \<noteq> Some JVNull"

definition revocation_snapshot :: "EntitlementRow \<Rightarrow> error + EntitlementRow" where
  "revocation_snapshot row = (if revocation_shape row then Inr row else Inl ''ENTITLEMENT_REVOCATION_SHAPE_INVALID'')"

definition same_revocation :: "EntitlementRow \<Rightarrow> RevocationInput \<Rightarrow> bool" where
  "same_revocation row input \<longleftrightarrow> en_revocationReference row = Some (rv_revocationReference input) \<and>
     en_revokedAt row = Some (rv_revokedAt input) \<and>
     (case en_revocationSnapshot row of None \<Rightarrow> False | Some j \<Rightarrow> jsonEquivalent j (rv_revocationSnapshot input))"

definition revoke_right :: "RevocationInput \<Rightarrow> (CommerceDb, RevocationResult) eff" where
  "revoke_right input =
     (let open_row = (\<lambda>r. en_id r = rv_entitlementId input \<and> en_status r = ENTITLEMENT_ACTIVE) in
      bnd (gets (\<lambda>s. List.find open_row (cd_entitlements s))) (\<lambda>found.
      case found of
        Some row \<Rightarrow>
          bnd (write_entitlements (update_rows open_row (revoked_row input))) (\<lambda>_.
          bnd (from_result (revocation_snapshot (revoked_row input row))) (\<lambda>snapshot. ret (Revoked snapshot)))
      | None \<Rightarrow>
          bnd (gets (\<lambda>s. find_by en_id (rv_entitlementId input) (cd_entitlements s))) (\<lambda>existing.
          case existing of
            None \<Rightarrow> ret (RevocationRejected ''NOT_FOUND'')
          | Some row \<Rightarrow>
              if \<not> revocation_shape row then ret (RevocationRejected ''REVOCATION_CONFLICT'')
              else if same_revocation row input
              then bnd (from_result (revocation_snapshot row)) (\<lambda>snapshot. ret (RevocationExisting snapshot))
              else ret (RevocationRejected ''REVOCATION_CONFLICT''))))"

record RevocationEvidence =
  re_revocationReference :: string
  re_revocationSnapshot :: jvalue
  re_revokedAt :: time

text \<open>What the revocation capability answers: \<open>REVOKED\<close> or \<open>EXISTING\<close>, \<open>REJECTED\<close>, or \<open>FAILED\<close>.\<close>

datatype RevocationAnswer = AnswerRevoked | AnswerRejected | AnswerFailed

definition order_source :: "ident \<Rightarrow> ident \<Rightarrow> string" where
  "order_source orderId itemId = ''commerce:'' @ orderId @ '':'' @ itemId"

definition order_entitlements :: "ident \<Rightarrow> CommerceDb \<Rightarrow> ident list" where
  "order_entitlements orderId s =
     sort (concat (map (\<lambda>e. map (\<lambda>item. en_id e)
       (filter (\<lambda>item. oi_orderId item = orderId \<and> en_sourceReference e = order_source orderId (oi_id item)) (cd_items s)))
       (cd_entitlements s)))"

section \<open>The capabilities\<close>

record PaymentSettled =
  py_settlementFactId :: ident
  py_commercialReference :: string
  py_amountMinor :: int
  py_currency :: string
  py_settledAt :: time

datatype GrantAnswer = GrantOk | GrantAlready | GrantRefused | GrantFailed

text \<open>The ports of the reaction; \<open>payments.reconcile()\<close> always answers the same settlement.\<close>

record ReactionPorts =
  rp_payment :: PaymentSettled
  rp_settle :: "SettleInput \<Rightarrow> (CommerceDb, SettleResult) eff"
  rp_grant :: "GrantInput \<Rightarrow> (CommerceDb, GrantAnswer) eff"
  rp_issue :: "ClaimUnitInput \<Rightarrow> (CommerceDb, ClaimUnitResult) eff"

text \<open>The settled fact and whether it was \<open>CREATED\<close>; the value of the reaction as far as the host reads it.\<close>

datatype ReconcileResult = ReconcileRejected string | ReconcileFailed | Reconciled SettlementFactSnapshot bool

record ReactionValue =
  rx_orderId :: ident
  rx_settlementDisposition :: Disposition
  rx_fulfillmentMode :: FulfillmentMode

datatype ReactionResult = ReactionRejected string | ReactionFailed | Reacted ReactionValue

record PaymentServices =
  pv_reconcile :: "SettlementFactRepository \<Rightarrow> ident \<times> bool \<Rightarrow> (CommerceDb, ReconcileResult) eff"
  pv_react :: "ReactionPorts \<Rightarrow> ident \<times> bool \<Rightarrow> (CommerceDb, ReactionResult) eff"
  pv_grant :: "(GrantInput \<Rightarrow> (CommerceDb, GrantResult) eff) \<Rightarrow> GrantInput \<Rightarrow> (CommerceDb, GrantAnswer) eff"
  pv_revoke :: "(RevocationInput \<Rightarrow> (CommerceDb, RevocationResult) eff) \<Rightarrow> RevocationInput \<Rightarrow> (CommerceDb, RevocationAnswer) eff"

record PaidReaction =
  px_value :: ReactionValue
  px_created :: bool  \<comment> \<open>\<open>paymentSettlementDisposition === "CREATED"\<close>\<close>

definition RECONCILIATION_REQUIRED :: error where "RECONCILIATION_REQUIRED = ''PAYMENT_RECONCILIATION_REQUIRED''"
definition REFERENCE_MISMATCH :: error where "REFERENCE_MISMATCH = ''PAYMENT_REFERENCE_MISMATCH''"

definition referenced_order :: "string \<Rightarrow> CommerceDb \<Rightarrow> OrderRow option" where
  "referenced_order ref s = List.find (\<lambda>r. or_id r = ref \<or> or_number r = ref) (cd_orders s)"

definition reaction_ports :: "PaymentServices \<Rightarrow> CommerceCall \<Rightarrow> ident \<Rightarrow> SettlementFactSnapshot \<Rightarrow> ReactionPorts" where
  "reaction_ports sv cx orderId paidFact =
     \<lparr>rp_payment = \<lparr>py_settlementFactId = ss_settlementFactId paidFact, py_commercialReference = orderId,
        py_amountMinor = ss_amountMinor paidFact, py_currency = ss_currency paidFact, py_settledAt = ss_settledAt paidFact\<rparr>,
      rp_settle = settle_order, rp_grant = pv_grant sv (grant_right cx), rp_issue = issueCommerceClaimUnits cx\<rparr>"

definition reactToPaidSettlement :: "PaymentServices \<Rightarrow> CommerceCall \<Rightarrow> ident \<Rightarrow> bool \<Rightarrow> (CommerceDb, PaidReaction) eff" where
  "reactToPaidSettlement sv cx providerEventRecordId expectedLivemode =
     bnd (pv_reconcile sv (createPaymentsRepository cx) (providerEventRecordId, expectedLivemode)) (\<lambda>settlement.
     case settlement of
       ReconcileRejected code \<Rightarrow> throw (rejectionCode code)
     | ReconcileFailed \<Rightarrow> throw PROCESSING_RETRYABLE
     | Reconciled paidFact created \<Rightarrow>
         bnd (gets (referenced_order (ss_commercialReference paidFact))) (\<lambda>resolvedOrder.
         case resolvedOrder of
           None \<Rightarrow> throw REFERENCE_MISMATCH
         | Some order \<Rightarrow>
             bnd (pv_react sv (reaction_ports sv cx (or_id order) paidFact) (providerEventRecordId, expectedLivemode)) (\<lambda>result.
             case result of
               ReactionRejected code \<Rightarrow> throw (if code = ''ORDER_NOT_FOUND'' then REFERENCE_MISMATCH else RECONCILIATION_REQUIRED)
             | ReactionFailed \<Rightarrow> throw PROCESSING_RETRYABLE
             | Reacted value \<Rightarrow> ret \<lparr>px_value = value, px_created = created\<rparr>)))"

definition revoke_one :: "PaymentServices \<Rightarrow> RevocationEvidence \<Rightarrow> ident \<Rightarrow> (CommerceDb, unit) eff" where
  "revoke_one sv evidence i =
     bnd (pv_revoke sv revoke_right
       \<lparr>rv_entitlementId = i, rv_revocationReference = re_revocationReference evidence,
        rv_revocationSnapshot = re_revocationSnapshot evidence, rv_revokedAt = re_revokedAt evidence\<rparr>) (\<lambda>result.
     case result of
       AnswerFailed \<Rightarrow> throw PROCESSING_RETRYABLE
     | AnswerRejected \<Rightarrow> throw RECONCILIATION_REQUIRED
     | AnswerRevoked \<Rightarrow> ret ())"

definition revokeOrderEntitlements :: "PaymentServices \<Rightarrow> ident \<Rightarrow> RevocationEvidence \<Rightarrow> (CommerceDb, nat) eff" where
  "revokeOrderEntitlements sv orderId evidence =
     bnd (gets (order_entitlements orderId)) (\<lambda>rows.
     bnd (for_each (revoke_one sv evidence) rows) (\<lambda>_. ret (length rows)))"

end
