(* ===== verification/Payment_Webhooks.thy ===== *)
theory Payment_Webhooks
  imports Settlement Notification_Center
begin

text \<open>
  Payment webhooks: \<open>apps/web/payments/webhook-ingestion.ts\<close> and \<open>apps/web/payments/webhook-processing.ts\<close>. An event is
  recorded once, processed in one transaction with everything it does to its order, and recorded as failed when that
  transaction is rolled back; failed events can be delivered or retried again. Verification of signatures, the ingestion
  capability and lease issuing are parameters. Of an error only its message is kept: an error is retryable when it is
  \<open>PAYMENT_PROCESSING_RETRYABLE\<close>, the one code that is constructed so.
\<close>

section \<open>Events\<close>

record VerifiedEvent =
  ve_recordId :: ident
  ve_provider :: string
  ve_eventId :: string
  ve_rawType :: "string option"
  ve_type :: EventType
  ve_externalPaymentId :: "string option"
  ve_externalCheckoutId :: "string option"
  ve_reference :: "string option"
  ve_externalRefundId :: "string option"
  ve_refundStatus :: "RefundStatus option"
  ve_amountMinor :: "int option"
  ve_currency :: "string option"
  ve_livemode :: bool
  ve_occurredAt :: time
  ve_receivedAt :: time

text \<open>\<open>...(x ? { x } : {})\<close>.\<close>

definition if_truthy :: "string option \<Rightarrow> string option" where
  "if_truthy x = (if truthy x then x else None)"

definition event_snapshot :: "ProviderEventRow \<Rightarrow> VerifiedEvent" where
  "event_snapshot row =
     \<lparr>ve_recordId = pe_id row, ve_provider = pe_provider row, ve_eventId = pe_eventId row, ve_rawType = if_truthy (pe_rawType row),
      ve_type = pe_type row, ve_externalPaymentId = if_truthy (pe_externalPaymentId row),
      ve_externalCheckoutId = if_truthy (pe_externalCheckoutId row), ve_reference = if_truthy (pe_reference row),
      ve_externalRefundId = if_truthy (pe_externalRefundId row), ve_refundStatus = pe_refundStatus row,
      ve_amountMinor = pe_amountMinor row, ve_currency = if_truthy (pe_currency row), ve_livemode = pe_livemode row,
      ve_occurredAt = pe_occurredAt row, ve_receivedAt = pe_receivedAt row\<rparr>"

definition find_webhook :: "string \<Rightarrow> string \<Rightarrow> CommerceDb \<Rightarrow> WebhookRow option" where
  "find_webhook provider eventId s = List.find (\<lambda>r. wh_provider r = provider \<and> wh_externalEventId r = eventId) (cd_webhooks s)"

definition find_event :: "string \<Rightarrow> string \<Rightarrow> CommerceDb \<Rightarrow> ProviderEventRow option" where
  "find_event provider eventId s = List.find (\<lambda>r. pe_provider r = provider \<and> pe_eventId r = eventId) (cd_events s)"

text \<open>\<open>webhookEvent.update\<close> by its unique key: no row is an error.\<close>

definition update_webhook :: "string \<Rightarrow> string \<Rightarrow> (WebhookRow \<Rightarrow> WebhookRow) \<Rightarrow> (CommerceDb, unit) eff" where
  "update_webhook provider eventId f =
     bnd (find_or_throw (find_webhook provider eventId)) (\<lambda>_.
     write_webhooks (update_rows (\<lambda>r. wh_provider r = provider \<and> wh_externalEventId r = eventId) f))"

text \<open>\<open>INSERT ... ON CONFLICT ("provider", "eventId") DO NOTHING\<close>.\<close>

definition insert_event :: "ProviderEventRow \<Rightarrow> (CommerceDb, unit) eff" where
  "insert_event row =
     bnd (gets (find_event (pe_provider row) (pe_eventId row))) (\<lambda>found.
     if found \<noteq> None then ret () else write_events (\<lambda>rows. rows @ [row]))"

section \<open>Ingestion\<close>

record EventClaim =
  ec_id :: ident
  ec_provider :: string
  ec_eventId :: string
  ec_payloadHash :: string
  ec_eventFingerprint :: string
  ec_rawType :: "string option"
  ec_type :: EventType
  ec_externalPaymentId :: "string option"
  ec_externalCheckoutId :: "string option"
  ec_reference :: "string option"
  ec_externalRefundId :: "string option"
  ec_refundStatus :: "RefundStatus option"
  ec_amountMinor :: "int option"
  ec_currency :: "string option"
  ec_livemode :: bool
  ec_occurredAt :: time

definition storedEvent :: "EventClaim \<Rightarrow> StoredEvent" where
  "storedEvent input =
     \<lparr>st_eventId = ec_eventId input, st_rawType = if_truthy (ec_rawType input), st_type = ec_type input,
      st_externalPaymentId = if_truthy (ec_externalPaymentId input), st_externalCheckoutId = if_truthy (ec_externalCheckoutId input),
      st_reference = if_truthy (ec_reference input), st_externalRefundId = if_truthy (ec_externalRefundId input),
      st_refundStatus = ec_refundStatus input, st_amountMinor = ec_amountMinor input, st_currency = if_truthy (ec_currency input),
      st_livemode = ec_livemode input, st_occurredAt = ec_occurredAt input, st_eventFingerprint = Some (ec_eventFingerprint input)\<rparr>"

definition storedFingerprint :: "StoredEvent option \<Rightarrow> string option" where
  "storedFingerprint value = if_truthy (Option.bind value st_eventFingerprint)"

definition new_webhook :: "EventClaim \<Rightarrow> time \<Rightarrow> WebhookRow" where
  "new_webhook input now =
     \<lparr>wh_id = ec_id input, wh_provider = ec_provider input, wh_externalEventId = ec_eventId input, wh_rawEventType = ec_rawType input,
      wh_eventType = ec_type input, wh_livemode = ec_livemode input, wh_payloadHash = ec_payloadHash input,
      wh_normalizedData = Some (storedEvent input), wh_status = WH_RECEIVED, wh_error = None, wh_lastErrorCode = None,
      wh_mismatchCategory = None, wh_processingAttempts = 1, wh_conflictCount = 0, wh_receivedAt = now, wh_lastAttemptAt = Some now,
      wh_processedAt = None, wh_occurredAt = Some (ec_occurredAt input), wh_orderId = None, wh_paymentAttemptId = None,
      wh_paymentId = None, wh_providerCheckoutId = ec_externalCheckoutId input, wh_providerPaymentId = ec_externalPaymentId input,
      wh_providerRefundId = ec_externalRefundId input, wh_resolutionStatus = RES_OPEN\<rparr>"

text \<open>\<open>createMany\<close> with \<open>skipDuplicates\<close>: whether the row was inserted.\<close>

definition insert_webhook :: "WebhookRow \<Rightarrow> (CommerceDb, bool) eff" where
  "insert_webhook row =
     bnd (gets (\<lambda>s. list_ex (\<lambda>r. wh_id r = wh_id row \<or>
       (wh_provider r = wh_provider row \<and> wh_externalEventId r = wh_externalEventId row)) (cd_webhooks s))) (\<lambda>duplicate.
     if duplicate then ret False else bnd (write_webhooks (\<lambda>rows. rows @ [row])) (\<lambda>_. ret True))"

definition owner_event :: "EventClaim \<Rightarrow> WebhookRow \<Rightarrow> time \<Rightarrow> ProviderEventRow" where
  "owner_event input operational now =
     \<lparr>pe_id = wh_id operational, pe_provider = ec_provider input, pe_eventId = ec_eventId input,
      pe_payloadHash = wh_payloadHash operational,
      pe_eventFingerprint = (case storedFingerprint (wh_normalizedData operational) of
         Some fingerprint \<Rightarrow> fingerprint
       | None \<Rightarrow> if wh_payloadHash operational = ec_payloadHash input then ec_eventFingerprint input
                else ''LEGACY_EVENT_FINGERPRINT_MISMATCH''),
      pe_rawType = ec_rawType input, pe_type = ec_type input, pe_externalPaymentId = ec_externalPaymentId input,
      pe_externalCheckoutId = ec_externalCheckoutId input, pe_reference = ec_reference input,
      pe_externalRefundId = ec_externalRefundId input, pe_refundStatus = ec_refundStatus input, pe_amountMinor = ec_amountMinor input,
      pe_currency = ec_currency input, pe_livemode = wh_livemode operational,
      pe_occurredAt = or_else (wh_occurredAt operational) (ec_occurredAt input), pe_receivedAt = now\<rparr>"

definition claim_event :: "CommerceCall \<Rightarrow> EventClaim \<Rightarrow> (CommerceDb, bool \<times> ProviderEventRow) eff" where
  "claim_event cx input = transaction (
     bnd (insert_webhook (new_webhook input (cx_now cx))) (\<lambda>inserted.
     bnd (find_or_throw (find_webhook (ec_provider input) (ec_eventId input))) (\<lambda>operational.
     bnd (insert_event (owner_event input operational (cx_now cx))) (\<lambda>_.
     bnd (gets (find_event (ec_provider input) (ec_eventId input))) (\<lambda>owner.
     case owner of
       None \<Rightarrow> throw ''PAYMENTS_PROVIDER_EVENT_DISAPPEARED''
     | Some row \<Rightarrow> ret (inserted, row))))))"

text \<open>What the verifier handed to the capability has captured.\<close>

record Capture =
  cap_event :: "StoredEvent option"
  cap_failure :: "error option"

type_synonym headers = "(string \<times> string) list"
type_synonym verifier = "string \<Rightarrow> headers \<Rightarrow> error + StoredEvent"

datatype IngestResult = IngestRejected | IngestFailed string | Ingested VerifiedEvent bool

record LeaseIssue =
  ls_licenseKey :: string
  ls_installationId :: string
  ls_leaseDeviceId :: string
  ls_operationId :: string
  ls_productVersion :: string

record PaymentHost =
  hs_services :: PaymentServices
  hs_licensing :: LicensingService
  hs_policy :: NotificationPolicy
  hs_providerName :: string
  hs_verifier :: "error + (string \<times> verifier)"
  hs_ingest :: "(EventClaim \<Rightarrow> (CommerceDb \<times> Capture, bool \<times> ProviderEventRow) eff) \<Rightarrow>
    (string \<Rightarrow> headers \<Rightarrow> (CommerceDb \<times> Capture, StoredEvent) eff) \<Rightarrow> string \<Rightarrow> headers \<Rightarrow> (CommerceDb \<times> Capture, IngestResult) eff"
  hs_isLifecycleError :: "error \<Rightarrow> bool"
  hs_safePaymentError :: "error \<Rightarrow> error"
  hs_issueCommercialLease :: "LeaseIssue \<Rightarrow> (CommerceDb, unit) eff"

definition capture_verify :: "verifier \<Rightarrow> string \<Rightarrow> headers \<Rightarrow> (CommerceDb \<times> Capture, StoredEvent) eff" where
  "capture_verify verify raw hdrs = (\<lambda>(s, c).
     case verify raw hdrs of
       Inl e \<Rightarrow> (Inl e, (s, c\<lparr>cap_failure := Some e\<rparr>))
     | Inr event \<Rightarrow> (Inr event, (s, c\<lparr>cap_event := Some event\<rparr>)))"

definition verificationError :: "PaymentHost \<Rightarrow> error \<Rightarrow> error" where
  "verificationError h e =
     (if hs_isLifecycleError h e then e
      else if e = ''PAYMENT_SIGNATURE_STALE'' then ''PAYMENT_SIGNATURE_STALE''
      else if e = ''PAYMENT_SIGNATURE_INVALID'' then ''PAYMENT_SIGNATURE_INVALID''
      else PROCESSING_FAILED)"

definition REPLAY_CONFLICT :: error where "REPLAY_CONFLICT = ''PAYMENT_EVENT_REPLAY_CONFLICT''"

definition run_ingest :: "PaymentHost \<Rightarrow> CommerceCall \<Rightarrow> verifier \<Rightarrow> string \<Rightarrow> headers \<Rightarrow> (CommerceDb, IngestResult \<times> Capture) eff" where
  "run_ingest h cx verify raw hdrs s =
     (case hs_ingest h (\<lambda>input. zoom fst (\<lambda>p (_, c). (p, c)) (claim_event cx input)) (capture_verify verify) raw hdrs
             (s, \<lparr>cap_event = None, cap_failure = None\<rparr>) of
        (r, (t, c)) \<Rightarrow> (map_sum id (\<lambda>result. (result, c)) r, t))"

definition reject_replay :: "string \<Rightarrow> Capture \<Rightarrow> (CommerceDb, 'a) eff" where
  "reject_replay provider c =
     (case cap_event c of
        None \<Rightarrow> throw PROCESSING_FAILED
      | Some event \<Rightarrow>
          bnd (write_webhooks (update_rows (\<lambda>r. wh_provider r = provider \<and> wh_externalEventId r = st_eventId event)
                 (\<lambda>r. r\<lparr>wh_conflictCount := wh_conflictCount r + 1, wh_lastErrorCode := Some REPLAY_CONFLICT,
                      wh_resolutionStatus := RES_OPEN\<rparr>))) (\<lambda>_.
          throw REPLAY_CONFLICT))"

definition ingest_failed :: "PaymentHost \<Rightarrow> string \<Rightarrow> Capture \<Rightarrow> (CommerceDb, 'a) eff" where
  "ingest_failed h code c =
     (case cap_failure c of
        Some e \<Rightarrow> if code = ''VERIFICATION_FAILED'' then throw (verificationError h e)
                 else throw (if code = ''PERSISTENCE_UNAVAILABLE'' then PROCESSING_RETRYABLE else PROCESSING_FAILED)
      | None \<Rightarrow> throw (if code = ''PERSISTENCE_UNAVAILABLE'' then PROCESSING_RETRYABLE else PROCESSING_FAILED))"

definition reopen_webhook :: "time \<Rightarrow> WebhookRow \<Rightarrow> WebhookRow" where
  "reopen_webhook now r =
     r\<lparr>wh_status := WH_RECEIVED, wh_error := None, wh_lastErrorCode := None, wh_processedAt := None,
       wh_processingAttempts := wh_processingAttempts r + 1, wh_lastAttemptAt := Some now\<rparr>"

definition ingested :: "CommerceCall \<Rightarrow> VerifiedEvent \<Rightarrow> bool \<Rightarrow> (CommerceDb, VerifiedEvent \<times> bool) eff" where
  "ingested cx event created =
     (if created then ret (event, False)
      else
      bnd (find_or_throw (find_webhook (ve_provider event) (ve_eventId event))) (\<lambda>existing.
      if wh_status existing \<noteq> WH_FAILED then ret (event, True)
      else bnd (write_webhooks (update_rows (\<lambda>r. wh_id r = wh_id existing) (reopen_webhook (cx_now cx)))) (\<lambda>_. ret (event, False))))"

definition ingestPaymentWebhook :: "PaymentHost \<Rightarrow> CommerceCall \<Rightarrow> string \<Rightarrow> headers \<Rightarrow> (CommerceDb, VerifiedEvent \<times> bool) eff" where
  "ingestPaymentWebhook h cx raw hdrs =
     bnd (from_result (hs_verifier h)) (\<lambda>(name, verify).
     bnd (run_ingest h cx verify raw hdrs) (\<lambda>(result, captured).
     case result of
       IngestRejected \<Rightarrow> reject_replay name captured
     | IngestFailed code \<Rightarrow> ingest_failed h code captured
     | Ingested event created \<Rightarrow> ingested cx event created))"

end
