(* ===== verification/Payment_Processing.thy ===== *)
theory Payment_Processing
  imports Payment_Webhooks
begin

text \<open>
  Processing of ingested payment events: \<open>apps/web/payments/webhook-processing.ts\<close>. A paid event settles its order and
  fulfils it, a failed one closes the attempt of an unpaid order, a confirmed refund takes back everything the
  order gave; all of it and the row of the webhook change in one transaction.
\<close>

section \<open>Stored webhooks\<close>

text \<open>\<open>storedEvent\<close> of the processing: what was normalized, if it is an event.\<close>

definition normalized_event :: "StoredEvent option \<Rightarrow> error + StoredEvent" where
  "normalized_event value = (case value of None \<Rightarrow> Inl RECONCILIATION_REQUIRED
     | Some event \<Rightarrow> if st_eventId event = [] then Inl RECONCILIATION_REQUIRED else Inr event)"

definition stored_owner_event :: "WebhookRow \<Rightarrow> StoredEvent \<Rightarrow> ProviderEventRow" where
  "stored_owner_event row event =
     \<lparr>pe_id = wh_id row, pe_provider = wh_provider row, pe_eventId = wh_externalEventId row, pe_payloadHash = wh_payloadHash row,
      pe_eventFingerprint = or_else (st_eventFingerprint event) (wh_payloadHash row),
      pe_rawType = (case wh_rawEventType row of None \<Rightarrow> st_rawType event | Some t \<Rightarrow> Some t), pe_type = st_type event,
      pe_externalPaymentId = st_externalPaymentId event, pe_externalCheckoutId = st_externalCheckoutId event,
      pe_reference = st_reference event, pe_externalRefundId = st_externalRefundId event, pe_refundStatus = st_refundStatus event,
      pe_amountMinor = st_amountMinor event, pe_currency = st_currency event, pe_livemode = wh_livemode row,
      pe_occurredAt = or_else (wh_occurredAt row) (st_occurredAt event), pe_receivedAt = wh_receivedAt row\<rparr>"

definition ownerEventForStoredWebhook :: "WebhookRow \<Rightarrow> (CommerceDb, VerifiedEvent) eff" where
  "ownerEventForStoredWebhook row =
     bnd (gets (find_event (wh_provider row) (wh_externalEventId row))) (\<lambda>existing.
     case existing of
       Some owner \<Rightarrow> ret (event_snapshot owner)
     | None \<Rightarrow>
         bnd (from_result (normalized_event (wh_normalizedData row))) (\<lambda>event.
         bnd (insert_event (stored_owner_event row event)) (\<lambda>_.
         bnd (gets (find_event (wh_provider row) (wh_externalEventId row))) (\<lambda>created.
         case created of None \<Rightarrow> throw PROCESSING_RETRYABLE | Some owner \<Rightarrow> ret (event_snapshot owner)))))"

definition failed_webhook :: "error \<Rightarrow> bool \<Rightarrow> time \<Rightarrow> WebhookRow \<Rightarrow> WebhookRow" where
  "failed_webhook code retryable now r =
     r\<lparr>wh_status := WH_FAILED, wh_error := Some code, wh_lastErrorCode := Some code,
       wh_mismatchCategory := (if js_includes code ''MISMATCH'' then Some code else wh_mismatchCategory r),
       wh_resolutionStatus := RES_OPEN, wh_lastAttemptAt := Some now,
       wh_processedAt := (if retryable then wh_processedAt r else None)\<rparr>"

definition recordFailure :: "PaymentHost \<Rightarrow> CommerceCall \<Rightarrow> string \<Rightarrow> error \<Rightarrow> bool \<Rightarrow> (CommerceDb, unit) eff" where
  "recordFailure h cx eventId code retryable =
     update_webhook (hs_providerName h) eventId (failed_webhook code retryable (cx_now cx))"

section \<open>The order of an event\<close>

record ResolvedEvent =
  rs_order :: OrderRow
  rs_hostAttempt :: "AttemptRow option"
  rs_packageAttempt :: "CheckoutAttemptRow option"
  rs_knownPayment :: "PaymentRow option"

definition attempt_of :: "VerifiedEvent \<Rightarrow> CommerceDb \<Rightarrow> AttemptRow option" where
  "attempt_of event s = (case ve_externalCheckoutId event of None \<Rightarrow> None
     | Some i \<Rightarrow> if i = [] then None else find_by at_externalCheckoutId (Some i) (cd_attempts s))"

definition package_attempt_of :: "VerifiedEvent \<Rightarrow> CommerceDb \<Rightarrow> CheckoutAttemptRow option" where
  "package_attempt_of event s = (case ve_externalCheckoutId event of None \<Rightarrow> None
     | Some i \<Rightarrow> if i = [] then None
         else List.find (\<lambda>r. ck_provider r = ve_provider event \<and> ck_externalCheckoutId r = Some i) (cd_checkouts s))"

definition payment_of :: "VerifiedEvent \<Rightarrow> CommerceDb \<Rightarrow> PaymentRow option" where
  "payment_of event s = (case ve_externalPaymentId event of None \<Rightarrow> None
     | Some i \<Rightarrow> if i = [] then None
         else List.find (\<lambda>r. pm_provider r = ve_provider event \<and> pm_externalId r = i) (cd_payments s))"

definition order_by_id :: "CommerceDb \<Rightarrow> ident \<Rightarrow> OrderRow option" where
  "order_by_id s i = find_by or_id i (cd_orders s)"

definition order_by_reference :: "VerifiedEvent \<Rightarrow> CommerceDb \<Rightarrow> OrderRow option" where
  "order_by_reference event s = (case ve_reference event of None \<Rightarrow> None | Some ref \<Rightarrow> if ref = [] then None else referenced_order ref s)"

text \<open>\<open>a ?? b\<close> on rows.\<close>

definition first_of :: "'a option \<Rightarrow> 'a option \<Rightarrow> 'a option" where
  "first_of a b = (case a of None \<Rightarrow> b | Some x \<Rightarrow> Some x)"

definition currency_mismatch :: "VerifiedEvent \<Rightarrow> OrderRow \<Rightarrow> PaymentRow option \<Rightarrow> bool" where
  "currency_mismatch event order knownPayment \<longleftrightarrow>
     (if truthy (ve_currency event) then toUpperCase (the (ve_currency event)) \<noteq> toUpperCase (or_currency order)
      else ve_type event \<noteq> PAYMENT_REFUND_UPDATED \<or> knownPayment = None)"

definition check_resolved :: "VerifiedEvent \<Rightarrow> OrderRow \<Rightarrow> AttemptRow option \<Rightarrow> OrderRow option \<Rightarrow> OrderRow option \<Rightarrow> PaymentRow option \<Rightarrow>
    error option" where
  "check_resolved event order hostAttempt packageOrder byReference knownPayment =
     (if hostAttempt \<noteq> None \<and> packageOrder \<noteq> None \<and> map_option at_orderId hostAttempt \<noteq> map_option or_id packageOrder
      then Some ''PAYMENT_CHECKOUT_MISMATCH''
      else if byReference \<noteq> None \<and> map_option or_id byReference \<noteq> Some (or_id order) then Some REFERENCE_MISMATCH
      else if knownPayment \<noteq> None \<and> map_option pm_orderId knownPayment \<noteq> Some (or_id order) then Some REFERENCE_MISMATCH
      else if truthy (ve_reference event) \<and> ve_reference event \<noteq> Some (or_id order) \<and> ve_reference event \<noteq> Some (or_number order)
      then Some REFERENCE_MISMATCH
      else if ve_amountMinor event \<noteq> Some (or_totalMinor order) then Some ''PAYMENT_AMOUNT_MISMATCH''
      else if currency_mismatch event order knownPayment then Some ''PAYMENT_CURRENCY_MISMATCH''
      else None)"

definition resolve_event :: "VerifiedEvent \<Rightarrow> CommerceDb \<Rightarrow> error + ResolvedEvent" where
  "resolve_event event s =
     (let hostAttempt = attempt_of event s; packageAttempt = package_attempt_of event s;
          packageOrder = Option.bind packageAttempt (\<lambda>a. order_by_id s (ck_commercialReference a));
          byReference = order_by_reference event s; knownPayment = payment_of event s;
          order = first_of (Option.bind hostAttempt (\<lambda>a. order_by_id s (at_orderId a)))
            (first_of packageOrder (first_of byReference (Option.bind knownPayment (\<lambda>p. order_by_id s (pm_orderId p)))))
      in
      if truthy (ve_externalCheckoutId event) \<and> hostAttempt = None \<and> packageAttempt = None \<and> knownPayment = None
      then Inl ''PAYMENT_CHECKOUT_MISMATCH''
      else (case order of
              None \<Rightarrow> Inl REFERENCE_MISMATCH
            | Some order \<Rightarrow>
                (case check_resolved event order hostAttempt packageOrder byReference knownPayment of
                   Some code \<Rightarrow> Inl code
                 | None \<Rightarrow> Inr \<lparr>rs_order = order, rs_hostAttempt = hostAttempt, rs_packageAttempt = packageAttempt,
                                rs_knownPayment = knownPayment\<rparr>)))"

definition resolveOperationalOrder :: "VerifiedEvent \<Rightarrow> (CommerceDb, ResolvedEvent) eff" where
  "resolveOperationalOrder event = bnd (gets (resolve_event event)) from_result"

section \<open>Messages to the customer\<close>

definition notice :: "string \<Rightarrow> string \<Rightarrow> string \<Rightarrow> ident \<Rightarrow> string \<Rightarrow> string \<Rightarrow> string \<Rightarrow> (string \<times> jvalue) list \<Rightarrow> string \<Rightarrow> string \<Rightarrow>
    string \<Rightarrow> string \<Rightarrow> NotificationIntent" where
  "notice moduleId event sourceReference accountId title body category data trigger placementHint priority idempotencyKey =
     \<lparr>it_moduleId = moduleId, it_event = event, it_sourceReference = Some sourceReference, it_audience = ToAccount accountId,
      it_title = title, it_body = body, it_category = category, it_data = Some (JVObj data), it_trigger = trigger,
      it_placementHint = Some placementHint, it_attributes = [], it_priority = priority, it_idempotencyKey = idempotencyKey\<rparr>"

definition order_data :: "OrderRow \<Rightarrow> (string \<times> jvalue) list" where
  "order_data order = [(''orderId'', JVStr (or_id order)), (''orderNumber'', JVStr (or_number order))]"

definition payment_received :: "OrderRow \<Rightarrow> ident \<Rightarrow> NotificationIntent" where
  "payment_received order paymentId =
     notice ''payments'' ''PAYMENT_RECEIVED'' paymentId (or_accountId order) ''Payment received''
       (''Payment for order '' @ or_number order @ '' was confirmed.'') ''TRANSACTIONAL''
       (order_data order @ [(''paymentId'', JVStr paymentId)]) ''PAYMENT_SETTLED'' ''digital-solutions-inbox'' ''NORMAL''
       (''payment-received:'' @ paymentId)"

definition invoice_ready :: "OrderRow \<Rightarrow> InvoiceRow \<Rightarrow> NotificationIntent" where
  "invoice_ready order invoice =
     notice ''commerce'' ''INVOICE_READY'' (in_id invoice) (or_accountId order) ''Invoice ready''
       (''Invoice '' @ in_number invoice @ '' is available in your customer portal.'') ''TRANSACTIONAL''
       ([(''invoiceId'', JVStr (in_id invoice)), (''invoiceNumber'', JVStr (in_number invoice))] @ order_data order)
       ''PAYMENT_SETTLED'' ''digital-solutions-inbox'' ''NORMAL'' (''invoice-ready:'' @ in_id invoice)"

definition license_ready :: "OrderRow \<Rightarrow> LicenseRow \<Rightarrow> NotificationIntent" where
  "license_ready order license =
     notice ''licensing'' ''LICENSE_READY'' (li_id license) (or_accountId order) ''License ready''
       (''Licensed access for order '' @ or_number order @ '' is ready.'') ''LICENSE''
       ((''licenseId'', JVStr (li_id license)) # order_data order) ''LICENSE_EVENT'' ''product-inbox'' ''NORMAL''
       (''license-ready:'' @ li_id license)"

definition payment_failed :: "OrderRow \<Rightarrow> VerifiedEvent \<Rightarrow> ident option \<Rightarrow> NotificationIntent" where
  "payment_failed order event paymentId =
     notice ''payments'' ''PAYMENT_FAILED'' (or_else paymentId (ve_eventId event)) (or_accountId order) ''Payment failed''
       (''Payment for order '' @ or_number order @ '' was not completed.'') ''TRANSACTIONAL''
       (order_data order @ [(''paymentId'', jv_null paymentId)]) ''CUSTOM'' ''digital-solutions-inbox'' ''HIGH''
       (''payment-failed:'' @ or_else paymentId (ve_eventId event))"

definition refund_confirmed :: "OrderRow \<Rightarrow> VerifiedEvent \<Rightarrow> ident option \<Rightarrow> NotificationIntent" where
  "refund_confirmed order event paymentId =
     notice ''payments'' ''REFUND_CONFIRMED'' (or_else (ve_externalRefundId event) (ve_eventId event)) (or_accountId order) ''Refund confirmed''
       (''The refund for order '' @ or_number order @ '' was confirmed.'') ''TRANSACTIONAL''
       (order_data order @ [(''paymentId'', jv_null paymentId), (''refundId'', jv_null (ve_externalRefundId event))])
       ''CUSTOM'' ''digital-solutions-inbox'' ''NORMAL''
       (''refund-confirmed:'' @ or_else (ve_externalRefundId event) (ve_eventId event))"

definition notify :: "PaymentHost \<Rightarrow> CommerceCall \<Rightarrow> NotificationIntent \<Rightarrow> time \<Rightarrow> ident option \<Rightarrow> (CommerceDb, unit) eff" where
  "notify h cx input createdAt productId = bnd (persistNotification (hs_policy h) cx input (Some createdAt) productId) (\<lambda>_. ret ())"

section \<open>Paid events\<close>

definition new_payment :: "ident \<Rightarrow> OrderRow \<Rightarrow> VerifiedEvent \<Rightarrow> PaymentStatus \<Rightarrow> time option \<Rightarrow> PaymentRow" where
  "new_payment i order event status paidAt =
     \<lparr>pm_id = i, pm_orderId = or_id order, pm_provider = ve_provider event, pm_externalId = the (ve_externalPaymentId event),
      pm_status = status, pm_amountMinor = the (ve_amountMinor event), pm_currency = the (ve_currency event), pm_paidAt = paidAt\<rparr>"

text \<open>\<open>payment.upsert\<close> by provider and external id: the id of the row.\<close>

definition upsert_payment :: "CommerceCall \<Rightarrow> OrderRow \<Rightarrow> VerifiedEvent \<Rightarrow> PaymentStatus \<Rightarrow> time option \<Rightarrow> (PaymentRow \<Rightarrow> PaymentRow) \<Rightarrow>
    (CommerceDb, ident) eff" where
  "upsert_payment cx order event status paidAt change =
     bnd (gets (payment_of event)) (\<lambda>existing.
     case existing of
       Some p \<Rightarrow> bnd (write_payments (update_rows (\<lambda>r. pm_id r = pm_id p) change)) (\<lambda>_. ret (pm_id p))
     | None \<Rightarrow>
         bnd (fresh_uuid cx) (\<lambda>i.
         bnd (write_payments (\<lambda>rows. rows @ [new_payment i order event status paidAt])) (\<lambda>_. ret i)))"

definition event_has_payment :: "VerifiedEvent \<Rightarrow> bool" where
  "event_has_payment event \<longleftrightarrow> truthy (ve_externalPaymentId event) \<and> ve_amountMinor event \<noteq> None \<and> truthy (ve_currency event)"

definition expected_livemode :: "CommerceCall \<Rightarrow> bool" where
  "expected_livemode cx \<longleftrightarrow> cx_PAYMONGO_LIVEMODE cx = Some ''true''"

definition mode_name :: "FulfillmentMode \<Rightarrow> string" where
  "mode_name mode = (case mode of ACCOUNT_ENTITLEMENT \<Rightarrow> ''ACCOUNT_ENTITLEMENT'' | CLAIM_CODE \<Rightarrow> ''CLAIM_CODE'')"

definition settlement_audit :: "OrderRow \<Rightarrow> VerifiedEvent \<Rightarrow> ReactionValue \<Rightarrow> CommerceAudit" where
  "settlement_audit order event value =
     \<lparr>al_accountId = or_accountId order,
      al_action = (if rx_settlementDisposition value = AFTER_LOCAL_CANCELLATION then ''PAYMENT_SETTLED_AFTER_LOCAL_CANCELLATION''
                   else ''PAYMENT_SETTLED''),
      al_targetType = ''Order'', al_targetId = or_id order,
      al_metadata = JVObj [(''provider'', JVStr (ve_provider event)), (''webhookEventId'', JVStr (ve_eventId event)),
        (''fulfillmentMode'', JVStr (mode_name (rx_fulfillmentMode value)))]\<rparr>"

definition fulfil_created :: "PaymentHost \<Rightarrow> CommerceCall \<Rightarrow> OrderRow \<Rightarrow> VerifiedEvent \<Rightarrow> ident \<Rightarrow> PaidReaction \<Rightarrow>
    (CommerceDb, RenewalLeaseRequest list) eff" where
  "fulfil_created h cx order event paymentId settlement =
     (if px_created settlement then
        bnd (if rx_fulfillmentMode (px_value settlement) = ACCOUNT_ENTITLEMENT
             then fulfillOrderLicensing (hs_licensing h) cx (or_id order)
                    \<lparr>ev_paymentId = Some paymentId, ev_paymentEventId = Some (ve_eventId event)\<rparr>
                    \<lparr>ft_accountId = None, ft_orderItemId = None\<rparr>
             else ret []) (\<lambda>requests.
        bnd (commerce_audit (settlement_audit order event (px_value settlement))) (\<lambda>_. ret requests))
      else ret [])"

definition notify_invoice :: "PaymentHost \<Rightarrow> CommerceCall \<Rightarrow> OrderRow \<Rightarrow> VerifiedEvent \<Rightarrow> (CommerceDb, unit) eff" where
  "notify_invoice h cx order event =
     bnd (gets (\<lambda>s. find_by in_orderId (or_id order) (cd_invoices s))) (\<lambda>invoice.
     case invoice of
       None \<Rightarrow> ret ()
     | Some i \<Rightarrow> if in_status i = INVOICE_FINAL
                 then notify h cx (invoice_ready order i) (or_else (in_issuedAt i) (ve_occurredAt event)) None
                 else ret ())"

definition notify_licenses :: "PaymentHost \<Rightarrow> CommerceCall \<Rightarrow> OrderRow \<Rightarrow> VerifiedEvent \<Rightarrow> (CommerceDb, unit) eff" where
  "notify_licenses h cx order event =
     bnd (gets (\<lambda>s. filter (\<lambda>l. li_orderId l = or_id order \<and> li_status l = LICENSE_ACTIVE) (cd_licenses s))) (\<lambda>activeLicenses.
     for_each (\<lambda>l. notify h cx (license_ready order l) (ve_occurredAt event) (Some (li_productId l))) activeLicenses)"

record ProcessedOrder =
  po_orderId :: ident
  po_paymentId :: "ident option"
  po_hostAttemptId :: "ident option"

definition processPaidEvent :: "PaymentHost \<Rightarrow> CommerceCall \<Rightarrow> VerifiedEvent \<Rightarrow> (CommerceDb, ProcessedOrder \<times> RenewalLeaseRequest list) eff" where
  "processPaidEvent h cx event =
     (if \<not> event_has_payment event then throw REFERENCE_MISMATCH
      else
      bnd (reactToPaidSettlement (hs_services h) cx (ve_recordId event) (expected_livemode cx)) (\<lambda>settlement.
      bnd (find_or_throw (\<lambda>s. order_by_id s (rx_orderId (px_value settlement)))) (\<lambda>order.
      bnd (upsert_payment cx order event PAYMENT_PAID (Some (ve_occurredAt event))
             (\<lambda>r. r\<lparr>pm_status := PAYMENT_PAID, pm_paidAt := Some (ve_occurredAt event)\<rparr>)) (\<lambda>paymentId.
      bnd (gets (attempt_of event)) (\<lambda>hostAttempt.
      bnd (case hostAttempt of None \<Rightarrow> ret ()
           | Some a \<Rightarrow> write_attempts (update_rows (\<lambda>r. at_id r = at_id a) (\<lambda>r. r\<lparr>at_status := ''COMPLETED''\<rparr>))) (\<lambda>_.
      bnd (fulfil_created h cx order event paymentId settlement) (\<lambda>requests.
      bnd (notify h cx (payment_received order paymentId) (ve_occurredAt event) None) (\<lambda>_.
      bnd (notify_invoice h cx order event) (\<lambda>_.
      bnd (notify_licenses h cx order event) (\<lambda>_.
      ret (\<lparr>po_orderId = or_id order, po_paymentId = Some paymentId, po_hostAttemptId = map_option at_id hostAttempt\<rparr>, requests)))))))))))"

section \<open>Failed payments\<close>

definition event_audit :: "OrderRow \<Rightarrow> VerifiedEvent \<Rightarrow> string \<Rightarrow> CommerceAudit" where
  "event_audit order event action =
     \<lparr>al_accountId = or_accountId order, al_action = action, al_targetType = ''Order'', al_targetId = or_id order,
      al_metadata = JVObj [(''provider'', JVStr (ve_provider event)), (''webhookEventId'', JVStr (ve_eventId event))]\<rparr>"

text \<open>The failure of an order that is not paid: the payment that the webhook names afterwards.\<close>

definition close_attempts :: "CommerceCall \<Rightarrow> ResolvedEvent \<Rightarrow> (CommerceDb, unit) eff" where
  "close_attempts cx resolved =
     bnd (case rs_hostAttempt resolved of None \<Rightarrow> ret ()
          | Some a \<Rightarrow> write_attempts (update_rows (\<lambda>r. at_id r = at_id a) (\<lambda>r. r\<lparr>at_status := ''FAILED''\<rparr>))) (\<lambda>_.
     case rs_packageAttempt resolved of None \<Rightarrow> ret ()
     | Some a \<Rightarrow> write_checkouts (update_rows (\<lambda>r. ck_id r = ck_id a)
         (\<lambda>r. r\<lparr>ck_status := ''FAILED'', ck_failureCode := Some ''PAYMENT_FAILED'', ck_updatedAt := cx_now cx\<rparr>)))"

definition processFailedEvent :: "PaymentHost \<Rightarrow> CommerceCall \<Rightarrow> VerifiedEvent \<Rightarrow> ResolvedEvent \<Rightarrow> (CommerceDb, ident option) eff" where
  "processFailedEvent h cx event resolved =
     (let order = rs_order resolved; known = map_option pm_id (rs_knownPayment resolved) in
      if unpaid order then
        bnd (if event_has_payment event
             then bnd (upsert_payment cx order event PAYMENT_FAILED None (\<lambda>r. r\<lparr>pm_status := PAYMENT_FAILED\<rparr>)) (\<lambda>i. ret (Some i))
             else ret known) (\<lambda>paymentId.
        bnd (close_attempts cx resolved) (\<lambda>_.
        bnd (commerce_audit (event_audit order event ''PAYMENT_FAILED'')) (\<lambda>_.
        bnd (notify h cx (payment_failed order event paymentId) (ve_occurredAt event) None) (\<lambda>_. ret paymentId))))
      else ret known)"

section \<open>Refunds\<close>

definition note_refund_status :: "VerifiedEvent \<Rightarrow> (CommerceDb, unit) eff" where
  "note_refund_status event =
     (let bad = (ve_refundStatus event = Some RS_FAILED) in
      if truthy (ve_externalRefundId event) then
        write_refunds (update_rows (\<lambda>r. ro_externalRefundId r = ve_externalRefundId event)
          (\<lambda>r. r\<lparr>ro_status := (if bad then ''FAILED'' else ''PENDING''),
               ro_lastErrorCode := (if bad then Some ''PAYMENT_REFUND_NOT_ALLOWED'' else None)\<rparr>))
      else ret ())"

definition refunded_payment :: "OrderRow \<Rightarrow> VerifiedEvent \<Rightarrow> PaymentRow \<Rightarrow> bool" where
  "refunded_payment order event r \<longleftrightarrow> pm_orderId r = or_id order \<and> pm_provider r = ve_provider event \<and>
     (truthy (ve_externalPaymentId event) \<longrightarrow> ve_externalPaymentId event = Some (pm_externalId r))"

definition update_invoice_of :: "ident \<Rightarrow> (InvoiceRow \<Rightarrow> InvoiceRow) \<Rightarrow> (CommerceDb, unit) eff" where
  "update_invoice_of orderId f =
     bnd (find_or_throw (\<lambda>s. find_by in_orderId orderId (cd_invoices s))) (\<lambda>_.
     write_invoices (update_rows (\<lambda>r. in_orderId r = orderId) f))"

definition revoke_claims :: "ident \<Rightarrow> time \<Rightarrow> (CommerceDb, unit) eff" where
  "revoke_claims orderId revokedAt =
     write_claims (update_rows (\<lambda>r. cc_orderId r = orderId \<and> cc_status r = CODE_AVAILABLE)
       (\<lambda>r. r\<lparr>cc_status := CODE_REVOKED, cc_revokedAt := Some revokedAt, cc_codeCiphertext := None\<rparr>))"

definition refund_evidence :: "OrderRow \<Rightarrow> VerifiedEvent \<Rightarrow> RevocationEvidence" where
  "refund_evidence order event =
     \<lparr>re_revocationReference = ''refund:'' @ ve_provider event @ '':'' @ or_else (ve_externalRefundId event) (ve_eventId event),
      re_revocationSnapshot = JVObj [(''reason'', JVStr ''REFUND_CONFIRMED''), (''orderId'', JVStr (or_id order)),
        (''provider'', JVStr (ve_provider event)), (''eventId'', JVStr (ve_eventId event)),
        (''externalRefundId'', jv_null (ve_externalRefundId event))],
      re_revokedAt = ve_occurredAt event\<rparr>"

text \<open>A column that equals the renewed subscription of the order, when it has one.\<close>

definition renewed_subscription :: "OrderRow \<Rightarrow> ident option \<Rightarrow> bool" where
  "renewed_subscription order i \<longleftrightarrow> truthy (or_renewalSubscriptionId order) \<and> i = or_renewalSubscriptionId order"

definition order_licenses :: "OrderRow \<Rightarrow> CommerceDb \<Rightarrow> ident list" where
  "order_licenses order s =
     map li_id (filter (\<lambda>l. li_orderId l = or_id order \<or> renewed_subscription order (li_subscriptionId l)) (cd_licenses s))"

definition revoke_licenses :: "OrderRow \<Rightarrow> time \<Rightarrow> (CommerceDb, unit) eff" where
  "revoke_licenses order now =
     bnd (gets (order_licenses order)) (\<lambda>licenseIds.
     bnd (write_licenses (update_rows (\<lambda>l. li_id l \<in> set licenseIds) (\<lambda>l. l\<lparr>li_status := LICENSE_REVOKED\<rparr>))) (\<lambda>_.
     bnd (write_activations (update_rows (\<lambda>a. da_licenseId a \<in> set licenseIds \<and> da_active a)
            (\<lambda>a. a\<lparr>da_active := False, da_deactivatedAt := Some now\<rparr>))) (\<lambda>_.
     write_subscriptions (update_rows (\<lambda>r. su_orderId r = or_id order \<or> renewed_subscription order (Some (su_id r)))
       (\<lambda>r. r\<lparr>su_status := SUB_CANCELLED\<rparr>)))))"

definition complete_refund_operation :: "VerifiedEvent \<Rightarrow> ident option \<Rightarrow> (CommerceDb, unit) eff" where
  "complete_refund_operation event paymentId =
     (if truthy (ve_externalRefundId event) then
        write_refunds (update_rows (\<lambda>r. ro_externalRefundId r = ve_externalRefundId event \<or> ro_paymentId r = or_else paymentId [])
          (\<lambda>r. r\<lparr>ro_externalRefundId := ve_externalRefundId event, ro_status := ''SUCCEEDED'',
               ro_completedAt := Some (ve_occurredAt event), ro_lastErrorCode := None\<rparr>))
      else ret ())"

text \<open>The payments, the order and its invoice; then everything the order gave.\<close>

definition void_order :: "VerifiedEvent \<Rightarrow> OrderRow \<Rightarrow> (CommerceDb, unit) eff" where
  "void_order event order =
     bnd (write_payments (update_rows (refunded_payment order event) (\<lambda>r. r\<lparr>pm_status := PAYMENT_REFUNDED\<rparr>))) (\<lambda>_.
     bnd (write_orders (update_rows (\<lambda>r. or_id r = or_id order) (\<lambda>r. r\<lparr>or_status := ORDER_REFUNDED\<rparr>))) (\<lambda>_.
     update_invoice_of (or_id order) (\<lambda>r. r\<lparr>in_status := INVOICE_VOID\<rparr>)))"

definition revoke_rights :: "PaymentHost \<Rightarrow> VerifiedEvent \<Rightarrow> OrderRow \<Rightarrow> (CommerceDb, unit) eff" where
  "revoke_rights h event order =
     bnd (gets (\<lambda>s. map_option or_fulfillmentMode (order_by_id s (or_id order)))) (\<lambda>mode.
     case mode of
       None \<Rightarrow> throw RECONCILIATION_REQUIRED
     | Some m \<Rightarrow>
         if m = ACCOUNT_ENTITLEMENT
         then bnd (revokeOrderEntitlements (hs_services h) (or_id order) (refund_evidence order event)) (\<lambda>_. ret ())
         else ret ())"

definition confirm_refund :: "PaymentHost \<Rightarrow> CommerceCall \<Rightarrow> VerifiedEvent \<Rightarrow> OrderRow \<Rightarrow> ident option \<Rightarrow> (CommerceDb, unit) eff" where
  "confirm_refund h cx event order paymentId =
     bnd (void_order event order) (\<lambda>_.
     bnd (revoke_claims (or_id order) (ve_occurredAt event)) (\<lambda>_.
     bnd (revoke_rights h event order) (\<lambda>_.
     bnd (revoke_licenses order (cx_now cx)) (\<lambda>_.
     bnd (write_redemptions (update_rows (\<lambda>r. rd_orderId r = or_id order) (\<lambda>r. r\<lparr>rd_status := RD_REFUNDED\<rparr>))) (\<lambda>_.
     bnd (complete_refund_operation event paymentId) (\<lambda>_.
     bnd (commerce_audit (event_audit order event ''PAYMENT_REFUND_CONFIRMED'')) (\<lambda>_.
     notify h cx (refund_confirmed order event paymentId) (ve_occurredAt event) None)))))))"

definition processRefundEvent :: "PaymentHost \<Rightarrow> CommerceCall \<Rightarrow> VerifiedEvent \<Rightarrow> ResolvedEvent \<Rightarrow> (CommerceDb, unit) eff" where
  "processRefundEvent h cx event resolved =
     (if ve_type event = PAYMENT_REFUND_UPDATED \<and> ve_refundStatus event \<noteq> Some RS_SUCCEEDED then note_refund_status event
      else if or_status (rs_order resolved) = ORDER_PAID
      then confirm_refund h cx event (rs_order resolved) (map_option pm_id (rs_knownPayment resolved))
      else if or_status (rs_order resolved) \<noteq> ORDER_REFUNDED then throw ''PAYMENT_REFUND_CONFLICT''
      else ret ())"

section \<open>Processing\<close>

definition processOperationalEvent :: "PaymentHost \<Rightarrow> CommerceCall \<Rightarrow> VerifiedEvent \<Rightarrow> (CommerceDb, ProcessedOrder) eff" where
  "processOperationalEvent h cx event =
     bnd (resolveOperationalOrder event) (\<lambda>resolved.
     bnd (if ve_type event = PAYMENT_FAILED_EVENT then processFailedEvent h cx event resolved
          else bnd (processRefundEvent h cx event resolved) (\<lambda>_. ret (map_option pm_id (rs_knownPayment resolved)))) (\<lambda>paymentId.
     ret \<lparr>po_orderId = or_id (rs_order resolved), po_paymentId = paymentId, po_hostAttemptId = map_option at_id (rs_hostAttempt resolved)\<rparr>))"

definition processed_webhook :: "VerifiedEvent \<Rightarrow> ProcessedOrder \<Rightarrow> time \<Rightarrow> WebhookRow \<Rightarrow> WebhookRow" where
  "processed_webhook event processed now r =
     r\<lparr>wh_orderId := Some (po_orderId processed), wh_paymentAttemptId := first_of (po_hostAttemptId processed) (wh_paymentAttemptId r),
       wh_paymentId := first_of (po_paymentId processed) (wh_paymentId r),
       wh_providerCheckoutId := first_of (ve_externalCheckoutId event) (wh_providerCheckoutId r),
       wh_providerPaymentId := first_of (ve_externalPaymentId event) (wh_providerPaymentId r),
       wh_providerRefundId := first_of (ve_externalRefundId event) (wh_providerRefundId r), wh_status := WH_PROCESSED,
       wh_error := None, wh_lastErrorCode := None, wh_mismatchCategory := None, wh_processedAt := Some now,
       wh_lastAttemptAt := Some now, wh_resolutionStatus := RES_RESOLVED\<rparr>"

definition ignored_webhook :: "time \<Rightarrow> WebhookRow \<Rightarrow> WebhookRow" where
  "ignored_webhook now r = r\<lparr>wh_status := WH_IGNORED, wh_lastErrorCode := Some ''PAYMENT_EVENT_UNSUPPORTED'',
     wh_processedAt := Some now, wh_resolutionStatus := RES_ACKNOWLEDGED\<rparr>"

text \<open>The transaction of an event: its order is changed and its webhook marked, or neither.\<close>

definition process_transaction :: "PaymentHost \<Rightarrow> CommerceCall \<Rightarrow> VerifiedEvent \<Rightarrow> (CommerceDb, RenewalLeaseRequest list) eff" where
  "process_transaction h cx event = transaction (
     bnd (if ve_type event = PAYMENT_PAID_EVENT then processPaidEvent h cx event
          else bnd (processOperationalEvent h cx event) (\<lambda>order. ret (order, []))) (\<lambda>(processed, requests).
     bnd (update_webhook (ve_provider event) (ve_eventId event) (processed_webhook event processed (cx_now cx))) (\<lambda>_. ret requests)))"

definition active_leases :: "ident \<Rightarrow> CommerceDb \<Rightarrow> LeaseRecordRow list" where
  "active_leases i s = sort_key (\<lambda>r. - lr_issuedAt r) (filter (\<lambda>r. lr_licenseId r = i \<and> lr_status r = ''ACTIVE'') (cd_leases s))"

definition renew_lease :: "PaymentHost \<Rightarrow> CommerceCall \<Rightarrow> RenewalLeaseRequest \<Rightarrow> (CommerceDb, unit) eff" where
  "renew_lease h cx request =
     bnd (find_or_throw (\<lambda>s. find_by li_id (rq_licenseId request) (cd_licenses s))) (\<lambda>license.
     bnd (gets (\<lambda>s. rq_deviceHash request \<in> set (active_devices (li_id license) s))) (\<lambda>activated.
     bnd (gets (\<lambda>s. List.find (\<lambda>r. tc_sha256 (cx_crypto cx) (lr_deviceId r) = rq_deviceHash request) (active_leases (li_id license) s))) (\<lambda>binding.
     if \<not> truthy (li_keyCiphertext license) \<or> \<not> activated then ret ()
     else (case binding of
             None \<Rightarrow> ret ()
           | Some lease \<Rightarrow>
               bnd (from_result (decryptLicenseKey (cx_crypto cx) (cx_LICENSE_PEPPER cx) (the (li_keyCiphertext license)))) (\<lambda>key.
               hs_issueCommercialLease h \<lparr>ls_licenseKey = key, ls_installationId = lr_installationId lease,
                 ls_leaseDeviceId = lr_deviceId lease, ls_operationId = rq_operationId request, ls_productVersion = lr_version lease\<rparr>)))))"

definition renew_leases :: "PaymentHost \<Rightarrow> CommerceCall \<Rightarrow> RenewalLeaseRequest list \<Rightarrow> (CommerceDb, unit) eff" where
  "renew_leases h cx requests = for_each (\<lambda>request. bnd (caught (renew_lease h cx request)) (\<lambda>_. ret ())) requests"

datatype ProcessAnswer = Processed | Ignored | Duplicate

definition processVerifiedEvent :: "PaymentHost \<Rightarrow> CommerceCall \<Rightarrow> VerifiedEvent \<Rightarrow> (CommerceDb, ProcessAnswer) eff" where
  "processVerifiedEvent h cx event =
     (if ve_livemode event \<noteq> expected_livemode cx then throw ''PAYMENT_MODE_MISMATCH''
      else if ve_type event = UNKNOWN_EVENT
      then bnd (update_webhook (ve_provider event) (ve_eventId event) (ignored_webhook (cx_now cx))) (\<lambda>_. ret Ignored)
      else
      bnd (process_transaction h cx event) (\<lambda>requests.
      bnd (renew_leases h cx requests) (\<lambda>_. ret Processed)))"

text \<open>The message of a serialization conflict of the database.\<close>

definition P2034 :: error where "P2034 = ''P2034''"

definition processPaymentWebhook :: "PaymentHost \<Rightarrow> CommerceCall \<Rightarrow> string \<Rightarrow> headers \<Rightarrow> (CommerceDb, ProcessAnswer) eff" where
  "processPaymentWebhook h cx raw hdrs =
     bnd (ingestPaymentWebhook h cx raw hdrs) (\<lambda>(event, duplicate).
     if duplicate then ret Duplicate
     else try_catch (processVerifiedEvent h cx event) (\<lambda>e.
       let prismaRetry = (e = P2034);
           code = (if prismaRetry then PROCESSING_RETRYABLE else hs_safePaymentError h e);
           retryable = (prismaRetry \<or> e = PROCESSING_RETRYABLE) in
       bnd (recordFailure h cx (ve_eventId event) code retryable) (\<lambda>_. throw code)))"

definition retried_webhook :: "time \<Rightarrow> WebhookRow \<Rightarrow> WebhookRow" where
  "retried_webhook now r = r\<lparr>wh_status := WH_RECEIVED, wh_processingAttempts := wh_processingAttempts r + 1,
     wh_lastAttemptAt := Some now, wh_error := None, wh_lastErrorCode := None\<rparr>"

definition retryStoredWebhook :: "PaymentHost \<Rightarrow> CommerceCall \<Rightarrow> ident \<Rightarrow> (CommerceDb, ProcessAnswer) eff" where
  "retryStoredWebhook h cx webhookId =
     bnd (gets (\<lambda>s. find_by wh_id webhookId (cd_webhooks s))) (\<lambda>found.
     case found of
       None \<Rightarrow> throw ''NOT_FOUND''
     | Some row \<Rightarrow>
         if wh_status row \<noteq> WH_FAILED \<or> wh_normalizedData row = None then throw RECONCILIATION_REQUIRED
         else
         bnd (ownerEventForStoredWebhook row) (\<lambda>event.
         bnd (write_webhooks (update_rows (\<lambda>r. wh_id r = wh_id row) (retried_webhook (cx_now cx)))) (\<lambda>_.
         try_catch (processVerifiedEvent h cx event) (\<lambda>e.
           bnd (recordFailure h cx (ve_eventId event) (hs_safePaymentError h e) (e = PROCESSING_RETRYABLE)) (\<lambda>_. throw e)))))"

end
