(* ===== verification/Payment_Laws.thy ===== *)
theory Payment_Laws
  imports Payment_Processing
begin

text \<open>
  What payment processing relies on the packages for, and the predicates that everything beside the order and its invoice leaves
  alone. A capability that is given a repository reaches the database through it only: whatever the operations of
  the repository preserve, the capability preserves.
\<close>

section \<open>The contracts of the packages\<close>

definition licensing_through :: "LicensingService \<Rightarrow> bool" where
  "licensing_through svc \<longleftrightarrow>
     (\<forall>P repo req. (\<forall>r. keeps P (repo r)) \<longrightarrow> keeps P (lc_issue svc repo req)) \<and>
     (\<forall>P repo req. (\<forall>r. keeps P (repo r)) \<longrightarrow> keeps P (lc_renewSubscription svc repo req))"

definition services_through :: "PaymentServices \<Rightarrow> bool" where
  "services_through sv \<longleftrightarrow>
     (\<forall>P repo input. (\<forall>i. keeps P (fr_findProviderEventById repo i)) \<longrightarrow> (\<forall>p e. keeps P (fr_findCheckoutAttempt repo p e)) \<longrightarrow>
        (\<forall>c. keeps P (fr_claim repo c)) \<longrightarrow> keeps P (pv_reconcile sv repo input)) \<and>
     (\<forall>P ports input. (\<forall>i. keeps P (rp_settle ports i)) \<longrightarrow> (\<forall>i. keeps P (rp_grant ports i)) \<longrightarrow> (\<forall>i. keeps P (rp_issue ports i)) \<longrightarrow>
        keeps P (pv_react sv ports input)) \<and>
     (\<forall>P repo input. (\<forall>i. keeps P (repo i)) \<longrightarrow> keeps P (pv_grant sv repo input)) \<and>
     (\<forall>P repo input. (\<forall>i. keeps P (repo i)) \<longrightarrow> keeps P (pv_revoke sv repo input))"

text \<open>Lease issuing writes the leases of licenses, their operations and events and the activations.\<close>

definition lease_issuer :: "(LeaseIssue \<Rightarrow> (CommerceDb, unit) eff) \<Rightarrow> bool" where
  "lease_issuer issue \<longleftrightarrow> (\<forall>P request. (\<forall>s rows. P s \<longrightarrow> P (s\<lparr>cd_leases := rows\<rparr>)) \<longrightarrow> (\<forall>s rows. P s \<longrightarrow> P (s\<lparr>cd_leaseOps := rows\<rparr>)) \<longrightarrow>
     (\<forall>s rows. P s \<longrightarrow> P (s\<lparr>cd_licenseEvents := rows\<rparr>)) \<longrightarrow> (\<forall>s rows. P s \<longrightarrow> P (s\<lparr>cd_activations := rows\<rparr>)) \<longrightarrow> keeps P (issue request))"

text \<open>
  Ingestion: whatever the claim of an event preserves; and an ingested event is one that its repository claimed, created or not.
\<close>

definition ingests :: "PaymentHost \<Rightarrow> bool" where
  "ingests h \<longleftrightarrow>
     (\<forall>P claim verify raw hdrs. (\<forall>i. keeps P (claim i)) \<longrightarrow> (\<forall>r k. keeps P (verify r k)) \<longrightarrow> keeps P (hs_ingest h claim verify raw hdrs)) \<and>
     (\<forall>claim verify raw hdrs s c event created t d. (\<forall>r k. keeps (\<lambda>(p, _). p = s) (verify r k)) \<longrightarrow>
        hs_ingest h claim verify raw hdrs (s, c) = (Inr (Ingested event created), (t, d)) \<longrightarrow>
        (\<exists>input row c' d'. claim input (s, c') = (Inr (created, row), (t, d')) \<and> ec_provider input = ve_provider event \<and>
           ec_eventId input = ve_eventId event))"

definition payment_host :: "PaymentHost \<Rightarrow> bool" where
  "payment_host h \<longleftrightarrow> services_through (hs_services h) \<and> licensing_through (hs_licensing h) \<and> lease_issuer (hs_issueCommercialLease h) \<and> ingests h"

lemma payment_hostD:
  assumes "payment_host h"
  shows "services_through (hs_services h)" "licensing_through (hs_licensing h)" "lease_issuer (hs_issueCommercialLease h)" "ingests h"
  using assms by (simp_all add: payment_host_def)

lemma keeps_ingests:
  "ingests h \<Longrightarrow> (\<And>i. keeps P (claim i)) \<Longrightarrow> (\<And>r k. keeps P (verify r k)) \<Longrightarrow> keeps P (hs_ingest h claim verify raw hdrs)"
  unfolding ingests_def by (elim conjE) (drule spec [of _ P], blast)

lemma keeps_services:
  assumes "services_through sv"
  shows "(\<And>i. keeps P (fr_findProviderEventById repo i)) \<Longrightarrow> (\<And>p e. keeps P (fr_findCheckoutAttempt repo p e)) \<Longrightarrow>
      (\<And>c. keeps P (fr_claim repo c)) \<Longrightarrow> keeps P (pv_reconcile sv repo input)"
    and "(\<And>i. keeps P (rp_settle ports i)) \<Longrightarrow> (\<And>i. keeps P (rp_grant ports i)) \<Longrightarrow> (\<And>i. keeps P (rp_issue ports i)) \<Longrightarrow>
      keeps P (pv_react sv ports input')"
    and "(\<And>i. keeps P (grant i)) \<Longrightarrow> keeps P (pv_grant sv grant g)"
    and "(\<And>i. keeps P (revoke i)) \<Longrightarrow> keeps P (pv_revoke sv revoke r)"
  using assms unfolding services_through_def by blast+

lemma keeps_licensing:
  assumes "licensing_through svc"
  shows "(\<And>r. keeps P (issue r)) \<Longrightarrow> keeps P (lc_issue svc issue req)"
    and "(\<And>r. keeps P (renew r)) \<Longrightarrow> keeps P (lc_renewSubscription svc renew req')"
  using assms unfolding licensing_through_def by blast+

section \<open>Predicates of orders and invoices\<close>

lemma keeps_update: "(\<And>s. P (f s) = P s) \<Longrightarrow> keeps P (modify f)"
  by (simp add: keeps_def modify_def)

lemma keeps_table: "(\<And>rows s. P (put rows s) = P s) \<Longrightarrow> keeps P (write_table get put ok f)"
  by (simp add: keeps_def write_table_def)

text \<open>Leases are issued for any predicate that the tables of leases do not matter for.\<close>

lemma keeps_renew_leases:
  assumes "payment_host h"
    and "\<And>s rows. P (s\<lparr>cd_leases := rows\<rparr>) = P s" "\<And>s rows. P (s\<lparr>cd_leaseOps := rows\<rparr>) = P s"
      "\<And>s rows. P (s\<lparr>cd_licenseEvents := rows\<rparr>) = P s" "\<And>s rows. P (s\<lparr>cd_activations := rows\<rparr>) = P s"
  shows "keeps P (renew_leases h cx requests)"
proof -
  have "keeps P (hs_issueCommercialLease h request)" for request
    by (rule payment_hostD(3) [OF assms(1), unfolded lease_issuer_def, rule_format]) (simp_all only: assms(2-))
  then show ?thesis unfolding renew_leases_def renew_lease_def by (intro keeps_intro)
qed

text \<open>The interface between the order and everything that hangs on it: a predicate that the other tables do not matter for.\<close>

locale side_tables =
  fixes P :: "CommerceDb \<Rightarrow> bool"
  assumes facts: "P (s\<lparr>cd_facts := facts\<rparr>) = P s"
    and redemptions: "P (s\<lparr>cd_redemptions := redemptions\<rparr>) = P s"
    and payments: "P (s\<lparr>cd_payments := payments\<rparr>) = P s"
    and attempts: "P (s\<lparr>cd_attempts := attempts\<rparr>) = P s"
    and checkouts: "P (s\<lparr>cd_checkouts := checkouts\<rparr>) = P s"
    and refunds: "P (s\<lparr>cd_refunds := refunds\<rparr>) = P s"
    and entitlements: "P (s\<lparr>cd_entitlements := entitlements\<rparr>) = P s"
    and claims: "P (s\<lparr>cd_claims := claims\<rparr>) = P s"
    and licenses: "P (s\<lparr>cd_licenses := licenses\<rparr>) = P s"
    and activations: "P (s\<lparr>cd_activations := activations\<rparr>) = P s"
    and subscriptions: "P (s\<lparr>cd_subscriptions := subscriptions\<rparr>) = P s"
    and leaseOps: "P (s\<lparr>cd_leaseOps := leaseOps\<rparr>) = P s"
    and leases: "P (s\<lparr>cd_leases := leases\<rparr>) = P s"
    and licenseEvents: "P (s\<lparr>cd_licenseEvents := events\<rparr>) = P s"
    and notifications: "P (s\<lparr>cd_notifications := notifications\<rparr>) = P s"
    and audit: "P (s\<lparr>cd_audit := audit\<rparr>) = P s"
    and drawn: "P (s\<lparr>cd_drawn := n\<rparr>) = P s"
begin

lemmas insensitive = facts redemptions payments attempts checkouts refunds entitlements claims licenses activations subscriptions
  leaseOps leases licenseEvents notifications audit drawn

lemma writes:
  "keeps P (write_facts f1)" "keeps P (write_redemptions f2)" "keeps P (write_payments f3)" "keeps P (write_attempts f4)"
  "keeps P (write_checkouts f5)" "keeps P (write_refunds f6)" "keeps P (write_entitlements f7)" "keeps P (write_claims f8)"
  "keeps P (write_licenses f9)" "keeps P (write_activations f10)" "keeps P (write_subscriptions f11)" "keeps P (write_lease_ops f12)"
  "keeps P (write_notifications f13)"
  by (rule keeps_table, rule insensitive)+

lemma draws: "keeps P (fresh_uuid cx)" "keeps P (fresh_bytes cx k)"
  unfolding fresh_uuid_def fresh_bytes_def draw_def by (intro keeps_intro; simp only: insensitive)+

lemma records: "keeps P (license_event e)" "keeps P (commerce_audit a)"
  unfolding license_event_def commerce_audit_def by (rule keeps_update, rule insensitive)+

lemmas steps = keeps_intro writes draws records

lemma keeps_issue: "licensing_through svc \<Longrightarrow> keeps P (issue_item svc cx order accountId item subscriptionId expiresAt)"
  unfolding issue_item_def license_issue_def Let_def by (intro steps keeps_licensing)

lemma keeps_renew: "licensing_through svc \<Longrightarrow> keeps P (renew_item svc cx orderId evidence item existing unit periodStart periodEnd)"
  unfolding renew_item_def license_renew_def renew_license_def renewal_op_def upsert_lease_op_def Let_def case_prod_unfold
  by (intro steps keeps_licensing)

lemma keeps_fulfill: "licensing_through svc \<Longrightarrow> keeps P (fulfillOrderLicensing svc cx orderId evidence target)"
  unfolding fulfillOrderLicensing_def fulfill_item_def item_interval_def Let_def case_prod_unfold
  by (intro steps keeps_issue keeps_renew)

lemma keeps_claim_units: "keeps P (issueCommerceClaimUnits cx input)"
  unfolding issueCommerceClaimUnits_def issueClaimCodes_def issue_unit_def Let_def by (intro steps)

lemma keeps_claim_fact: "keeps P (claim_fact cx input)"
  unfolding claim_fact_def by (intro steps)

lemma keeps_grant: "keeps P (grant_right cx input)"
  unfolding grant_right_def by (intro steps)

lemma keeps_revoke: "keeps P (revoke_right input)"
  unfolding revoke_right_def Let_def by (intro steps)

lemma keeps_revoke_order: "services_through sv \<Longrightarrow> keeps P (revokeOrderEntitlements sv orderId evidence)"
  unfolding revokeOrderEntitlements_def revoke_one_def
  by (intro steps keeps_services keeps_revoke; simp split: RevocationAnswer.split add: keeps_ret keeps_throw)

lemma keeps_notify: "keeps P (notify h cx input createdAt productId)"
  unfolding notify_def persistNotification_def by (intro steps)

lemma keeps_reconcile: "services_through sv \<Longrightarrow> keeps P (pv_reconcile sv (createPaymentsRepository cx) input)"
  by (rule keeps_services) (simp_all add: createPaymentsRepository_def findProviderEventById_def findCheckoutAttempt_def keeps_gets keeps_claim_fact)

lemma keeps_react_settlement:
  assumes "services_through sv" and "\<And>i. keeps P (settle_order i)"
  shows "keeps P (reactToPaidSettlement sv cx i mode)"
proof -
  have ports: "keeps P (pv_react sv (reaction_ports sv cx orderId paidFact) input)" for orderId paidFact input
    using assms by (intro keeps_services) (simp_all add: reaction_ports_def keeps_services keeps_grant keeps_claim_units)
  show ?thesis unfolding reactToPaidSettlement_def
    by (intro keeps_bnd keeps_reconcile [OF assms(1)]; simp split: ReconcileResult.split add: keeps_throw)
      (intro allI impI keeps_intro ports; simp split: ReactionResult.split add: keeps_throw keeps_ret)
qed

lemma keeps_upsert_payment: "keeps P (upsert_payment cx order event status paidAt change)"
  unfolding upsert_payment_def by (intro steps)

lemma keeps_failed_event: "keeps P (processFailedEvent h cx event resolved)"
  unfolding processFailedEvent_def close_attempts_def Let_def by (intro steps keeps_upsert_payment keeps_notify)

lemma keeps_refund_status: "keeps P (note_refund_status event)"
  unfolding note_refund_status_def Let_def by (intro steps)

lemma keeps_paid_event:
  assumes "payment_host h" and "\<And>i. keeps P (settle_order i)"
  shows "keeps P (processPaidEvent h cx event)"
  unfolding processPaidEvent_def fulfil_created_def notify_invoice_def notify_licenses_def
  by (intro steps keeps_react_settlement keeps_fulfill keeps_upsert_payment keeps_notify payment_hostD [OF assms(1)] assms(2))

lemma keeps_take_back:
  assumes "payment_host h"
  shows "keeps P (revoke_claims orderId at)" "keeps P (revoke_rights h event order)" "keeps P (revoke_licenses order now)"
    "keeps P (complete_refund_operation event paymentId)"
  unfolding revoke_claims_def revoke_rights_def revoke_licenses_def complete_refund_operation_def
  by (intro steps keeps_revoke_order payment_hostD [OF assms])+

lemma keeps_codes:
  assumes "licensing_through svc"
  shows "keeps P (issueClaimCodes cx input)" "keeps P (revealClaimCode cx i purchaser)" "keeps P (consumeClaimCode svc cx code userId accountId)"
proof -
  show "keeps P (issueClaimCodes cx input)" unfolding issueClaimCodes_def issue_unit_def Let_def by (intro steps)
  show "keeps P (revealClaimCode cx i purchaser)" unfolding revealClaimCode_def expire_claim_def by (intro steps)
  show "keeps P (consumeClaimCode svc cx code userId accountId)"
    unfolding consumeClaimCode_def expire_claim_def mark_claimed_def Let_def by (intro steps keeps_fulfill assms)
qed

lemma keeps_leases:
  assumes "payment_host h"
  shows "keeps P (renew_leases h cx requests)"
  by (rule keeps_renew_leases [OF assms]) (simp_all only: leases leaseOps licenseEvents activations)

end

text \<open>Predicates that the rows of webhooks and provider events do not matter for either: they survive ingestion.\<close>

locale event_tables =
  fixes P :: "CommerceDb \<Rightarrow> bool"
  assumes webhooks: "P (s\<lparr>cd_webhooks := webhooks\<rparr>) = P s"
    and events: "P (s\<lparr>cd_events := provider_events\<rparr>) = P s"
begin

lemma keeps_event_rows: "keeps P (write_webhooks f)" "keeps P (write_events g)"
  by (rule keeps_table, rule webhooks events)+

lemma keeps_update_webhook: "keeps P (update_webhook provider eventId f)"
  unfolding update_webhook_def by (intro keeps_intro keeps_event_rows)

lemma keeps_insert_event: "keeps P (insert_event row)"
  unfolding insert_event_def by (intro keeps_intro keeps_event_rows)

lemma keeps_claim_event: "keeps P (claim_event cx input)"
  unfolding claim_event_def insert_webhook_def by (intro keeps_intro keeps_event_rows keeps_insert_event)

lemma keeps_run_ingest:
  assumes "ingests h"
  shows "keeps P (run_ingest h cx verify raw hdrs)"
proof (rule keepsI)
  fix s assume P: "P s"
  have claim: "keeps (\<lambda>s. P (fst s)) (zoom fst (\<lambda>p (_, c). (p, c)) (claim_event cx input))" for input
    by (rule keeps_zoom_part [OF keeps_claim_event]) (simp split: prod.splits)
  have "keeps (\<lambda>s. P (fst s)) (capture_verify verify r k)" for r k
    by (rule keepsI) (auto simp: capture_verify_def split: sum.splits prod.splits)
  from keeps_ingests [OF assms claim this]
  have "keeps (\<lambda>s. P (fst s)) (hs_ingest h (\<lambda>input. zoom fst (\<lambda>p (_, c). (p, c)) (claim_event cx input)) (capture_verify verify) raw hdrs)" .
  from keeps_apply [OF this, of "(s, \<lparr>cap_event = None, cap_failure = None\<rparr>)"] P
  show "P (snd (run_ingest h cx verify raw hdrs s))"
    by (auto simp: run_ingest_def split: prod.splits)
qed

lemma keeps_ingest:
  assumes "ingests h"
  shows "keeps P (ingestPaymentWebhook h cx raw hdrs)"
proof -
  have "keeps P (case result of IngestRejected \<Rightarrow> reject_replay name captured | IngestFailed code \<Rightarrow> ingest_failed h code captured
      | Ingested event created \<Rightarrow> ingested cx event created)" for result name captured
    unfolding reject_replay_def ingest_failed_def ingested_def
    by (cases result; simp only: IngestResult.case; intro keeps_intro keeps_event_rows)
  then show ?thesis unfolding ingestPaymentWebhook_def
    by (intro keeps_intro keeps_run_ingest [OF assms])
qed

lemma keeps_stored_event: "keeps P (ownerEventForStoredWebhook row)"
  unfolding ownerEventForStoredWebhook_def by (intro keeps_intro keeps_insert_event)

lemma keeps_record_failure: "keeps P (recordFailure h cx eventId code retryable)"
  unfolding recordFailure_def by (rule keeps_update_webhook)

end

text \<open>Both together: whatever keeps such a predicate while an event is processed, a delivery and a retry keep it.\<close>

locale order_books = side_tables P + event_tables P for P :: "CommerceDb \<Rightarrow> bool"
begin

lemma keeps_verified:
  assumes "payment_host h" and "keeps P (process_transaction h cx event)"
  shows "keeps P (processVerifiedEvent h cx event)"
  unfolding processVerifiedEvent_def by (intro keeps_intro keeps_update_webhook keeps_leases assms)

lemma keeps_delivery:
  assumes "payment_host h" and "\<And>event. keeps P (process_transaction h cx event)"
  shows "keeps P (processPaymentWebhook h cx raw hdrs)" "keeps P (retryStoredWebhook h cx webhookId)"
  unfolding processPaymentWebhook_def retryStoredWebhook_def Let_def
  by (intro keeps_intro keeps_ingest keeps_record_failure keeps_verified keeps_stored_event keeps_event_rows payment_hostD assms)+

end

end
