(* ===== verification/Payment_Facts.thy ===== *)
theory Payment_Facts
  imports Payment_Laws Claim_Facts
begin

text \<open>
  What payments guarantee: under any deliveries, retries, crashes and redemptions an order and its invoice follow the life of
  a purchase; a confirmed refund takes back what the order gave; an event that fails leaves the order as it was; an event that
  did not fail is never processed again; and a processed payment has settled the order it names.
\<close>

section \<open>The life of an order\<close>

text \<open>The abstract machine: an order is paid, even after it was cancelled, and a paid order is refunded.\<close>

inductive order_step :: "OrderStatus \<Rightarrow> OrderStatus \<Rightarrow> bool" where
  pay: "order_step ORDER_PENDING ORDER_PAID"
| pay_cancelled: "order_step ORDER_CANCELLED ORDER_PAID"
| refund: "order_step ORDER_PAID ORDER_REFUNDED"

inductive_simps order_step_simps: "order_step a b"

definition order_identity :: "OrderRow \<Rightarrow> ident \<times> string \<times> ident \<times> string \<times> int \<times> ident option \<times> FulfillmentMode \<times> jvalue" where
  "order_identity r = (or_id r, or_number r, or_accountId r, or_currency r, or_totalMinor r, or_renewalSubscriptionId r,
     or_fulfillmentMode r, or_fulfillmentSnapshot r)"

definition order_moves :: "OrderRow \<Rightarrow> OrderRow \<Rightarrow> bool" where
  "order_moves r r' \<longleftrightarrow> order_identity r' = order_identity r \<and> order_step\<^sup>*\<^sup>* (or_status r) (or_status r')"

text \<open>The invoice of an order says what its status says.\<close>

definition invoice_matches :: "OrderRow \<Rightarrow> InvoiceRow \<Rightarrow> bool" where
  "invoice_matches r v \<longleftrightarrow>
     (case or_status r of
        ORDER_PENDING \<Rightarrow> in_status v = INVOICE_DRAFT | ORDER_CANCELLED \<Rightarrow> in_status v = INVOICE_DRAFT
      | ORDER_PAID \<Rightarrow> in_status v = INVOICE_FINAL | ORDER_REFUNDED \<Rightarrow> in_status v = INVOICE_VOID
      | ORDER_PARTIALLY_REFUNDED \<Rightarrow> True)"

definition books :: "CommerceDb \<Rightarrow> bool" where
  "books s \<longleftrightarrow> orders_ok (cd_orders s) \<and> invoices_ok (cd_invoices s) \<and>
     (\<forall>r\<in>set (cd_orders s). \<forall>v\<in>set (cd_invoices s). in_orderId v = or_id r \<longrightarrow> invoice_matches r v)"

definition order_life :: "CommerceDb \<Rightarrow> CommerceDb \<Rightarrow> bool" where
  "order_life s t \<longleftrightarrow> books t \<and> list_all2 order_moves (cd_orders s) (cd_orders t)"

lemma order_moves_trans: "order_moves r q \<Longrightarrow> order_moves q p \<Longrightarrow> order_moves r p"
  by (auto simp: order_moves_def intro: rtranclp_trans)

lemma order_life_trans: "order_life s t \<Longrightarrow> order_life t u \<Longrightarrow> order_life s u"
  unfolding order_life_def by (blast intro: list_all2_trans [of order_moves order_moves order_moves] order_moves_trans)

lemma order_life_refl: "books s \<Longrightarrow> order_life s s"
  by (simp add: order_life_def list_all2_same order_moves_def)

text \<open>Nothing but orders and invoices matters.\<close>

interpretation life: order_books "order_life s" for s
  by unfold_locales (simp_all add: order_life_def books_def)

lemma order_life_same: "order_life s t \<Longrightarrow> cd_orders u = cd_orders t \<Longrightarrow> cd_invoices u = cd_invoices t \<Longrightarrow> order_life s u"
  by (simp add: order_life_def books_def)

text \<open>The step: one order takes a step of its life, and its invoice with it.\<close>

lemma order_life_step:
  assumes b: "books t" and r: "r \<in> set (cd_orders t)"
    and f: "order_identity (f r) = order_identity r" "order_step (or_status r) (or_status (f r))"
    and g: "\<And>v. in_id (g v) = in_id v" "\<And>v. in_orderId (g v) = in_orderId v" "\<And>v. invoice_matches (f r) (g v)"
      "\<And>v. in_number (g v) = in_number v"
    and p: "\<And>v. v \<in> set (cd_invoices t) \<Longrightarrow> p v \<longleftrightarrow> in_orderId v = or_id r"
    and u: "cd_orders u = update_rows (\<lambda>q. or_id q = or_id r) f (cd_orders t)" "cd_invoices u = update_rows p g (cd_invoices t)"
  shows "order_life t u"
proof -
  have ok: "orders_ok (cd_orders t)" "invoices_ok (cd_invoices t)" using b by (simp_all add: books_def)
  have only: "q = r" if "q \<in> set (cd_orders t)" "or_id q = or_id r" for q
    using find_key_unique [of or_id "cd_orders t" q r] ok(1) that r by (simp add: orders_ok_def)
  have orders: "cd_orders u = map (\<lambda>q. if q = r then f r else q) (cd_orders t)"
    unfolding u(1) update_rows_def using only by (intro map_cong) auto
  have ids: "or_id (f r) = or_id r" "or_number (f r) = or_number r" using f(1) by (simp_all add: order_identity_def)
  have "list_all2 order_moves (cd_orders t) (cd_orders u)"
    unfolding orders list_all2_conv_all_nth using f by (auto simp: order_moves_def)
  moreover have "orders_ok (cd_orders u)"
  proof -
    have "map or_id (cd_orders u) = map or_id (cd_orders t)" "map or_number (cd_orders u) = map or_number (cd_orders t)"
      unfolding orders using ids by auto
    then show ?thesis using ok(1) by (simp add: orders_ok_def)
  qed
  moreover have "invoices_ok (cd_invoices u)"
    unfolding u(2) using ok(2) g(1,2,4) by (simp add: invoices_ok_def map_update_rows)
  moreover have "invoice_matches q v" if qv: "q \<in> set (cd_orders u)" "v \<in> set (cd_invoices u)" "in_orderId v = or_id q" for q v
  proof -
    obtain w where w: "w \<in> set (cd_invoices t)" "v = (if p w then g w else w)" using qv(2) by (auto simp: u(2) set_update_rows)
    have v: "in_orderId v = in_orderId w" using w(2) g(2) by auto
    obtain q' where q': "q' \<in> set (cd_orders t)" "q = (if q' = r then f r else q')" using qv(1) by (auto simp: orders)
    show ?thesis
    proof (cases "q' = r")
      case True
      then show ?thesis using w v qv(3) q' p [OF w(1)] ids g(3) by simp
    next
      case False
      then have "or_id q' \<noteq> or_id r" using only [OF q'(1)] by blast
      then have "v = w" using w(2) p [OF w(1)] v qv(3) q'(2) False by auto
      then show ?thesis using b w(1) q' False qv(3) by (simp add: books_def)
    qed
  qed
  ultimately show ?thesis by (auto simp: order_life_def books_def)
qed

section \<open>Settling and refunding take steps\<close>

lemma found_order: "find_by or_id i (cd_orders s) = Some order \<Longrightarrow> order \<in> set (cd_orders s) \<and> or_id order = i"
  using find_by_key [of or_id i "cd_orders s" order] by simp

lemma pay_order_runs:
  assumes "books t" and "order \<in> set (cd_orders t)" and "find_by in_orderId (or_id order) (cd_invoices t) = Some invoice"
    and "\<not> not_settleable order invoice redemption"
  shows "order_life t (snd (pay_order order invoice redemption at t))"
proof -
  have invoice: "invoice \<in> set (cd_invoices t)" "in_orderId invoice = or_id order" using find_by_key [OF assms(3)] by auto
  have ok: "orders_ok (cd_orders t)" "invoices_ok (cd_invoices t)" using assms(1) by (simp_all add: books_def)
  let ?f = "\<lambda>r. r\<lparr>or_status := ORDER_PAID, or_paidAt := Some at\<rparr>"
  let ?g = "\<lambda>r. r\<lparr>in_status := INVOICE_FINAL, in_issuedAt := Some at\<rparr>"
  let ?p = "\<lambda>r. in_id r = in_id invoice"
  have p: "?p v \<longleftrightarrow> in_orderId v = or_id order" if "v \<in> set (cd_invoices t)" for v
    using find_key_unique [of in_id "cd_invoices t" v invoice] find_key_unique [of in_orderId "cd_invoices t" v invoice]
      that invoice ok(2) unfolding invoices_ok_def by auto
  define u where "u = (if unpaid order then t\<lparr>cd_orders := update_rows (\<lambda>r. or_id r = or_id order) ?f (cd_orders t),
      cd_invoices := update_rows ?p ?g (cd_invoices t)\<rparr> else t)"
  have "order_life t u"
  proof (cases "unpaid order")
    case True
    have "order_life t (t\<lparr>cd_orders := update_rows (\<lambda>r. or_id r = or_id order) ?f (cd_orders t), cd_invoices := update_rows ?p ?g (cd_invoices t)\<rparr>)"
      by (rule order_life_step [OF assms(1,2), of ?f ?g ?p])
        (use True p in \<open>auto simp: order_identity_def invoice_matches_def unpaid_def order_step_simps\<close>)
    then show ?thesis using True by (simp add: u_def)
  qed (simp add: u_def order_life_refl assms(1))
  have first: "(if unpaid order then bnd (write_orders (update_rows (\<lambda>r. or_id r = or_id order) ?f)) (\<lambda>_. write_invoices (update_rows ?p ?g)) else ret ()) t
      = (Inr (), u)"
  proof -
    have "orders_ok (update_rows (\<lambda>r. or_id r = or_id order) ?f (cd_orders t))" "invoices_ok (update_rows ?p ?g (cd_invoices t))"
      using ok by (simp_all add: orders_ok_def invoices_ok_def map_update_rows)
    then show ?thesis by (simp add: u_def eff_simps write_table_def)
  qed
  let ?rest = "case redemption of None \<Rightarrow> ret () | Some r \<Rightarrow>
         if rd_status r = RD_RESERVED \<or> released_after_cancellation order redemption then
           write_redemptions (update_rows (\<lambda>q. rd_id q = rd_id r) (\<lambda>q. q\<lparr>rd_status := RD_APPLIED, rd_appliedAt := Some at\<rparr>))
         else ret ()"
  have "keeps (order_life t) ?rest" by (intro life.steps)
  then have "order_life t (snd (?rest u))" using \<open>order_life t u\<close> by (rule keeps_apply)
  then show ?thesis unfolding pay_order_def bnd_run first by simp
qed

lemma settle_keeps_life: "keeps (order_life s) (settle_order input)"
proof (rule keepsI)
  fix t assume life: "order_life s t"
  then have b: "books t" by (simp add: order_life_def)
  show "order_life s (snd (settle_order input t))"
  proof (cases "find_by or_id (si_orderId input) (cd_orders t)")
    case None
    then show ?thesis using life by (simp add: settle_order_def eff_simps)
  next
    case (Some order)
    then have order: "order \<in> set (cd_orders t)" "or_id order = si_orderId input" by (auto dest: found_order)
    show ?thesis
    proof (cases "find_by in_orderId (or_id order) (cd_invoices t)")
      case None
      then show ?thesis using Some life by (simp add: settle_order_def eff_simps)
    next
      case invoice: (Some invoice)
      let ?redemption = "find_by rd_orderId (or_id order) (cd_redemptions t)"
      show ?thesis
      proof (cases "not_settleable order invoice ?redemption")
        case True
        then show ?thesis using Some invoice life by (simp add: settle_order_def eff_simps)
      next
        case False
        have "order_life s (snd (pay_order order invoice ?redemption (si_settledAt input) t))"
          by (rule order_life_trans [OF life pay_order_runs [OF b order(1) invoice False]])
        then show ?thesis using Some invoice False life
          by (auto simp: settle_order_def eff_simps split: prod.splits sum.splits)
      qed
    qed
  qed
qed

text \<open>Keeping the life of the orders when a run returns; inside a transaction that is enough.\<close>

abbreviation lives :: "CommerceDb \<Rightarrow> (CommerceDb, 'a) eff \<Rightarrow> bool" where
  "lives s m \<equiv> triple (order_life s) m (\<lambda>_. order_life s) (\<lambda>_. True)"

lemma lives_keeps: "keeps (order_life s) m \<Longrightarrow> lives s m"
  by (rule triple_post [OF triple_keeps]) simp_all

lemma lives_bnd: "lives s m \<Longrightarrow> (\<And>a. lives s (k a)) \<Longrightarrow> lives s (bnd m k)"
  by (rule triple_bnd)

lemma transaction_lives: "lives s m \<Longrightarrow> keeps (order_life s) (transaction m)"
  by (rule keepsI) (auto simp: transaction_def triple_def split: prod.splits sum.splits)

lemma void_order_life:
  "triple (\<lambda>t. order_life s t \<and> order \<in> set (cd_orders t) \<and> or_status order = ORDER_PAID) (void_order event order) (\<lambda>_. order_life s) (\<lambda>_. True)"
proof (rule tripleI)
  fix t u and x :: unit
  assume t: "order_life s t \<and> order \<in> set (cd_orders t) \<and> or_status order = ORDER_PAID" and run: "void_order event order t = (Inr x, u)"
  have "order_life t u"
    by (rule order_life_step [of t order "\<lambda>r. r\<lparr>or_status := ORDER_REFUNDED\<rparr>" "\<lambda>r. r\<lparr>in_status := INVOICE_VOID\<rparr>"
          "\<lambda>r. in_orderId r = or_id order"])
      (use t run in \<open>auto simp: void_order_def update_invoice_of_def commerce_Inr order_life_def order_identity_def order_step_simps invoice_matches_def\<close>)
  then show "order_life s u" using t order_life_trans by blast
qed simp

definition candidate_order :: "VerifiedEvent \<Rightarrow> CommerceDb \<Rightarrow> OrderRow option" where
  "candidate_order event s =
     first_of (Option.bind (attempt_of event s) (\<lambda>a. order_by_id s (at_orderId a)))
       (first_of (Option.bind (package_attempt_of event s) (\<lambda>a. order_by_id s (ck_commercialReference a)))
         (first_of (order_by_reference event s) (Option.bind (payment_of event s) (\<lambda>p. order_by_id s (pm_orderId p)))))"

lemma resolve_event_Inr:
  assumes "resolve_event event s = Inr r"
  shows "candidate_order event s = Some (rs_order r)" "rs_hostAttempt r = attempt_of event s" "rs_packageAttempt r = package_attempt_of event s"
    "rs_knownPayment r = payment_of event s"
    "check_resolved event (rs_order r) (attempt_of event s)
       (Option.bind (package_attempt_of event s) (\<lambda>a. order_by_id s (ck_commercialReference a))) (order_by_reference event s) (payment_of event s) = None"
  using assms unfolding resolve_event_def Let_def candidate_order_def [symmetric]
  by (auto split: if_splits option.splits)

lemma first_of_Some: "first_of a b = Some x \<Longrightarrow> a = Some x \<or> b = Some x"
  by (cases a) (simp_all add: first_of_def)

lemma candidate_in: "candidate_order event s = Some r \<Longrightarrow> r \<in> set (cd_orders s)"
  unfolding candidate_order_def
  by (auto simp: order_by_id_def order_by_reference_def referenced_order_def bind_eq_Some_conv
      dest!: first_of_Some found_order find_in_set split: if_splits option.splits)

lemma resolve_order: "resolve_event event s = Inr r \<Longrightarrow> rs_order r \<in> set (cd_orders s)"
  by (rule candidate_in [OF resolve_event_Inr(1)])

lemma operational_lives:
  assumes "payment_host h"
  shows "lives s (processOperationalEvent h cx event)"
proof -
  have resolve: "triple (order_life s) (resolveOperationalOrder event) (\<lambda>r t. order_life s t \<and> rs_order r \<in> set (cd_orders t)) (\<lambda>_. True)"
    by (rule tripleI) (auto simp: resolveOperationalOrder_def effect_Inr dest: resolve_order)
  have rest: "keeps (order_life s) (bnd (revoke_claims i at) (\<lambda>_. bnd (revoke_rights h event order) (\<lambda>_. bnd (revoke_licenses order (cx_now cx)) (\<lambda>_.
     bnd (write_redemptions f) (\<lambda>_. bnd (complete_refund_operation event paymentId) (\<lambda>_. bnd (commerce_audit a) (\<lambda>_. notify h cx n at None)))))))"
    for i at order f paymentId a n
    by (intro life.steps life.keeps_take_back [OF assms] life.keeps_notify)
  have refund: "triple (\<lambda>t. order_life s t \<and> rs_order r \<in> set (cd_orders t)) (processRefundEvent h cx event r) (\<lambda>_. order_life s) (\<lambda>_. True)" for r
    unfolding processRefundEvent_def confirm_refund_def
    by (intro triple_if triple_bnd [OF triple_pre [OF void_order_life [of s]]] lives_keeps [OF rest] triple_ret triple_throw
        triple_pre [OF lives_keeps [OF life.keeps_refund_status]]) simp_all
  have failed: "triple (\<lambda>t. order_life s t \<and> rs_order r \<in> set (cd_orders t)) (processFailedEvent h cx event r) (\<lambda>_. order_life s) (\<lambda>_. True)" for r
    by (rule triple_pre [OF lives_keeps [OF life.keeps_failed_event]]) simp
  have step: "triple (\<lambda>t. order_life s t \<and> rs_order r \<in> set (cd_orders t))
      (if ve_type event = PAYMENT_FAILED_EVENT then processFailedEvent h cx event r
       else bnd (processRefundEvent h cx event r) (\<lambda>_. ret (map_option pm_id (rs_knownPayment r)))) (\<lambda>_. order_life s) (\<lambda>_. True)" for r
    by (intro triple_if failed triple_bnd [OF refund] triple_ret)
  show ?thesis unfolding processOperationalEvent_def
    by (rule triple_bnd [OF resolve], rule triple_bnd [OF step], rule triple_ret)
qed

lemma process_keeps_life:
  assumes "payment_host h"
  shows "keeps (order_life s) (process_transaction h cx event)"
  unfolding process_transaction_def case_prod_unfold
  by (intro transaction_lives lives_bnd triple_if lives_keeps [OF life.keeps_paid_event [OF assms settle_keeps_life]]
      operational_lives [OF assms] triple_ret lives_keeps [OF life.keeps_update_webhook])

section \<open>Histories\<close>

text \<open>
  What can happen to the database: a webhook is delivered, or delivered to a host that stops right after ingesting it; a stored
  event is retried; a claim-code request is served.
\<close>

datatype PaymentRequest = Deliver string headers | DeliverAndCrash string headers | Retry ident | Codes CodeRequest

fun after_payment :: "PaymentHost \<Rightarrow> CommerceCall \<Rightarrow> PaymentRequest \<Rightarrow> CommerceDb \<Rightarrow> CommerceDb" where
  "after_payment h cx (Deliver raw hdrs) s = snd (processPaymentWebhook h cx raw hdrs s)"
| "after_payment h cx (DeliverAndCrash raw hdrs) s = snd (ingestPaymentWebhook h cx raw hdrs s)"
| "after_payment h cx (Retry i) s = snd (retryStoredWebhook h cx i s)"
| "after_payment h cx (Codes request) s = after_request (hs_licensing h) cx request s"

inductive payment_history :: "PaymentHost \<Rightarrow> CommerceDb \<Rightarrow> CommerceDb \<Rightarrow> bool" for h where
  start: "payment_history h s s"
| step: "payment_history h s t \<Longrightarrow> payment_history h s (after_payment h cx request t)"

lemma after_request_keeps:
  assumes "licensing_through svc" and "order_life s t"
  shows "order_life s (after_request svc cx request t)"
proof -
  have "keeps (order_life s) (transaction (issueClaimCodes cx input))" "keeps (order_life s) (transaction (revealClaimCode cx i purchaser))"
      "keeps (order_life s) (transaction (consumeClaimCode svc cx code userId accountId))" for input i purchaser code userId accountId
    by (intro keeps_transaction life.keeps_codes [OF assms(1)])+
  then show ?thesis using assms(2) by (cases request) (simp_all add: keeps_apply)
qed

text \<open>C8 Under any deliveries, crashes, retries and code requests in any order, every order follows the abstract life of an order: it
  keeps its identity, total and currency, is paid at most once (also after it was cancelled), is refunded only when paid, and
  never goes back; its invoice always says what its status says (draft, final, void). No order appears or disappears.\<close>

theorem payment_refines_order_life:
  assumes "payment_host h" and "payment_history h s t" and "books s"
  shows "books t \<and> list_all2 order_moves (cd_orders s) (cd_orders t)"
proof -
  have "order_life s t"
    using assms(2,3)
  proof induction
    case (start s)
    then show ?case by (rule order_life_refl)
  next
    case (step s t cx request)
    then have t: "order_life s t" by simp
    show ?case
    proof (cases request)
      case (Codes r)
      then show ?thesis using after_request_keeps [OF payment_hostD(2) [OF assms(1)] t] by simp
    qed (simp_all add: t keeps_apply [OF life.keeps_delivery(1)] keeps_apply [OF life.keeps_delivery(2)] keeps_apply [OF life.keeps_ingest]
        process_keeps_life payment_hostD assms(1))
  qed
  then show ?thesis by (simp add: order_life_def)
qed

section \<open>Refunds\<close>

text \<open>The answer \<open>REVOKED\<close> or \<open>EXISTING\<close> of the revocation capability is that of its repository.\<close>

definition revokes_through :: "PaymentServices \<Rightarrow> bool" where
  "revokes_through sv \<longleftrightarrow> (\<forall>repo input s t. pv_revoke sv repo input s = (Inr AnswerRevoked, t) \<longrightarrow>
     (\<exists>e. repo input s = (Inr (Revoked e), t) \<or> repo input s = (Inr (RevocationExisting e), t)))"

definition revoked_in :: "CommerceDb \<Rightarrow> ident \<Rightarrow> bool" where
  "revoked_in s i \<longleftrightarrow> (\<exists>e\<in>set (cd_entitlements s). en_id e = i \<and> en_status e = ENTITLEMENT_REVOKED)"

lemma revoked_row_simps [simp]: "en_id (revoked_row input r) = en_id r" "en_status (revoked_row input r) = ENTITLEMENT_REVOKED"
  by (simp_all add: revoked_row_def)

lemma in_update_rows: "r \<in> set rows \<Longrightarrow> (if p r then f r else r) \<in> set (update_rows p f rows)"
  by (auto simp: set_update_rows)

lemma keeps_revoked: "keeps (\<lambda>s. revoked_in s i) (revoke_right input)"
proof -
  have "revoked_in (s\<lparr>cd_entitlements := update_rows p (revoked_row input) (cd_entitlements s)\<rparr>) i" if r: "revoked_in s i" for p s
  proof -
    obtain e where e: "e \<in> set (cd_entitlements s)" "en_id e = i" "en_status e = ENTITLEMENT_REVOKED" using r by (auto simp: revoked_in_def)
    then show ?thesis unfolding revoked_in_def
      using in_update_rows [OF e(1), of p "revoked_row input"] by (intro bexI [of _ "if p e then revoked_row input e else e"]) simp_all
  qed
  then have "keeps (\<lambda>s. revoked_in s i) (write_entitlements (update_rows p (revoked_row input)))" for p
    by (intro keeps_write_table)
  then show ?thesis unfolding revoke_right_def Let_def by (intro keeps_intro)
qed

lemma revoke_right_done:
  assumes "revoke_right input s = (Inr (Revoked e), t) \<or> revoke_right input s = (Inr (RevocationExisting e), t)"
  shows "revoked_in t (rv_entitlementId input)"
proof -
  let ?open = "\<lambda>r. en_id r = rv_entitlementId input \<and> en_status r = ENTITLEMENT_ACTIVE"
  show ?thesis
  proof (cases "List.find ?open (cd_entitlements s)")
    case None
    then obtain row where row: "find_by en_id (rv_entitlementId input) (cd_entitlements s) = Some row" "revocation_shape row" "t = s"
      using assms by (auto simp: revoke_right_def Let_def effect_Inr split: if_splits)
    then show ?thesis using find_by_key [OF row(1)] by (auto simp: revoked_in_def revocation_shape_def)
  next
    case (Some row)
    then have "row \<in> set (cd_entitlements s)" "?open row" by (auto dest: find_in_set)
    moreover have "cd_entitlements t = update_rows ?open (revoked_row input) (cd_entitlements s)"
      using assms Some by (auto simp: revoke_right_def Let_def effect_Inr write_table_Inr)
    ultimately show ?thesis unfolding revoked_in_def
      using in_update_rows [of row "cd_entitlements s" ?open "revoked_row input"]
      by (intro bexI [of _ "revoked_row input row"]) simp_all
  qed
qed

lemma frame_revoke_right: "(\<And>rows s. part (s\<lparr>cd_entitlements := rows\<rparr>) = part s) \<Longrightarrow> keeps (\<lambda>t. part t = part s) (revoke_right input)"
  unfolding revoke_right_def Let_def by (intro keeps_intro keeps_table) simp

lemma revoke_one_run:
  assumes "services_through sv" "revokes_through sv" and run: "revoke_one sv evidence i s = (Inr u, t)"
  shows "revoked_in t i" "revoked_in s j \<Longrightarrow> revoked_in t j"
    and "(\<And>rows s. part (s\<lparr>cd_entitlements := rows\<rparr>) = part s) \<Longrightarrow> part t = part s"
proof -
  let ?input = "\<lparr>rv_entitlementId = i, rv_revocationReference = re_revocationReference evidence,
        rv_revocationSnapshot = re_revocationSnapshot evidence, rv_revokedAt = re_revokedAt evidence\<rparr>"
  have answer: "pv_revoke sv revoke_right ?input s = (Inr AnswerRevoked, t)"
  proof -
    obtain answer u' where a: "pv_revoke sv revoke_right ?input s = (Inr answer, u')"
        "(case answer of AnswerFailed \<Rightarrow> throw PROCESSING_RETRYABLE | AnswerRejected \<Rightarrow> throw RECONCILIATION_REQUIRED | AnswerRevoked \<Rightarrow> ret ()) u' = (Inr u, t)"
      using run unfolding revoke_one_def bnd_Inr by blast
    then show ?thesis by (cases answer) (simp_all add: throw_Inr ret_Inr)
  qed
  then show "revoked_in t i" using assms(2) revoke_right_done [of ?input s _ t] unfolding revokes_through_def by fastforce
  show "revoked_in t j" if "revoked_in s j"
    using keepsD [OF keeps_services(4) [OF assms(1) keeps_revoked] that answer] .
  show "part t = part s" if "\<And>rows s. part (s\<lparr>cd_entitlements := rows\<rparr>) = part s"
    using keepsD [OF keeps_services(4) [OF assms(1) frame_revoke_right [OF that]] refl answer] .
qed

lemma frame_revoke_order:
  assumes "services_through sv" "revokes_through sv" and "\<And>rows s. part (s\<lparr>cd_entitlements := rows\<rparr>) = part s"
  shows "frame part (revokeOrderEntitlements sv orderId evidence)"
proof -
  have "frame part (revoke_one sv evidence i)" for i
    unfolding frame_def using revoke_one_run(3) [OF assms(1,2) _ assms(3)] by blast
  then show ?thesis unfolding revokeOrderEntitlements_def by (intro frame_intro)
qed

lemma for_each_revoked:
  assumes "services_through sv" "revokes_through sv"
  shows "collect (revoke_one sv evidence) ids s = (Inr us, t) \<Longrightarrow> i \<in> set ids \<or> revoked_in s i \<Longrightarrow> revoked_in t i"
proof (induction ids arbitrary: s us)
  case (Cons j ids)
  then obtain u s1 us' where one: "revoke_one sv evidence j s = (Inr u, s1)" and rest: "collect (revoke_one sv evidence) ids s1 = (Inr us', t)"
    by (auto simp: effect_Inr)
  show ?case
    using Cons.IH [OF rest] Cons.prems(2) revoke_one_run(1,2) [OF assms one] by auto
qed (simp add: ret_Inr)

lemma revoke_order_run:
  assumes "services_through sv" "revokes_through sv" and "revokeOrderEntitlements sv orderId evidence s = (Inr n, t)"
    and "i \<in> set (order_entitlements orderId s)"
  shows "revoked_in t i"
  using assms(3,4) for_each_revoked [OF assms(1,2), of evidence "order_entitlements orderId s" s _ t i]
  by (auto simp: revokeOrderEntitlements_def for_each_def effect_Inr)

end
