(* ===== verification/Payment_Outcomes.thy ===== *)
theory Payment_Outcomes
  imports Payment_Facts
begin

text \<open>
  The outcome of one event: what a confirmed refund takes back, what a failed event leaves behind, when an event is a
  duplicate, which order an event can name, and what a processed payment has settled.
\<close>

section \<open>A confirmed refund\<close>

definition confirmed_refund :: "VerifiedEvent \<Rightarrow> bool" where
  "confirmed_refund event \<longleftrightarrow> ve_type event = PAYMENT_REFUNDED_EVENT \<or>
     ve_type event = PAYMENT_REFUND_UPDATED \<and> ve_refundStatus event = Some RS_SUCCEEDED"

text \<open>Every table but one.\<close>

abbreviation but_entitlements :: "CommerceDb \<Rightarrow> CommerceDb" where "but_entitlements s \<equiv> s\<lparr>cd_entitlements := []\<rparr>"
abbreviation but_refunds :: "CommerceDb \<Rightarrow> CommerceDb" where "but_refunds s \<equiv> s\<lparr>cd_refunds := []\<rparr>"
abbreviation but_notifications :: "CommerceDb \<Rightarrow> CommerceDb" where "but_notifications s \<equiv> s\<lparr>cd_notifications := []\<rparr>"

lemma frame_revoke_rights:
  assumes "services_through (hs_services h)" "revokes_through (hs_services h)" and "\<And>rows s. part (s\<lparr>cd_entitlements := rows\<rparr>) = part s"
  shows "frame part (revoke_rights h event order)"
  unfolding revoke_rights_def by (intro frame_intro frame_revoke_order assms)

lemma frame_notify: "(\<And>rows s. part (s\<lparr>cd_notifications := rows\<rparr>) = part s) \<Longrightarrow> frame part (notify h cx input at productId)"
  unfolding notify_def by (intro frame_intro frame_persist)

lemma frame_complete_refund: "(\<And>rows s. part (s\<lparr>cd_refunds := rows\<rparr>) = part s) \<Longrightarrow> frame part (complete_refund_operation event paymentId)"
  unfolding complete_refund_operation_def by (intro frame_intro frame_write_table)

lemma filter_update_rows:
  assumes "\<And>r. p r \<Longrightarrow> \<not> q r" and "\<And>r. p r \<Longrightarrow> \<not> q (f r)"
  shows "filter q (update_rows p f rows) = filter q rows"
  using assms by (induction rows) (auto simp: update_rows_def)

text \<open>The revocation capability asks its repository about no other entitlement than the one it is given.\<close>

definition revokes_only :: "PaymentServices \<Rightarrow> bool" where
  "revokes_only sv \<longleftrightarrow> (\<forall>P repo input. (\<forall>i. rv_entitlementId i = rv_entitlementId input \<longrightarrow> keeps P (repo i)) \<longrightarrow> keeps P (pv_revoke sv repo input))"

abbreviation other_rights :: "ident set \<Rightarrow> CommerceDb \<Rightarrow> EntitlementRow list" where
  "other_rights ids s \<equiv> filter (\<lambda>e. en_id e \<notin> ids) (cd_entitlements s)"

lemma keeps_other_rights: "rv_entitlementId input \<in> ids \<Longrightarrow> keeps (\<lambda>t. other_rights ids t = rows) (revoke_right input)"
  unfolding revoke_right_def Let_def
  by (intro keeps_intro keeps_write_table; simp; erule subst; intro filter_update_rows; simp add: revoked_row_def)

lemma keeps_collect_members: "(\<And>x. x \<in> set xs \<Longrightarrow> keeps P (f x)) \<Longrightarrow> keeps P (collect f xs)"
  by (induction xs) (auto intro!: keeps_intro)

lemma order_rights_only:
  assumes "revokes_only sv" and run: "revokeOrderEntitlements sv orderId evidence s = (Inr n, t)"
  shows "other_rights (set (order_entitlements orderId s)) t = other_rights (set (order_entitlements orderId s)) s"
proof -
  let ?P = "\<lambda>t. other_rights (set (order_entitlements orderId s)) t = other_rights (set (order_entitlements orderId s)) s"
  have "keeps ?P (revoke_one sv evidence i)" if "i \<in> set (order_entitlements orderId s)" for i
  proof -
    have "keeps ?P (pv_revoke sv revoke_right input)" if "rv_entitlementId input = i" for input
      using assms(1) that \<open>i \<in> _\<close> keeps_other_rights unfolding revokes_only_def by metis
    then show ?thesis unfolding revoke_one_def by (intro keeps_bnd) (simp_all split: RevocationAnswer.split add: keeps_ret keeps_throw)
  qed
  then have "keeps ?P (for_each (revoke_one sv evidence) (order_entitlements orderId s))"
    unfolding for_each_def by (intro keeps_intro keeps_collect_members)
  moreover obtain u where "for_each (revoke_one sv evidence) (order_entitlements orderId s) s = (Inr u, t)"
    using run by (auto simp: revokeOrderEntitlements_def effect_Inr)
  ultimately show ?thesis using keepsD [where P = ?P] by blast
qed

text \<open>The specification: what the order gave is taken back.\<close>

definition taken_back :: "OrderRow \<Rightarrow> CommerceDb \<Rightarrow> CommerceDb \<Rightarrow> bool" where
  "taken_back order s t \<longleftrightarrow>
     list_all (\<lambda>r. or_id r = or_id order \<longrightarrow> or_status r = ORDER_REFUNDED) (cd_orders t) \<and>
     list_all (\<lambda>v. in_orderId v = or_id order \<longrightarrow> in_status v = INVOICE_VOID) (cd_invoices t) \<and>
     list_all (\<lambda>c. cc_orderId c = or_id order \<longrightarrow> cc_status c \<noteq> CODE_AVAILABLE) (cd_claims t) \<and>
     list_all (\<lambda>l. li_id l \<in> set (order_licenses order s) \<longrightarrow> li_status l = LICENSE_REVOKED) (cd_licenses t) \<and>
     list_all (\<lambda>a. da_licenseId a \<in> set (order_licenses order s) \<longrightarrow> \<not> da_active a) (cd_activations t) \<and>
     list_all (\<lambda>r. su_orderId r = or_id order \<or> renewed_subscription order (Some (su_id r)) \<longrightarrow> su_status r = SUB_CANCELLED) (cd_subscriptions t) \<and>
     list_all (\<lambda>r. rd_orderId r = or_id order \<longrightarrow> rd_status r = RD_REFUNDED) (cd_redemptions t)"

text \<open>The rest of the database: rows of other orders, and the tables a refund has nothing to do with.\<close>

definition others_kept :: "OrderRow \<Rightarrow> CommerceDb \<Rightarrow> CommerceDb \<Rightarrow> bool" where
  "others_kept order s t \<longleftrightarrow>
     filter (\<lambda>r. or_id r \<noteq> or_id order) (cd_orders t) = filter (\<lambda>r. or_id r \<noteq> or_id order) (cd_orders s) \<and>
     filter (\<lambda>v. in_orderId v \<noteq> or_id order) (cd_invoices t) = filter (\<lambda>v. in_orderId v \<noteq> or_id order) (cd_invoices s) \<and>
     filter (\<lambda>c. cc_orderId c \<noteq> or_id order) (cd_claims t) = filter (\<lambda>c. cc_orderId c \<noteq> or_id order) (cd_claims s) \<and>
     filter (\<lambda>p. pm_orderId p \<noteq> or_id order) (cd_payments t) = filter (\<lambda>p. pm_orderId p \<noteq> or_id order) (cd_payments s) \<and>
     filter (\<lambda>l. li_id l \<notin> set (order_licenses order s)) (cd_licenses t) = filter (\<lambda>l. li_id l \<notin> set (order_licenses order s)) (cd_licenses s) \<and>
     filter (\<lambda>a. da_licenseId a \<notin> set (order_licenses order s)) (cd_activations t) =
       filter (\<lambda>a. da_licenseId a \<notin> set (order_licenses order s)) (cd_activations s) \<and>
     filter (\<lambda>r. su_orderId r \<noteq> or_id order \<and> \<not> renewed_subscription order (Some (su_id r))) (cd_subscriptions t) =
       filter (\<lambda>r. su_orderId r \<noteq> or_id order \<and> \<not> renewed_subscription order (Some (su_id r))) (cd_subscriptions s) \<and>
     filter (\<lambda>r. rd_orderId r \<noteq> or_id order) (cd_redemptions t) = filter (\<lambda>r. rd_orderId r \<noteq> or_id order) (cd_redemptions s) \<and>
     filter (\<lambda>e. en_id e \<notin> set (order_entitlements (or_id order) s)) (cd_entitlements t) =
       filter (\<lambda>e. en_id e \<notin> set (order_entitlements (or_id order) s)) (cd_entitlements s) \<and>
     cd_items t = cd_items s \<and> cd_facts t = cd_facts s \<and> cd_events t = cd_events s \<and> cd_checkouts t = cd_checkouts s \<and> cd_attempts t = cd_attempts s"

lemma list_all_updated:
  "(\<And>r. p r \<Longrightarrow> P (f r)) \<Longrightarrow> (\<And>r. \<not> p r \<Longrightarrow> P r) \<Longrightarrow> list_all P (update_rows p f rows)"
  by (auto simp: update_rows_def list_all_iff)

lemma confirm_refund_tables:
  assumes services: "services_through (hs_services h)" "revokes_through (hs_services h)"
    and run: "confirm_refund h cx event order paymentId s = (Inr u, t)"
  obtains s2 s3 where
    "cd_orders t = update_rows (\<lambda>r. or_id r = or_id order) (\<lambda>r. r\<lparr>or_status := ORDER_REFUNDED\<rparr>) (cd_orders s)"
    "cd_invoices t = update_rows (\<lambda>r. in_orderId r = or_id order) (\<lambda>r. r\<lparr>in_status := INVOICE_VOID\<rparr>) (cd_invoices s)"
    "cd_payments t = update_rows (refunded_payment order event) (\<lambda>r. r\<lparr>pm_status := PAYMENT_REFUNDED\<rparr>) (cd_payments s)"
    "cd_claims t = update_rows (\<lambda>r. cc_orderId r = or_id order \<and> cc_status r = CODE_AVAILABLE)
       (\<lambda>r. r\<lparr>cc_status := CODE_REVOKED, cc_revokedAt := Some (ve_occurredAt event), cc_codeCiphertext := None\<rparr>) (cd_claims s)"
    "cd_licenses t = update_rows (\<lambda>l. li_id l \<in> set (order_licenses order s)) (\<lambda>l. l\<lparr>li_status := LICENSE_REVOKED\<rparr>) (cd_licenses s)"
    "cd_activations t = update_rows (\<lambda>a. da_licenseId a \<in> set (order_licenses order s) \<and> da_active a)
       (\<lambda>a. a\<lparr>da_active := False, da_deactivatedAt := Some (cx_now cx)\<rparr>) (cd_activations s)"
    "cd_subscriptions t = update_rows (\<lambda>r. su_orderId r = or_id order \<or> renewed_subscription order (Some (su_id r)))
       (\<lambda>r. r\<lparr>su_status := SUB_CANCELLED\<rparr>) (cd_subscriptions s)"
    "cd_redemptions t = update_rows (\<lambda>r. rd_orderId r = or_id order) (\<lambda>r. r\<lparr>rd_status := RD_REFUNDED\<rparr>) (cd_redemptions s)"
    "cd_items t = cd_items s" "cd_facts t = cd_facts s" "cd_events t = cd_events s" "cd_checkouts t = cd_checkouts s"
    "cd_attempts t = cd_attempts s" "cd_webhooks t = cd_webhooks s"
    "revoke_rights h event order s2 = (Inr (), s3)" "cd_entitlements s2 = cd_entitlements s" "cd_entitlements t = cd_entitlements s3"
    "cd_items s2 = cd_items s" "cd_orders s2 = cd_orders t"
proof -
  obtain s1 s2 s3 s4 s5 s6 s7 where r1: "void_order event order s = (Inr (), s1)" and r2: "revoke_claims (or_id order) (ve_occurredAt event) s1 = (Inr (), s2)"
      and r3: "revoke_rights h event order s2 = (Inr (), s3)" and r4: "revoke_licenses order (cx_now cx) s3 = (Inr (), s4)"
      and r5: "write_redemptions (update_rows (\<lambda>r. rd_orderId r = or_id order) (\<lambda>r. r\<lparr>rd_status := RD_REFUNDED\<rparr>)) s4 = (Inr (), s5)"
      and r6: "complete_refund_operation event paymentId s5 = (Inr (), s6)"
      and r7: "commerce_audit (event_audit order event ''PAYMENT_REFUND_CONFIRMED'') s6 = (Inr (), s7)"
      and r8: "notify h cx (refund_confirmed order event paymentId) (ve_occurredAt event) None s7 = (Inr u, t)"
    using run unfolding confirm_refund_def bnd_Inr by auto
  have s1: "s1 = s\<lparr>cd_payments := update_rows (refunded_payment order event) (\<lambda>r. r\<lparr>pm_status := PAYMENT_REFUNDED\<rparr>) (cd_payments s),
      cd_orders := update_rows (\<lambda>r. or_id r = or_id order) (\<lambda>r. r\<lparr>or_status := ORDER_REFUNDED\<rparr>) (cd_orders s),
      cd_invoices := update_rows (\<lambda>r. in_orderId r = or_id order) (\<lambda>r. r\<lparr>in_status := INVOICE_VOID\<rparr>) (cd_invoices s)\<rparr>"
    using r1 by (auto simp: void_order_def update_invoice_of_def commerce_Inr)
  have s2: "s2 = s1\<lparr>cd_claims := update_rows (\<lambda>r. cc_orderId r = or_id order \<and> cc_status r = CODE_AVAILABLE)
       (\<lambda>r. r\<lparr>cc_status := CODE_REVOKED, cc_revokedAt := Some (ve_occurredAt event), cc_codeCiphertext := None\<rparr>) (cd_claims s)\<rparr>"
    using r2 by (auto simp: revoke_claims_def commerce_Inr s1)
  have s3: "but_entitlements s3 = but_entitlements s2"
    by (rule frameD [OF frame_revoke_rights [OF services] r3]) simp
  have s4: "s4 = s3\<lparr>cd_licenses := update_rows (\<lambda>l. li_id l \<in> set (order_licenses order s3)) (\<lambda>l. l\<lparr>li_status := LICENSE_REVOKED\<rparr>) (cd_licenses s3),
      cd_activations := update_rows (\<lambda>a. da_licenseId a \<in> set (order_licenses order s3) \<and> da_active a)
       (\<lambda>a. a\<lparr>da_active := False, da_deactivatedAt := Some (cx_now cx)\<rparr>) (cd_activations s3),
      cd_subscriptions := update_rows (\<lambda>r. su_orderId r = or_id order \<or> renewed_subscription order (Some (su_id r)))
       (\<lambda>r. r\<lparr>su_status := SUB_CANCELLED\<rparr>) (cd_subscriptions s3)\<rparr>"
    using r4 by (auto simp: revoke_licenses_def commerce_Inr)
  have s5: "s5 = s4\<lparr>cd_redemptions := update_rows (\<lambda>r. rd_orderId r = or_id order) (\<lambda>r. r\<lparr>rd_status := RD_REFUNDED\<rparr>) (cd_redemptions s4)\<rparr>"
    using r5 by (simp add: write_table_Inr)
  have s6: "but_refunds s6 = but_refunds s5" by (rule frameD [OF frame_complete_refund r6]) simp
  have s7: "s7 = s6\<lparr>cd_audit := cd_audit s6 @ [event_audit order event ''PAYMENT_REFUND_CONFIRMED'']\<rparr>"
    using r7 by (simp add: commerce_audit_Inr)
  have t: "but_notifications t = but_notifications s7" by (rule frameD [OF frame_notify r8]) simp
  note from3 = arg_cong [OF s3, of cd_licenses] arg_cong [OF s3, of cd_activations] arg_cong [OF s3, of cd_subscriptions]
    arg_cong [OF s3, of cd_orders] arg_cong [OF s3, of cd_invoices] arg_cong [OF s3, of cd_payments] arg_cong [OF s3, of cd_claims]
    arg_cong [OF s3, of cd_redemptions] arg_cong [OF s3, of cd_items] arg_cong [OF s3, of cd_facts] arg_cong [OF s3, of cd_events]
    arg_cong [OF s3, of cd_checkouts] arg_cong [OF s3, of cd_attempts] arg_cong [OF s3, of cd_webhooks]
  note from6 = arg_cong [OF s6, of cd_licenses] arg_cong [OF s6, of cd_activations] arg_cong [OF s6, of cd_subscriptions]
    arg_cong [OF s6, of cd_orders] arg_cong [OF s6, of cd_invoices] arg_cong [OF s6, of cd_payments] arg_cong [OF s6, of cd_claims]
    arg_cong [OF s6, of cd_redemptions] arg_cong [OF s6, of cd_items] arg_cong [OF s6, of cd_facts] arg_cong [OF s6, of cd_events]
    arg_cong [OF s6, of cd_checkouts] arg_cong [OF s6, of cd_attempts] arg_cong [OF s6, of cd_webhooks] arg_cong [OF s6, of cd_entitlements]
  note from_t = arg_cong [OF t, of cd_licenses] arg_cong [OF t, of cd_activations] arg_cong [OF t, of cd_subscriptions]
    arg_cong [OF t, of cd_orders] arg_cong [OF t, of cd_invoices] arg_cong [OF t, of cd_payments] arg_cong [OF t, of cd_claims]
    arg_cong [OF t, of cd_redemptions] arg_cong [OF t, of cd_items] arg_cong [OF t, of cd_facts] arg_cong [OF t, of cd_events]
    arg_cong [OF t, of cd_checkouts] arg_cong [OF t, of cd_attempts] arg_cong [OF t, of cd_webhooks] arg_cong [OF t, of cd_entitlements]
  have licenses: "order_licenses order s3 = order_licenses order s"
    using from3(1) by (simp add: order_licenses_def s1 s2)
  show thesis
    by (rule that [of s2 s3]) (use from3 from6 from_t licenses r3 in \<open>simp_all add: s7 s5 s4 s2 s1\<close>)
qed

lemma processed_run:
  assumes "processVerifiedEvent h cx event s = (Inr Processed, t)"
  obtains requests u where "ve_livemode event = expected_livemode cx" and "ve_type event \<noteq> UNKNOWN_EVENT"
    and "process_transaction h cx event s = (Inr requests, u)" and "renew_leases h cx requests u = (Inr (), t)"
  using assms unfolding processVerifiedEvent_def by (auto simp: effect_Inr split: if_splits)

lemma operational_transaction:
  assumes "process_transaction h cx event s = (Inr requests, t)" and "ve_type event \<noteq> PAYMENT_PAID_EVENT"
  obtains resolved paymentId u where "resolve_event event s = Inr resolved" and "requests = []"
    and "(if ve_type event = PAYMENT_FAILED_EVENT then processFailedEvent h cx event resolved
          else bnd (processRefundEvent h cx event resolved) (\<lambda>_. ret (map_option pm_id (rs_knownPayment resolved)))) s = (Inr paymentId, u)"
    and "find_webhook (ve_provider event) (ve_eventId event) u \<noteq> None"
    and "t = u\<lparr>cd_webhooks := update_rows (\<lambda>r. wh_provider r = ve_provider event \<and> wh_externalEventId r = ve_eventId event)
      (processed_webhook event \<lparr>po_orderId = or_id (rs_order resolved), po_paymentId = paymentId,
         po_hostAttemptId = map_option at_id (rs_hostAttempt resolved)\<rparr> (cx_now cx)) (cd_webhooks u)\<rparr>"
proof -
  obtain order u where "processOperationalEvent h cx event s = (Inr order, u)" and w: "requests = []"
      "find_webhook (ve_provider event) (ve_eventId event) u \<noteq> None"
      "t = u\<lparr>cd_webhooks := update_rows (\<lambda>r. wh_provider r = ve_provider event \<and> wh_externalEventId r = ve_eventId event)
        (processed_webhook event order (cx_now cx)) (cd_webhooks u)\<rparr>"
    using assms unfolding process_transaction_def update_webhook_def
    by (auto simp: transaction_Inr bnd_Inr ret_Inr find_or_throw_Inr write_table_Inr)
  then show thesis
    unfolding processOperationalEvent_def resolveOperationalOrder_def bnd_Inr gets_Inr from_result_Inr ret_Inr
    using that by blast
qed

lemma webhook_found:
  "find_webhook provider eventId s = Some w \<Longrightarrow> w \<in> set (cd_webhooks s) \<and> wh_provider w = provider \<and> wh_externalEventId w = eventId"
  unfolding find_webhook_def by (drule find_in_set) simp

text \<open>The webhook of an event that was processed says so.\<close>

definition marked_processed :: "VerifiedEvent \<Rightarrow> CommerceDb \<Rightarrow> bool" where
  "marked_processed event t \<longleftrightarrow> (\<exists>w\<in>set (cd_webhooks t). wh_provider w = ve_provider event \<and> wh_externalEventId w = ve_eventId event \<and>
     wh_status w = WH_PROCESSED \<and> wh_resolutionStatus w = RES_RESOLVED \<and> wh_error w = None)"

lemma marks_processed:
  assumes "find_webhook (ve_provider event) (ve_eventId event) u \<noteq> None"
    and "cd_webhooks t = update_rows (\<lambda>r. wh_provider r = ve_provider event \<and> wh_externalEventId r = ve_eventId event)
        (processed_webhook event order now) (cd_webhooks u)"
  shows "marked_processed event t"
proof -
  obtain w where "find_webhook (ve_provider event) (ve_eventId event) u = Some w" using assms(1) by blast
  then have w: "w \<in> set (cd_webhooks u)" "wh_provider w = ve_provider event" "wh_externalEventId w = ve_eventId event"
    by (auto dest: webhook_found)
  then have "processed_webhook event order now w \<in> set (cd_webhooks t)"
    using in_update_rows [OF w(1), of "\<lambda>r. wh_provider r = ve_provider event \<and> wh_externalEventId r = ve_eventId event" "processed_webhook event order now"]
    by (simp add: assms(2))
  then show ?thesis unfolding marked_processed_def
    by (rule bexI [rotated]) (simp add: processed_webhook_def w)
qed

lemma unique_order_mode:
  assumes "orders_ok (cd_orders s)" and "order \<in> set (cd_orders s)"
    and "cd_orders t = update_rows (\<lambda>r. or_id r = or_id order) (\<lambda>r. r\<lparr>or_status := ORDER_REFUNDED\<rparr>) (cd_orders s)"
  shows "map_option or_fulfillmentMode (order_by_id t (or_id order)) = Some (or_fulfillmentMode order)"
proof -
  have "find_by or_id (or_id order) (cd_orders s) = Some order"
    by (rule find_by_unique_key [OF _ assms(2)]) (use assms(1) in \<open>simp add: orders_ok_def\<close>)
  then show ?thesis
    unfolding order_by_id_def assms(3) find_by_def by (subst find_update_rows) simp_all
qed

lemma confirm_refund_rights:
  assumes services: "services_through (hs_services h)" "revokes_through (hs_services h)"
    and run: "revoke_rights h event order s = (Inr (), t)" and mode: "map_option or_fulfillmentMode (order_by_id s (or_id order)) = Some m"
  shows "m = ACCOUNT_ENTITLEMENT \<Longrightarrow> i \<in> set (order_entitlements (or_id order) s) \<Longrightarrow> revoked_in t i"
    and "m = CLAIM_CODE \<Longrightarrow> t = s"
    and "revokes_only (hs_services h) \<Longrightarrow> other_rights (set (order_entitlements (or_id order) s)) t = other_rights (set (order_entitlements (or_id order) s)) s"
proof -
  show "m = ACCOUNT_ENTITLEMENT \<Longrightarrow> i \<in> set (order_entitlements (or_id order) s) \<Longrightarrow> revoked_in t i" and "m = CLAIM_CODE \<Longrightarrow> t = s"
    using run mode revoke_order_run [OF services, of "or_id order" "refund_evidence order event" s _ t i]
    by (auto simp: revoke_rights_def effect_Inr)
  show "other_rights (set (order_entitlements (or_id order) s)) t = other_rights (set (order_entitlements (or_id order) s)) s"
    if "revokes_only (hs_services h)"
    using run mode order_rights_only [OF that, of "or_id order" "refund_evidence order event" s _ t]
    by (cases m) (auto simp: revoke_rights_def effect_Inr)
qed

text \<open>C10 A confirmed refund of a paid order takes back what the order gave, but for claimed codes: the order is refunded and its
  invoice void, none of its claim codes can be redeemed any more, its licenses and those of the subscription it renewed are revoked and
  have no active device, the subscriptions are cancelled and its offer redemption is refunded; the entitlements granted to the account are
  revoked when the order was fulfilled with them, while those already claimed with codes of the order stay as they are. Rows of other
  orders - orders, invoices, payments, codes, licenses, activations, subscriptions, redemptions and entitlements - are
  untouched, and the webhook is marked processed.\<close>

theorem refund_takes_back:
  assumes host: "payment_host h" "revokes_through (hs_services h)" "revokes_only (hs_services h)" and s: "orders_ok (cd_orders s)"
    and event: "confirmed_refund event" "resolve_event event s = Inr resolved" "or_status (rs_order resolved) = ORDER_PAID"
    and run: "processVerifiedEvent h cx event s = (Inr Processed, t)"
  shows "taken_back (rs_order resolved) s t \<and> others_kept (rs_order resolved) s t \<and> marked_processed event t \<and>
    (or_fulfillmentMode (rs_order resolved) = ACCOUNT_ENTITLEMENT \<longrightarrow> list_all (revoked_in t) (order_entitlements (or_id (rs_order resolved)) s)) \<and>
    (or_fulfillmentMode (rs_order resolved) = CLAIM_CODE \<longrightarrow> cd_entitlements t = cd_entitlements s)"
proof -
  let ?order = "rs_order resolved"
  have services: "services_through (hs_services h)" by (rule payment_hostD(1) [OF host(1)])
  have kind: "ve_type event \<noteq> PAYMENT_PAID_EVENT" "ve_type event \<noteq> PAYMENT_FAILED_EVENT" using event(1) by (auto simp: confirmed_refund_def)
  from run obtain requests u where "process_transaction h cx event s = (Inr requests, u)" and leases: "renew_leases h cx requests u = (Inr (), t)"
    by (rule processed_run)
  from this(1) kind(1) obtain paymentId v where none: "requests = []"
      and refund: "processRefundEvent h cx event resolved s = (Inr (), v)" and found: "find_webhook (ve_provider event) (ve_eventId event) v \<noteq> None"
      and u: "u = v\<lparr>cd_webhooks := update_rows (\<lambda>r. wh_provider r = ve_provider event \<and> wh_externalEventId r = ve_eventId event)
        (processed_webhook event \<lparr>po_orderId = or_id ?order, po_paymentId = paymentId,
           po_hostAttemptId = map_option at_id (rs_hostAttempt resolved)\<rparr> (cx_now cx)) (cd_webhooks v)\<rparr>"
    using kind(2) event(2) by (elim operational_transaction) (auto simp: effect_Inr)
  have t: "t = u" using leases none by (simp add: renew_leases_def for_each_def effect_Inr)
  have "confirm_refund h cx event ?order (map_option pm_id (rs_knownPayment resolved)) s = (Inr (), v)"
    using refund event(1,3) by (auto simp: processRefundEvent_def confirmed_refund_def)
  from services host(2) this show ?thesis
  proof (rule confirm_refund_tables)
    fix s2 s3
    assume orders: "cd_orders v = update_rows (\<lambda>r. or_id r = or_id ?order) (\<lambda>r. r\<lparr>or_status := ORDER_REFUNDED\<rparr>) (cd_orders s)"
      and tables: "cd_invoices v = update_rows (\<lambda>r. in_orderId r = or_id ?order) (\<lambda>r. r\<lparr>in_status := INVOICE_VOID\<rparr>) (cd_invoices s)"
        "cd_payments v = update_rows (refunded_payment ?order event) (\<lambda>r. r\<lparr>pm_status := PAYMENT_REFUNDED\<rparr>) (cd_payments s)"
        "cd_claims v = update_rows (\<lambda>r. cc_orderId r = or_id ?order \<and> cc_status r = CODE_AVAILABLE)
           (\<lambda>r. r\<lparr>cc_status := CODE_REVOKED, cc_revokedAt := Some (ve_occurredAt event), cc_codeCiphertext := None\<rparr>) (cd_claims s)"
        "cd_licenses v = update_rows (\<lambda>l. li_id l \<in> set (order_licenses ?order s)) (\<lambda>l. l\<lparr>li_status := LICENSE_REVOKED\<rparr>) (cd_licenses s)"
        "cd_activations v = update_rows (\<lambda>a. da_licenseId a \<in> set (order_licenses ?order s) \<and> da_active a)
           (\<lambda>a. a\<lparr>da_active := False, da_deactivatedAt := Some (cx_now cx)\<rparr>) (cd_activations s)"
        "cd_subscriptions v = update_rows (\<lambda>r. su_orderId r = or_id ?order \<or> renewed_subscription ?order (Some (su_id r)))
           (\<lambda>r. r\<lparr>su_status := SUB_CANCELLED\<rparr>) (cd_subscriptions s)"
        "cd_redemptions v = update_rows (\<lambda>r. rd_orderId r = or_id ?order) (\<lambda>r. r\<lparr>rd_status := RD_REFUNDED\<rparr>) (cd_redemptions s)"
      and same: "cd_items v = cd_items s" "cd_facts v = cd_facts s" "cd_events v = cd_events s" "cd_checkouts v = cd_checkouts s"
        "cd_attempts v = cd_attempts s"
      and rights: "revoke_rights h event ?order s2 = (Inr (), s3)" "cd_entitlements s2 = cd_entitlements s" "cd_entitlements v = cd_entitlements s3"
        "cd_items s2 = cd_items s" "cd_orders s2 = cd_orders v"
    have mode: "map_option or_fulfillmentMode (order_by_id s2 (or_id ?order)) = Some (or_fulfillmentMode ?order)"
      by (rule unique_order_mode [OF s resolve_order [OF event(2)]]) (simp add: rights(5) orders)
    note granted = confirm_refund_rights [OF services host(2) rights(1) mode]
    have mine: "order_entitlements (or_id ?order) s2 = order_entitlements (or_id ?order) s" by (simp add: order_entitlements_def rights(2,4))
    have "taken_back ?order s t" unfolding taken_back_def t u
      by (simp add: orders tables) (intro conjI list_all_updated; simp)
    moreover have "others_kept ?order s t" unfolding others_kept_def t u
      using granted(3) [OF host(3)] rights(2,3) mine
      by (simp add: orders tables same) (intro conjI filter_update_rows; auto simp: refunded_payment_def)
    moreover have "marked_processed event t"
      by (rule marks_processed [OF found]) (simp add: t u)
    moreover have "or_fulfillmentMode ?order = ACCOUNT_ENTITLEMENT \<longrightarrow> list_all (revoked_in t) (order_entitlements (or_id ?order) s)"
      using granted(1) mine by (auto simp: list_all_iff revoked_in_def t u rights(3))
    moreover have "or_fulfillmentMode ?order = CLAIM_CODE \<longrightarrow> cd_entitlements t = cd_entitlements s"
      using granted(2) by (auto simp: t u rights(2,3))
    ultimately show ?thesis by blast
  qed
qed

section \<open>An event that fails\<close>

lemma collect_never_throws: "(\<And>x s. \<exists>a t. f x s = (Inr a, t)) \<Longrightarrow> \<exists>as t. collect f xs s = (Inr as, t)"
proof (induction xs arbitrary: s)
  case (Cons x xs)
  obtain a t where "f x s = (Inr a, t)" using Cons.prems by blast
  moreover obtain as u where "collect f xs t = (Inr as, u)" using Cons by blast
  ultimately show ?case by (simp add: eff_simps)
qed (simp add: eff_simps)

lemma renew_leases_returns: "\<exists>t. renew_leases h cx requests s = (Inr (), t)"
proof -
  have "\<exists>a t. bnd (caught (renew_lease h cx request)) (\<lambda>_. ret ()) s = (Inr a, t)" for request s
    by (simp add: eff_simps split: prod.splits)
  from collect_never_throws [of "\<lambda>request. bnd (caught (renew_lease h cx request)) (\<lambda>_. ret ())", OF this] obtain as t
    where "collect (\<lambda>request. bnd (caught (renew_lease h cx request)) (\<lambda>_. ret ())) requests s = (Inr as, t)" by blast
  then show ?thesis by (simp add: renew_leases_def for_each_def eff_simps)
qed

lemma process_transaction_Inl: "process_transaction h cx event s = (Inl e, t) \<Longrightarrow> t = s"
  unfolding process_transaction_def by (rule transaction_throw_unchanged)

lemma update_webhook_Inl: "update_webhook provider eventId f s = (Inl e, t) \<Longrightarrow> t = s"
  by (auto simp: update_webhook_def find_or_throw_def eff_simps write_table_def split: option.splits if_splits)

lemma failed_processing_rolled_back:
  assumes "processVerifiedEvent h cx event s = (Inl e, t)"
  shows "t = s"
proof (cases rule: eff_cases [of "process_transaction h cx event" s])
  case (1 e' u)
  then show ?thesis using assms process_transaction_Inl [OF 1]
    by (auto simp: processVerifiedEvent_def eff_simps dest: update_webhook_Inl split: if_splits prod.splits sum.splits)
next
  case (2 requests u)
  obtain v where "renew_leases h cx requests u = (Inr (), v)" using renew_leases_returns by blast
  with 2 show ?thesis using assms
    by (auto simp: processVerifiedEvent_def eff_simps dest: update_webhook_Inl split: if_splits prod.splits sum.splits)
qed

text \<open>A claimed event has its webhook; so has an ingested one.\<close>

lemma claim_event_found:
  assumes "claim_event cx input s = (Inr (created, row), t)"
  shows "find_webhook (ec_provider input) (ec_eventId input) t \<noteq> None"
proof -
  obtain u w where w: "find_webhook (ec_provider input) (ec_eventId input) u = Some w"
      and event: "insert_event (owner_event input w (cx_now cx)) u = (Inr (), t)"
    using assms unfolding claim_event_def by (auto simp: effect_Inr find_or_throw_Inr split: option.splits)
  have "frame cd_webhooks (insert_event r)" for r unfolding insert_event_def by (intro frame_intro frame_write_table) simp
  from frameD [OF this event] w show ?thesis by (simp add: find_webhook_def)
qed

lemma run_ingest_claimed:
  assumes "ingests h" and "run_ingest h cx verify raw hdrs s = (Inr (Ingested event created, c), t)"
  shows "\<exists>input row. claim_event cx input s = (Inr (created, row), t) \<and> ec_provider input = ve_provider event \<and> ec_eventId input = ve_eventId event"
proof -
  let ?run = "hs_ingest h (\<lambda>input. zoom fst (\<lambda>p (_, c). (p, c)) (claim_event cx input)) (capture_verify verify) raw hdrs
      (s, \<lparr>cap_event = None, cap_failure = None\<rparr>)"
  obtain r u d where split: "?run = (r, (u, d))" by (metis prod.exhaust)
  then have "map_sum id (\<lambda>result. (result, d)) r = Inr (Ingested event created, c)" "u = t"
    using assms(2) by (simp_all add: run_ingest_def)
  then have run: "?run = (Inr (Ingested event created), (t, d))" using split by (cases r) simp_all
  have "\<forall>r k. keeps (\<lambda>(p, _). p = s) (capture_verify verify r k)"
    by (intro allI keepsI) (auto simp: capture_verify_def split: sum.splits prod.splits)
  from assms(1) [unfolded ingests_def, THEN conjunct2, THEN spec, THEN spec, THEN spec, THEN spec, THEN spec, THEN spec, THEN spec,
      THEN spec, THEN spec, THEN spec, THEN mp, THEN mp, OF this run]
  obtain input row and c' d' :: Capture where
    "zoom fst (\<lambda>p (_, c). (p, c)) (claim_event cx input) (s, c') = (Inr (created, row), (t, d'))"
    "ec_provider input = ve_provider event" "ec_eventId input = ve_eventId event" by blast
  then show ?thesis by (auto simp: zoom_def split: prod.splits)
qed

lemma ingest_run:
  assumes "ingests h" and "ingestPaymentWebhook h cx raw hdrs s = (Inr (event, duplicate), t)"
  obtains input row created u where "claim_event cx input s = (Inr (created, row), u)" and "ec_provider input = ve_provider event"
    and "ec_eventId input = ve_eventId event" and "ingested cx event created u = (Inr (event, duplicate), t)"
proof -
  obtain name verify result c u where run: "run_ingest h cx verify raw hdrs s = (Inr (result, c), u)"
      and rest: "(case result of IngestRejected \<Rightarrow> reject_replay name c | IngestFailed code \<Rightarrow> ingest_failed h code c
        | Ingested event created \<Rightarrow> ingested cx event created) u = (Inr (event, duplicate), t)"
    using assms(2) unfolding ingestPaymentWebhook_def by (auto simp: bnd_Inr from_result_Inr split: prod.splits)
  have "\<not> (reject_replay name c u = (Inr a, t))" "\<not> (ingest_failed h code c u = (Inr a, t))" for a :: "VerifiedEvent \<times> bool" and code
    by (auto simp: reject_replay_def ingest_failed_def effect_Inr split: option.splits if_splits)
  with rest obtain event' created where result: "result = Ingested event' created" "ingested cx event' created u = (Inr (event, duplicate), t)"
    by (cases result) auto
  then have "event' = event" by (auto simp: ingested_def effect_Inr split: if_splits)
  with run_ingest_claimed [OF assms(1)] run result that show thesis by blast
qed

lemma ingested_keeps_webhook:
  "ingested cx event created s = (Inr r, t) \<Longrightarrow> find_webhook p i s \<noteq> None \<Longrightarrow> find_webhook p i t \<noteq> None"
  by (auto simp: ingested_def effect_Inr find_or_throw_Inr write_table_Inr find_webhook_def find_update_rows reopen_webhook_def split: if_splits)

definition marked_failed :: "string \<Rightarrow> string \<Rightarrow> error \<Rightarrow> CommerceDb \<Rightarrow> bool" where
  "marked_failed provider eventId code t \<longleftrightarrow> (\<exists>w\<in>set (cd_webhooks t). wh_provider w = provider \<and> wh_externalEventId w = eventId \<and>
     wh_status w = WH_FAILED \<and> wh_error w = Some code \<and> wh_resolutionStatus w = RES_OPEN)"

text \<open>The whole database but for the rows of one event.\<close>

definition but_event :: "string \<Rightarrow> string \<Rightarrow> CommerceDb \<Rightarrow> CommerceDb" where
  "but_event provider eventId s = s
     \<lparr>cd_webhooks := filter (\<lambda>w. \<not> (wh_provider w = provider \<and> wh_externalEventId w = eventId)) (cd_webhooks s),
      cd_events := filter (\<lambda>r. \<not> (pe_provider r = provider \<and> pe_eventId r = eventId)) (cd_events s)\<rparr>"

lemma claim_but_event:
  assumes "claim_event cx input s = (Inr (created, row), t)"
  shows "but_event (ec_provider input) (ec_eventId input) t = but_event (ec_provider input) (ec_eventId input) s"
  using assms unfolding claim_event_def
  by (auto simp: effect_Inr find_or_throw_Inr insert_webhook_def insert_event_def write_table_Inr but_event_def new_webhook_def owner_event_def
      split: option.splits if_splits)

lemma ingested_but_event:
  assumes "ingested cx event created s = (Inr r, t)" and "webhooks_ok (cd_webhooks t)"
  shows "but_event (ve_provider event) (ve_eventId event) t = but_event (ve_provider event) (ve_eventId event) s"
proof (cases "t = s")
  case False
  then obtain w where w: "find_webhook (ve_provider event) (ve_eventId event) s = Some w"
      and t: "t = s\<lparr>cd_webhooks := update_rows (\<lambda>r. wh_id r = wh_id w) (reopen_webhook (cx_now cx)) (cd_webhooks s)\<rparr>"
    using assms(1) by (auto simp: ingested_def effect_Inr find_or_throw_Inr write_table_Inr split: if_splits)
  have "distinct (map wh_id (cd_webhooks s))" using assms(2) by (simp add: webhooks_ok_def t map_update_rows reopen_webhook_def)
  then have only: "q = w" if "q \<in> set (cd_webhooks s)" "wh_id q = wh_id w" for q
    using find_key_unique [of wh_id "cd_webhooks s" q w] that webhook_found [OF w] by simp
  have "filter (\<lambda>r. \<not> (wh_provider r = ve_provider event \<and> wh_externalEventId r = ve_eventId event))
      (update_rows (\<lambda>r. r = w) (reopen_webhook (cx_now cx)) (cd_webhooks s)) =
    filter (\<lambda>r. \<not> (wh_provider r = ve_provider event \<and> wh_externalEventId r = ve_eventId event)) (cd_webhooks s)"
    by (rule filter_update_rows) (use webhook_found [OF w] in \<open>auto simp: reopen_webhook_def\<close>)
  moreover have "update_rows (\<lambda>r. wh_id r = wh_id w) f (cd_webhooks s) = update_rows (\<lambda>r. r = w) f (cd_webhooks s)" for f
    unfolding update_rows_def using only by (intro map_cong) auto
  ultimately show ?thesis by (simp add: but_event_def t)
qed simp

lemma recordFailure_run:
  assumes "webhooks_ok (cd_webhooks s)" and "find_webhook (hs_providerName h) eventId s \<noteq> None"
  shows "\<exists>t. recordFailure h cx eventId code retryable s = (Inr (), t) \<and> but_event (hs_providerName h) eventId t = but_event (hs_providerName h) eventId s \<and>
    marked_failed (hs_providerName h) eventId code t"
proof -
  let ?p = "\<lambda>r. wh_provider r = hs_providerName h \<and> wh_externalEventId r = eventId"
  let ?f = "failed_webhook code retryable (cx_now cx)"
  obtain w where found: "find_webhook (hs_providerName h) eventId s = Some w" using assms(2) by blast
  have "webhooks_ok (update_rows ?p ?f (cd_webhooks s))"
    using assms(1) by (simp add: webhooks_ok_def map_update_rows failed_webhook_def)
  then have run: "recordFailure h cx eventId code retryable s = (Inr (), s\<lparr>cd_webhooks := update_rows ?p ?f (cd_webhooks s)\<rparr>)"
    using found by (simp add: recordFailure_def update_webhook_def find_or_throw_def eff_simps write_table_def)
  have w: "w \<in> set (cd_webhooks s)" "?p w" using webhook_found [OF found] by auto
  have "?f w \<in> set (update_rows ?p ?f (cd_webhooks s))" using in_update_rows [OF w(1), of ?p ?f] w(2) by simp
  then have "marked_failed (hs_providerName h) eventId code (s\<lparr>cd_webhooks := update_rows ?p ?f (cd_webhooks s)\<rparr>)"
    unfolding marked_failed_def using w(2) by (intro bexI [of _ "?f w"]) (simp_all add: failed_webhook_def)
  moreover have "but_event (hs_providerName h) eventId (s\<lparr>cd_webhooks := update_rows ?p ?f (cd_webhooks s)\<rparr>) = but_event (hs_providerName h) eventId s"
    unfolding but_event_def by (simp add: filter_update_rows failed_webhook_def)
  ultimately show ?thesis using run by blast
qed

text \<open>C11 An event that fails changes nothing: when a newly ingested event cannot be processed, the delivery answers an error, the order
  and everything else, the webhooks and provider events of other events included, are exactly as before the delivery, and the webhook
  of the event is kept as failed and open, with the code that is answered.\<close>

theorem failed_event_changes_nothing:
  assumes host: "payment_host h" and event: "ingestPaymentWebhook h cx raw hdrs s = (Inr (event, False), s1)" "ve_provider event = hs_providerName h"
    and failed: "processVerifiedEvent h cx event s1 = (Inl e, u)" and ok: "webhooks_ok (cd_webhooks s1)"
  shows "\<exists>code t. processPaymentWebhook h cx raw hdrs s = (Inl code, t) \<and>
    but_event (ve_provider event) (ve_eventId event) t = but_event (ve_provider event) (ve_eventId event) s \<and>
    marked_failed (ve_provider event) (ve_eventId event) code t"
proof -
  from payment_hostD(4) [OF host] event(1) have found: "find_webhook (ve_provider event) (ve_eventId event) s1 \<noteq> None"
    by (rule ingest_run) (metis claim_event_found ingested_keeps_webhook)
  have u: "u = s1" by (rule failed_processing_rolled_back [OF failed])
  from payment_hostD(4) [OF host] event(1)
  have s1: "but_event (ve_provider event) (ve_eventId event) s1 = but_event (ve_provider event) (ve_eventId event) s"
    by (rule ingest_run) (metis claim_but_event ingested_but_event ok)
  define code where "code = (if e = P2034 then PROCESSING_RETRYABLE else hs_safePaymentError h e)"
  obtain t where t: "recordFailure h cx (ve_eventId event) code (e = P2034 \<or> e = PROCESSING_RETRYABLE) s1 = (Inr (), t)"
      "but_event (ve_provider event) (ve_eventId event) t = but_event (ve_provider event) (ve_eventId event) s1"
      "marked_failed (ve_provider event) (ve_eventId event) code t"
    using recordFailure_run [OF ok, of h "ve_eventId event" cx code] found event(2) by metis
  have "processPaymentWebhook h cx raw hdrs s = (Inl code, t)"
    unfolding processPaymentWebhook_def Let_def code_def [symmetric]
    using event(1) failed t(1) by (simp add: eff_simps u code_def)
  with t s1 show ?thesis by metis
qed

section \<open>Duplicates\<close>

lemma claim_duplicate:
  assumes "claim_event cx input s = (Inr (created, row), t)" and "find_webhook (ec_provider input) (ec_eventId input) s \<noteq> None"
    and "find_event (ec_provider input) (ec_eventId input) s \<noteq> None"
  shows "\<not> created \<and> t = s"
proof -
  obtain w where "find_webhook (ec_provider input) (ec_eventId input) s = Some w" using assms(2) by blast
  then have "list_ex (\<lambda>r. wh_id r = wh_id (new_webhook input (cx_now cx)) \<or> (wh_provider r = wh_provider (new_webhook input (cx_now cx)) \<and>
      wh_externalEventId r = wh_externalEventId (new_webhook input (cx_now cx)))) (cd_webhooks s)"
    by (auto simp: list_ex_iff new_webhook_def dest!: webhook_found)
  then have skip: "insert_webhook (new_webhook input (cx_now cx)) s = (Inr False, s)" by (simp add: insert_webhook_def eff_simps)
  have "insert_event (owner_event input v (cx_now cx)) s = (Inr (), s)" for v
    using assms(3) by (simp add: insert_event_def owner_event_def eff_simps)
  then show ?thesis using assms(1) skip unfolding claim_event_def
    by (auto simp: effect_Inr find_or_throw_Inr split: option.splits)
qed

text \<open>C12 An event is processed once: as long as its webhook is on record and not failed - processed, ignored, or still marked as
  received - every further delivery of the event is answered as a duplicate and changes nothing, and the retry of the stored
  webhook is refused. A host that stops between recording an event and processing it leaves it received, so this holds for an event
  that never was processed, too.\<close>

theorem recorded_event_is_duplicate:
  assumes host: "payment_host h" and event: "ingestPaymentWebhook h cx raw hdrs s = (Inr (event, duplicate), t)"
    and recorded: "find_webhook (ve_provider event) (ve_eventId event) s = Some w" "wh_status w \<noteq> WH_FAILED"
      "find_event (ve_provider event) (ve_eventId event) s \<noteq> None"
    and ok: "webhooks_ok (cd_webhooks s)"
  shows "processPaymentWebhook h cx raw hdrs s = (Inr Duplicate, s) \<and> retryStoredWebhook h cx' (wh_id w) s = (Inl RECONCILIATION_REQUIRED, s)"
proof -
  from payment_hostD(4) [OF host] event have "duplicate \<and> t = s"
  proof (rule ingest_run)
    fix input row created u
    assume claim: "claim_event cx input s = (Inr (created, row), u)" and same: "ec_provider input = ve_provider event" "ec_eventId input = ve_eventId event"
      and rest: "ingested cx event created u = (Inr (event, duplicate), t)"
    have "\<not> created \<and> u = s" using claim_duplicate [OF claim] recorded(1,3) same by simp
    then show ?thesis using rest recorded(1,2) by (auto simp: ingested_def effect_Inr find_or_throw_Inr split: if_splits)
  qed
  then have "processPaymentWebhook h cx raw hdrs s = (Inr Duplicate, s)"
    using event by (simp add: processPaymentWebhook_def eff_simps)
  moreover have "find_by wh_id (wh_id w) (cd_webhooks s) = Some w"
    by (rule find_by_unique_key) (use ok webhook_found [OF recorded(1)] in \<open>simp_all add: webhooks_ok_def\<close>)
  then have "retryStoredWebhook h cx' (wh_id w) s = (Inl RECONCILIATION_REQUIRED, s)"
    using recorded(2) by (simp add: retryStoredWebhook_def eff_simps)
  ultimately show ?thesis by blast
qed

section \<open>The order of an event\<close>

lemma order_by_id_own: "order_by_id s i = Some r \<Longrightarrow> or_id r = i"
  unfolding order_by_id_def by (drule find_by_key) simp

text \<open>The checkout attempts of the host and of the package, when both name an order, name the same.\<close>

lemma package_order_fits:
  assumes "resolve_event event s = Inr resolved" and a: "package_attempt_of event s = Some a" and p: "order_by_id s (ck_commercialReference a) = Some p"
  shows "p = rs_order resolved"
proof (cases "attempt_of event s")
  case None
  then show ?thesis using resolve_event_Inr(1) [OF assms(1)] a p by (simp add: candidate_order_def first_of_def)
next
  case (Some b)
  have same: "at_orderId b = or_id p"
    using resolve_event_Inr(5) [OF assms(1)] Some a p by (auto simp: check_resolved_def split: if_splits)
  have "or_id p = ck_commercialReference a" by (rule order_by_id_own [OF p])
  then have "order_by_id s (at_orderId b) = Some p" using same p by simp
  then show ?thesis using resolve_event_Inr(1) [OF assms(1)] Some by (simp add: candidate_order_def first_of_def)
qed

text \<open>C13 A failure or refund event is resolved only to an order that it fits: the order is on record, its total is the amount of the event
  and its currency the event's (or the event is a refund update without a currency, of a known payment), a reference names the
  order by id or number, the known payment of the event is the order's, and an order that the checkout attempt of the host or that of
  the package names is this one. A checkout that is not known is refused.\<close>

theorem resolved_order_fits:
  assumes "resolve_event event s = Inr resolved"
  shows "rs_order resolved \<in> set (cd_orders s) \<and> ve_amountMinor event = Some (or_totalMinor (rs_order resolved)) \<and>
    (if truthy (ve_currency event) then toUpperCase (the (ve_currency event)) = toUpperCase (or_currency (rs_order resolved))
     else ve_type event = PAYMENT_REFUND_UPDATED \<and> payment_of event s \<noteq> None) \<and>
    (truthy (ve_reference event) \<longrightarrow> ve_reference event \<in> {Some (or_id (rs_order resolved)), Some (or_number (rs_order resolved))}) \<and>
    pred_option (\<lambda>p. pm_orderId p = or_id (rs_order resolved)) (payment_of event s) \<and>
    pred_option (\<lambda>a. order_by_id s (at_orderId a) \<in> {None, Some (rs_order resolved)}) (attempt_of event s) \<and>
    pred_option (\<lambda>a. order_by_id s (ck_commercialReference a) \<in> {None, Some (rs_order resolved)}) (package_attempt_of event s) \<and>
    (truthy (ve_externalCheckoutId event) \<longrightarrow> attempt_of event s \<noteq> None \<or> package_attempt_of event s \<noteq> None \<or> payment_of event s \<noteq> None)"
proof -
  note facts = resolve_event_Inr [OF assms]
  have known: "truthy (ve_externalCheckoutId event) \<Longrightarrow> attempt_of event s \<noteq> None \<or> package_attempt_of event s \<noteq> None \<or> payment_of event s \<noteq> None"
    using assms by (auto simp: resolve_event_def Let_def split: if_splits)
  have attempt: "order_by_id s (at_orderId a) = None \<or> order_by_id s (at_orderId a) = Some (rs_order resolved)" if "attempt_of event s = Some a" for a
    using facts(1) that by (cases "order_by_id s (at_orderId a)") (auto simp: candidate_order_def first_of_def)
  have "ve_amountMinor event = Some (or_totalMinor (rs_order resolved))" "\<not> currency_mismatch event (rs_order resolved) (payment_of event s)"
      "truthy (ve_reference event) \<longrightarrow> ve_reference event = Some (or_id (rs_order resolved)) \<or> ve_reference event = Some (or_number (rs_order resolved))"
      "payment_of event s \<noteq> None \<longrightarrow> map_option pm_orderId (payment_of event s) = Some (or_id (rs_order resolved))"
    using facts(5) by (auto simp: check_resolved_def split: if_splits)
  moreover have "order_by_id s (ck_commercialReference a) = None \<or> order_by_id s (ck_commercialReference a) = Some (rs_order resolved)"
    if "package_attempt_of event s = Some a" for a
    using package_order_fits [OF assms that] by (cases "order_by_id s (ck_commercialReference a)") auto
  ultimately show ?thesis using resolve_order [OF assms] known attempt
    by (auto simp: currency_mismatch_def pred_option_def split: if_splits)
qed

end
