(* ===== verification/Payment_Settled.thy ===== *)
theory Payment_Settled
  imports Payment_Outcomes
begin

text \<open>
  What a processed payment has settled: its order is paid and invoiced, the payment is on record, and the webhook names the order.
  The reaction of the commerce package is used through one law: it answers a value only after its port has settled the
  order of that value.
\<close>

section \<open>The law of the reaction\<close>

text \<open>
  Whatever holds of an order as soon as its settlement was answered \<open>SETTLED\<close>, and is kept by all ports, holds of the order
  that the reaction names.
\<close>

definition reacts_through :: "PaymentServices \<Rightarrow> bool" where
  "reacts_through sv \<longleftrightarrow>
     (\<forall>K ports input s v t.
        (\<forall>i u o' w. rp_settle ports i u = (Inr (Settled o'), w) \<longrightarrow> K (si_orderId i) w) \<longrightarrow>
        (\<forall>i j. keeps (K j) (rp_settle ports i)) \<longrightarrow> (\<forall>i j. keeps (K j) (rp_grant ports i)) \<longrightarrow> (\<forall>i j. keeps (K j) (rp_issue ports i)) \<longrightarrow>
        pv_react sv ports input s = (Inr (Reacted v), t) \<longrightarrow> K (rx_orderId v) t)"

definition paid_in :: "ident \<Rightarrow> CommerceDb \<Rightarrow> bool" where
  "paid_in i s \<longleftrightarrow> (\<exists>r\<in>set (cd_orders s). or_id r = i \<and> or_status r = ORDER_PAID)"

interpretation paid: order_books "paid_in i" for i
  by unfold_locales (simp_all add: paid_in_def)

lemma pay_rows:
  assumes "r \<in> set rows" "or_id r = j" "or_status r = ORDER_PAID \<or> j = i"
  shows "\<exists>q\<in>set (update_rows (\<lambda>r. or_id r = i) (\<lambda>r. r\<lparr>or_status := ORDER_PAID, or_paidAt := Some at\<rparr>) rows). or_id q = j \<and> or_status q = ORDER_PAID"
  using assms by (intro bexI [OF _ in_update_rows [OF assms(1)]]) auto

lemma pay_order_paid:
  assumes "pay_order order invoice redemption at s = (Inr u, t)" and "order \<in> set (cd_orders s)" "unpaid order \<or> or_status order = ORDER_PAID"
  shows "paid_in (or_id order) t"
proof -
  have orders: "cd_orders t = (if unpaid order then update_rows (\<lambda>r. or_id r = or_id order)
      (\<lambda>r. r\<lparr>or_status := ORDER_PAID, or_paidAt := Some at\<rparr>) (cd_orders s) else cd_orders s)"
    using assms(1) by (auto simp: pay_order_def effect_Inr write_table_Inr split: if_splits option.splits)
  show ?thesis
  proof (cases "unpaid order")
    case True
    then show ?thesis unfolding paid_in_def orders using pay_rows [OF assms(2) refl, of "or_id order" at] by simp
  next
    case False
    then show ?thesis unfolding paid_in_def orders using assms(2,3) by (intro bexI [of _ order]) auto
  qed
qed

lemma settle_order_keeps_paid: "keeps (paid_in j) (settle_order input)"
proof -
  have "keeps (paid_in j) (write_orders (update_rows (\<lambda>r. or_id r = i) (\<lambda>r. r\<lparr>or_status := ORDER_PAID, or_paidAt := Some at\<rparr>)))" for i at
    by (rule keeps_write_table) (auto simp: paid_in_def dest!: pay_rows [of _ _ j i at])
  moreover have "keeps (paid_in j) (write_invoices f)" for f by (rule keeps_table) (simp add: paid_in_def)
  ultimately have "keeps (paid_in j) (pay_order order invoice redemption at)" for order invoice redemption at
    unfolding pay_order_def by (intro paid.steps)
  then show ?thesis unfolding settle_order_def by (intro keeps_intro)
qed

lemma settle_order_paid:
  assumes "settle_order input s = (Inr (Settled o'), t)"
  shows "paid_in (si_orderId input) t"
proof -
  obtain order invoice redemption where order: "find_by or_id (si_orderId input) (cd_orders s) = Some order"
      and status: "or_status order = ORDER_PENDING \<or> or_status order = ORDER_PAID \<or> or_status order = ORDER_CANCELLED"
      and run: "pay_order order invoice redemption (si_settledAt input) s = (Inr (), t)"
    using assms by (auto simp: settle_order_def effect_Inr split: option.splits if_splits)
  then show ?thesis using pay_order_paid [OF run] found_order [OF order] by (auto simp: unpaid_def)
qed

text \<open>A settled reaction names an order that is paid.\<close>

definition reaction_of :: "PaymentServices \<Rightarrow> CommerceCall \<Rightarrow> ident \<times> bool \<Rightarrow> SettlementFactSnapshot \<Rightarrow> bool \<Rightarrow> OrderRow option \<Rightarrow> (CommerceDb, PaidReaction) eff" where
  "reaction_of sv cx input paidFact created found =
     (case found of None \<Rightarrow> throw REFERENCE_MISMATCH
      | Some order \<Rightarrow>
          bnd (pv_react sv (reaction_ports sv cx (or_id order) paidFact) input) (\<lambda>result.
          case result of
            ReactionRejected code \<Rightarrow> throw (if code = ''ORDER_NOT_FOUND'' then REFERENCE_MISMATCH else RECONCILIATION_REQUIRED)
          | ReactionFailed \<Rightarrow> throw PROCESSING_RETRYABLE
          | Reacted value \<Rightarrow> ret \<lparr>px_value = value, px_created = created\<rparr>))"

lemma reaction_of_run:
  assumes "reaction_of sv cx input paidFact created found s = (Inr settlement, t)"
  obtains orderId where "pv_react sv (reaction_ports sv cx orderId paidFact) input s = (Inr (Reacted (px_value settlement)), t)"
proof -
  obtain orderId result u where react: "pv_react sv (reaction_ports sv cx orderId paidFact) input s = (Inr result, u)"
      and answer: "(case result of ReactionRejected code \<Rightarrow> throw (if code = ''ORDER_NOT_FOUND'' then REFERENCE_MISMATCH else RECONCILIATION_REQUIRED)
         | ReactionFailed \<Rightarrow> throw PROCESSING_RETRYABLE | Reacted value \<Rightarrow> ret \<lparr>px_value = value, px_created = created\<rparr>) u = (Inr settlement, t)"
    using assms unfolding reaction_of_def by (cases found) (auto simp: bnd_Inr throw_Inr)
  then show thesis using that by (cases result) (auto simp: effect_Inr)
qed

lemma reaction_paid:
  assumes sv: "services_through sv" "reacts_through sv" and run: "reactToPaidSettlement sv cx i mode s = (Inr settlement, t)"
  shows "paid_in (rx_orderId (px_value settlement)) t"
proof -
  obtain answer u where answer: "(case answer of ReconcileRejected code \<Rightarrow> throw (rejectionCode code) | ReconcileFailed \<Rightarrow> throw PROCESSING_RETRYABLE
      | Reconciled paidFact created \<Rightarrow> bnd (gets (referenced_order (ss_commercialReference paidFact))) (reaction_of sv cx (i, mode) paidFact created)) u
      = (Inr settlement, t)"
    using run unfolding reactToPaidSettlement_def bnd_Inr reaction_of_def [abs_def] by blast
  then obtain paidFact created order v where "reaction_of sv cx (i, mode) paidFact created order v = (Inr settlement, t)"
    by (cases answer) (auto simp: effect_Inr)
  then obtain orderId where react: "pv_react sv (reaction_ports sv cx orderId paidFact) (i, mode) v = (Inr (Reacted (px_value settlement)), t)"
    by (rule reaction_of_run)
  have ports: "keeps (paid_in j) (rp_settle (reaction_ports sv cx orderId paidFact) x)"
      "keeps (paid_in j) (rp_grant (reaction_ports sv cx orderId paidFact) y)" "keeps (paid_in j) (rp_issue (reaction_ports sv cx orderId paidFact) z)" for j x y z
    by (simp_all add: reaction_ports_def settle_order_keeps_paid paid.keeps_claim_units keeps_services(3) [OF sv(1)] paid.keeps_grant)
  have "paid_in (si_orderId x) w" if "rp_settle (reaction_ports sv cx orderId paidFact) x a = (Inr (Settled o'), w)" for x a o' w
    using that settle_order_paid by (simp add: reaction_ports_def)
  with sv(2) [unfolded reacts_through_def, THEN spec [of _ paid_in], rule_format, OF _ ports react] show ?thesis by blast
qed

section \<open>A processed payment\<close>

text \<open>The payment of an event is on record as paid.\<close>

definition payment_recorded :: "VerifiedEvent \<Rightarrow> CommerceDb \<Rightarrow> bool" where
  "payment_recorded event s \<longleftrightarrow> (\<exists>p\<in>set (cd_payments s). pm_provider p = ve_provider event \<and>
     Some (pm_externalId p) = ve_externalPaymentId event \<and> pm_status p = PAYMENT_PAID \<and> pm_paidAt p = Some (ve_occurredAt event))"

lemma upsert_payment_paid:
  assumes "truthy (ve_externalPaymentId event)"
    and "upsert_payment cx order event PAYMENT_PAID (Some (ve_occurredAt event))
      (\<lambda>r. r\<lparr>pm_status := PAYMENT_PAID, pm_paidAt := Some (ve_occurredAt event)\<rparr>) s = (Inr i, t)"
  shows "payment_recorded event t"
proof -
  obtain x where x: "ve_externalPaymentId event = Some x" using assms(1) by (cases "ve_externalPaymentId event") (auto simp: truthy_def)
  show ?thesis
  proof (cases "payment_of event s")
    case None
    then have "\<exists>p\<in>set (cd_payments t). p = new_payment i order event PAYMENT_PAID (Some (ve_occurredAt event))"
      using assms(2) by (auto simp: upsert_payment_def effect_Inr write_table_Inr fresh_uuid_def)
    then show ?thesis unfolding payment_recorded_def
      by (intro bexI [of _ "new_payment i order event PAYMENT_PAID (Some (ve_occurredAt event))"]) (simp_all add: new_payment_def x)
  next
    case (Some p)
    then have p: "p \<in> set (cd_payments s)" "pm_provider p = ve_provider event" "pm_externalId p = x"
      using x by (auto simp: payment_of_def dest!: find_in_set split: if_splits)
    let ?f = "\<lambda>r. r\<lparr>pm_status := PAYMENT_PAID, pm_paidAt := Some (ve_occurredAt event)\<rparr>"
    have "?f p \<in> set (cd_payments t)"
      using assms(2) Some in_update_rows [OF p(1), of "\<lambda>r. pm_id r = pm_id p" ?f]
      by (auto simp: upsert_payment_def effect_Inr write_table_Inr)
    then show ?thesis unfolding payment_recorded_def using p(2,3) by (intro bexI [of _ "?f p"]) (simp_all add: x)
  qed
qed

text \<open>What follows the payment leaves orders and payments alone.\<close>

abbreviation settled_part :: "CommerceDb \<Rightarrow> OrderRow list \<times> PaymentRow list" where
  "settled_part s \<equiv> (cd_orders s, cd_payments s)"

lemma after_payment_frame:
  assumes "issues_through (hs_licensing h)"
  shows "frame settled_part (case hostAttempt of None \<Rightarrow> ret () | Some a \<Rightarrow> write_attempts (f a))"
    and "frame settled_part (fulfil_created h cx order event paymentId settlement)"
    and "frame settled_part (notify h cx intent at productId)" and "frame settled_part (notify_invoice h cx order event)"
    and "frame settled_part (notify_licenses h cx order event)"
proof -
  show notified: "frame settled_part (notify h cx intent at productId)" for intent at productId by (rule frame_notify) simp
  show "frame settled_part (case hostAttempt of None \<Rightarrow> ret () | Some a \<Rightarrow> write_attempts (f a))"
    by (intro frame_intro frame_write_table) simp
  have "frame settled_part (fulfillOrderLicensing (hs_licensing h) cx i evidence target)" for i evidence target
    by (rule frame_fulfill [OF assms]) simp_all
  moreover have "frame settled_part (commerce_audit a)" for a unfolding commerce_audit_def by (rule frame_modify) simp
  ultimately show "frame settled_part (fulfil_created h cx order event paymentId settlement)"
    unfolding fulfil_created_def by (intro frame_intro)
  show "frame settled_part (notify_invoice h cx order event)" "frame settled_part (notify_licenses h cx order event)"
    unfolding notify_invoice_def notify_licenses_def by (intro frame_intro notified)+
qed

lemma paid_event_run:
  assumes host: "payment_host h" "reacts_through (hs_services h)" "issues_through (hs_licensing h)"
    and run: "processPaidEvent h cx event s = (Inr (processed, requests), t)"
  shows "paid_in (po_orderId processed) t \<and> payment_recorded event t"
proof -
  have has: "event_has_payment event" using run by (auto simp: processPaidEvent_def throw_Inr split: if_splits)
  obtain settlement order paymentId s1 s2 s3 s4 s5 s6 and hostAttempt :: "AttemptRow option" where
    reaction: "reactToPaidSettlement (hs_services h) cx (ve_recordId event) (expected_livemode cx) s = (Inr settlement, s1)"
    and order: "order_by_id s1 (rx_orderId (px_value settlement)) = Some order"
    and payment: "upsert_payment cx order event PAYMENT_PAID (Some (ve_occurredAt event))
      (\<lambda>r. r\<lparr>pm_status := PAYMENT_PAID, pm_paidAt := Some (ve_occurredAt event)\<rparr>) s1 = (Inr paymentId, s2)"
    and r3: "(case hostAttempt of None \<Rightarrow> ret () | Some a \<Rightarrow> write_attempts (update_rows (\<lambda>r. at_id r = at_id a) (\<lambda>r. r\<lparr>at_status := ''COMPLETED''\<rparr>))) s2
      = (Inr (), s3)"
    and r4: "fulfil_created h cx order event paymentId settlement s3 = (Inr requests, s4)"
    and r5: "notify h cx (payment_received order paymentId) (ve_occurredAt event) None s4 = (Inr (), s5)"
    and r6: "notify_invoice h cx order event s5 = (Inr (), s6)" and r7: "notify_licenses h cx order event s6 = (Inr (), t)"
    and processed: "po_orderId processed = or_id order"
    using run has by (auto simp: processPaidEvent_def bnd_Inr gets_Inr find_or_throw_Inr ret_Inr)
  note rest = frameD [OF after_payment_frame(1) [OF host(3)] r3] frameD [OF after_payment_frame(2) [OF host(3)] r4]
    frameD [OF after_payment_frame(3) [OF host(3)] r5] frameD [OF after_payment_frame(4) [OF host(3)] r6]
    frameD [OF after_payment_frame(5) [OF host(3)] r7]
  have "or_id order = rx_orderId (px_value settlement)" using order by (auto simp: order_by_id_def dest: found_order)
  then have "paid_in (or_id order) s1" using reaction_paid [OF payment_hostD(1) [OF host(1)] host(2) reaction] by simp
  then have "paid_in (or_id order) s2" using keepsD [OF paid.keeps_upsert_payment _ payment] by blast
  moreover have "payment_recorded event s2" by (rule upsert_payment_paid [OF _ payment]) (use has in \<open>simp add: event_has_payment_def\<close>)
  ultimately show ?thesis using rest by (simp add: processed paid_in_def payment_recorded_def)
qed

text \<open>The webhook of an event is processed and names its order.\<close>

definition webhook_names :: "VerifiedEvent \<Rightarrow> ident \<Rightarrow> CommerceDb \<Rightarrow> bool" where
  "webhook_names event i s \<longleftrightarrow> (\<exists>w\<in>set (cd_webhooks s). wh_provider w = ve_provider event \<and> wh_externalEventId w = ve_eventId event \<and>
     wh_status w = WH_PROCESSED \<and> wh_orderId w = Some i)"

lemma names_processed:
  assumes "find_webhook (ve_provider event) (ve_eventId event) u \<noteq> None"
  shows "webhook_names event (po_orderId processed) (u\<lparr>cd_webhooks := update_rows (\<lambda>r. wh_provider r = ve_provider event \<and> wh_externalEventId r = ve_eventId event)
        (processed_webhook event processed now) (cd_webhooks u)\<rparr>)"
proof -
  obtain w where "find_webhook (ve_provider event) (ve_eventId event) u = Some w" using assms by blast
  then have w: "w \<in> set (cd_webhooks u)" "wh_provider w = ve_provider event" "wh_externalEventId w = ve_eventId event"
    by (auto dest: webhook_found)
  let ?p = "\<lambda>r. wh_provider r = ve_provider event \<and> wh_externalEventId r = ve_eventId event"
  have "processed_webhook event processed now w \<in> set (update_rows ?p (processed_webhook event processed now) (cd_webhooks u))"
    using in_update_rows [OF w(1), of ?p] w(2,3) by simp
  then show ?thesis unfolding webhook_names_def
    by (intro bexI [of _ "processed_webhook event processed now w"]) (simp_all add: processed_webhook_def w)
qed

lemma paid_transaction:
  assumes "process_transaction h cx event s = (Inr requests, t)" and "ve_type event = PAYMENT_PAID_EVENT"
  obtains processed u where "processPaidEvent h cx event s = (Inr (processed, requests), u)"
    and "find_webhook (ve_provider event) (ve_eventId event) u \<noteq> None"
    and "t = u\<lparr>cd_webhooks := update_rows (\<lambda>r. wh_provider r = ve_provider event \<and> wh_externalEventId r = ve_eventId event)
      (processed_webhook event processed (cx_now cx)) (cd_webhooks u)\<rparr>"
  using assms unfolding process_transaction_def update_webhook_def
  by (auto simp: transaction_Inr bnd_Inr ret_Inr find_or_throw_Inr write_table_Inr split: prod.splits)

lemma leases_leave:
  assumes "payment_host h" and "renew_leases h cx requests s = (Inr u, t)"
  shows "cd_orders t = cd_orders s" "cd_invoices t = cd_invoices s" "cd_payments t = cd_payments s" "cd_webhooks t = cd_webhooks s"
  using keepsD [OF keeps_renew_leases [OF assms(1), of "\<lambda>t. cd_orders t = cd_orders s \<and> cd_invoices t = cd_invoices s \<and>
      cd_payments t = cd_payments s \<and> cd_webhooks t = cd_webhooks s"] _ assms(2)]
  by simp_all

text \<open>C9 A processed payment has settled its order: when a paid event is processed, the webhook is processed and names an order that is
  paid, every invoice of that order is final, and the payment of the event is on record as paid at the time of the event.\<close>

theorem paid_event_settles:
  assumes host: "payment_host h" "reacts_through (hs_services h)" "issues_through (hs_licensing h)" and b: "books s"
    and event: "ve_type event = PAYMENT_PAID_EVENT" and run: "processVerifiedEvent h cx event s = (Inr Processed, t)"
  shows "\<exists>i. webhook_names event i t \<and> paid_in i t \<and> list_all (\<lambda>v. in_orderId v = i \<longrightarrow> in_status v = INVOICE_FINAL) (cd_invoices t) \<and>
    payment_recorded event t"
proof -
  from run obtain requests u where process: "process_transaction h cx event s = (Inr requests, u)" and leases: "renew_leases h cx requests u = (Inr (), t)"
    by (rule processed_run)
  from process event obtain processed v where paid: "processPaidEvent h cx event s = (Inr (processed, requests), v)"
      and found: "find_webhook (ve_provider event) (ve_eventId event) v \<noteq> None"
      and u: "u = v\<lparr>cd_webhooks := update_rows (\<lambda>r. wh_provider r = ve_provider event \<and> wh_externalEventId r = ve_eventId event)
        (processed_webhook event processed (cx_now cx)) (cd_webhooks v)\<rparr>"
    by (rule paid_transaction)
  note same = leases_leave [OF host(1) leases]
  have "books u" using keepsD [OF process_keeps_life [OF host(1)] order_life_refl [OF b] process] by (simp add: order_life_def)
  then have matches: "in_orderId w = or_id r \<Longrightarrow> or_status r = ORDER_PAID \<Longrightarrow> in_status w = INVOICE_FINAL"
    if "r \<in> set (cd_orders u)" "w \<in> set (cd_invoices u)" for r w
    using that by (auto simp: books_def invoice_matches_def)
  have "paid_in (po_orderId processed) u" "payment_recorded event u"
    using paid_event_run [OF host paid] by (simp_all add: u paid_in_def payment_recorded_def)
  moreover from this(1) matches have "list_all (\<lambda>v. in_orderId v = po_orderId processed \<longrightarrow> in_status v = INVOICE_FINAL) (cd_invoices u)"
    by (auto simp: paid_in_def list_all_iff)
  moreover have "webhook_names event (po_orderId processed) u" unfolding u by (rule names_processed [OF found])
  ultimately show ?thesis by (auto simp: same paid_in_def payment_recorded_def webhook_names_def)
qed

end
