(* ===== verification/Payment_Demo.thy ===== *)
theory Payment_Demo
  imports Payment_Settled Claim_Demo
begin

text \<open>
  A concrete payment host: capabilities that run their repositories and ports, a verifier that takes the body for the event id, and
  an order that is paid and refunded. The properties of \<open>Notification_Center\<close>, \<open>Payment_Facts\<close>,
  \<open>Payment_Outcomes\<close> and \<open>Payment_Settled\<close> are applied to it.
\<close>

section \<open>The host\<close>

definition fact_of :: "ProviderEventRow \<Rightarrow> CheckoutAttemptRow \<Rightarrow> SettlementFactClaim" where
  "fact_of e a =
     \<lparr>fc_id = ''fact-'' @ pe_id e, fc_providerEventRecordId = pe_id e, fc_checkoutAttemptId = ck_id a, fc_provider = pe_provider e,
      fc_eventId = pe_eventId e, fc_externalPaymentId = or_else (pe_externalPaymentId e) [],
      fc_externalCheckoutId = or_else (pe_externalCheckoutId e) [], fc_commercialReference = ck_commercialReference a,
      fc_amountMinor = or_else (pe_amountMinor e) 0, fc_currency = or_else (pe_currency e) [], fc_livemode = pe_livemode e,
      fc_settledAt = pe_occurredAt e\<rparr>"

definition demo_services :: PaymentServices where
  "demo_services =
     \<lparr>pv_reconcile = (\<lambda>repo (i, mode).
        bnd (fr_findProviderEventById repo i) (\<lambda>event.
        case event of
          None \<Rightarrow> ret ReconcileFailed
        | Some e \<Rightarrow>
            bnd (fr_findCheckoutAttempt repo (pe_provider e) (or_else (pe_externalCheckoutId e) [])) (\<lambda>attempt.
            case attempt of
              None \<Rightarrow> ret (ReconcileRejected ''CHECKOUT_MISMATCH'')
            | Some a \<Rightarrow> bnd (fr_claim repo (fact_of e a)) (\<lambda>(created, settled). ret (Reconciled settled created))))),
      pv_react = (\<lambda>ports (i, mode).
        bnd (rp_settle ports
          \<lparr>si_orderId = py_commercialReference (rp_payment ports), si_expectedAmountMinor = py_amountMinor (rp_payment ports),
           si_expectedCurrency = py_currency (rp_payment ports), si_settledAt = py_settledAt (rp_payment ports)\<rparr>) (\<lambda>result.
        ret (case result of
          SettleRejected code \<Rightarrow> ReactionRejected code
        | Settled order \<Rightarrow> Reacted \<lparr>rx_orderId = py_commercialReference (rp_payment ports),
            rx_settlementDisposition = so_settlementDisposition order, rx_fulfillmentMode = so_fulfillmentMode order\<rparr>))),
      pv_grant = (\<lambda>repo input. bnd (repo input) (\<lambda>result.
        ret (case result of Granted _ \<Rightarrow> GrantOk | GrantExisting _ \<Rightarrow> GrantAlready | GrantRejected _ \<Rightarrow> GrantRefused))),
      pv_revoke = (\<lambda>repo input. bnd (repo input) (\<lambda>result.
        ret (case result of Revoked _ \<Rightarrow> AnswerRevoked | RevocationExisting _ \<Rightarrow> AnswerRevoked | RevocationRejected _ \<Rightarrow> AnswerRejected)))\<rparr>"

definition demo_policy :: NotificationPolicy where
  "demo_policy =
     \<lparr>np_create = Some,
      np_materialize = (\<lambda>i intent now. Inr
        \<lparr>sn_notificationId = i @ it_idempotencyKey intent, sn_moduleId = it_moduleId intent, sn_event = it_event intent, sn_sourceReference = it_sourceReference intent,
         sn_audience = it_audience intent, sn_title = it_title intent, sn_body = it_body intent, sn_category = it_category intent,
         sn_data = it_data intent, sn_trigger = Some (it_trigger intent), sn_placementHint = it_placementHint intent,
         sn_attributes = it_attributes intent, sn_priority = it_priority intent, sn_idempotencyKey = it_idempotencyKey intent,
         sn_createdAt = now, sn_expiresAt = None\<rparr>),
      np_visibility = (\<lambda>_ _ state. if state = Some RECEIPT_DISMISSED then Hidden ''DISMISSED'' else Visible),
      np_transitionReceipt = (\<lambda>state action. TransitionChanged (case action of MARK_READ \<Rightarrow> RECEIPT_READ | DISMISS \<Rightarrow> RECEIPT_DISMISSED))\<rparr>"

text \<open>The bodies \<open>paid\<close>, \<open>refund\<close> and \<open>test\<close>: a payment, its refund, and a payment in test mode.\<close>

definition demo_stored :: "string \<Rightarrow> StoredEvent" where
  "demo_stored raw =
     \<lparr>st_eventId = raw, st_rawType = None, st_type = (if raw = ''refund'' then PAYMENT_REFUNDED_EVENT else PAYMENT_PAID_EVENT),
      st_externalPaymentId = Some ''pay_1'', st_externalCheckoutId = (if raw = ''refund'' then None else Some ''cs_1''), st_reference = Some ''o1'',
      st_externalRefundId = None, st_refundStatus = None, st_amountMinor = Some 1000, st_currency = Some ''PHP'',
      st_livemode = (raw \<noteq> ''test''), st_occurredAt = 900, st_eventFingerprint = Some raw\<rparr>"

definition claim_of :: "StoredEvent \<Rightarrow> EventClaim" where
  "claim_of e =
     \<lparr>ec_id = ''wh-'' @ st_eventId e, ec_provider = ''demo'', ec_eventId = st_eventId e, ec_payloadHash = st_eventId e,
      ec_eventFingerprint = st_eventId e, ec_rawType = st_rawType e, ec_type = st_type e, ec_externalPaymentId = st_externalPaymentId e,
      ec_externalCheckoutId = st_externalCheckoutId e, ec_reference = st_reference e, ec_externalRefundId = st_externalRefundId e,
      ec_refundStatus = st_refundStatus e, ec_amountMinor = st_amountMinor e, ec_currency = st_currency e,
      ec_livemode = st_livemode e, ec_occurredAt = st_occurredAt e\<rparr>"

definition demo_host :: PaymentHost where
  "demo_host =
     \<lparr>hs_services = demo_services, hs_licensing = demo_licensing, hs_policy = demo_policy, hs_providerName = ''demo'',
      hs_verifier = Inr (''demo'', \<lambda>raw hdrs. if raw = ''forged'' then Inl ''PAYMENT_SIGNATURE_INVALID'' else Inr (demo_stored raw)),
      hs_ingest = (\<lambda>claim verify raw hdrs.
        try_catch
          (bnd (verify raw hdrs) (\<lambda>event.
           bnd (claim (claim_of event)) (\<lambda>(created, row).
           ret (if pe_provider row = ''demo'' \<and> pe_eventId row = st_eventId event \<and> pe_eventFingerprint row = st_eventId event
                then Ingested (event_snapshot row) created else IngestRejected))))
          (\<lambda>_. ret (IngestFailed ''VERIFICATION_FAILED''))),
      hs_isLifecycleError = (\<lambda>_. False), hs_safePaymentError = id, hs_issueCommercialLease = (\<lambda>_. ret ())\<rparr>"

lemma demo_services_through: "services_through demo_services"
  by (auto simp: services_through_def demo_services_def intro!: keeps_intro)

lemma demo_revokes_through: "revokes_through demo_services"
  unfolding revokes_through_def
proof (intro allI impI)
  fix repo :: "RevocationInput \<Rightarrow> (CommerceDb, RevocationResult) eff" and input s t
  assume "pv_revoke demo_services repo input s = (Inr AnswerRevoked, t)"
  then obtain result where "repo input s = (Inr result, t)"
    and "(case result of Revoked _ \<Rightarrow> AnswerRevoked | RevocationExisting _ \<Rightarrow> AnswerRevoked | RevocationRejected _ \<Rightarrow> AnswerRejected) = AnswerRevoked"
    by (auto simp: demo_services_def bnd_Inr ret_Inr)
  then show "\<exists>e. repo input s = (Inr (Revoked e), t) \<or> repo input s = (Inr (RevocationExisting e), t)" by (cases result) auto
qed

lemma demo_revokes_only: "revokes_only (hs_services demo_host)"
  by (auto simp: revokes_only_def demo_host_def demo_services_def intro!: keeps_intro split: RevocationResult.split)

lemma demo_reacts_through: "reacts_through demo_services"
  unfolding reacts_through_def
proof (intro allI impI)
  fix K :: "ident \<Rightarrow> CommerceDb \<Rightarrow> bool" and ports input s v t
  assume settle: "\<forall>i u o' w. rp_settle ports i u = (Inr (Settled o'), w) \<longrightarrow> K (si_orderId i) w"
    and run: "pv_react demo_services ports input s = (Inr (Reacted v), t)"
  obtain result u where "rp_settle ports \<lparr>si_orderId = py_commercialReference (rp_payment ports),
      si_expectedAmountMinor = py_amountMinor (rp_payment ports), si_expectedCurrency = py_currency (rp_payment ports),
      si_settledAt = py_settledAt (rp_payment ports)\<rparr> s = (Inr result, u)"
    and "(case result of SettleRejected code \<Rightarrow> ReactionRejected code | Settled order \<Rightarrow> Reacted \<lparr>rx_orderId = py_commercialReference (rp_payment ports),
            rx_settlementDisposition = so_settlementDisposition order, rx_fulfillmentMode = so_fulfillmentMode order\<rparr>) = Reacted v" "u = t"
    using run by (cases input) (auto simp: demo_services_def effect_Inr)
  then show "K (rx_orderId v) t" using settle by (cases result) fastforce+
qed

lemma demo_licensing_through: "licensing_through demo_licensing"
  by (auto simp: licensing_through_def demo_licensing_def intro!: keeps_intro)

lemma demo_ingests: "ingests demo_host"
  unfolding ingests_def
proof (intro conjI allI impI)
  fix P :: "CommerceDb \<times> Capture \<Rightarrow> bool" and claim :: "EventClaim \<Rightarrow> (CommerceDb \<times> Capture, bool \<times> ProviderEventRow) eff"
    and verify :: "string \<Rightarrow> headers \<Rightarrow> (CommerceDb \<times> Capture, StoredEvent) eff" and raw hdrs
  assume "\<forall>i. keeps P (claim i)" "\<forall>r k. keeps P (verify r k)"
  then show "keeps P (hs_ingest demo_host claim verify raw hdrs)"
    by (auto simp: demo_host_def intro!: keeps_intro)
next
  fix claim :: "EventClaim \<Rightarrow> (CommerceDb \<times> Capture, bool \<times> ProviderEventRow) eff"
    and verify :: "string \<Rightarrow> headers \<Rightarrow> (CommerceDb \<times> Capture, StoredEvent) eff" and raw hdrs s c event created t and d :: Capture
  assume verify: "\<forall>r k. keeps (\<lambda>(p, _). p = s) (verify r k)"
    and run: "hs_ingest demo_host claim verify raw hdrs (s, c) = (Inr (Ingested event created), (t, d))"
  obtain e row u where v: "verify raw hdrs (s, c) = (Inr e, u)" and claim: "claim (claim_of e) u = (Inr (created, row), (t, d))"
      and row: "pe_provider row = ''demo''" "pe_eventId row = st_eventId e" "event = event_snapshot row"
    using run by (auto simp: demo_host_def try_catch_def bnd_def ret_def split: prod.splits sum.splits if_splits)
  obtain c' where "u = (s, c')" using keepsD [OF verify [THEN spec, THEN spec] _ v] by (cases u) simp
  with claim row show "\<exists>input row c' d'. claim input (s, c') = (Inr (created, row), (t, d')) \<and> ec_provider input = ve_provider event \<and>
      ec_eventId input = ve_eventId event"
    by (intro exI [of _ "claim_of e"]) (auto simp: claim_of_def event_snapshot_def)
qed

lemma demo_payment_host: "payment_host demo_host" "revokes_through (hs_services demo_host)" "reacts_through (hs_services demo_host)"
    "issues_through (hs_licensing demo_host)"
  using demo_ingests demo_services_through demo_licensing_through demo_revokes_through demo_reacts_through demo_licensing_issues
  by (simp_all add: payment_host_def lease_issuer_def demo_host_def keeps_ret)

section \<open>The order\<close>

definition bought_order :: "OrderStatus \<Rightarrow> OrderRow" where
  "bought_order status = demo_order\<lparr>or_status := status, or_paidAt := None\<rparr>"

definition demo_invoice :: "InvoiceStatus \<Rightarrow> InvoiceRow" where
  "demo_invoice status = \<lparr>in_id = ''inv'', in_number = ''INV-1'', in_orderId = ''o1'', in_status = status, in_issuedAt = None\<rparr>"

definition demo_checkout :: CheckoutAttemptRow where
  "demo_checkout = \<lparr>ck_id = ''ck'', ck_sourceReference = ''o1'', ck_commercialReference = ''o1'', ck_provider = ''demo'', ck_requestFingerprint = ''f'',
     ck_amountMinor = 1000, ck_currency = ''PHP'', ck_payerSnapshot = JVNull, ck_itemsSnapshot = JVNull, ck_status = ''PENDING'',
     ck_externalCheckoutId = Some ''cs_1'', ck_checkoutUrl = Some ''https://pay'', ck_failureCode = None, ck_createdAt = 1, ck_updatedAt = 1\<rparr>"

definition demo_payment :: PaymentRow where
  "demo_payment = \<lparr>pm_id = ''pay'', pm_orderId = ''o1'', pm_provider = ''demo'', pm_externalId = ''pay_1'', pm_status = PAYMENT_PAID,
     pm_amountMinor = 1000, pm_currency = ''PHP'', pm_paidAt = Some 900\<rparr>"

definition demo_event :: "string \<Rightarrow> VerifiedEvent" where
  "demo_event raw = event_snapshot (owner_event (claim_of (demo_stored raw)) (new_webhook (claim_of (demo_stored raw)) 1000) 1000)"

text \<open>The order as it was placed, and as it is once it is paid.\<close>

definition placed_db :: CommerceDb where
  "placed_db = demo_db\<lparr>cd_orders := [bought_order ORDER_PENDING], cd_invoices := [demo_invoice INVOICE_DRAFT], cd_checkouts := [demo_checkout]\<rparr>"

definition paid_db :: CommerceDb where
  "paid_db = demo_db\<lparr>cd_orders := [bought_order ORDER_PAID], cd_invoices := [demo_invoice INVOICE_FINAL], cd_payments := [demo_payment]\<rparr>"

text \<open>With the rows of an event on record.\<close>

definition received :: "string \<Rightarrow> CommerceDb \<Rightarrow> CommerceDb" where
  "received raw s = s\<lparr>cd_webhooks := [new_webhook (claim_of (demo_stored raw)) 1000],
     cd_events := [owner_event (claim_of (demo_stored raw)) (new_webhook (claim_of (demo_stored raw)) 1000) 1000]\<rparr>"

definition demo_message :: NotificationRow where
  "demo_message = new_notification
     \<lparr>sn_notificationId = ''n1'', sn_moduleId = ''commerce'', sn_event = ''INVOICE_READY'', sn_sourceReference = None, sn_audience = ToAccount ''acct'',
      sn_title = ''t'', sn_body = ''b'', sn_category = ''TRANSACTIONAL'', sn_data = None, sn_trigger = None, sn_placementHint = None,
      sn_attributes = [], sn_priority = ''NORMAL'', sn_idempotencyKey = ''k1'', sn_createdAt = 5, sn_expiresAt = None\<rparr> None"

text \<open>Two messages to different accounts; the user owns one of the accounts.\<close>

definition inbox_db :: CommerceDb where
  "inbox_db = demo_db\<lparr>cd_notifications := [demo_message, demo_message\<lparr>nm_id := ''n2'', nm_idempotencyKey := ''k2'', nm_audienceAccountId := Some ''other''\<rparr>],
     cd_accounts := [\<lparr>an_id = ''acct'', an_ownerId = ''ann'', an_displayName = ''Ann'', an_members = []\<rparr>]\<rparr>"

section \<open>The properties on the order\<close>

lemma with_state: "fst p = r \<Longrightarrow> p = (r, snd p)"
  by (cases p) simp

lemma demo_refund: "fst (processVerifiedEvent demo_host demo_call (demo_event ''refund'') (received ''refund'' paid_db)) = Inr Processed"
  by code_simp

lemma demo_paid: "fst (processVerifiedEvent demo_host demo_call (demo_event ''paid'') (received ''paid'' placed_db)) = Inr Processed"
  by code_simp

lemma demo_refused:
  "fst (processVerifiedEvent demo_host demo_call (demo_event ''test'') (received ''test'' placed_db)) = Inl ''PAYMENT_MODE_MISMATCH''"
  by code_simp

lemma demo_ingested_test:
  "ingestPaymentWebhook demo_host demo_call ''test'' [] placed_db = (Inr (demo_event ''test'', False), received ''test'' placed_db)"
proof -
  have "fst (ingestPaymentWebhook demo_host demo_call ''test'' [] placed_db) = Inr (demo_event ''test'', False)" by code_simp
  moreover have "snd (ingestPaymentWebhook demo_host demo_call ''test'' [] placed_db) = received ''test'' placed_db" by code_simp
  ultimately show ?thesis by (rule prod_eqI [of _ "(_, _)", simplified])
qed

lemma demo_ingested_paid:
  "ingestPaymentWebhook demo_host demo_call ''paid'' [] placed_db = (Inr (demo_event ''paid'', False), received ''paid'' placed_db)"
proof -
  have "fst (ingestPaymentWebhook demo_host demo_call ''paid'' [] placed_db) = Inr (demo_event ''paid'', False)" by code_simp
  moreover have "snd (ingestPaymentWebhook demo_host demo_call ''paid'' [] placed_db) = received ''paid'' placed_db" by code_simp
  ultimately show ?thesis by (rule prod_eqI [of _ "(_, _)", simplified])
qed

lemma demo_duplicate:
  "fst (ingestPaymentWebhook demo_host demo_call ''refund'' [] (received ''refund'' paid_db)) = Inr (demo_event ''refund'', True)"
  by code_simp

lemma delivered:
  assumes "ingestPaymentWebhook h cx raw hdrs s = (Inr (event, False), u)" and "fst (processVerifiedEvent h cx event u) = Inr answer"
  shows "snd (processPaymentWebhook h cx raw hdrs s) = snd (processVerifiedEvent h cx event u)"
  using assms by (cases "processVerifiedEvent h cx event u") (simp add: processPaymentWebhook_def eff_simps)

lemma demo_resolved:
  "resolve_event (demo_event ''refund'') (received ''refund'' paid_db) =
     Inr \<lparr>rs_order = bought_order ORDER_PAID, rs_hostAttempt = None, rs_packageAttempt = None, rs_knownPayment = Some demo_payment\<rparr>"
  by code_simp

lemma demo_books: "books placed_db" "books (received ''paid'' placed_db)" "orders_ok (cd_orders (received ''refund'' paid_db))"
    "webhooks_ok (cd_webhooks (received ''test'' placed_db))" "webhooks_ok (cd_webhooks (received ''refund'' paid_db))"
  by code_simp+

lemma listed_notifications_addressed_witness:
  "\<exists>item. listNotificationsForUser demo_policy ''ann'' ''CUSTOMER'' None False inbox_db = Inr [item] \<and> wn_id item = ''n1'' \<and>
     addressed (principalContext ''ann'' ''CUSTOMER'' inbox_db) (ToAccount ''acct'')"
proof -
  let ?item = "notification_item (account_name inbox_db) demo_message RECEIPT_UNREAD"
  have run: "listNotificationsForUser demo_policy ''ann'' ''CUSTOMER'' None False inbox_db = Inr [?item]" by code_simp
  from listed_notifications_addressed [OF run] obtain row snapshot where "row \<in> set (cd_notifications inbox_db)" "rowSnapshot row = Inr snapshot"
    "wn_id ?item = nm_id row" "addressed (principalContext ''ann'' ''CUSTOMER'' inbox_db) (sn_audience snapshot)"
    by auto
  moreover have "wn_id ?item = ''n1''" by code_simp
  moreover have "rowSnapshot demo_message = Inr snapshot \<Longrightarrow> sn_audience snapshot = ToAccount ''acct''" for snapshot
    by (auto simp: rowSnapshot_def rowAudience_def demo_message_def new_notification_def required_def truthy_def)
  ultimately show ?thesis using run by (auto simp: inbox_db_def)
qed

lemma payment_refines_order_life_witness:
  "\<exists>t. payment_history demo_host placed_db t \<and> books t \<and> list_all2 order_moves (cd_orders placed_db) (cd_orders t) \<and>
     map or_status (cd_orders t) = [ORDER_PAID]"
proof -
  let ?t = "after_payment demo_host demo_call (Deliver ''paid'' []) placed_db"
  have history: "payment_history demo_host placed_db ?t" by (rule payment_history.step [OF payment_history.start])
  have "map or_status (cd_orders (snd (processVerifiedEvent demo_host demo_call (demo_event ''paid'') (received ''paid'' placed_db)))) = [ORDER_PAID]"
    by code_simp
  then have "map or_status (cd_orders ?t) = [ORDER_PAID]" by (simp only: after_payment.simps delivered [OF demo_ingested_paid demo_paid])
  with payment_refines_order_life [OF demo_payment_host(1) history demo_books(1)] history show ?thesis by (intro exI [of _ ?t]) simp
qed

lemma refund_takes_back_witness:
  "\<exists>t. processVerifiedEvent demo_host demo_call (demo_event ''refund'') (received ''refund'' paid_db) = (Inr Processed, t) \<and>
     taken_back (bought_order ORDER_PAID) (received ''refund'' paid_db) t \<and> map or_status (cd_orders t) = [ORDER_REFUNDED] \<and>
     map cc_status (cd_claims t) = [CODE_REVOKED, CODE_REVOKED]"
proof -
  have event: "confirmed_refund (demo_event ''refund'')" "or_status (bought_order ORDER_PAID) = ORDER_PAID" by code_simp+
  have "map or_status (cd_orders t) = [ORDER_REFUNDED] \<and> map cc_status (cd_claims t) = [CODE_REVOKED, CODE_REVOKED]"
    if "t = snd (processVerifiedEvent demo_host demo_call (demo_event ''refund'') (received ''refund'' paid_db))" for t
    unfolding that by code_simp
  with refund_takes_back [OF demo_payment_host(1,2) demo_revokes_only demo_books(3) event(1) demo_resolved _ with_state [OF demo_refund]] event(2)
  show ?thesis using with_state [OF demo_refund] by (metis ResolvedEvent.select_convs(1))
qed

lemma failed_event_changes_nothing_witness:
  "\<exists>code t. processPaymentWebhook demo_host demo_call ''test'' [] placed_db = (Inl code, t) \<and> but_event ''demo'' ''test'' t = but_event ''demo'' ''test'' placed_db \<and>
     marked_failed ''demo'' ''test'' code t"
proof -
  have event: "ve_provider (demo_event ''test'') = hs_providerName demo_host" "ve_provider (demo_event ''test'') = ''demo''" "ve_eventId (demo_event ''test'') = ''test''"
    by code_simp+
  from failed_event_changes_nothing [OF demo_payment_host(1) demo_ingested_test event(1) with_state [OF demo_refused] demo_books(4)] event(2,3)
  show ?thesis by simp
qed

lemma recorded_event_is_duplicate_witness:
  "processPaymentWebhook demo_host demo_call ''refund'' [] (received ''refund'' paid_db) = (Inr Duplicate, received ''refund'' paid_db) \<and>
     retryStoredWebhook demo_host demo_call ''wh-refund'' (received ''refund'' paid_db) = (Inl RECONCILIATION_REQUIRED, received ''refund'' paid_db)"
proof -
  let ?w = "new_webhook (claim_of (demo_stored ''refund'')) 1000"
  have recorded: "find_webhook (ve_provider (demo_event ''refund'')) (ve_eventId (demo_event ''refund'')) (received ''refund'' paid_db) = Some ?w"
      "wh_status ?w \<noteq> WH_FAILED" "find_event (ve_provider (demo_event ''refund'')) (ve_eventId (demo_event ''refund'')) (received ''refund'' paid_db) \<noteq> None"
      "wh_id ?w = ''wh-refund''"
    by code_simp+
  from recorded_event_is_duplicate [OF demo_payment_host(1) with_state [OF demo_duplicate] recorded(1-3) demo_books(5)] recorded(4)
  show ?thesis by simp
qed

lemma resolved_order_fits_witness:
  "bought_order ORDER_PAID \<in> set (cd_orders (received ''refund'' paid_db)) \<and>
     ve_amountMinor (demo_event ''refund'') = Some (or_totalMinor (bought_order ORDER_PAID))"
  using resolved_order_fits [OF demo_resolved] by simp

lemma paid_event_settles_witness:
  "\<exists>t. processVerifiedEvent demo_host demo_call (demo_event ''paid'') (received ''paid'' placed_db) = (Inr Processed, t) \<and>
     (\<exists>i. webhook_names (demo_event ''paid'') i t \<and> paid_in i t) \<and> payment_recorded (demo_event ''paid'') t"
proof -
  have "ve_type (demo_event ''paid'') = PAYMENT_PAID_EVENT" by code_simp
  from paid_event_settles [OF demo_payment_host(1,3,4) demo_books(2) this with_state [OF demo_paid]] with_state [OF demo_paid]
  show ?thesis by blast
qed

end
