(* ===== verification/Providers.thy ===== *)
theory Providers
  imports Agent_Material
begin

text \<open>
  The configuration of external providers: \<open>platform/providers/contracts.ts\<close>, \<open>policy.ts\<close>, \<open>crypto.ts\<close>
  and \<open>providers.ts\<close>. Credentials are kept encrypted per provider and mode, are replaced, validated, enabled and revoked by
  administrators, and are resolved from the database or the environment. The store, the remote validation and the sink of events
  are ports; SHA-256 and AES-256-GCM are parameters. A string with a bullet (U+2022) has the character 0x95 there.
\<close>

section \<open>Contracts\<close>

datatype ProviderName = PAYMONGO | RESEND
datatype ProviderContext = TEST | LIVE
datatype CredentialKind = SECRET_KEY | WEBHOOK_SECRET | API_KEY
datatype ConfigurationSource = ENVIRONMENT | DATABASE
datatype ValidationStatus = NOT_VALIDATED | VALID | INVALID

record StoredCredential =
  cr_credentialType :: CredentialKind
  cr_encryptedValue :: string
  cr_encryptionKeyVersion :: int
  cr_maskedHint :: string

record StoredConfiguration =
  pc_id :: ident
  pc_provider :: ProviderName
  pc_environment :: ProviderContext
  pc_enabled :: bool
  pc_validationStatus :: ValidationStatus
  pc_senderName :: "string option"
  pc_senderEmail :: "string option"
  pc_supportEmail :: "string option"
  pc_credentials :: "StoredCredential list"

record PayMongoConfiguration =
  py_source :: ConfigurationSource
  py_secretKey :: string
  py_webhookSecret :: string
  py_livemode :: bool

record ResendConfiguration =
  re_source :: ConfigurationSource
  re_apiKey :: string
  re_senderName :: string
  re_senderEmail :: string
  re_supportEmail :: string

record RuntimeEnvironment =
  rt_source :: ConfigurationSource
  rt_allowEnvironmentFallback :: bool
  rt_deploymentEnvironment :: string
  rt_localProductionSimulation :: bool
  rt_payMongoLivemode :: bool
  rt_payMongoSecretKey :: "string option"
  rt_payMongoWebhookSecret :: "string option"
  rt_resendApiKey :: "string option"
  rt_emailFrom :: string
  rt_supportEmail :: string

record CredentialKeyRing =
  kr_currentVersion :: int
  kr_currentKey :: "string option"
  kr_previousKeys :: "(int \<times> string) list"

record ConfigurationChange =
  ch_actorId :: ident
  ch_provider :: ProviderName
  ch_environment :: ProviderContext
  ch_senderName :: "string option"
  ch_senderEmail :: "string option"
  ch_supportEmail :: "string option"
  ch_replacements :: "StoredCredential list"
  ch_rotatedAt :: time

datatype OperationalAction = CREDENTIALS_REPLACED | PROVIDER_ENABLED | PROVIDER_DISABLED | CREDENTIALS_REVOKED
  | VALIDATION_SUCCEEDED | VALIDATION_FAILED | LIVE_PAYMENT_ENABLE_BLOCKED

record OperationalEvent =
  oe_action :: OperationalAction
  oe_actorId :: ident
  oe_provider :: ProviderName
  oe_environment :: ProviderContext
  oe_configurationId :: "ident option"
  oe_code :: "string option"
  oe_credentialTypes :: "CredentialKind list option"

record ProviderCrypto =
  pv_sha256 :: "string \<Rightarrow> string"
  pv_seal :: "string \<Rightarrow> string \<Rightarrow> string \<Rightarrow> string \<Rightarrow> string \<times> string"  \<comment> \<open>key, nonce, additional data, text: ciphertext and tag\<close>
  pv_open :: "string \<Rightarrow> string \<Rightarrow> string \<Rightarrow> string \<Rightarrow> string \<Rightarrow> string option"  \<comment> \<open>key, nonce, additional data, tag, ciphertext\<close>

text \<open>The dependencies of the platform, over a state of the store.\<close>

record 's ProviderPorts =
  pp_get :: "ProviderName \<Rightarrow> ProviderContext \<Rightarrow> ('s, StoredConfiguration option) eff"
  pp_save :: "ConfigurationChange \<Rightarrow> ('s, ident) eff"
  pp_setEnabled :: "ident \<Rightarrow> ident \<Rightarrow> bool \<Rightarrow> ('s, unit) eff"
  pp_revoke :: "ident \<Rightarrow> ident \<Rightarrow> time \<Rightarrow> ('s, unit) eff"
  pp_record :: "ident \<Rightarrow> ident \<Rightarrow> ValidationStatus \<Rightarrow> string \<Rightarrow> time \<Rightarrow> ('s, unit) eff"
  pp_validatePayMongo :: "string \<Rightarrow> ('s, unit) eff"
  pp_validateResend :: "string \<Rightarrow> ('s, unit) eff"
  pp_emit :: "OperationalEvent \<Rightarrow> ('s, unit) eff"
  pp_clock :: "('s, time) eff"
  pp_nonce :: "('s, string) eff"
  pp_runtime :: RuntimeEnvironment
  pp_keyRing :: CredentialKeyRing
  pp_crypto :: ProviderCrypto
  pp_resendSenderDomain :: string

section \<open>Policy\<close>

fun requiredProviderCredentials :: "ProviderName \<Rightarrow> CredentialKind list" where
  "requiredProviderCredentials PAYMONGO = [SECRET_KEY, WEBHOOK_SECRET]"
| "requiredProviderCredentials RESEND = [API_KEY]"

definition resolveProviderSource :: "ConfigurationSource \<Rightarrow> bool \<Rightarrow> ('s, 'a) eff \<Rightarrow> ('s, 'a) eff \<Rightarrow> ('s, 'a) eff" where
  "resolveProviderSource source allowEnvironmentFallback database environment =
     (if source = ENVIRONMENT then environment
      else try_catch database (\<lambda>e. if allowEnvironmentFallback then environment else throw e))"

definition DECRYPT_FAILED :: error where "DECRYPT_FAILED = ''PROVIDER_CREDENTIAL_DECRYPT_FAILED''"
definition CREDENTIAL_MISSING :: error where "CREDENTIAL_MISSING = ''PROVIDER_CREDENTIAL_MISSING''"
definition CREDENTIAL_INVALID :: error where "CREDENTIAL_INVALID = ''PROVIDER_CREDENTIAL_INVALID''"
definition LIVE_FORBIDDEN :: error where "LIVE_FORBIDDEN = ''PROVIDER_LIVE_MODE_FORBIDDEN''"
definition CONFIG_NOT_FOUND :: error where "CONFIG_NOT_FOUND = ''PROVIDER_CONFIG_NOT_FOUND''"

definition providerKeyMaterial :: "CredentialKeyRing \<Rightarrow> int \<Rightarrow> error + string" where
  "providerKeyMaterial keyRing version =
     (if version = kr_currentVersion keyRing \<and> truthy (kr_currentKey keyRing) then Inr (the (kr_currentKey keyRing))
      else
        (let previous = js_map_get (kr_previousKeys keyRing) version in
         if truthy previous then Inr (the previous) else Inl DECRYPT_FAILED))"

text \<open>Whether payments can be live at all.\<close>

definition live_forbidden :: "RuntimeEnvironment \<Rightarrow> bool" where
  "live_forbidden runtime \<longleftrightarrow> rt_deploymentEnvironment runtime \<noteq> ''production'' \<or> rt_localProductionSimulation runtime"

definition desiredPayMongoContext :: "RuntimeEnvironment \<Rightarrow> error + ProviderContext" where
  "desiredPayMongoContext runtime =
     (if rt_payMongoLivemode runtime then (if live_forbidden runtime then Inl LIVE_FORBIDDEN else Inr LIVE) else Inr TEST)"

definition assertLiveProviderAllowed :: "RuntimeEnvironment \<Rightarrow> ProviderName \<Rightarrow> ProviderContext \<Rightarrow> error + unit" where
  "assertLiveProviderAllowed runtime provider environment =
     (if provider = PAYMONGO \<and> environment = LIVE \<and> live_forbidden runtime then Inl LIVE_FORBIDDEN else Inr ())"

text \<open>
  The expression \<open>/^\s*(.*?)\s*<([^>]+)>\s*$/\<close>: the address is what stands between the first \<open><\<close> that no \<open>>\<close> follows
  but the last character, and that character; the name has no line end.
\<close>

definition default_sender :: string where "default_sender = ''BKE Digital Solutions''"

definition parseProviderSender :: "string \<Rightarrow> string \<times> string" where
  "parseProviderSender value =
     (let t = js_trim value; unmatched = (default_sender, value) in
      if t = [] \<or> last t \<noteq> CHR ''>'' then unmatched
      else
        (let body = butlast t; tail = rev (takeWhile (\<lambda>c. c \<noteq> CHR ''>'') (rev body));
             before = take (length body - length tail) body;
             name = js_trim (before @ takeWhile (\<lambda>c. c \<noteq> CHR ''<'') tail);
             email = drop 1 (dropWhile (\<lambda>c. c \<noteq> CHR ''<'') tail)
         in
         if email = [] \<or> CHR 0x0A \<in> set name \<or> CHR 0x0D \<in> set name then unmatched
         else (if name = [] then default_sender else name, email)))"

definition assertProviderCredentialShape :: "ProviderName \<Rightarrow> ProviderContext \<Rightarrow> (CredentialKind \<times> string) list \<Rightarrow> string option \<Rightarrow> string \<Rightarrow>
    error + unit" where
  "assertProviderCredentialShape provider environment values senderEmail resendSenderDomain =
     (if list_ex (\<lambda>kind. \<not> truthy (js_map_get values kind)) (requiredProviderCredentials provider) then Inl CREDENTIAL_MISSING
      else if provider = PAYMONGO then
        (if \<not> startsWith (the (js_map_get values SECRET_KEY)) (if environment = TEST then ''sk_test_'' else ''sk_live_'')
         then Inl ''PROVIDER_ENVIRONMENT_MISMATCH''
         else if \<not> startsWith (the (js_map_get values WEBHOOK_SECRET)) ''whsk_'' then Inl CREDENTIAL_INVALID
         else Inr ())
      else if \<not> startsWith (the (js_map_get values API_KEY)) ''re_'' then Inl CREDENTIAL_INVALID
      else
        (case senderEmail of
           None \<Rightarrow> Inl CREDENTIAL_INVALID
         | Some sender \<Rightarrow>
             if endsWith (toLowerCase sender) (''@'' @ toLowerCase resendSenderDomain) then Inr () else Inl CREDENTIAL_INVALID))"

section \<open>Encrypted credentials\<close>

definition credential_aad :: "int \<Rightarrow> string" where
  "credential_aad version = ''bke-provider-credential:v'' @ decimal version"

definition sealed_credential :: "ProviderCrypto \<Rightarrow> string \<Rightarrow> string \<Rightarrow> string \<Rightarrow> int \<Rightarrow> string" where
  "sealed_credential pv nonce plaintext material keyVersion =
     (case pv_seal pv (pv_sha256 pv material) nonce (credential_aad keyVersion) plaintext of (ciphertext, tag) \<Rightarrow>
        ''v1.'' @ base64url nonce @ ''.'' @ base64url tag @ ''.'' @ base64url ciphertext)"

definition encryptProviderCredential :: "ProviderCrypto \<Rightarrow> ('s, string) eff \<Rightarrow> string \<Rightarrow> string \<Rightarrow> int \<Rightarrow> ('s, string) eff" where
  "encryptProviderCredential pv randomNonce plaintext material keyVersion =
     (if length material < 32 \<or> keyVersion < 1 then throw ''PROVIDER_SOURCE_UNAVAILABLE''
      else bnd randomNonce (\<lambda>nonce. ret (sealed_credential pv nonce plaintext material keyVersion)))"

definition decryptProviderCredential :: "ProviderCrypto \<Rightarrow> string \<Rightarrow> string \<Rightarrow> int \<Rightarrow> error + string" where
  "decryptProviderCredential pv value material keyVersion =
     (case split_dots value of
        format # nonce # tag # ciphertext # _ \<Rightarrow>
          if format \<noteq> ''v1'' \<or> nonce = [] \<or> tag = [] \<or> ciphertext = [] then Inl DECRYPT_FAILED
          else
            (case pv_open pv (pv_sha256 pv material) (from_base64url nonce) (credential_aad keyVersion) (from_base64url tag)
                    (from_base64url ciphertext) of
               None \<Rightarrow> Inl DECRYPT_FAILED
             | Some plaintext \<Rightarrow> Inr plaintext)
      | _ \<Rightarrow> Inl DECRYPT_FAILED)"

definition bullets :: string where "bullets = replicate 4 CHR 0x95"

definition providerCredentialHint :: "string \<Rightarrow> string" where
  "providerCredentialHint value =
     (let compact = js_trim value in
      if length compact < 9 then bullets else take 4 compact @ bullets @ drop (length compact - 4) compact)"

section \<open>The platform\<close>

definition operational_event :: "OperationalAction \<Rightarrow> ident \<Rightarrow> ProviderName \<Rightarrow> ProviderContext \<Rightarrow> ident option \<Rightarrow> string option \<Rightarrow>
    CredentialKind list option \<Rightarrow> OperationalEvent" where
  "operational_event action actorId provider environment configurationId code credentialTypes =
     \<lparr>oe_action = action, oe_actorId = actorId, oe_provider = provider, oe_environment = environment,
      oe_configurationId = configurationId, oe_code = code, oe_credentialTypes = credentialTypes\<rparr>"

definition blockForbiddenLive :: "'s ProviderPorts \<Rightarrow> ident \<Rightarrow> ProviderName \<Rightarrow> ProviderContext \<Rightarrow> ('s, unit) eff" where
  "blockForbiddenLive d actorId provider environment =
     (case assertLiveProviderAllowed (pp_runtime d) provider environment of
        Inr _ \<Rightarrow> ret ()
      | Inl e \<Rightarrow> bnd (pp_emit d (operational_event LIVE_PAYMENT_ENABLE_BLOCKED actorId provider environment None None None)) (\<lambda>_. throw e))"

text \<open>The loop over the credentials, to the first that cannot be decrypted.\<close>

fun decrypt_all :: "ProviderCrypto \<Rightarrow> CredentialKeyRing \<Rightarrow> StoredCredential list \<Rightarrow> error + (CredentialKind \<times> string) list" where
  "decrypt_all pv keyRing [] = Inr []"
| "decrypt_all pv keyRing (c # cs) =
     (case providerKeyMaterial keyRing (cr_encryptionKeyVersion c) of
        Inl e \<Rightarrow> Inl e
      | Inr material \<Rightarrow>
          (case decryptProviderCredential pv (cr_encryptedValue c) material (cr_encryptionKeyVersion c) of
             Inl e \<Rightarrow> Inl e
           | Inr plaintext \<Rightarrow> map_sum id (Cons (cr_credentialType c, plaintext)) (decrypt_all pv keyRing cs)))"

definition decryptConfiguration :: "ProviderCrypto \<Rightarrow> CredentialKeyRing \<Rightarrow> StoredConfiguration \<Rightarrow> error + (CredentialKind \<times> string) list" where
  "decryptConfiguration pv keyRing configuration =
     (case decrypt_all pv keyRing (pc_credentials configuration) of
        Inl e \<Rightarrow> Inl e
      | Inr entries \<Rightarrow>
          (let values = fromEntries entries in
           if list_ex (\<lambda>kind. js_map_get values kind = None) (requiredProviderCredentials (pc_provider configuration))
           then Inl CREDENTIAL_MISSING else Inr values))"

definition databaseConfiguration :: "'s ProviderPorts \<Rightarrow> ProviderName \<Rightarrow> ProviderContext \<Rightarrow>
    ('s, StoredConfiguration \<times> (CredentialKind \<times> string) list) eff" where
  "databaseConfiguration d provider environment =
     bnd (pp_get d provider environment) (\<lambda>found.
     case found of
       None \<Rightarrow> throw CONFIG_NOT_FOUND
     | Some configuration \<Rightarrow>
         if \<not> pc_enabled configuration then throw ''PROVIDER_CONFIG_DISABLED''
         else
         bnd (from_result (decryptConfiguration (pp_crypto d) (pp_keyRing d) configuration)) (\<lambda>values.
         ret (configuration, values)))"

definition environmentPayMongo :: "RuntimeEnvironment \<Rightarrow> string \<Rightarrow> error + PayMongoConfiguration" where
  "environmentPayMongo runtime resendSenderDomain =
     (if \<not> truthy (rt_payMongoSecretKey runtime) \<or> \<not> truthy (rt_payMongoWebhookSecret runtime) then Inl CREDENTIAL_MISSING
      else
        (case desiredPayMongoContext runtime of
           Inl e \<Rightarrow> Inl e
         | Inr context \<Rightarrow>
             (let secretKey = the (rt_payMongoSecretKey runtime); webhookSecret = the (rt_payMongoWebhookSecret runtime) in
              map_sum id (\<lambda>_. \<lparr>py_source = ENVIRONMENT, py_secretKey = secretKey, py_webhookSecret = webhookSecret, py_livemode = (context = LIVE)\<rparr>)
                (assertProviderCredentialShape PAYMONGO context [(SECRET_KEY, secretKey), (WEBHOOK_SECRET, webhookSecret)] None
                   resendSenderDomain))))"

definition environmentResend :: "RuntimeEnvironment \<Rightarrow> error + ResendConfiguration" where
  "environmentResend runtime =
     (if \<not> truthy (rt_resendApiKey runtime) then Inl CREDENTIAL_MISSING
      else
        (case parseProviderSender (rt_emailFrom runtime) of (name, email) \<Rightarrow>
           Inr \<lparr>re_source = ENVIRONMENT, re_apiKey = the (rt_resendApiKey runtime), re_senderName = name, re_senderEmail = email,
                re_supportEmail = rt_supportEmail runtime\<rparr>))"

definition databasePayMongo :: "'s ProviderPorts \<Rightarrow> ProviderContext \<Rightarrow> ('s, PayMongoConfiguration) eff" where
  "databasePayMongo d context =
     bnd (databaseConfiguration d PAYMONGO context) (\<lambda>(_, values).
     bnd (from_result (assertProviderCredentialShape PAYMONGO context values None (pp_resendSenderDomain d))) (\<lambda>_.
     ret \<lparr>py_source = DATABASE, py_secretKey = the (js_map_get values SECRET_KEY),
          py_webhookSecret = the (js_map_get values WEBHOOK_SECRET), py_livemode = (context = LIVE)\<rparr>))"

definition resolvePayMongo :: "'s ProviderPorts \<Rightarrow> ('s, PayMongoConfiguration) eff" where
  "resolvePayMongo d =
     bnd (from_result (desiredPayMongoContext (pp_runtime d))) (\<lambda>context.
     resolveProviderSource (rt_source (pp_runtime d)) (rt_allowEnvironmentFallback (pp_runtime d))
       (databasePayMongo d context)
       (from_result (environmentPayMongo (pp_runtime d) (pp_resendSenderDomain d))))"

definition databaseResend :: "'s ProviderPorts \<Rightarrow> ('s, ResendConfiguration) eff" where
  "databaseResend d =
     bnd (databaseConfiguration d RESEND LIVE) (\<lambda>(configuration, values).
     if \<not> truthy (pc_senderEmail configuration) \<or> \<not> truthy (pc_senderName configuration) \<or> \<not> truthy (pc_supportEmail configuration)
     then throw CONFIG_NOT_FOUND
     else ret \<lparr>re_source = DATABASE, re_apiKey = the (js_map_get values API_KEY), re_senderName = the (pc_senderName configuration),
               re_senderEmail = the (pc_senderEmail configuration), re_supportEmail = the (pc_supportEmail configuration)\<rparr>)"

definition resolveResend :: "'s ProviderPorts \<Rightarrow> ('s, ResendConfiguration) eff" where
  "resolveResend d =
     resolveProviderSource (rt_source (pp_runtime d)) (rt_allowEnvironmentFallback (pp_runtime d)) (databaseResend d)
       (from_result (environmentResend (pp_runtime d)))"

record SaveRequest =
  sq_actorId :: ident
  sq_provider :: ProviderName
  sq_environment :: ProviderContext
  sq_secrets :: "(CredentialKind \<times> string) list"
  sq_senderName :: "string option"
  sq_senderEmail :: "string option"
  sq_supportEmail :: "string option"

definition replacement_of :: "'s ProviderPorts \<Rightarrow> CredentialKind \<times> string \<Rightarrow> ('s, StoredCredential) eff" where
  "replacement_of d = (\<lambda>(credentialType, raw).
     bnd (encryptProviderCredential (pp_crypto d) (pp_nonce d) raw (the (kr_currentKey (pp_keyRing d))) (kr_currentVersion (pp_keyRing d)))
       (\<lambda>encrypted.
     ret \<lparr>cr_credentialType = credentialType, cr_encryptedValue = encrypted,
          cr_encryptionKeyVersion = kr_currentVersion (pp_keyRing d), cr_maskedHint = providerCredentialHint raw\<rparr>))"

definition saveConfiguration :: "'s ProviderPorts \<Rightarrow> SaveRequest \<Rightarrow> ('s, ident) eff" where
  "saveConfiguration d input =
     bnd (blockForbiddenLive d (sq_actorId input) (sq_provider input) (sq_environment input)) (\<lambda>_.
     if list_ex (\<lambda>(kind, _). kind \<notin> set (requiredProviderCredentials (sq_provider input))) (sq_secrets input) then throw CREDENTIAL_INVALID
     else if \<not> truthy (kr_currentKey (pp_keyRing d)) then throw ''PROVIDER_SOURCE_UNAVAILABLE''
     else
     bnd (collect (replacement_of d) (filter (\<lambda>(_, raw). raw \<noteq> []) (sq_secrets input))) (\<lambda>replacements.
     bnd (pp_clock d) (\<lambda>rotatedAt.
     bnd (pp_save d \<lparr>ch_actorId = sq_actorId input, ch_provider = sq_provider input, ch_environment = sq_environment input,
                    ch_senderName = sq_senderName input, ch_senderEmail = sq_senderEmail input, ch_supportEmail = sq_supportEmail input,
                    ch_replacements = replacements, ch_rotatedAt = rotatedAt\<rparr>) (\<lambda>configurationId.
     bnd (pp_emit d (operational_event CREDENTIALS_REPLACED (sq_actorId input) (sq_provider input) (sq_environment input)
            (Some configurationId) None (Some (map cr_credentialType replacements)))) (\<lambda>_.
     ret configurationId)))))"

text \<open>What enabling needs: a valid status, and all required credentials.\<close>

definition enableable :: "ProviderName \<Rightarrow> StoredConfiguration \<Rightarrow> bool" where
  "enableable provider configuration \<longleftrightarrow> pc_validationStatus configuration = VALID \<and>
     set (requiredProviderCredentials provider) \<subseteq> cr_credentialType ` set (pc_credentials configuration)"

definition setState :: "'s ProviderPorts \<Rightarrow> ident \<Rightarrow> ProviderName \<Rightarrow> ProviderContext \<Rightarrow> bool \<Rightarrow> ('s, unit) eff" where
  "setState d actorId provider environment enabled =
     bnd (if enabled then blockForbiddenLive d actorId provider environment else ret ()) (\<lambda>_.
     bnd (pp_get d provider environment) (\<lambda>found.
     case found of
       None \<Rightarrow> throw CONFIG_NOT_FOUND
     | Some configuration \<Rightarrow>
         if enabled \<and> \<not> enableable provider configuration then throw CREDENTIAL_INVALID
         else
         bnd (pp_setEnabled d (pc_id configuration) actorId enabled) (\<lambda>_.
         pp_emit d (operational_event (if enabled then PROVIDER_ENABLED else PROVIDER_DISABLED) actorId provider environment
           (Some (pc_id configuration)) None None))))"

definition revokeCredentials :: "'s ProviderPorts \<Rightarrow> ident \<Rightarrow> ProviderName \<Rightarrow> ProviderContext \<Rightarrow> ('s, unit) eff" where
  "revokeCredentials d actorId provider environment =
     bnd (pp_get d provider environment) (\<lambda>found.
     case found of
       None \<Rightarrow> throw CONFIG_NOT_FOUND
     | Some configuration \<Rightarrow>
         bnd (pp_clock d) (\<lambda>revokedAt.
         bnd (pp_revoke d (pc_id configuration) actorId revokedAt) (\<lambda>_.
         pp_emit d (operational_event CREDENTIALS_REVOKED actorId provider environment (Some (pc_id configuration)) None None))))"

text \<open>The steps of a validation up to its record, and the record of its result.\<close>

definition check_remotely :: "'s ProviderPorts \<Rightarrow> ProviderName \<Rightarrow> ProviderContext \<Rightarrow> StoredConfiguration \<Rightarrow> ('s, unit) eff" where
  "check_remotely d provider environment configuration =
     bnd (from_result (assertLiveProviderAllowed (pp_runtime d) provider environment)) (\<lambda>_.
     bnd (from_result (decryptConfiguration (pp_crypto d) (pp_keyRing d) configuration)) (\<lambda>values.
     bnd (from_result (assertProviderCredentialShape provider environment values (pc_senderEmail configuration) (pp_resendSenderDomain d))) (\<lambda>_.
     case provider of
       PAYMONGO \<Rightarrow> pp_validatePayMongo d (the (js_map_get values SECRET_KEY))
     | RESEND \<Rightarrow> pp_validateResend d (the (js_map_get values API_KEY)))))"

definition record_result :: "'s ProviderPorts \<Rightarrow> ident \<Rightarrow> ProviderName \<Rightarrow> ProviderContext \<Rightarrow> ident \<Rightarrow> bool \<Rightarrow> string \<Rightarrow> ('s, bool \<times> string) eff" where
  "record_result d actorId provider environment configurationId ok code =
     bnd (pp_clock d) (\<lambda>validatedAt.
     bnd (pp_record d configurationId actorId (if ok then VALID else INVALID) code validatedAt) (\<lambda>_.
     bnd (pp_emit d (operational_event (if ok then VALIDATION_SUCCEEDED else VALIDATION_FAILED) actorId provider environment
            (Some configurationId) (Some code) None)) (\<lambda>_.
     ret (ok, code))))"

definition validateConfiguration :: "'s ProviderPorts \<Rightarrow> ident \<Rightarrow> ProviderName \<Rightarrow> ProviderContext \<Rightarrow> ('s, bool \<times> string) eff" where
  "validateConfiguration d actorId provider environment =
     bnd (pp_get d provider environment) (\<lambda>found.
     case found of
       None \<Rightarrow> throw CONFIG_NOT_FOUND
     | Some configuration \<Rightarrow>
         try_catch
           (bnd (check_remotely d provider environment configuration) (\<lambda>_.
            record_result d actorId provider environment (pc_id configuration) True ''VALID''))
           (\<lambda>e. record_result d actorId provider environment (pc_id configuration) False
             (if startsWith e ''PROVIDER_'' then e else ''PROVIDER_VALIDATION_FAILED'')))"

end
