(* ===== verification/Provider_Laws.thy ===== *)
theory Provider_Laws
  imports Providers
begin

text \<open>
  What the provider platform guarantees over any store that keeps its contract: payments resolve to credentials of
  their mode, live payments stay off outside production, enabling needs a validation, and replaced credentials are
  the ones that resolve. The contract of the store is the locale \<open>provider_store\<close>.
\<close>

section \<open>Resolution\<close>

definition fits_mode :: "RuntimeEnvironment \<Rightarrow> PayMongoConfiguration \<Rightarrow> bool" where
  "fits_mode runtime r \<longleftrightarrow> py_livemode r = rt_payMongoLivemode runtime \<and> (py_livemode r \<longrightarrow> \<not> live_forbidden runtime) \<and>
     startsWith (py_secretKey r) (if py_livemode r then ''sk_live_'' else ''sk_test_'') \<and> startsWith (py_webhookSecret r) ''whsk_''"

lemma desired_context: "desiredPayMongoContext runtime = Inr ctx \<Longrightarrow>
    (ctx = LIVE) = rt_payMongoLivemode runtime \<and> (ctx = LIVE \<longrightarrow> \<not> live_forbidden runtime)"
  by (cases ctx) (auto simp: desiredPayMongoContext_def split: if_splits)

lemma paymongo_shape:
  assumes "assertProviderCredentialShape PAYMONGO ctx values sender domain = Inr u"
  shows "startsWith (the (js_map_get values SECRET_KEY)) (if ctx = LIVE then ''sk_live_'' else ''sk_test_'')"
    and "startsWith (the (js_map_get values WEBHOOK_SECRET)) ''whsk_''"
  using assms by (cases ctx; auto simp: assertProviderCredentialShape_def split: if_splits)+

lemma environment_fits:
  assumes "environmentPayMongo runtime domain = Inr r"
  shows "fits_mode runtime r"
proof -
  let ?vals = "[(SECRET_KEY, the (rt_payMongoSecretKey runtime)), (WEBHOOK_SECRET, the (rt_payMongoWebhookSecret runtime))]"
  obtain ctx where ctx: "desiredPayMongoContext runtime = Inr ctx"
      and checked: "map_sum id (\<lambda>_. \<lparr>py_source = ENVIRONMENT, py_secretKey = the (rt_payMongoSecretKey runtime),
        py_webhookSecret = the (rt_payMongoWebhookSecret runtime), py_livemode = (ctx = LIVE)\<rparr>)
        (assertProviderCredentialShape PAYMONGO ctx ?vals None domain) = Inr r"
    using assms by (auto simp: environmentPayMongo_def Let_def split: if_splits sum.splits)
  obtain u where shape: "assertProviderCredentialShape PAYMONGO ctx ?vals None domain = Inr u"
    using checked by (cases "assertProviderCredentialShape PAYMONGO ctx ?vals None domain") auto
  show ?thesis
    using checked desired_context [OF ctx] paymongo_shape [OF shape] unfolding shape by (auto simp: fits_mode_def js_map_get_def)
qed

lemma database_fits:
  assumes "desiredPayMongoContext (pp_runtime d) = Inr ctx" and "databasePayMongo d ctx s = (Inr r, t)"
  shows "fits_mode (pp_runtime d) r"
  using assms(2) desired_context [OF assms(1)] paymongo_shape
  by (cases ctx) (auto simp: databasePayMongo_def effect_Inr fits_mode_def split: prod.splits dest: paymongo_shape)

lemma resolve_source_Inr:
  "resolveProviderSource source fallback database environment s = (Inr a, t) \<Longrightarrow>
     (\<exists>u. database u = (Inr a, t)) \<or> (\<exists>u. environment u = (Inr a, t))"
  by (auto simp: resolveProviderSource_def try_catch_def throw_def split: if_splits prod.splits sum.splits)

section \<open>The contract of the store\<close>

definition credential_of :: "StoredConfiguration \<Rightarrow> CredentialKind \<Rightarrow> StoredCredential option" where
  "credential_of c kind = find_by cr_credentialType kind (pc_credentials c)"

type_synonym configurations = "ProviderName \<Rightarrow> ProviderContext \<Rightarrow> StoredConfiguration option"

definition change_configuration :: "ident \<Rightarrow> (StoredConfiguration \<Rightarrow> StoredConfiguration) \<Rightarrow> configurations \<Rightarrow> configurations" where
  "change_configuration i f m = (\<lambda>p e. map_option (\<lambda>c. if pc_id c = i then f c else c) (m p e))"

text \<open>A change resets the validation, leaves the switch as it was (off for a new configuration) and replaces the credentials it names.\<close>

definition after_save :: "ConfigurationChange \<Rightarrow> ident \<Rightarrow> configurations \<Rightarrow> configurations \<Rightarrow> bool" where
  "after_save ch i old new \<longleftrightarrow>
     (\<forall>p e. p \<noteq> ch_provider ch \<or> e \<noteq> ch_environment ch \<longrightarrow> new p e = old p e) \<and>
     (\<exists>c. new (ch_provider ch) (ch_environment ch) = Some c \<and> pc_id c = i \<and> pc_validationStatus c = NOT_VALIDATED \<and>
        pc_enabled c = (case old (ch_provider ch) (ch_environment ch) of None \<Rightarrow> False | Some o' \<Rightarrow> pc_enabled o') \<and>
        (\<forall>r\<in>set (ch_replacements ch). distinct (map cr_credentialType (ch_replacements ch)) \<longrightarrow>
           map_option cr_encryptedValue (credential_of c (cr_credentialType r)) = Some (cr_encryptedValue r) \<and>
           map_option cr_encryptionKeyVersion (credential_of c (cr_credentialType r)) = Some (cr_encryptionKeyVersion r)))"

locale provider_store =
  fixes d :: "'s ProviderPorts" and config :: "'s \<Rightarrow> configurations" and ok :: "'s \<Rightarrow> bool"
  assumes get: "ok s \<Longrightarrow> pp_get d p e s = (Inr (config s p e), s)"
    and shape_of_stored: "ok s \<Longrightarrow> config s p e = Some c \<Longrightarrow> pc_provider c = p \<and> pc_environment c = e \<and>
      distinct (map cr_credentialType (pc_credentials c)) \<and> cr_credentialType ` set (pc_credentials c) \<subseteq> set (requiredProviderCredentials p)"
    and ids: "ok s \<Longrightarrow> config s p e = Some c \<Longrightarrow> config s p' e' = Some c' \<Longrightarrow> pc_id c = pc_id c' \<Longrightarrow> p = p' \<and> e = e'"
    and saved: "ok s \<Longrightarrow> cr_credentialType ` set (ch_replacements ch) \<subseteq> set (requiredProviderCredentials (ch_provider ch)) \<Longrightarrow>
      pp_save d ch s = (Inr i, t) \<Longrightarrow> ok t \<and> after_save ch i (config s) (config t)"
    and refused: "ok s \<Longrightarrow> pp_save d ch s = (Inl x, t) \<Longrightarrow> ok t \<and> config t = config s"
    and switched: "ok s \<Longrightarrow> pp_setEnabled d i a b s = (Inr u, t) \<Longrightarrow>
      ok t \<and> config t = change_configuration i (pc_enabled_update (\<lambda>_. b)) (config s)"
    and revoked: "ok s \<Longrightarrow> pp_revoke d i a now s = (Inr u, t) \<Longrightarrow> ok t \<and> config t = change_configuration i
      (\<lambda>c. c\<lparr>pc_enabled := False, pc_validationStatus := NOT_VALIDATED, pc_credentials := []\<rparr>) (config s)"
    and recorded: "ok s \<Longrightarrow> pp_record d i a status code now s = (Inr u, t) \<Longrightarrow>
      ok t \<and> config t = change_configuration i (pc_validationStatus_update (\<lambda>_. status)) (config s)"
    and unchanged: "ok s \<Longrightarrow> pp_setEnabled d i a b s = (Inl x, t) \<Longrightarrow> ok t \<and> config t = config s"
      "ok s \<Longrightarrow> pp_revoke d i a now s = (Inl x, t) \<Longrightarrow> ok t \<and> config t = config s"
      "ok s \<Longrightarrow> pp_record d i a status code now s = (Inl x, t) \<Longrightarrow> ok t \<and> config t = config s"
    and emitted: "ok s \<Longrightarrow> pp_emit d ev s = (r1, t) \<Longrightarrow> ok t \<and> config t = config s"
    and timed: "ok s \<Longrightarrow> pp_clock d s = (r2, t) \<Longrightarrow> ok t \<and> config t = config s"
    and drawn: "ok s \<Longrightarrow> pp_nonce d s = (r3, t) \<Longrightarrow> ok t \<and> config t = config s"
    and asked: "ok s \<Longrightarrow> pp_validatePayMongo d key s = (r4, t) \<Longrightarrow> ok t \<and> config t = config s"
      "ok s \<Longrightarrow> pp_validateResend d key s = (r5, t) \<Longrightarrow> ok t \<and> config t = config s"
begin

text \<open>An invariant of the configurations, kept by whatever does not write them.\<close>

definition safe :: "(configurations \<Rightarrow> bool) \<Rightarrow> 's \<Rightarrow> bool" where
  "safe P s \<longleftrightarrow> ok s \<and> P (config s)"

lemma quiet:
  "keeps (safe P) (pp_emit d ev)" "keeps (safe P) (pp_clock d)" "keeps (safe P) (pp_nonce d)" "keeps (safe P) (pp_get d p e)"
  "keeps (safe P) (pp_validatePayMongo d key)" "keeps (safe P) (pp_validateResend d key)"
  unfolding keeps_def safe_def
  using emitted timed drawn get asked by (metis prod.collapse snd_conv)+

lemma keeps_block: "keeps (safe P) (blockForbiddenLive d a p e)"
  unfolding blockForbiddenLive_def by (intro keeps_intro quiet)

lemma keeps_replacement: "keeps (safe P) (replacement_of d x)"
  unfolding replacement_of_def encryptProviderCredential_def by (intro keeps_intro quiet)

lemma keeps_check: "keeps (safe P) (check_remotely d p e c)"
  unfolding check_remotely_def by (cases p; simp only: ProviderName.case; intro keeps_intro quiet)

lemma keeps_change:
  assumes "\<And>m. P m \<Longrightarrow> P (change_configuration i (pc_validationStatus_update (\<lambda>_. if b then VALID else INVALID)) m)"
  shows "keeps (safe P) (record_result d a p e i b code)"
proof -
  have "keeps (safe P) (pp_record d i a (if b then VALID else INVALID) code now)" for now
    by (rule keepsI, unfold safe_def) (metis assms recorded unchanged(3) eff_cases snd_conv)
  then show ?thesis unfolding record_result_def by (intro keeps_intro quiet)
qed

section \<open>Live payments outside production\<close>

definition live_off :: "configurations \<Rightarrow> bool" where
  "live_off m \<longleftrightarrow> (live_forbidden (pp_runtime d) \<longrightarrow> (\<forall>c. m PAYMONGO LIVE = Some c \<longrightarrow> \<not> pc_enabled c))"

lemma live_off_change: "live_off m \<Longrightarrow> (\<And>c. pc_enabled (f c) \<Longrightarrow> pc_enabled c) \<Longrightarrow> live_off (change_configuration i f m)"
  by (auto simp: live_off_def change_configuration_def split: if_splits)

lemma save_keeps_live_off: "keeps (safe live_off) (saveConfiguration d input)"
proof -
  have save: "keeps (safe live_off) (pp_save d ch)"
    if kinds: "cr_credentialType ` set (ch_replacements ch) \<subseteq> set (requiredProviderCredentials (ch_provider ch))" for ch
  proof (rule keepsI)
    fix s assume s: "safe live_off s"
    show "safe live_off (snd (pp_save d ch s))"
    proof (cases rule: eff_cases [of "pp_save d ch" s])
      case (1 x t)
      then show ?thesis using refused s by (auto simp: safe_def)
    next
      case (2 i t)
      then have t: "ok t" "after_save ch i (config s) (config t)" using saved [OF _ kinds] s by (auto simp: safe_def)
      have "live_off (config t)"
        using t(2) s unfolding live_off_def safe_def after_save_def
        by (cases "ch_provider ch = PAYMONGO \<and> ch_environment ch = LIVE") (auto split: option.splits)
      with t(1) 2 show ?thesis by (simp add: safe_def)
    qed
  qed
  have collect_kinds: "triple (safe live_off) (collect (replacement_of d) es)
      (\<lambda>rs s. safe live_off s \<and> map cr_credentialType rs = map fst es) (safe live_off)" for es
  proof (induction es)
    case (Cons x es)
    have one: "triple (safe live_off) (replacement_of d x) (\<lambda>r s. cr_credentialType r = fst x \<and> safe live_off s) (safe live_off)"
    proof (rule tripleI)
      fix s r t assume s: "safe live_off s"
      show "safe live_off t" if "replacement_of d x s = (Inl r, t)" by (rule keepsD [OF keeps_replacement s that])
    next
      fix s r t assume s: "safe live_off s" and run: "replacement_of d x s = (Inr r, t)"
      then show "cr_credentialType r = fst x \<and> safe live_off t"
        using keepsD [OF keeps_replacement s run] by (auto simp: replacement_of_def effect_Inr split: prod.splits)
    qed
    show ?case unfolding collect.simps
      by (rule triple_bnd [OF one], rule triple_pure, rule triple_bnd [OF Cons.IH], rule triple_ret) simp
  qed (simp add: triple_ret)
  show ?thesis unfolding saveConfiguration_def
  proof (rule keeps_bnd [OF keeps_block], rule keeps_if [OF keeps_throw], rule keeps_if [OF keeps_throw])
    assume bad: "\<not> list_ex (\<lambda>(kind, _). kind \<notin> set (requiredProviderCredentials (sq_provider input))) (sq_secrets input)"
    let ?es = "filter (\<lambda>(_, raw). raw \<noteq> []) (sq_secrets input)"
    have es: "set (map fst ?es) \<subseteq> set (requiredProviderCredentials (sq_provider input))"
      using bad by (auto simp: list_ex_iff)
    have made: "triple (safe live_off) (collect (replacement_of d) ?es)
        (\<lambda>rs s. cr_credentialType ` set rs \<subseteq> set (requiredProviderCredentials (sq_provider input)) \<and> safe live_off s) (safe live_off)"
      by (rule triple_post [OF collect_kinds]) (use es in \<open>auto simp flip: set_map\<close>)
    show "keeps (safe live_off) (bnd (collect (replacement_of d) ?es) (\<lambda>replacements.
       bnd (pp_clock d) (\<lambda>rotatedAt.
       bnd (pp_save d \<lparr>ch_actorId = sq_actorId input, ch_provider = sq_provider input, ch_environment = sq_environment input,
                      ch_senderName = sq_senderName input, ch_senderEmail = sq_senderEmail input, ch_supportEmail = sq_supportEmail input,
                      ch_replacements = replacements, ch_rotatedAt = rotatedAt\<rparr>) (\<lambda>configurationId.
       bnd (pp_emit d (operational_event CREDENTIALS_REPLACED (sq_actorId input) (sq_provider input) (sq_environment input)
              (Some configurationId) None (Some (map cr_credentialType replacements)))) (\<lambda>_.
       ret configurationId)))))"
      by (rule keeps_bnd_result [OF made], intro keeps_intro quiet save) simp
  qed
qed

lemma get_run: "triple (safe P) (pp_get d p e) (\<lambda>r s. safe P s \<and> r = config s p e) (safe P)"
  by (rule tripleI) (auto simp: safe_def get)

lemma setState_keeps_live_off: "keeps (safe live_off) (setState d a p e b)"
proof -
  have allowed: "triple (safe live_off) (if b then blockForbiddenLive d a p e else ret ())
      (\<lambda>_ s. (b \<longrightarrow> assertLiveProviderAllowed (pp_runtime d) p e = Inr ()) \<and> safe live_off s) (safe live_off)"
  proof (rule triple_if)
    show "triple (safe live_off) (blockForbiddenLive d a p e)
        (\<lambda>_ s. (b \<longrightarrow> assertLiveProviderAllowed (pp_runtime d) p e = Inr ()) \<and> safe live_off s) (safe live_off)"
    proof (rule tripleI)
      show "safe live_off t" if "safe live_off s" "blockForbiddenLive d a p e s = (Inl x, t)" for s x t
        by (rule keepsD [OF keeps_block that])
      show "(b \<longrightarrow> assertLiveProviderAllowed (pp_runtime d) p e = Inr ()) \<and> safe live_off t"
        if "safe live_off s" "blockForbiddenLive d a p e s = (Inr x, t)" for s x t
        using keepsD [OF keeps_block that] that(2) by (auto simp: blockForbiddenLive_def effect_Inr split: sum.splits)
    qed
  qed (simp add: triple_ret)
  have switch: "triple (\<lambda>s. safe live_off s \<and> config s p e = Some c) (pp_setEnabled d (pc_id c) a b) (\<lambda>_. safe live_off) (safe live_off)"
    if allowed: "b \<longrightarrow> assertLiveProviderAllowed (pp_runtime d) p e = Inr ()" for c
  proof (rule tripleI)
    fix s x t assume "safe live_off s \<and> config s p e = Some c" "pp_setEnabled d (pc_id c) a b s = (Inl x, t)"
    then show "safe live_off t" using unchanged(1) by (auto simp: safe_def)
  next
    fix s t and x :: unit
    assume s: "safe live_off s \<and> config s p e = Some c" and run: "pp_setEnabled d (pc_id c) a b s = (Inr x, t)"
    then have t: "ok t" "config t = change_configuration (pc_id c) (pc_enabled_update (\<lambda>_. b)) (config s)"
      using switched by (auto simp: safe_def)
    have "\<not> pc_enabled c'" if forbidden: "live_forbidden (pp_runtime d)" and c': "config t PAYMONGO LIVE = Some c'" for c'
    proof -
      obtain o' where o': "config s PAYMONGO LIVE = Some o'" "c' = (if pc_id o' = pc_id c then o'\<lparr>pc_enabled := b\<rparr> else o')"
        using c' unfolding t(2) change_configuration_def by auto
      have "\<not> pc_enabled o'" using s o'(1) forbidden by (auto simp: safe_def live_off_def)
      moreover have "\<not> b" if "pc_id o' = pc_id c"
        using ids [OF _ o'(1), of p e c] s that allowed forbidden by (auto simp: safe_def assertLiveProviderAllowed_def)
      ultimately show ?thesis using o'(2) by auto
    qed
    with t(1) show "safe live_off t" by (simp add: safe_def live_off_def)
  qed
  have found: "triple (\<lambda>s. safe live_off s \<and> r = config s p e)
      (case r of None \<Rightarrow> throw CONFIG_NOT_FOUND
       | Some configuration \<Rightarrow>
           if b \<and> \<not> enableable p configuration then throw CREDENTIAL_INVALID
           else
           bnd (pp_setEnabled d (pc_id configuration) a b) (\<lambda>_.
           pp_emit d (operational_event (if b then PROVIDER_ENABLED else PROVIDER_DISABLED) a p e (Some (pc_id configuration)) None None)))
      (\<lambda>_. safe live_off) (safe live_off)" if allowed: "b \<longrightarrow> assertLiveProviderAllowed (pp_runtime d) p e = Inr ()" for r
    by (intro triple_case_option triple_if triple_throw triple_bnd [OF triple_pre [OF switch [OF allowed]]] triple_keeps quiet) auto
  have rest: "keeps (safe live_off) (bnd (pp_get d p e) (\<lambda>found. case found of None \<Rightarrow> throw CONFIG_NOT_FOUND
       | Some configuration \<Rightarrow>
           if b \<and> \<not> enableable p configuration then throw CREDENTIAL_INVALID
           else
           bnd (pp_setEnabled d (pc_id configuration) a b) (\<lambda>_.
           pp_emit d (operational_event (if b then PROVIDER_ENABLED else PROVIDER_DISABLED) a p e (Some (pc_id configuration)) None None))))"
    if allowed: "b \<longrightarrow> assertLiveProviderAllowed (pp_runtime d) p e = Inr ()"
    unfolding keeps_triple by (rule triple_bnd [OF get_run found [OF allowed]])
  show ?thesis unfolding setState_def by (rule keeps_bnd_result [OF allowed rest])
qed

lemma revoke_keeps_live_off: "keeps (safe live_off) (revokeCredentials d a p e)"
proof -
  have "keeps (safe live_off) (pp_revoke d i a now)" for i now
  proof (rule keepsI)
    fix s assume s: "safe live_off s"
    show "safe live_off (snd (pp_revoke d i a now s))"
    proof (cases rule: eff_cases [of "pp_revoke d i a now" s])
      case (1 x t)
      then show ?thesis using unchanged(2) s by (auto simp: safe_def)
    next
      case (2 u t)
      then have t: "ok t" "config t = change_configuration i
          (\<lambda>c. c\<lparr>pc_enabled := False, pc_validationStatus := NOT_VALIDATED, pc_credentials := []\<rparr>) (config s)"
        using revoked s by (auto simp: safe_def)
      have "live_off (config t)" unfolding t(2) by (rule live_off_change) (use s in \<open>auto simp: safe_def\<close>)
      with t(1) 2 show ?thesis by (simp add: safe_def)
    qed
  qed
  then show ?thesis unfolding revokeCredentials_def by (intro keeps_intro quiet)
qed

lemma validate_keeps_live_off: "keeps (safe live_off) (validateConfiguration d a p e)"
proof -
  have "keeps (safe live_off) (record_result d a p e i b code)" for i b code
    by (rule keeps_change) (rule live_off_change, simp_all)
  then show ?thesis unfolding validateConfiguration_def by (intro keeps_intro quiet keeps_check)
qed

end

section \<open>Rotation\<close>

text \<open>The cipher opens what it sealed.\<close>

definition opens :: "ProviderCrypto \<Rightarrow> bool" where
  "opens pv \<longleftrightarrow> (\<forall>key nonce aad body c t. pv_seal pv key nonce aad body = (c, t) \<longrightarrow>
     pv_open pv key nonce aad t c = Some body \<and> t \<noteq> [] \<and> (body \<noteq> [] \<longrightarrow> c \<noteq> []))"

lemma sealed_credential_opens:
  assumes "opens pv" and "nonce \<noteq> []" and "body \<noteq> []"
  shows "decryptProviderCredential pv (sealed_credential pv nonce body material version) material version = Inr body"
proof -
  obtain c t where seal: "pv_seal pv (pv_sha256 pv material) nonce (credential_aad version) body = (c, t)" by fastforce
  have sealed: "sealed_credential pv nonce body material version = ''v1'' @ CHR ''.'' # base64url nonce @ CHR ''.'' # base64url t @ CHR ''.'' # base64url c"
    by (simp add: sealed_credential_def seal)
  have "split_dots (sealed_credential pv nonce body material version) = [''v1'', base64url nonce, base64url t, base64url c]"
    unfolding sealed by (simp add: split_dots_first [of "''v1''", simplified] split_dots_first base64url_no_dot split_dots_last)
  then show ?thesis using assms seal by (simp add: decryptProviderCredential_def opens_def)
qed

text \<open>A stored credential that decrypts to a secret.\<close>

definition holds_secret :: "ProviderCrypto \<Rightarrow> CredentialKeyRing \<Rightarrow> StoredCredential \<Rightarrow> string \<Rightarrow> bool" where
  "holds_secret pv keyRing x raw \<longleftrightarrow> decrypt_all pv keyRing [x] = Inr [(cr_credentialType x, raw)]"

lemma holds_secret_column:
  "cr_encryptedValue x = cr_encryptedValue y \<Longrightarrow> cr_encryptionKeyVersion x = cr_encryptionKeyVersion y \<Longrightarrow>
   cr_credentialType x = cr_credentialType y \<Longrightarrow> holds_secret pv keyRing x raw = holds_secret pv keyRing y raw"
  by (simp add: holds_secret_def split: sum.split)

lemma holds_secret_material:
  "providerKeyMaterial keyRing (cr_encryptionKeyVersion x) = Inr material \<Longrightarrow>
   decryptProviderCredential pv (cr_encryptedValue x) material (cr_encryptionKeyVersion x) = Inr raw \<Longrightarrow> holds_secret pv keyRing x raw"
  by (simp add: holds_secret_def)

lemma decrypt_all_secrets:
  "list_all2 (holds_secret pv keyRing) cs raws \<Longrightarrow> decrypt_all pv keyRing cs = Inr (zip (map cr_credentialType cs) raws)"
proof (induction cs raws rule: list_all2_induct)
  case (Cons c cs raw raws)
  then show ?case by (auto simp: holds_secret_def split: sum.splits)
qed simp

lemma decrypt_all_raw:
  assumes "\<And>c. c \<in> set cs \<Longrightarrow> holds_secret pv keyRing c (raw (cr_credentialType c))"
  shows "decrypt_all pv keyRing cs = Inr (map (\<lambda>c. (cr_credentialType c, raw (cr_credentialType c))) cs)"
proof -
  have "list_all2 (holds_secret pv keyRing) cs (map (\<lambda>c. raw (cr_credentialType c)) cs)"
    using assms by (simp add: list_all2_conv_all_nth)
  moreover have "zip (map f cs) (map g cs) = map (\<lambda>c. (f c, g c)) cs" for f :: "_ \<Rightarrow> CredentialKind" and g :: "_ \<Rightarrow> string"
    by (induction cs) simp_all
  ultimately show ?thesis by (simp add: decrypt_all_secrets)
qed

lemma decrypted_configuration:
  assumes kinds: "distinct (map cr_credentialType (pc_credentials c))"
    and stored: "\<And>x. x \<in> set (pc_credentials c) \<Longrightarrow> holds_secret pv keyRing x (raw (cr_credentialType x))"
    and complete: "set (requiredProviderCredentials (pc_provider c)) \<subseteq> cr_credentialType ` set (pc_credentials c)"
  obtains vals where "decryptConfiguration pv keyRing c = Inr vals"
    and "\<And>kind. kind \<in> cr_credentialType ` set (pc_credentials c) \<Longrightarrow> js_map_get vals kind = Some (raw kind)"
proof -
  let ?es = "map (\<lambda>x. (cr_credentialType x, raw (cr_credentialType x))) (pc_credentials c)"
  have es: "fromEntries ?es = ?es" by (rule fromEntries_distinct) (simp add: kinds comp_def)
  have get: "js_map_get ?es kind = Some (raw kind)" if "kind \<in> cr_credentialType ` set (pc_credentials c)" for kind
    using that by (subst js_map_get_distinct) (auto simp: kinds comp_def)
  have "decryptConfiguration pv keyRing c = Inr ?es"
    using decrypt_all_raw [of "pc_credentials c" pv keyRing raw, OF stored] get complete
    by (fastforce simp: decryptConfiguration_def es list_ex_iff Let_def)
  then show thesis using get by (rule that)
qed

text \<open>A secret that a save replaces is the one the configuration then holds. The nonces have bytes.\<close>

definition draws_nonces :: "'s ProviderPorts \<Rightarrow> bool" where
  "draws_nonces d \<longleftrightarrow> (\<forall>s n t. pp_nonce d s = (Inr n, t) \<longrightarrow> n \<noteq> [])"

context provider_store begin

lemma replacement_run:
  assumes "ok s" and "opens (pp_crypto d)" and "raw \<noteq> []" and "truthy (kr_currentKey (pp_keyRing d))" and nonces: "draws_nonces d"
    and run: "replacement_of d (kind, raw) s = (Inr x, t)"
  shows "ok t \<and> config t = config s" and "cr_credentialType x = kind" and "holds_secret (pp_crypto d) (pp_keyRing d) x raw"
proof -
  let ?material = "the (kr_currentKey (pp_keyRing d))" and ?version = "kr_currentVersion (pp_keyRing d)"
  obtain nonce where nonce: "pp_nonce d s = (Inr nonce, t)" and x: "x = \<lparr>cr_credentialType = kind,
      cr_encryptedValue = sealed_credential (pp_crypto d) nonce raw ?material ?version, cr_encryptionKeyVersion = ?version,
      cr_maskedHint = providerCredentialHint raw\<rparr>"
    using run by (auto simp: replacement_of_def encryptProviderCredential_def effect_Inr)
  have drawn': "ok t \<and> config t = config s" "nonce \<noteq> []" using drawn [OF assms(1) nonce] nonces nonce by (auto simp: draws_nonces_def)
  then show "ok t \<and> config t = config s" "cr_credentialType x = kind" by (simp_all add: x)
  show "holds_secret (pp_crypto d) (pp_keyRing d) x raw"
  proof (rule holds_secret_material)
    show "providerKeyMaterial (pp_keyRing d) (cr_encryptionKeyVersion x) = Inr ?material"
      using assms(4) by (simp add: x providerKeyMaterial_def)
    show "decryptProviderCredential (pp_crypto d) (cr_encryptedValue x) ?material (cr_encryptionKeyVersion x) = Inr raw"
      using sealed_credential_opens [OF assms(2) drawn'(2) assms(3)] by (simp add: x)
  qed
qed

lemma replacements_run:
  assumes "opens (pp_crypto d)" and "truthy (kr_currentKey (pp_keyRing d))" and nonces: "draws_nonces d"
  shows "ok s \<Longrightarrow> list_all (\<lambda>(_, raw). raw \<noteq> []) es \<Longrightarrow> collect (replacement_of d) es s = (Inr xs, t) \<Longrightarrow>
    (ok t \<and> config t = config s) \<and>
    list_all2 (\<lambda>x (kind, raw). cr_credentialType x = kind \<and> holds_secret (pp_crypto d) (pp_keyRing d) x raw) xs es"
proof (induction es arbitrary: s xs)
  case (Cons e es)
  obtain kind raw where e: "e = (kind, raw)" by fastforce
  obtain x u ys where run: "replacement_of d (kind, raw) s = (Inr x, u)" "collect (replacement_of d) es u = (Inr ys, t)" "xs = x # ys"
    using Cons.prems(3) by (auto simp: e effect_Inr)
  have raw: "raw \<noteq> []" "list_all (\<lambda>(_, raw). raw \<noteq> []) es" using Cons.prems(2) by (auto simp: e)
  note one = replacement_run [OF Cons.prems(1) assms(1) raw(1) assms(2) nonces run(1)]
  with Cons.IH [OF _ raw(2) run(2)] show ?case by (simp add: e run(3))
qed (auto simp: effect_Inr)

lemma saved_secrets:
  assumes s: "ok s" and "opens (pp_crypto d)" and nonces: "draws_nonces d" and secrets: "list_all (\<lambda>(_, raw). raw \<noteq> []) (sq_secrets input)"
    and kinds: "distinct (map fst (sq_secrets input))" and run: "saveConfiguration d input s = (Inr i, t)"
  obtains c where "ok t" and "config t (sq_provider input) (sq_environment input) = Some c"
    and "pc_validationStatus c = NOT_VALIDATED"
    and "pc_enabled c = (case config s (sq_provider input) (sq_environment input) of None \<Rightarrow> False | Some o' \<Rightarrow> pc_enabled o')"
    and "\<And>kind raw. (kind, raw) \<in> set (sq_secrets input) \<Longrightarrow>
      \<exists>x\<in>set (pc_credentials c). cr_credentialType x = kind \<and> holds_secret (pp_crypto d) (pp_keyRing d) x raw"
proof -
  let ?p = "sq_provider input" and ?e = "sq_environment input"
  have all: "filter (\<lambda>(_, raw). raw \<noteq> []) (sq_secrets input) = sq_secrets input"
    using secrets by (auto simp: filter_id_conv list_all_iff)
  have block: "u = s" if "blockForbiddenLive d a p e s = (Inr x, u)" for a p e x u
    using that by (auto simp: blockForbiddenLive_def effect_Inr split: sum.splits)
  obtain x s1 where "blockForbiddenLive d (sq_actorId input) ?p ?e s = (Inr x, s1)"
      and rest: "(if list_ex (\<lambda>(kind, _). kind \<notin> set (requiredProviderCredentials ?p)) (sq_secrets input) then throw CREDENTIAL_INVALID
     else if \<not> truthy (kr_currentKey (pp_keyRing d)) then throw ''PROVIDER_SOURCE_UNAVAILABLE''
     else
     bnd (collect (replacement_of d) (sq_secrets input)) (\<lambda>replacements.
     bnd (pp_clock d) (\<lambda>rotatedAt.
     bnd (pp_save d \<lparr>ch_actorId = sq_actorId input, ch_provider = ?p, ch_environment = ?e,
                    ch_senderName = sq_senderName input, ch_senderEmail = sq_senderEmail input, ch_supportEmail = sq_supportEmail input,
                    ch_replacements = replacements, ch_rotatedAt = rotatedAt\<rparr>) (\<lambda>configurationId.
     bnd (pp_emit d (operational_event CREDENTIALS_REPLACED (sq_actorId input) ?p ?e
            (Some configurationId) None (Some (map cr_credentialType replacements)))) (\<lambda>_.
     ret configurationId))))) s1 = (Inr i, t)"
    using run unfolding saveConfiguration_def all by (rule bnd_Inr_E)
  then have s1: "s1 = s" using block by blast
  have bad: "\<not> list_ex (\<lambda>(kind, _). kind \<notin> set (requiredProviderCredentials ?p)) (sq_secrets input)"
    and key: "truthy (kr_currentKey (pp_keyRing d))"
    using rest by (auto simp only: if_Inr throw_Inr split: if_splits)
  obtain xs u now v w and ch :: ConfigurationChange and ev where
      made: "collect (replacement_of d) (sq_secrets input) s = (Inr xs, u)"
      and clock: "pp_clock d u = (Inr now, v)"
      and ch: "ch_provider ch = ?p" "ch_environment ch = ?e" "ch_replacements ch = xs"
      and save: "pp_save d ch v = (Inr i, w)"
      and emit: "pp_emit d ev w = (Inr (), t)"
  proof -
    assume finish: thesis if "collect (replacement_of d) (sq_secrets input) s = (Inr xs, u)" "pp_clock d u = (Inr now, v)"
      "ch_provider ch = ?p" "ch_environment ch = ?e" "ch_replacements ch = xs" "pp_save d ch v = (Inr i, w)" "pp_emit d ev w = (Inr (), t)"
      for xs u now v ch w ev
    show thesis
      using rest bad key unfolding s1 by (simp only: if_False simp_thms bnd_Inr ret_Inr) (elim exE conjE, rule finish; assumption?; simp)
  qed
  have xs: "ok u" "config u = config s"
      "list_all2 (\<lambda>x (kind, raw). cr_credentialType x = kind \<and> holds_secret (pp_crypto d) (pp_keyRing d) x raw) xs (sq_secrets input)"
    using replacements_run [OF assms(2) key nonces s secrets made] by auto
  have v: "ok v" "config v = config s" using timed [OF xs(1) clock] xs(2) by auto
  have types: "map cr_credentialType xs = map fst (sq_secrets input)"
    using xs(3) by (auto simp: list_all2_conv_all_nth list_eq_iff_nth_eq split_def)
  have "cr_credentialType ` set xs \<subseteq> set (requiredProviderCredentials ?p)"
    using bad unfolding set_map [symmetric] types by (fastforce simp: list_ex_iff)
  then have w: "ok w" "after_save ch i (config v) (config w)" using saved [OF v(1) _ save] by (auto simp: ch)
  have t: "ok t" "config t = config w" using emitted [OF w(1) emit] by auto
  obtain c where c: "config w ?p ?e = Some c" "pc_validationStatus c = NOT_VALIDATED"
      "pc_enabled c = (case config s ?p ?e of None \<Rightarrow> False | Some o' \<Rightarrow> pc_enabled o')"
    and held: "\<And>r. r \<in> set xs \<Longrightarrow> map_option cr_encryptedValue (credential_of c (cr_credentialType r)) = Some (cr_encryptedValue r) \<and>
      map_option cr_encryptionKeyVersion (credential_of c (cr_credentialType r)) = Some (cr_encryptionKeyVersion r)"
    using w(2) kinds unfolding after_save_def by (auto simp: ch v(2) types)
  have "\<exists>x\<in>set (pc_credentials c). cr_credentialType x = kind \<and> holds_secret (pp_crypto d) (pp_keyRing d) x raw"
    if member: "(kind, raw) \<in> set (sq_secrets input)" for kind raw
  proof -
    obtain r where r: "r \<in> set xs" "cr_credentialType r = kind" "holds_secret (pp_crypto d) (pp_keyRing d) r raw"
      using xs(3) member by (fastforce simp: list_all2_conv_all_nth in_set_conv_nth)
    obtain x where x: "credential_of c kind = Some x" "cr_encryptedValue x = cr_encryptedValue r" "cr_encryptionKeyVersion x = cr_encryptionKeyVersion r"
      using held [OF r(1)] by (auto simp: r(2))
    moreover have "cr_credentialType x = kind \<and> x \<in> set (pc_credentials c)" using find_by_key x(1) unfolding credential_of_def by metis
    ultimately show ?thesis using r holds_secret_column by metis
  qed
  then show thesis using that t c by simp
qed

lemma replaced_payments_resolve:
  assumes s: "ok s" "opens (pp_crypto d)" "draws_nonces d" and input: "sq_provider input = PAYMONGO" "sq_environment input = ctx"
      "sq_secrets input = [(SECRET_KEY, sk), (WEBHOOK_SECRET, wh)]"
    and shape: "assertProviderCredentialShape PAYMONGO ctx [(SECRET_KEY, sk), (WEBHOOK_SECRET, wh)] None (pp_resendSenderDomain d) = Inr ()"
    and runtime: "rt_source (pp_runtime d) = DATABASE" "\<not> rt_allowEnvironmentFallback (pp_runtime d)" "desiredPayMongoContext (pp_runtime d) = Inr ctx"
    and run: "saveConfiguration d input s = (Inr i, t)"
  shows "resolvePayMongo d t = (case config s PAYMONGO ctx of
      Some c \<Rightarrow> if pc_enabled c then Inr \<lparr>py_source = DATABASE, py_secretKey = sk, py_webhookSecret = wh, py_livemode = (ctx = LIVE)\<rparr>
                else Inl ''PROVIDER_CONFIG_DISABLED''
    | None \<Rightarrow> Inl ''PROVIDER_CONFIG_DISABLED'', t)"
proof -
  have nonempty: "sk \<noteq> []" "wh \<noteq> []"
    using shape by (auto simp: assertProviderCredentialShape_def js_map_get_def split: if_splits)
  obtain c where t: "ok t" and c: "config t PAYMONGO ctx = Some c" "pc_enabled c = (case config s PAYMONGO ctx of None \<Rightarrow> False | Some o' \<Rightarrow> pc_enabled o')"
      and held: "\<And>kind raw. (kind, raw) \<in> set (sq_secrets input) \<Longrightarrow>
        \<exists>x\<in>set (pc_credentials c). cr_credentialType x = kind \<and> holds_secret (pp_crypto d) (pp_keyRing d) x raw"
    by (rule saved_secrets [OF s _ _ run]) (auto simp: input nonempty)
  have pc: "pc_provider c = PAYMONGO" "distinct (map cr_credentialType (pc_credentials c))"
      "cr_credentialType ` set (pc_credentials c) \<subseteq> {SECRET_KEY, WEBHOOK_SECRET}" using shape_of_stored [OF t c(1)] by auto
  let ?raw = "\<lambda>kind. if kind = SECRET_KEY then sk else wh"
  have secret: "holds_secret (pp_crypto d) (pp_keyRing d) x (?raw (cr_credentialType x))" if x: "x \<in> set (pc_credentials c)" for x
  proof -
    have "(cr_credentialType x, ?raw (cr_credentialType x)) \<in> set (sq_secrets input)" using pc(3) x by (auto simp: input)
    then obtain y where y: "y \<in> set (pc_credentials c)" "cr_credentialType y = cr_credentialType x"
        "holds_secret (pp_crypto d) (pp_keyRing d) y (?raw (cr_credentialType x))" using held by blast
    moreover have "y = x" by (rule find_key_unique [OF pc(2) y(1) x y(2)])
    ultimately show ?thesis by simp
  qed
  have both: "SECRET_KEY \<in> cr_credentialType ` set (pc_credentials c)" "WEBHOOK_SECRET \<in> cr_credentialType ` set (pc_credentials c)"
    using held [of SECRET_KEY sk] held [of WEBHOOK_SECRET wh] by (force simp: input)+
  have complete: "set (requiredProviderCredentials (pc_provider c)) \<subseteq> cr_credentialType ` set (pc_credentials c)"
    using both by (simp add: pc(1))
  obtain vals where vals: "decryptConfiguration (pp_crypto d) (pp_keyRing d) c = Inr vals"
      "js_map_get vals SECRET_KEY = Some sk" "js_map_get vals WEBHOOK_SECRET = Some wh"
    by (rule decrypted_configuration [OF pc(2) secret complete]) (use both in auto)
  have same: "js_map_get [(SECRET_KEY, sk), (WEBHOOK_SECRET, wh)] kind = js_map_get vals kind"
    if "kind \<in> {SECRET_KEY, WEBHOOK_SECRET}" for kind using that vals by (auto simp: js_map_get_def)
  have "assertProviderCredentialShape PAYMONGO ctx vals None (pp_resendSenderDomain d) = Inr ()"
    using shape by (auto simp: assertProviderCredentialShape_def same split: if_splits)
  then show ?thesis using c(2)
    by (auto simp: resolvePayMongo_def resolveProviderSource_def runtime databasePayMongo_def databaseConfiguration_def get [OF t] c(1) vals
        eff_simps split: option.splits)
qed

text \<open>Once revoked, nothing resolves from the database.\<close>

lemma revoked_payments_do_not_resolve:
  assumes s: "ok s" and run: "revokeCredentials d a PAYMONGO ctx s = (Inr (), t)"
    and runtime: "rt_source (pp_runtime d) = DATABASE" "\<not> rt_allowEnvironmentFallback (pp_runtime d)" "desiredPayMongoContext (pp_runtime d) = Inr ctx"
  shows "resolvePayMongo d t = (Inl ''PROVIDER_CONFIG_DISABLED'', t)"
proof -
  obtain c now u v ev where c: "config s PAYMONGO ctx = Some c" and steps: "pp_clock d s = (Inr now, u)"
      "pp_revoke d (pc_id c) a now u = (Inr (), v)" "pp_emit d ev v = (Inr (), t)"
    using run by (auto simp: revokeCredentials_def effect_Inr get [OF s])
  have u: "ok u" "config u = config s" using timed [OF s steps(1)] by auto
  have v: "ok v" "config v = change_configuration (pc_id c)
      (\<lambda>c. c\<lparr>pc_enabled := False, pc_validationStatus := NOT_VALIDATED, pc_credentials := []\<rparr>) (config u)" using revoked [OF u(1) steps(2)] by auto
  have t: "ok t" "config t = config v" using emitted [OF v(1) steps(3)] by auto
  have "config t PAYMONGO ctx = Some (c\<lparr>pc_enabled := False, pc_validationStatus := NOT_VALIDATED, pc_credentials := []\<rparr>)"
    by (simp add: t(2) v(2) u(2) c change_configuration_def)
  then show ?thesis
    by (simp add: resolvePayMongo_def resolveProviderSource_def runtime databasePayMongo_def databaseConfiguration_def get [OF t(1)] eff_simps)
qed

end

end
