(* ===== verification/Provider_Web.thy ===== *)
theory Provider_Web
  imports Provider_Laws Audit_Log
begin

text \<open>
  The provider configuration of the web application, \<open>apps/web/providers/capability.ts\<close>: the tables of configurations
  and credentials with their unique indexes, the validation requests, the audit, security and mail records of an event, and the
  environment. Rows that a foreign key refers to are taken to exist; generated identifiers, the clocks, the HTTP responses
  and \<open>Number(s)\<close> are parameters of the host, read at the position \<open>pb_drawn\<close>.
\<close>

section \<open>Environment\<close>

type_synonym process_env = "string \<Rightarrow> string option"

definition trimmed :: "process_env \<Rightarrow> string \<Rightarrow> string option" where
  "trimmed env name = map_option js_trim (env name)"

definition env_bool :: "process_env \<Rightarrow> string \<Rightarrow> bool \<Rightarrow> bool" where
  "env_bool env name fallback =
     (case map_option toLowerCase (trimmed env name) of
        None \<Rightarrow> fallback
      | Some v \<Rightarrow> if v = [] then fallback else v = ''true'' \<or> v = ''1'')"

text \<open>\<open>Number(s)\<close> where it is an integer; \<open>Number(undefined)\<close> is none.\<close>

definition env_integer :: "(string \<Rightarrow> int option) \<Rightarrow> process_env \<Rightarrow> string \<Rightarrow> int \<Rightarrow> int" where
  "env_integer number env name fallback =
     (case Option.bind (env name) number of None \<Rightarrow> fallback | Some n \<Rightarrow> if n > 0 then n else fallback)"

text \<open>\<open>a || b\<close> on optional strings.\<close>

definition or_string :: "string option \<Rightarrow> string \<Rightarrow> string" where
  "or_string x d = (if truthy x then the x else d)"

definition provider_runtime :: "process_env \<Rightarrow> RuntimeEnvironment" where
  "provider_runtime env =
     \<lparr>rt_source = (if env ''PROVIDER_CONFIG_SOURCE'' = Some ''environment'' then ENVIRONMENT else DATABASE),
      rt_allowEnvironmentFallback = env_bool env ''PROVIDER_CONFIG_ALLOW_ENV_FALLBACK'' False,
      rt_deploymentEnvironment = or_string (trimmed env ''DEPLOYMENT_ENV'') (or_string (trimmed env ''NODE_ENV'') ''development''),
      rt_localProductionSimulation = env_bool env ''LOCAL_PRODUCTION_SIMULATION'' False,
      rt_payMongoLivemode = env_bool env ''PAYMONGO_LIVEMODE'' False,
      rt_payMongoSecretKey = env ''PAYMONGO_SECRET_KEY'',
      rt_payMongoWebhookSecret = env ''PAYMONGO_WEBHOOK_SECRET'',
      rt_resendApiKey = env ''RESEND_API_KEY'',
      rt_emailFrom = or_string (trimmed env ''EMAIL_FROM'') ''BKE Digital Solutions <noreply@jl-bke.com>'',
      rt_supportEmail = or_string (trimmed env ''SUPPORT_EMAIL'') ''support@jl-bke.com''\<rparr>"

fun split_on :: "char \<Rightarrow> string \<Rightarrow> string list" where
  "split_on d [] = [[]]"
| "split_on d (c # cs) = (if c = d then [] # split_on d cs else case split_on d cs of [] \<Rightarrow> [[c]] | w # ws \<Rightarrow> (c # w) # ws)"

text \<open>An item \<open>version:material\<close>; one without a colon, or with nothing before it, is skipped.\<close>

definition previous_key :: "(string \<Rightarrow> int option) \<Rightarrow> string \<Rightarrow> (int \<times> string) list" where
  "previous_key number item =
     (let before = takeWhile (\<lambda>c. c \<noteq> CHR '':'') item; material = js_trim (drop (Suc (length before)) item) in
      if length before = length item \<or> before = [] then []
      else
        (case number (js_trim before) of
           Some version \<Rightarrow> if version > 0 \<and> material \<noteq> [] then [(version, material)] else []
         | None \<Rightarrow> []))"

definition provider_keyRing :: "(string \<Rightarrow> int option) \<Rightarrow> process_env \<Rightarrow> CredentialKeyRing" where
  "provider_keyRing number env =
     \<lparr>kr_currentVersion = env_integer number env ''PROVIDER_CREDENTIALS_KEY_VERSION'' 1,
      kr_currentKey = env ''PROVIDER_CREDENTIALS_ENCRYPTION_KEY'',
      kr_previousKeys = fromEntries (concat (map (previous_key number) (split_on CHR '','' (or_else (env ''PROVIDER_CREDENTIALS_PREVIOUS_KEYS'') []))))\<rparr>"

section \<open>Tables\<close>

record ConfigurationRow =
  cg_id :: ident
  cg_provider :: ProviderName
  cg_environment :: ProviderContext
  cg_enabled :: bool
  cg_senderName :: "string option"
  cg_senderEmail :: "string option"
  cg_supportEmail :: "string option"
  cg_validationStatus :: ValidationStatus
  cg_lastValidatedAt :: "time option"
  cg_lastValidationCode :: "string option"
  cg_lastRotatedAt :: "time option"
  cg_createdByUserId :: ident
  cg_updatedByUserId :: ident
  cg_createdAt :: time
  cg_updatedAt :: time

record ProviderCredentialRow =
  xr_id :: ident
  xr_configurationId :: ident
  xr_credentialType :: CredentialKind
  xr_encryptedValue :: string
  xr_encryptionKeyVersion :: int
  xr_maskedHint :: string
  xr_createdAt :: time
  xr_activatedAt :: time
  xr_revokedAt :: "time option"
  xr_replacedBy :: "ident option"
  xr_createdByUserId :: ident

record SecurityEventRow =
  sv_id :: ident
  sv_userId :: ident
  sv_type :: string
  sv_outcome :: string
  sv_severity :: string
  sv_provider :: ProviderName
  sv_metadata :: json_object
  sv_createdAt :: time

record ConfigurationMail =
  cm_id :: ident
  cm_recipient :: string
  cm_payload :: json_object
  cm_deduplicationKey :: string
  cm_createdAt :: time

record ProviderDb =
  pb_configs :: "ConfigurationRow list"
  pb_credentials :: "ProviderCredentialRow list"
  pb_audit :: AuditLog
  pb_security :: "SecurityEventRow list"
  pb_outbox :: "ConfigurationMail list"
  pb_drawn :: nat

record ProviderHost =
  ph_uuid :: "nat \<Rightarrow> ident"
  ph_nonce :: "nat \<Rightarrow> string"  \<comment> \<open>twelve random bytes\<close>
  ph_clock :: "nat \<Rightarrow> time"
  ph_now :: "nat \<Rightarrow> time"  \<comment> \<open>\<open>NOW()\<close> of the database\<close>
  ph_fetch :: "nat \<Rightarrow> string \<Rightarrow> string \<Rightarrow> error + int"  \<comment> \<open>URL and authorization: the status of the response\<close>
  ph_env :: process_env
  ph_number :: "string \<Rightarrow> int option"
  ph_crypto :: ProviderCrypto
  ph_resendSenderDomain :: string

definition DUPLICATE_KEY :: error where
  "DUPLICATE_KEY = ''duplicate key value violates unique constraint''"

text \<open>A value of a source of the host, at the next position.\<close>

definition draw :: "(nat \<Rightarrow> 'a) \<Rightarrow> (ProviderDb, 'a) eff" where
  "draw f = bnd (gets (\<lambda>s. f (pb_drawn s))) (\<lambda>a. bnd (modify (\<lambda>s. s\<lparr>pb_drawn := Suc (pb_drawn s)\<rparr>)) (\<lambda>_. ret a))"

text \<open>A transaction that is rolled back leaves the tables as they were.\<close>

definition in_transaction :: "(ProviderDb, 'a) eff \<Rightarrow> (ProviderDb, 'a) eff" where
  "in_transaction m = (\<lambda>s. case m s of (r, t) \<Rightarrow> (case r of Inl e \<Rightarrow> (Inl e, s\<lparr>pb_drawn := pb_drawn t\<rparr>) | Inr a \<Rightarrow> (Inr a, t)))"

section \<open>The store\<close>

text \<open>\<open>ORDER BY "credentialType" ASC\<close> of the text column.\<close>

fun kind_rank :: "CredentialKind \<Rightarrow> nat" where
  "kind_rank API_KEY = 0"
| "kind_rank SECRET_KEY = 1"
| "kind_rank WEBHOOK_SECRET = 2"

definition active_credential :: "ident \<Rightarrow> ProviderCredentialRow \<Rightarrow> bool" where
  "active_credential i x \<longleftrightarrow> xr_configurationId x = i \<and> xr_revokedAt x = None"

definition stored_credential :: "ProviderCredentialRow \<Rightarrow> StoredCredential" where
  "stored_credential x = \<lparr>cr_credentialType = xr_credentialType x, cr_encryptedValue = xr_encryptedValue x,
     cr_encryptionKeyVersion = xr_encryptionKeyVersion x, cr_maskedHint = xr_maskedHint x\<rparr>"

definition stored_configuration :: "ProviderDb \<Rightarrow> ConfigurationRow \<Rightarrow> StoredConfiguration" where
  "stored_configuration s r =
     \<lparr>pc_id = cg_id r, pc_provider = cg_provider r, pc_environment = cg_environment r, pc_enabled = cg_enabled r,
      pc_validationStatus = cg_validationStatus r, pc_senderName = cg_senderName r, pc_senderEmail = cg_senderEmail r,
      pc_supportEmail = cg_supportEmail r,
      pc_credentials = map stored_credential (sort_key (\<lambda>x. kind_rank (xr_credentialType x)) (filter (active_credential (cg_id r)) (pb_credentials s)))\<rparr>"

definition config_row :: "ProviderDb \<Rightarrow> ProviderName \<Rightarrow> ProviderContext \<Rightarrow> ConfigurationRow option" where
  "config_row s provider environment = List.find (\<lambda>r. cg_provider r = provider \<and> cg_environment r = environment) (pb_configs s)"

definition readConfiguration :: "ProviderDb \<Rightarrow> ProviderName \<Rightarrow> ProviderContext \<Rightarrow> StoredConfiguration option" where
  "readConfiguration s provider environment = map_option (stored_configuration s) (config_row s provider environment)"

definition store_get :: "ProviderName \<Rightarrow> ProviderContext \<Rightarrow> (ProviderDb, StoredConfiguration option) eff" where
  "store_get provider environment = gets (\<lambda>s. readConfiguration s provider environment)"

text \<open>\<open>COALESCE($n, column)\<close>.\<close>

definition coalesce :: "'a option \<Rightarrow> 'a option \<Rightarrow> 'a option" where
  "coalesce x column = (case x of None \<Rightarrow> column | Some v \<Rightarrow> Some v)"

definition changed_row :: "ConfigurationChange \<Rightarrow> time \<Rightarrow> ConfigurationRow \<Rightarrow> ConfigurationRow" where
  "changed_row ch now r = r\<lparr>cg_senderName := coalesce (ch_senderName ch) (cg_senderName r),
     cg_senderEmail := coalesce (ch_senderEmail ch) (cg_senderEmail r), cg_supportEmail := coalesce (ch_supportEmail ch) (cg_supportEmail r),
     cg_validationStatus := NOT_VALIDATED, cg_lastValidationCode := None, cg_lastValidatedAt := None,
     cg_lastRotatedAt := Some (ch_rotatedAt ch), cg_updatedByUserId := ch_actorId ch, cg_updatedAt := now\<rparr>"

definition new_row :: "ConfigurationChange \<Rightarrow> time \<Rightarrow> ident \<Rightarrow> ConfigurationRow" where
  "new_row ch now i =
     \<lparr>cg_id = i, cg_provider = ch_provider ch, cg_environment = ch_environment ch, cg_enabled = False,
      cg_senderName = ch_senderName ch, cg_senderEmail = ch_senderEmail ch, cg_supportEmail = ch_supportEmail ch,
      cg_validationStatus = NOT_VALIDATED, cg_lastValidatedAt = None, cg_lastValidationCode = None,
      cg_lastRotatedAt = Some (ch_rotatedAt ch), cg_createdByUserId = ch_actorId ch, cg_updatedByUserId = ch_actorId ch,
      cg_createdAt = now, cg_updatedAt = now\<rparr>"

definition update_config :: "ident \<Rightarrow> (ConfigurationRow \<Rightarrow> ConfigurationRow) \<Rightarrow> (ProviderDb, unit) eff" where
  "update_config i f = modify (\<lambda>s. s\<lparr>pb_configs := update_rows (\<lambda>r. cg_id r = i) f (pb_configs s)\<rparr>)"

definition insert_config :: "ConfigurationRow \<Rightarrow> (ProviderDb, unit) eff" where
  "insert_config r =
     bnd (gets (\<lambda>s. list_ex (\<lambda>q. cg_id q = cg_id r \<or> cg_provider q = cg_provider r \<and> cg_environment q = cg_environment r) (pb_configs s))) (\<lambda>taken.
     if taken then throw DUPLICATE_KEY else modify (\<lambda>s. s\<lparr>pb_configs := pb_configs s @ [r]\<rparr>))"

definition update_credentials :: "(ProviderCredentialRow \<Rightarrow> bool) \<Rightarrow> (ProviderCredentialRow \<Rightarrow> ProviderCredentialRow) \<Rightarrow> (ProviderDb, unit) eff" where
  "update_credentials p f = modify (\<lambda>s. s\<lparr>pb_credentials := update_rows p f (pb_credentials s)\<rparr>)"

text \<open>The primary key, the check of the key version and the unique index on the active credential of a kind.\<close>

definition insert_credential :: "ProviderCredentialRow \<Rightarrow> (ProviderDb, unit) eff" where
  "insert_credential x =
     bnd (gets (\<lambda>s. list_ex (\<lambda>q. xr_id q = xr_id x \<or>
       active_credential (xr_configurationId x) q \<and> xr_credentialType q = xr_credentialType x) (pb_credentials s))) (\<lambda>taken.
     if taken then throw DUPLICATE_KEY
     else if xr_encryptionKeyVersion x \<le> 0 then throw ''violates check constraint''
     else modify (\<lambda>s. s\<lparr>pb_credentials := pb_credentials s @ [x]\<rparr>))"

definition replace_credential :: "ProviderHost \<Rightarrow> ConfigurationChange \<Rightarrow> time \<Rightarrow> ident \<Rightarrow> StoredCredential \<Rightarrow> (ProviderDb, unit) eff" where
  "replace_credential h ch now i replacement =
     bnd (gets (\<lambda>s. List.find (\<lambda>x. active_credential i x \<and> xr_credentialType x = cr_credentialType replacement) (pb_credentials s))) (\<lambda>prior.
     bnd (draw (ph_uuid h)) (\<lambda>credentialId.
     bnd (case prior of
            Some x \<Rightarrow> update_credentials (\<lambda>q. xr_id q = xr_id x) (xr_revokedAt_update (\<lambda>_. Some (ch_rotatedAt ch)))
          | None \<Rightarrow> ret ()) (\<lambda>_.
     bnd (insert_credential
            \<lparr>xr_id = credentialId, xr_configurationId = i, xr_credentialType = cr_credentialType replacement,
             xr_encryptedValue = cr_encryptedValue replacement, xr_encryptionKeyVersion = cr_encryptionKeyVersion replacement,
             xr_maskedHint = cr_maskedHint replacement, xr_createdAt = now, xr_activatedAt = now, xr_revokedAt = None,
             xr_replacedBy = None, xr_createdByUserId = ch_actorId ch\<rparr>) (\<lambda>_.
     case prior of
       Some x \<Rightarrow> update_credentials (\<lambda>q. xr_id q = xr_id x) (xr_replacedBy_update (\<lambda>_. Some credentialId))
     | None \<Rightarrow> ret ()))))"

text \<open>\<open>NOW()\<close> is the start of the transaction for all its statements.\<close>

definition store_saveConfiguration :: "ProviderHost \<Rightarrow> ConfigurationChange \<Rightarrow> (ProviderDb, ident) eff" where
  "store_saveConfiguration h input = in_transaction (
     bnd (draw (ph_now h)) (\<lambda>now.
     bnd (store_get (ch_provider input) (ch_environment input)) (\<lambda>existing.
     bnd (case existing of Some c \<Rightarrow> ret (pc_id c) | None \<Rightarrow> draw (ph_uuid h)) (\<lambda>i.
     bnd (case existing of
            Some c \<Rightarrow> update_config i (changed_row input now)
          | None \<Rightarrow> insert_config (new_row input now i)) (\<lambda>_.
     bnd (collect (replace_credential h input now i) (ch_replacements input)) (\<lambda>_.
     ret i))))))"

definition store_setEnabled :: "ProviderHost \<Rightarrow> ident \<Rightarrow> ident \<Rightarrow> bool \<Rightarrow> (ProviderDb, unit) eff" where
  "store_setEnabled h i actorId enabled =
     bnd (draw (ph_now h)) (\<lambda>now.
     update_config i (\<lambda>r. r\<lparr>cg_enabled := enabled, cg_updatedByUserId := actorId, cg_updatedAt := now\<rparr>))"

definition store_revokeCredentials :: "ProviderHost \<Rightarrow> ident \<Rightarrow> ident \<Rightarrow> time \<Rightarrow> (ProviderDb, unit) eff" where
  "store_revokeCredentials h i actorId revokedAt = in_transaction (
     bnd (draw (ph_now h)) (\<lambda>now.
     bnd (update_credentials (active_credential i) (xr_revokedAt_update (\<lambda>_. Some revokedAt))) (\<lambda>_.
     update_config i (\<lambda>r. r\<lparr>cg_enabled := False, cg_validationStatus := NOT_VALIDATED, cg_lastValidationCode := None,
       cg_lastValidatedAt := None, cg_updatedByUserId := actorId, cg_updatedAt := now\<rparr>))))"

definition store_recordValidation :: "ProviderHost \<Rightarrow> ident \<Rightarrow> ident \<Rightarrow> ValidationStatus \<Rightarrow> string \<Rightarrow> time \<Rightarrow> (ProviderDb, unit) eff" where
  "store_recordValidation h i actorId status code validatedAt =
     bnd (draw (ph_now h)) (\<lambda>now.
     update_config i (\<lambda>r. r\<lparr>cg_validationStatus := status, cg_lastValidationCode := Some code,
       cg_lastValidatedAt := Some validatedAt, cg_updatedByUserId := actorId, cg_updatedAt := now\<rparr>))"

section \<open>Validation requests\<close>

definition validateResponse :: "int \<Rightarrow> error + unit" where
  "validateResponse status =
     (if 200 \<le> status \<and> status < 300 then Inr ()
      else if status = 401 \<or> status = 403 then Inl ''PROVIDER_AUTH_FAILED''
      else Inl ''PROVIDER_VALIDATION_FAILED'')"

definition validate_request :: "ProviderHost \<Rightarrow> string \<Rightarrow> string \<Rightarrow> (ProviderDb, unit) eff" where
  "validate_request h url authorization =
     try_catch
       (bnd (draw (\<lambda>n. ph_fetch h n url authorization)) (\<lambda>response.
        bnd (from_result response) (\<lambda>status.
        from_result (validateResponse status))))
       (\<lambda>e. throw (if startsWith e ''PROVIDER_'' then e else ''PROVIDER_DEPENDENCY_UNAVAILABLE''))"

text \<open>\<open>toString("base64")\<close>: the other alphabet, padded to a multiple of four.\<close>

definition base64 :: "string \<Rightarrow> string" where
  "base64 s = (let u = base64url s in
     map (\<lambda>c. if c = CHR ''-'' then CHR ''+'' else if c = CHR ''_'' then CHR ''/'' else c) u @ replicate ((4 - length u mod 4) mod 4) CHR ''='')"

definition validatePayMongo :: "ProviderHost \<Rightarrow> string \<Rightarrow> (ProviderDb, unit) eff" where
  "validatePayMongo h secretKey =
     validate_request h ''https://api.paymongo.com/v1/payment_methods'' (''Basic '' @ base64 (secretKey @ '':''))"

definition validateResend :: "ProviderHost \<Rightarrow> string \<Rightarrow> (ProviderDb, unit) eff" where
  "validateResend h apiKey = validate_request h ''https://api.resend.com/domains'' (''Bearer '' @ apiKey)"

section \<open>Events\<close>

fun action_name :: "OperationalAction \<Rightarrow> string" where
  "action_name CREDENTIALS_REPLACED = ''PROVIDER_CREDENTIALS_REPLACED''"
| "action_name PROVIDER_ENABLED = ''PROVIDER_ENABLED''"
| "action_name PROVIDER_DISABLED = ''PROVIDER_DISABLED''"
| "action_name CREDENTIALS_REVOKED = ''PROVIDER_CREDENTIALS_REVOKED''"
| "action_name VALIDATION_SUCCEEDED = ''PROVIDER_VALIDATION_SUCCEEDED''"
| "action_name VALIDATION_FAILED = ''PROVIDER_VALIDATION_FAILED''"
| "action_name LIVE_PAYMENT_ENABLE_BLOCKED = ''LIVE_PAYMENT_ENABLE_BLOCKED''"

text \<open>The type of the security event, with the outcome and severity of its definition in \<open>apps/web/security/events.ts\<close>.\<close>

fun securityType :: "OperationalAction \<Rightarrow> (string \<times> string \<times> string) option" where
  "securityType CREDENTIALS_REPLACED = Some (''PROVIDER_CREDENTIAL_REPLACED'', ''SUCCESS'', ''HIGH'')"
| "securityType CREDENTIALS_REVOKED = Some (''PROVIDER_CREDENTIAL_REVOKED'', ''SUCCESS'', ''HIGH'')"
| "securityType VALIDATION_SUCCEEDED = Some (''PROVIDER_VALIDATION_SUCCEEDED'', ''SUCCESS'', ''LOW'')"
| "securityType VALIDATION_FAILED = Some (''PROVIDER_VALIDATION_FAILED'', ''FAILURE'', ''MEDIUM'')"
| "securityType LIVE_PAYMENT_ENABLE_BLOCKED = Some (''LIVE_PAYMENT_ENABLE_BLOCKED'', ''BLOCKED'', ''CRITICAL'')"
| "securityType PROVIDER_ENABLED = None"
| "securityType PROVIDER_DISABLED = None"

fun provider_name :: "ProviderName \<Rightarrow> string" where
  "provider_name PAYMONGO = ''PAYMONGO''"
| "provider_name RESEND = ''RESEND''"

fun context_name :: "ProviderContext \<Rightarrow> string" where
  "context_name TEST = ''TEST''"
| "context_name LIVE = ''LIVE''"

fun kind_name :: "CredentialKind \<Rightarrow> string" where
  "kind_name SECRET_KEY = ''SECRET_KEY''"
| "kind_name WEBHOOK_SECRET = ''WEBHOOK_SECRET''"
| "kind_name API_KEY = ''API_KEY''"

fun js_join :: "string \<Rightarrow> string list \<Rightarrow> string" where
  "js_join d [] = []"
| "js_join d [w] = w"
| "js_join d (w # ws) = w @ d @ js_join d ws"

definition provider_event_audit :: "OperationalEvent \<Rightarrow> AuditWriteInput" where
  "provider_event_audit ev =
     \<lparr>ai_actorId = Some (oe_actorId ev), ai_accountId = None, ai_action = action_name (oe_action ev),
      ai_targetType = ''ExternalProviderConfiguration'', ai_targetId = oe_configurationId ev,
      ai_metadata = Some (JVObj [(''provider'', JVStr (provider_name (oe_provider ev))), (''environment'', JVStr (context_name (oe_environment ev))),
        (''code'', jv_null (oe_code ev)),
        (''credentialTypes'', jv_null (map_option (\<lambda>ks. js_join '','' (map kind_name ks)) (oe_credentialTypes ev)))])\<rparr>"

definition event_security :: "ProviderHost \<Rightarrow> OperationalEvent \<Rightarrow> string \<Rightarrow> string \<Rightarrow> string \<Rightarrow> (ProviderDb, unit) eff" where
  "event_security h ev type outcome severity =
     bnd (draw (\<lambda>n. (ph_uuid h n, ph_now h n))) (\<lambda>(i, now).
     bnd (gets (\<lambda>s. find_by sv_id i (pb_security s))) (\<lambda>taken.
     if taken \<noteq> None then throw DUPLICATE_KEY
     else modify (\<lambda>s. s\<lparr>pb_security := pb_security s @
       [\<lparr>sv_id = i, sv_userId = oe_actorId ev, sv_type = type, sv_outcome = outcome, sv_severity = severity,
         sv_provider = oe_provider ev,
         sv_metadata = (''environment'', JString (context_name (oe_environment ev))) #
           (case oe_code ev of Some code \<Rightarrow> if code = [] then [] else [(''result'', JString code)] | None \<Rightarrow> []),
         sv_createdAt = now\<rparr>]\<rparr>)))"

definition event_mail :: "ProviderHost \<Rightarrow> OperationalEvent \<Rightarrow> (ProviderDb, unit) eff" where
  "event_mail h ev =
     bnd (draw (\<lambda>n. (ph_uuid h n, ph_clock h n, ph_now h n))) (\<lambda>(i, millis, now).
     bnd (gets pb_outbox) (\<lambda>mails.
     (let key = ''provider:'' @ action_name (oe_action ev) @ '':'' @
            (case oe_configurationId ev of Some c \<Rightarrow> c | None \<Rightarrow> provider_name (oe_provider ev) @ '':'' @ context_name (oe_environment ev)) @
            '':'' @ decimal millis
      in if find_by cm_deduplicationKey key mails \<noteq> None then ret ()
         else if find_by cm_id i mails \<noteq> None then throw DUPLICATE_KEY
         else modify (\<lambda>s. s\<lparr>pb_outbox := mails @
           [\<lparr>cm_id = i, cm_recipient = or_string (trimmed (ph_env h) ''SUPPORT_EMAIL'') ''support@jl-bke.com'',
             cm_payload = [(''provider'', JString (provider_name (oe_provider ev))), (''environment'', JString (context_name (oe_environment ev))),
               (''action'', JString (action_name (oe_action ev)))],
             cm_deduplicationKey = key, cm_createdAt = now\<rparr>]\<rparr>))))"

definition provider_emit :: "ProviderHost \<Rightarrow> OperationalEvent \<Rightarrow> (ProviderDb, unit) eff" where
  "provider_emit h ev =
     bnd (zoom pb_audit (\<lambda>a s. s\<lparr>pb_audit := a\<rparr>) (audit (ph_uuid h) (ph_now h) (provider_event_audit ev))) (\<lambda>_.
     bnd (case securityType (oe_action ev) of
            Some (type, outcome, severity) \<Rightarrow> event_security h ev type outcome severity
          | None \<Rightarrow> ret ()) (\<lambda>_.
     if oe_action ev = CREDENTIALS_REPLACED \<or> oe_action ev = CREDENTIALS_REVOKED then event_mail h ev else ret ()))"

definition web_providers :: "ProviderHost \<Rightarrow> ProviderDb ProviderPorts" where
  "web_providers h =
     \<lparr>pp_get = store_get, pp_save = store_saveConfiguration h, pp_setEnabled = store_setEnabled h, pp_revoke = store_revokeCredentials h,
      pp_record = store_recordValidation h, pp_validatePayMongo = validatePayMongo h, pp_validateResend = validateResend h,
      pp_emit = provider_emit h, pp_clock = draw (ph_clock h), pp_nonce = draw (ph_nonce h), pp_runtime = provider_runtime (ph_env h),
      pp_keyRing = provider_keyRing (ph_number h) (ph_env h), pp_crypto = ph_crypto h, pp_resendSenderDomain = ph_resendSenderDomain h\<rparr>"

text \<open>The requests of an administrator; each runs to its end, an exception answers it.\<close>

datatype ProviderRequest = SaveProvider SaveRequest
  | SetProvider ident ProviderName ProviderContext bool
  | RevokeProvider ident ProviderName ProviderContext
  | ValidateProvider ident ProviderName ProviderContext

fun provider_request :: "ProviderHost \<Rightarrow> ProviderRequest \<Rightarrow> ProviderDb \<Rightarrow> ProviderDb" where
  "provider_request h (SaveProvider input) s = snd (saveConfiguration (web_providers h) input s)"
| "provider_request h (SetProvider actor p e enabled) s = snd (setState (web_providers h) actor p e enabled s)"
| "provider_request h (RevokeProvider actor p e) s = snd (revokeCredentials (web_providers h) actor p e s)"
| "provider_request h (ValidateProvider actor p e) s = snd (validateConfiguration (web_providers h) actor p e s)"

definition provider_requests :: "ProviderHost \<Rightarrow> ProviderRequest list \<Rightarrow> ProviderDb \<Rightarrow> ProviderDb" where
  "provider_requests h rs s = fold (provider_request h) rs s"

definition no_providers :: ProviderDb where
  "no_providers = \<lparr>pb_configs = [], pb_credentials = [], pb_audit = \<lparr>al_rows = [], al_drawn = 0\<rparr>, pb_security = [], pb_outbox = [], pb_drawn = 0\<rparr>"

end
