(* ===== verification/Provider_Store_Laws.thy ===== *)
theory Provider_Store_Laws
  imports Provider_Web
begin

text \<open>
  The tables of the provider configuration keep the contract of the platform: the invariant of the rows, the effect of each
  statement on the configurations that can be read, and the interpretation of \<open>provider_store\<close>. The properties of the
  administration of providers rest on it.
\<close>

section \<open>The invariant of the tables\<close>

definition live_rows :: "ProviderDb \<Rightarrow> ProviderCredentialRow list" where
  "live_rows s = filter (\<lambda>x. xr_revokedAt x = None) (pb_credentials s)"

definition credential_slot :: "ProviderCredentialRow \<Rightarrow> ident \<times> CredentialKind" where
  "credential_slot x = (xr_configurationId x, xr_credentialType x)"

definition belongs :: "ConfigurationRow list \<Rightarrow> ProviderCredentialRow \<Rightarrow> bool" where
  "belongs rows x \<longleftrightarrow> (\<exists>r\<in>set rows. cg_id r = xr_configurationId x \<and> xr_credentialType x \<in> set (requiredProviderCredentials (cg_provider r)))"

definition providers_ok :: "ProviderDb \<Rightarrow> bool" where
  "providers_ok s \<longleftrightarrow> distinct (map cg_id (pb_configs s)) \<and> distinct (map (\<lambda>r. (cg_provider r, cg_environment r)) (pb_configs s)) \<and>
     distinct (map xr_id (pb_credentials s)) \<and> distinct (map credential_slot (live_rows s)) \<and>
     list_all (belongs (pb_configs s)) (pb_credentials s)"

definition same_tables :: "ProviderDb \<Rightarrow> ProviderDb \<Rightarrow> bool" where
  "same_tables s t \<longleftrightarrow> pb_configs t = pb_configs s \<and> pb_credentials t = pb_credentials s"

lemma same_tables_simps:
  assumes "same_tables s t"
  shows "providers_ok t = providers_ok s" and "readConfiguration t = readConfiguration s"
  using assms by (auto simp: same_tables_def providers_ok_def live_rows_def readConfiguration_def config_row_def
      stored_configuration_def fun_eq_iff option.map_comp comp_def intro: option.map_cong)

lemma config_row_iff:
  assumes "providers_ok s"
  shows "config_row s p e = Some r \<longleftrightarrow> r \<in> set (pb_configs s) \<and> cg_provider r = p \<and> cg_environment r = e"
proof
  assume "r \<in> set (pb_configs s) \<and> cg_provider r = p \<and> cg_environment r = e"
  then show "config_row s p e = Some r"
    using find_key [of "\<lambda>r. (cg_provider r, cg_environment r)" "pb_configs s" r] assms by (auto simp: providers_ok_def config_row_def)
qed (auto simp: config_row_def dest: find_in_set)

lemma read_iff: "readConfiguration s p e = Some c \<longleftrightarrow> (\<exists>r. config_row s p e = Some r \<and> c = stored_configuration s r)"
  by (auto simp: readConfiguration_def)

lemma stored_kinds: "map cr_credentialType (map stored_credential xs) = map xr_credentialType xs"
  by (simp add: comp_def stored_credential_def)

lemma active_slots:
  assumes "providers_ok s"
  shows "distinct (map xr_credentialType (filter (active_credential i) (pb_credentials s)))"
proof -
  have "filter (active_credential i) (pb_credentials s) = filter (\<lambda>x. xr_configurationId x = i) (live_rows s)"
    by (auto simp: live_rows_def active_credential_def intro!: filter_cong)
  moreover have "inj_on xr_credentialType (set (filter (\<lambda>x. xr_configurationId x = i) (live_rows s)))"
    using assms by (auto simp: providers_ok_def distinct_map inj_on_def credential_slot_def)
  ultimately show ?thesis using assms by (auto simp: providers_ok_def distinct_map)
qed

lemma read_shape:
  assumes s: "providers_ok s" and c: "readConfiguration s p e = Some c"
  shows "pc_provider c = p \<and> pc_environment c = e \<and> distinct (map cr_credentialType (pc_credentials c)) \<and>
    cr_credentialType ` set (pc_credentials c) \<subseteq> set (requiredProviderCredentials p)"
proof -
  obtain r where r: "r \<in> set (pb_configs s)" "cg_provider r = p" "cg_environment r = e" and c': "c = stored_configuration s r"
    using c config_row_iff [OF s] by (auto simp: read_iff)
  let ?xs = "filter (active_credential (cg_id r)) (pb_credentials s)"
  have "xr_credentialType x \<in> set (requiredProviderCredentials p)" if x: "x \<in> set ?xs" for x
  proof -
    obtain q where q: "q \<in> set (pb_configs s)" "cg_id q = cg_id r" "xr_credentialType x \<in> set (requiredProviderCredentials (cg_provider q))"
      using s x by (auto simp: providers_ok_def list_all_iff belongs_def active_credential_def)
    then have "q = r" using s r(1) find_key_unique [of cg_id "pb_configs s" q r] by (simp add: providers_ok_def)
    then show ?thesis using q(3) r(2) by simp
  qed
  moreover have "distinct (map xr_credentialType (sort_key (\<lambda>x. kind_rank (xr_credentialType x)) ?xs))"
    using active_slots [OF s, of "cg_id r"] by (simp add: distinct_map)
  ultimately show ?thesis
    using r by (auto simp: c' stored_configuration_def comp_def stored_credential_def)
qed

lemma read_ids:
  assumes s: "providers_ok s" and "readConfiguration s p e = Some c" "readConfiguration s p' e' = Some c'" "pc_id c = pc_id c'"
  shows "p = p' \<and> e = e'"
proof -
  obtain r q where "r \<in> set (pb_configs s)" "cg_provider r = p" "cg_environment r = e"
      "q \<in> set (pb_configs s)" "cg_provider q = p'" "cg_environment q = e'" "cg_id r = cg_id q"
    using assms config_row_iff [OF s] by (auto simp: read_iff stored_configuration_def)
  moreover from this have "r = q" using s find_key_unique [of cg_id "pb_configs s" r q] by (simp add: providers_ok_def)
  ultimately show ?thesis by simp
qed

section \<open>Updates of a configuration\<close>

lemma update_config_ok:
  assumes s: "providers_ok s" and f: "\<And>r. cg_id (f r) = cg_id r \<and> cg_provider (f r) = cg_provider r \<and> cg_environment (f r) = cg_environment r"
  shows "providers_ok (s\<lparr>pb_configs := update_rows (\<lambda>r. cg_id r = i) f (pb_configs s)\<rparr>)"
proof -
  have keys: "map key (update_rows (\<lambda>r. cg_id r = i) f (pb_configs s)) = map key (pb_configs s)"
    if "\<And>r. key (f r) = key r" for key :: "ConfigurationRow \<Rightarrow> 'b"
    by (rule map_update_rows) (rule that)
  have "belongs (update_rows (\<lambda>r. cg_id r = i) f (pb_configs s)) x" if b: "belongs (pb_configs s) x" for x
  proof -
    obtain r where r: "r \<in> set (pb_configs s)" "cg_id r = xr_configurationId x" "xr_credentialType x \<in> set (requiredProviderCredentials (cg_provider r))"
      using b by (auto simp: belongs_def)
    let ?r = "if cg_id r = i then f r else r"
    have "?r \<in> set (update_rows (\<lambda>r. cg_id r = i) f (pb_configs s))" using r(1) unfolding set_update_rows by (rule imageI)
    moreover have "cg_id ?r = cg_id r" "cg_provider ?r = cg_provider r" using f by simp_all
    ultimately show ?thesis using r(2,3) unfolding belongs_def by metis
  qed
  then show ?thesis using s keys [of cg_id] keys [of "\<lambda>r. (cg_provider r, cg_environment r)"] f
    by (auto simp: providers_ok_def live_rows_def list_all_iff)
qed

lemma update_config_read:
  assumes f: "\<And>r. cg_id (f r) = cg_id r \<and> cg_provider (f r) = cg_provider r \<and> cg_environment (f r) = cg_environment r"
    and g: "\<And>r. stored_configuration s (f r) = g (stored_configuration s r)"
  shows "readConfiguration (s\<lparr>pb_configs := update_rows (\<lambda>r. cg_id r = i) f (pb_configs s)\<rparr>) = change_configuration i g (readConfiguration s)"
proof -
  have stored: "stored_configuration (s\<lparr>pb_configs := rows\<rparr>) = stored_configuration s" for rows
    by (simp add: stored_configuration_def fun_eq_iff)
  have i: "pc_id (stored_configuration s r) = cg_id r" for r by (simp add: stored_configuration_def)
  have "config_row (s\<lparr>pb_configs := update_rows (\<lambda>r. cg_id r = i) f (pb_configs s)\<rparr>) p e =
      map_option (\<lambda>r. if cg_id r = i then f r else r) (config_row s p e)" for p e
    unfolding config_row_def using f by (simp add: find_update_rows)
  then show ?thesis
    by (simp add: fun_eq_iff readConfiguration_def change_configuration_def stored option.map_comp comp_def i g if_distrib cong: option.map_cong if_cong)
qed

section \<open>Replacement of credentials\<close>

definition credentials_of :: "ProviderDb \<Rightarrow> ident \<Rightarrow> ProviderCredentialRow list" where
  "credentials_of s i = filter (active_credential i) (pb_credentials s)"

definition retire :: "ConfigurationChange \<Rightarrow> ident \<Rightarrow> CredentialKind \<Rightarrow> ident \<Rightarrow> ProviderCredentialRow \<Rightarrow> ProviderCredentialRow" where
  "retire ch i kind new x =
     (if active_credential i x \<and> xr_credentialType x = kind then x\<lparr>xr_revokedAt := Some (ch_rotatedAt ch), xr_replacedBy := Some new\<rparr> else x)"

lemma retire_columns [simp]:
  "xr_id (retire ch i k n x) = xr_id x" "xr_configurationId (retire ch i k n x) = xr_configurationId x"
  "xr_credentialType (retire ch i k n x) = xr_credentialType x"
  by (simp_all add: retire_def)

lemma retire_active: "active_credential j (retire ch i k n x) \<longleftrightarrow> active_credential j x \<and> \<not> (j = i \<and> xr_credentialType x = k)"
  by (auto simp: retire_def active_credential_def)

lemma active_same: "active_credential i x \<Longrightarrow> active_credential j x \<Longrightarrow> i = j"
  by (simp add: active_credential_def)

lemma active_configuration: "active_credential i x \<Longrightarrow> xr_configurationId x = i"
  by (simp add: active_credential_def)

lemma retire_kept: "\<not> (active_credential i x \<and> xr_credentialType x = k) \<Longrightarrow> retire ch i k n x = x"
  by (auto simp: retire_def)

lemma one_active:
  assumes "providers_ok s" "x \<in> set (pb_credentials s)" "y \<in> set (pb_credentials s)"
    and "active_credential i x" "active_credential i y" "xr_credentialType x = xr_credentialType y"
  shows "x = y"
  using assms find_key_unique [OF active_slots [OF assms(1), of i], of x y] by simp

lemma replace_credential_run:
  assumes s: "providers_ok s" and run: "replace_credential h ch now i x s = (Inr u, t)"
  obtains row where "pb_configs t = pb_configs s"
    and "pb_credentials t = map (retire ch i (cr_credentialType x) (xr_id row)) (pb_credentials s) @ [row]"
    and "xr_id row \<notin> xr_id ` set (pb_credentials s)" and "active_credential i row" and "stored_credential row = x"
proof -
  let ?k = "cr_credentialType x" and ?id = "ph_uuid h (pb_drawn s)"
  define row where "row = \<lparr>xr_id = ?id, xr_configurationId = i, xr_credentialType = ?k,
     xr_encryptedValue = cr_encryptedValue x, xr_encryptionKeyVersion = cr_encryptionKeyVersion x,
     xr_maskedHint = cr_maskedHint x, xr_createdAt = now, xr_activatedAt = now, xr_revokedAt = None,
     xr_replacedBy = None, xr_createdByUserId = ch_actorId ch\<rparr>"
  have row: "xr_id row = ?id" "active_credential i row" "stored_credential row = x"
    by (simp_all add: row_def active_credential_def stored_credential_def)
  let ?prior = "List.find (\<lambda>q. active_credential i q \<and> xr_credentialType q = ?k) (pb_credentials s)"
  let ?s = "s\<lparr>pb_drawn := Suc (pb_drawn s)\<rparr>"
  show thesis
  proof (cases ?prior)
    case None
    then have none: "\<not> (active_credential i q \<and> xr_credentialType q = ?k)" if "q \<in> set (pb_credentials s)" for q
      using that by (auto simp: find_None)
    have "insert_credential row ?s = (Inr u, t)"
      using run None by (auto simp: replace_credential_def draw_def effect_Inr row_def)
    then have t: "t = ?s\<lparr>pb_credentials := pb_credentials s @ [row]\<rparr>" "?id \<notin> xr_id ` set (pb_credentials s)"
      by (auto simp: insert_credential_def effect_Inr list_ex_iff row(1) image_iff split: if_splits)
    have "map (retire ch i ?k (xr_id row)) (pb_credentials s) = pb_credentials s" using none by (simp add: map_idI retire_kept)
    then show thesis using that row t by simp
  next
    case (Some p)
    then have p: "p \<in> set (pb_credentials s)" "active_credential i p" "xr_credentialType p = ?k" by (auto dest: find_in_set)
    let ?revoked = "update_rows (\<lambda>q. xr_id q = xr_id p) (xr_revokedAt_update (\<lambda>_. Some (ch_rotatedAt ch))) (pb_credentials s)"
    obtain v where ins: "insert_credential row (?s\<lparr>pb_credentials := ?revoked\<rparr>) = (Inr (), v)"
      and upd: "t = v\<lparr>pb_credentials := update_rows (\<lambda>q. xr_id q = xr_id p) (xr_replacedBy_update (\<lambda>_. Some ?id)) (pb_credentials v)\<rparr>"
      using run Some by (auto simp: replace_credential_def draw_def effect_Inr row_def update_credentials_def)
    have ids: "xr_id ` set ?revoked = xr_id ` set (pb_credentials s)" 
    proof -
      have "map xr_id ?revoked = map xr_id (pb_credentials s)" by (rule map_update_rows) simp
      then show ?thesis by (metis set_map)
    qed
    have v: "v = ?s\<lparr>pb_credentials := ?revoked @ [row]\<rparr>" and new: "?id \<notin> xr_id ` set ?revoked"
      using ins by (auto simp: insert_credential_def effect_Inr list_ex_iff row(1) image_iff split: if_splits)
    have "?id \<noteq> xr_id p" using new p(1) unfolding ids by auto
    moreover have "(xr_id q = xr_id p) = (active_credential i q \<and> xr_credentialType q = ?k)" if q: "q \<in> set (pb_credentials s)" for q
      using one_active [OF s q p(1) _ p(2)] p find_key_unique [of xr_id "pb_credentials s" q p] q s by (auto simp: providers_ok_def)
    ultimately have "pb_credentials t = map (retire ch i ?k (xr_id row)) (pb_credentials s) @ [row]"
      by (auto simp: upd v row(1) update_rows_def retire_def)
    then show thesis using that row new unfolding ids by (simp add: upd v)
  qed
qed

lemma replace_credential_keeps:
  assumes s: "providers_ok s" and r: "r \<in> set (pb_configs s)" "cg_id r = i" "cr_credentialType x \<in> set (requiredProviderCredentials (cg_provider r))"
    and run: "replace_credential h ch now i x s = (Inr u, t)"
  shows "providers_ok t" and "pb_configs t = pb_configs s" and "j \<noteq> i \<Longrightarrow> credentials_of t j = credentials_of s j"
    and "\<exists>row. credentials_of t i = filter (\<lambda>q. xr_credentialType q \<noteq> cr_credentialType x) (credentials_of s i) @ [row] \<and> stored_credential row = x"
proof -
  obtain row where t: "pb_configs t = pb_configs s"
      "pb_credentials t = map (retire ch i (cr_credentialType x) (xr_id row)) (pb_credentials s) @ [row]"
    and row: "xr_id row \<notin> xr_id ` set (pb_credentials s)" "active_credential i row" "stored_credential row = x"
    by (rule replace_credential_run [OF s run])
  have kind: "xr_credentialType row = cr_credentialType x" using row(3) by (auto simp: stored_credential_def)
  let ?g = "retire ch i (cr_credentialType x) (xr_id row)"
  have active: "credentials_of t j = filter (\<lambda>q. \<not> (j = i \<and> xr_credentialType q = cr_credentialType x)) (credentials_of s j) @ (if j = i then [row] else [])" for j
  proof -
    have "filter (active_credential j) (map ?g (pb_credentials s)) =
        filter (\<lambda>q. \<not> (j = i \<and> xr_credentialType q = cr_credentialType x)) (credentials_of s j)"
      by (auto simp: credentials_of_def filter_map comp_def retire_active conj_commute dest: active_same intro!: map_idI retire_kept filter_cong)
    moreover have "active_credential j row \<longleftrightarrow> j = i" using row(2) by (auto simp: active_credential_def)
    ultimately show ?thesis by (simp add: credentials_of_def t(2))
  qed
  show "pb_configs t = pb_configs s" by (rule t)
  show "j \<noteq> i \<Longrightarrow> credentials_of t j = credentials_of s j" by (simp add: active)
  show "\<exists>row. credentials_of t i = filter (\<lambda>q. xr_credentialType q \<noteq> cr_credentialType x) (credentials_of s i) @ [row] \<and> stored_credential row = x"
    using active [of i] row(3) by auto
  have "live_rows t = filter (\<lambda>q. credential_slot q \<noteq> (i, cr_credentialType x)) (live_rows s) @ [row]"
  proof -
    have "xr_revokedAt (?g q) = None \<longleftrightarrow> xr_revokedAt q = None \<and> credential_slot q \<noteq> (i, cr_credentialType x)" for q
      by (auto simp: retire_def active_credential_def credential_slot_def)
    then have "filter (\<lambda>q. xr_revokedAt q = None) (map ?g (pb_credentials s)) =
        filter (\<lambda>q. credential_slot q \<noteq> (i, cr_credentialType x)) (live_rows s)"
      by (auto simp: live_rows_def filter_map comp_def conj_commute credential_slot_def dest: active_configuration intro!: map_idI retire_kept filter_cong)
    then show ?thesis using row(2) by (simp add: live_rows_def t(2) active_credential_def)
  qed
  moreover have slot: "credential_slot row = (i, cr_credentialType x)" using row(2) kind by (simp add: credential_slot_def active_credential_def)
  ultimately have "distinct (map credential_slot (live_rows t))"
    using s by (auto simp: providers_ok_def distinct_map_filter)
  moreover have "map xr_id (pb_credentials t) = map xr_id (pb_credentials s) @ [xr_id row]" by (simp add: t(2) comp_def)
  then have "distinct (map xr_id (pb_credentials t))" using s row(1) by (simp add: providers_ok_def del: map_map)
  moreover have "belongs (pb_configs s) (?g q) = belongs (pb_configs s) q" for q by (simp add: belongs_def)
  then have "list_all (belongs (pb_configs t)) (pb_credentials t)"
    using s r row(2) by (auto simp: providers_ok_def list_all_iff t belongs_def [of _ row] kind active_credential_def)
  ultimately show "providers_ok t" using s t(1) by (simp add: providers_ok_def)
qed

lemma replace_credentials_keeps:
  assumes r: "r \<in> set (pb_configs s)" "cg_id r = i"
  shows "providers_ok s \<Longrightarrow> r \<in> set (pb_configs s) \<Longrightarrow> cr_credentialType ` set xs \<subseteq> set (requiredProviderCredentials (cg_provider r)) \<Longrightarrow>
    collect (replace_credential h ch now i) xs s = (Inr us, t) \<Longrightarrow>
    providers_ok t \<and> pb_configs t = pb_configs s \<and> (\<forall>j. j \<noteq> i \<longrightarrow> credentials_of t j = credentials_of s j) \<and>
    (\<forall>q\<in>set (credentials_of s i). xr_credentialType q \<notin> cr_credentialType ` set xs \<longrightarrow> q \<in> set (credentials_of t i)) \<and>
    (distinct (map cr_credentialType xs) \<longrightarrow> (\<forall>x\<in>set xs. \<exists>row\<in>set (credentials_of t i). stored_credential row = x))"
proof (induction xs arbitrary: s us)
  case (Cons x xs)
  obtain v u ws where one: "replace_credential h ch now i x s = (Inr v, u)" and rest: "collect (replace_credential h ch now i) xs u = (Inr ws, t)"
    using Cons.prems(4) by (auto simp: effect_Inr)
  have kind: "cr_credentialType x \<in> set (requiredProviderCredentials (cg_provider r))" using Cons.prems(3) by simp
  note u = replace_credential_keeps [OF Cons.prems(1,2) r(2) kind one]
  obtain row where row: "credentials_of u i = filter (\<lambda>q. xr_credentialType q \<noteq> cr_credentialType x) (credentials_of s i) @ [row]"
      "stored_credential row = x" using u(4) by blast
  have t: "providers_ok t" "pb_configs t = pb_configs u" "\<And>j. j \<noteq> i \<Longrightarrow> credentials_of t j = credentials_of u j"
      "\<And>q. q \<in> set (credentials_of u i) \<Longrightarrow> xr_credentialType q \<notin> cr_credentialType ` set xs \<Longrightarrow> q \<in> set (credentials_of t i)"
      "distinct (map cr_credentialType xs) \<Longrightarrow> \<forall>x\<in>set xs. \<exists>row\<in>set (credentials_of t i). stored_credential row = x"
    using Cons.IH [OF u(1) _ _ rest] Cons.prems(2,3) u(2) by auto
  have "xr_credentialType row = cr_credentialType x" using row(2) by (auto simp: stored_credential_def)
  then have "row \<in> set (credentials_of t i)" if "distinct (map cr_credentialType (x # xs))"
    using t(4) [of row] that row(1) by auto
  then have made: "\<forall>y\<in>set (x # xs). \<exists>row\<in>set (credentials_of t i). stored_credential row = y" if "distinct (map cr_credentialType (x # xs))"
    using that t(5) row(2) by auto
  have kept: "q \<in> set (credentials_of t i)"
    if "q \<in> set (credentials_of s i)" "xr_credentialType q \<notin> cr_credentialType ` set (x # xs)" for q
    using that by (intro t(4)) (simp_all add: row(1))
  show ?case using t(1-3) u(2,3) made kept by simp
qed (auto simp: effect_Inr)

lemma stored_credentials: "pc_credentials (stored_configuration s r) =
    map stored_credential (sort_key (\<lambda>x. kind_rank (xr_credentialType x)) (credentials_of s (cg_id r)))"
  by (simp add: stored_configuration_def credentials_of_def)

lemma stored_same: "credentials_of t (cg_id r) = credentials_of s (cg_id r) \<Longrightarrow> stored_configuration t r = stored_configuration s r"
  by (simp add: stored_configuration_def credentials_of_def)

lemma stored_fields [simp]:
  "pc_id (stored_configuration s r) = cg_id r" "pc_enabled (stored_configuration s r) = cg_enabled r"
  "pc_validationStatus (stored_configuration s r) = cg_validationStatus r"
  by (simp_all add: stored_configuration_def)

text \<open>What is read after a save, from the rows that the save writes before its credentials.\<close>

lemma after_save_rows:
  assumes t: "providers_ok t" and configs: "pb_configs t = pb_configs u"
    and row: "config_row u (ch_provider ch) (ch_environment ch) = Some r" "cg_id r = i" "cg_validationStatus r = NOT_VALIDATED"
      "cg_enabled r = (case readConfiguration s (ch_provider ch) (ch_environment ch) of None \<Rightarrow> False | Some c \<Rightarrow> pc_enabled c)"
    and others: "\<And>p e. p \<noteq> ch_provider ch \<or> e \<noteq> ch_environment ch \<Longrightarrow> readConfiguration u p e = readConfiguration s p e"
    and kept: "\<And>j. j \<noteq> i \<Longrightarrow> credentials_of t j = credentials_of u j"
    and new: "distinct (map cr_credentialType (ch_replacements ch)) \<Longrightarrow>
      \<forall>x\<in>set (ch_replacements ch). \<exists>q\<in>set (credentials_of t i). stored_credential q = x"
  shows "after_save ch i (readConfiguration s) (readConfiguration t)"
proof -
  have rows: "config_row t = config_row u" using configs by (simp add: config_row_def fun_eq_iff)
  have r: "r \<in> set (pb_configs t)" "cg_provider r = ch_provider ch" "cg_environment r = ch_environment ch"
    using row(1) config_row_iff [OF t, of "ch_provider ch" "ch_environment ch" r] unfolding rows by simp_all
  have other: "readConfiguration t p e = readConfiguration s p e" if pe: "p \<noteq> ch_provider ch \<or> e \<noteq> ch_environment ch" for p e
  proof (cases "config_row t p e")
    case None
    then show ?thesis using others [OF pe] by (simp add: readConfiguration_def rows)
  next
    case (Some q)
    then have "q \<in> set (pb_configs t)" "cg_provider q = p" "cg_environment q = e" using config_row_iff [OF t] by auto
    then have "cg_id q \<noteq> i" using pe r row(2) t find_key_unique [of cg_id "pb_configs t" q r] by (auto simp: providers_ok_def)
    then show ?thesis using others [OF pe] Some stored_same [OF kept, of q] by (simp add: readConfiguration_def rows)
  qed
  let ?c = "stored_configuration t r"
  have c: "readConfiguration t (ch_provider ch) (ch_environment ch) = Some ?c" using row(1) by (simp add: readConfiguration_def rows)
  have "credential_of ?c (cr_credentialType x) = Some x" if "distinct (map cr_credentialType (ch_replacements ch))" "x \<in> set (ch_replacements ch)" for x
  proof -
    have "x \<in> set (pc_credentials ?c)" using new [OF that(1)] that(2) by (auto simp: stored_credentials row(2))
    moreover have "distinct (map cr_credentialType (pc_credentials ?c))" using read_shape [OF t c] by blast
    ultimately show ?thesis unfolding credential_of_def find_by_def by (intro find_key)
  qed
  then show ?thesis unfolding after_save_def using other c row(2-4) by auto
qed

lemma draw_run: "draw f s = (Inr a, t) \<longleftrightarrow> a = f (pb_drawn s) \<and> t = s\<lparr>pb_drawn := Suc (pb_drawn s)\<rparr>"
  by (auto simp: draw_def effect_Inr)

lemma draw_throws: "draw f s \<noteq> (Inl e, t)"
  by (simp add: draw_def eff_simps)

lemma drawn_same: "same_tables s (s\<lparr>pb_drawn := n\<rparr>)"
  by (simp add: same_tables_def)

lemma insert_config_ok:
  assumes s: "providers_ok s" and run: "insert_config r s = (Inr u, t)"
  shows "providers_ok t" and "pb_configs t = pb_configs s @ [r]" and "pb_credentials t = pb_credentials s"
    and "config_row s (cg_provider r) (cg_environment r) = None" and "\<And>q. q \<in> set (pb_configs s) \<Longrightarrow> cg_id q \<noteq> cg_id r"
proof -
  have new: "\<not> (cg_id q = cg_id r \<or> cg_provider q = cg_provider r \<and> cg_environment q = cg_environment r)" if "q \<in> set (pb_configs s)" for q
    using run that by (auto simp: insert_config_def effect_Inr list_ex_iff)
  have t: "t = s\<lparr>pb_configs := pb_configs s @ [r]\<rparr>" using run by (auto simp: insert_config_def effect_Inr)
  then show "pb_configs t = pb_configs s @ [r]" "pb_credentials t = pb_credentials s" by simp_all
  show "config_row s (cg_provider r) (cg_environment r) = None" using new by (auto simp: config_row_def find_None)
  show "\<And>q. q \<in> set (pb_configs s) \<Longrightarrow> cg_id q \<noteq> cg_id r" using new by blast
  have "belongs (pb_configs s @ [r]) x" if "belongs (pb_configs s) x" for x using that by (auto simp: belongs_def)
  then show "providers_ok t" using s new unfolding t by (fastforce simp: providers_ok_def live_rows_def list_all_iff)
qed

section \<open>The contract holds\<close>

lemma in_transaction_Inr: "in_transaction m s = (Inr a, t) \<longleftrightarrow> m s = (Inr a, t)"
  by (auto simp: in_transaction_def split: prod.splits sum.splits)

lemma in_transaction_Inl: "in_transaction m s = (Inl e, t) \<Longrightarrow> same_tables s t"
  by (auto simp: in_transaction_def same_tables_def split: prod.splits sum.splits)

lemma same_tables_refl [simp]: "same_tables s s"
  by (simp add: same_tables_def)

lemma same_tables_trans: "same_tables s t \<Longrightarrow> same_tables t u \<Longrightarrow> same_tables s u"
  by (simp add: same_tables_def)

lemma save_law:
  assumes s: "providers_ok s" and kinds: "cr_credentialType ` set (ch_replacements ch) \<subseteq> set (requiredProviderCredentials (ch_provider ch))"
    and run: "store_saveConfiguration h ch s = (Inr i, t)"
  shows "providers_ok t \<and> after_save ch i (readConfiguration s) (readConfiguration t)"
proof -
  let ?p = "ch_provider ch" and ?e = "ch_environment ch" and ?now = "ph_now h (pb_drawn s)" and ?s = "s\<lparr>pb_drawn := Suc (pb_drawn s)\<rparr>"
  have s': "providers_ok ?s" "readConfiguration ?s = readConfiguration s" using same_tables_simps [OF drawn_same] s by auto
  obtain u us and r :: ConfigurationRow where u: "providers_ok u" "config_row u ?p ?e = Some r" "cg_id r = i" "cg_validationStatus r = NOT_VALIDATED"
      "cg_enabled r = (case readConfiguration s ?p ?e of None \<Rightarrow> False | Some c \<Rightarrow> pc_enabled c)"
      and others: "\<And>p e. p \<noteq> ?p \<or> e \<noteq> ?e \<Longrightarrow> readConfiguration u p e = readConfiguration s p e"
      and rest: "collect (replace_credential h ch ?now i) (ch_replacements ch) u = (Inr us, t)"
  proof (cases "readConfiguration s ?p ?e")
    case None
    let ?i = "ph_uuid h (Suc (pb_drawn s))" and ?s2 = "s\<lparr>pb_drawn := Suc (Suc (pb_drawn s))\<rparr>"
    obtain v u us where i: "i = ?i" and ins: "insert_config (new_row ch ?now ?i) ?s2 = (Inr v, u)"
        and loop: "collect (replace_credential h ch ?now ?i) (ch_replacements ch) u = (Inr us, t)"
      using run by (auto simp: store_saveConfiguration_def in_transaction_Inr effect_Inr draw_run store_get_def s'(2) None)
    have s2: "providers_ok ?s2" "readConfiguration ?s2 = readConfiguration s" using same_tables_simps [OF drawn_same] s by auto
    note u = insert_config_ok [OF s2(1) ins]
    have row: "config_row u ?p ?e = Some (new_row ch ?now ?i)"
      unfolding config_row_iff [OF u(1)] u(2) by (simp add: new_row_def)
    have old: "readConfiguration u p e = readConfiguration s p e" if pe: "p \<noteq> ?p \<or> e \<noteq> ?e" for p e
    proof -
      have "config_row u p e = config_row s p e"
        unfolding config_row_def u(2) using pe by (auto simp: find_append new_row_def split: option.splits)
      moreover have "stored_configuration u = stored_configuration s" by (rule ext, rule stored_same) (simp add: credentials_of_def u(3))
      ultimately show ?thesis by (simp add: readConfiguration_def)
    qed
    show thesis
      by (rule that [OF u(1) row _ _ _ old loop [folded i]]) (simp_all add: i None, simp_all add: new_row_def)
  next
    case (Some c)
    obtain q where q: "config_row s ?p ?e = Some q" "c = stored_configuration s q" using Some by (auto simp: read_iff)
    let ?u = "?s\<lparr>pb_configs := update_rows (\<lambda>r. cg_id r = cg_id q) (changed_row ch ?now) (pb_configs ?s)\<rparr>"
    have f: "cg_id (changed_row ch ?now r) = cg_id r \<and> cg_provider (changed_row ch ?now r) = cg_provider r \<and>
        cg_environment (changed_row ch ?now r) = cg_environment r" for r by (simp add: changed_row_def)
    let ?g = "\<lambda>c. c\<lparr>pc_validationStatus := NOT_VALIDATED, pc_senderName := coalesce (ch_senderName ch) (pc_senderName c),
        pc_senderEmail := coalesce (ch_senderEmail ch) (pc_senderEmail c), pc_supportEmail := coalesce (ch_supportEmail ch) (pc_supportEmail c)\<rparr>"
    have u: "providers_ok ?u" by (rule update_config_ok [OF s'(1) f])
    have read: "readConfiguration ?u = change_configuration (cg_id q) ?g (readConfiguration ?s)"
      by (rule update_config_read [OF f]) (simp add: stored_configuration_def changed_row_def)
    obtain us where i: "i = cg_id q" and loop: "collect (replace_credential h ch ?now (cg_id q)) (ch_replacements ch) ?u = (Inr us, t)"
      using run by (auto simp: store_saveConfiguration_def in_transaction_Inr effect_Inr draw_run store_get_def s'(2) Some q(2) update_config_def)
    have "config_row ?u ?p ?e = map_option (\<lambda>r. if cg_id r = cg_id q then changed_row ch ?now r else r) (config_row s ?p ?e)"
      unfolding config_row_def using f by (simp add: find_update_rows)
    then have row: "config_row ?u ?p ?e = Some (changed_row ch ?now q)" by (simp add: q(1))
    have old: "readConfiguration ?u p e = readConfiguration s p e" if pe: "p \<noteq> ?p \<or> e \<noteq> ?e" for p e
    proof (cases "readConfiguration s p e")
      case (Some c')
      then have "pc_id c' \<noteq> cg_id q" using read_ids [OF s Some \<open>readConfiguration s ?p ?e = Some c\<close>] pe q(2) by auto
      then show ?thesis unfolding read s'(2) by (simp add: change_configuration_def Some)
    next
      case None
      then show ?thesis unfolding read s'(2) by (simp add: change_configuration_def)
    qed
    have loop': "collect (replace_credential h ch ?now i) (ch_replacements ch) ?u = (Inr us, t)" unfolding i by (rule loop)
    show thesis
      by (rule that [OF u row _ _ _ old loop']) (simp_all add: i Some, simp_all add: q(2) changed_row_def)
  qed
  have r: "r \<in> set (pb_configs u)" "cg_provider r = ?p" using u(2) config_row_iff [OF u(1)] by auto
  have t: "providers_ok t" "pb_configs t = pb_configs u" "\<And>j. j \<noteq> i \<Longrightarrow> credentials_of t j = credentials_of u j"
    "distinct (map cr_credentialType (ch_replacements ch)) \<Longrightarrow> \<forall>x\<in>set (ch_replacements ch). \<exists>row\<in>set (credentials_of t i). stored_credential row = x"
    using replace_credentials_keeps [OF r(1) u(3) u(1) r(1) _ rest] kinds r(2) by simp_all
  show ?thesis using after_save_rows [OF t(1,2) u(2-5) others t(3,4)] t(1) by blast
qed

lemma update_law:
  assumes s: "providers_ok s" and f: "\<And>r. cg_id (f r) = cg_id r \<and> cg_provider (f r) = cg_provider r \<and> cg_environment (f r) = cg_environment r"
    and g: "\<And>r. stored_configuration s (f r) = g (stored_configuration s r)"
    and run: "update_config i f (s\<lparr>pb_drawn := n\<rparr>) = (Inr u, t)"
  shows "providers_ok t \<and> readConfiguration t = change_configuration i g (readConfiguration s)"
proof -
  let ?s = "s\<lparr>pb_drawn := n\<rparr>"
  have s': "providers_ok ?s" "readConfiguration ?s = readConfiguration s" using same_tables_simps [OF drawn_same] s by auto
  have t: "t = ?s\<lparr>pb_configs := update_rows (\<lambda>r. cg_id r = i) f (pb_configs ?s)\<rparr>" using run by (simp add: update_config_def effect_Inr)
  have "stored_configuration ?s (f r) = g (stored_configuration ?s r)" for r
    using g [of r] stored_same [of ?s r s] stored_same [of ?s "f r" s] by (simp add: credentials_of_def)
  then show ?thesis unfolding t using update_config_ok [OF s'(1) f] update_config_read [OF f, of ?s g i] s'(2) by simp
qed

lemma revoked_rows:
  "filter (active_credential j) (update_rows (active_credential i) (xr_revokedAt_update (\<lambda>_. Some now)) rows) =
     (if j = i then [] else filter (active_credential j) rows)"
  "filter (\<lambda>x. xr_revokedAt x = None) (update_rows (active_credential i) (xr_revokedAt_update (\<lambda>_. Some now)) rows) =
     filter (\<lambda>x. xr_configurationId x \<noteq> i) (filter (\<lambda>x. xr_revokedAt x = None) rows)"
  by (induction rows) (auto simp: update_rows_def active_credential_def)

lemma revoke_law:
  assumes s: "providers_ok s" and run: "store_revokeCredentials h i a now s = (Inr u, t)"
  shows "providers_ok t \<and> readConfiguration t = change_configuration i
      (\<lambda>c. c\<lparr>pc_enabled := False, pc_validationStatus := NOT_VALIDATED, pc_credentials := []\<rparr>) (readConfiguration s)"
proof -
  let ?revoke = "update_rows (active_credential i) (xr_revokedAt_update (\<lambda>_. Some now)) (pb_credentials s)"
  let ?n = "ph_now h (pb_drawn s)" and ?s = "s\<lparr>pb_drawn := Suc (pb_drawn s), pb_credentials := ?revoke\<rparr>"
  let ?f = "\<lambda>r. r\<lparr>cg_enabled := False, cg_validationStatus := NOT_VALIDATED, cg_lastValidationCode := None,
       cg_lastValidatedAt := None, cg_updatedByUserId := a, cg_updatedAt := ?n\<rparr>"
  have t: "t = ?s\<lparr>pb_configs := update_rows (\<lambda>r. cg_id r = i) ?f (pb_configs ?s)\<rparr>"
    using run by (simp add: store_revokeCredentials_def in_transaction_Inr effect_Inr draw_run update_credentials_def update_config_def)
  have ids: "map xr_id ?revoke = map xr_id (pb_credentials s)" by (rule map_update_rows) simp
  have "live_rows ?s = filter (\<lambda>x. xr_configurationId x \<noteq> i) (live_rows s)"
    by (simp add: live_rows_def revoked_rows(2))
  moreover have "list_all (belongs (pb_configs s)) ?revoke"
    using s by (auto simp: providers_ok_def list_all_iff update_rows_def belongs_def)
  ultimately have s': "providers_ok ?s" using s ids by (simp add: providers_ok_def distinct_map_filter)
  have "stored_configuration ?s r = (\<lambda>c. if pc_id c = i then c\<lparr>pc_credentials := []\<rparr> else c) (stored_configuration s r)" for r
    by (simp add: stored_configuration_def revoked_rows(1))
  then have "readConfiguration ?s = change_configuration i (\<lambda>c. c\<lparr>pc_credentials := []\<rparr>) (readConfiguration s)"
    by (simp add: fun_eq_iff readConfiguration_def change_configuration_def config_row_def option.map_comp comp_def cong: option.map_cong)
  moreover have "readConfiguration t = change_configuration i (\<lambda>c. c\<lparr>pc_enabled := False, pc_validationStatus := NOT_VALIDATED\<rparr>) (readConfiguration ?s)"
    unfolding t by (rule update_config_read) (simp_all add: stored_configuration_def)
  moreover have "providers_ok t" unfolding t by (rule update_config_ok [OF s']) simp
  moreover have "z\<lparr>pc_credentials := [], pc_enabled := False, pc_validationStatus := NOT_VALIDATED\<rparr> =
      z\<lparr>pc_enabled := False, pc_validationStatus := NOT_VALIDATED, pc_credentials := []\<rparr>" for z :: StoredConfiguration
    by (cases z) simp
  ultimately show ?thesis by (simp add: change_configuration_def option.map_comp comp_def if_distrib cong: option.map_cong if_cong)
qed

end
