(* ===== verification/Provider_Admin.thy ===== *)
theory Provider_Admin
  imports Provider_Store_Laws
begin

text \<open>
  The administration of providers in the web application: the contract of the store on its tables, and the properties of
  any sequence of requests. The last section runs them on a concrete host.
\<close>

lemma same_events: "keeps (same_tables s) (draw f)" "keeps (same_tables s) (provider_emit h ev)" "keeps (same_tables s) (validate_request h url auth)"
proof -
  have modify: "keeps (same_tables s) (modify f)" if "\<And>u. pb_configs (f u) = pb_configs u \<and> pb_credentials (f u) = pb_credentials u" for f
    by (rule keeps_modify) (use that in \<open>simp add: same_tables_def\<close>)
  show drawn: "keeps (same_tables s) (draw f)" for f :: "nat \<Rightarrow> 'd" unfolding draw_def by (intro keeps_intro modify) simp
  have "keeps (same_tables s) (event_security h ev x y z)" for x y z
    unfolding event_security_def by (intro keeps_intro drawn modify) simp
  moreover have "keeps (same_tables s) (event_mail h ev)" unfolding event_mail_def Let_def by (intro keeps_intro drawn modify) simp
  moreover have "keeps (same_tables s) (zoom pb_audit (\<lambda>a s. s\<lparr>pb_audit := a\<rparr>) m)" for m :: "(AuditLog, AuditRecord) eff"
    by (rule keeps_zoom) (simp add: same_tables_def)
  ultimately show "keeps (same_tables s) (provider_emit h ev)" unfolding provider_emit_def by (intro keeps_intro)
  show "keeps (same_tables s) (validate_request h url auth)" unfolding validate_request_def by (intro keeps_intro drawn)
qed

lemma same_events_run: "keeps (same_tables s) m \<Longrightarrow> providers_ok s \<Longrightarrow> m s = (r, t) \<Longrightarrow> providers_ok t \<and> readConfiguration t = readConfiguration s"
  using keepsD [of "same_tables s" m s r t] same_tables_simps [of s t] by simp

lemma transaction_run_same: "providers_ok s \<Longrightarrow> in_transaction m s = (Inl e, t) \<Longrightarrow> providers_ok t \<and> readConfiguration t = readConfiguration s"
  using in_transaction_Inl [of m s e t] same_tables_simps [of s t] by simp

interpretation web: provider_store "web_providers h" readConfiguration providers_ok for h
proof unfold_locales
  fix s t :: ProviderDb and p p' :: ProviderName and e e' :: ProviderContext and c c' :: StoredConfiguration and i a :: ident
    and ch :: ConfigurationChange and u :: unit and b :: bool and x :: error and now :: time and status :: ValidationStatus and code :: string
    and ev :: OperationalEvent and r1 :: "error + unit" and r2 :: "error + time" and r3 :: "error + string" and key :: string
  assume s: "providers_ok s"
  show "pp_get (web_providers h) p e s = (Inr (readConfiguration s p e), s)" by (simp add: web_providers_def store_get_def eff_simps)
  show "pc_provider c = p \<and> pc_environment c = e \<and> distinct (map cr_credentialType (pc_credentials c)) \<and>
      cr_credentialType ` set (pc_credentials c) \<subseteq> set (requiredProviderCredentials p)" if "readConfiguration s p e = Some c"
    by (rule read_shape [OF s that])
  show "p = p' \<and> e = e'" if "readConfiguration s p e = Some c" "readConfiguration s p' e' = Some c'" "pc_id c = pc_id c'"
    by (rule read_ids [OF s that])
  show "providers_ok t \<and> after_save ch i (readConfiguration s) (readConfiguration t)"
    if "cr_credentialType ` set (ch_replacements ch) \<subseteq> set (requiredProviderCredentials (ch_provider ch))" "pp_save (web_providers h) ch s = (Inr i, t)"
    using save_law [OF s that(1)] that(2) by (simp add: web_providers_def)
  show "providers_ok t \<and> readConfiguration t = readConfiguration s" if "pp_save (web_providers h) ch s = (Inl x, t)"
    using that by (intro transaction_run_same [OF s]) (simp add: web_providers_def store_saveConfiguration_def)
  show "providers_ok t \<and> readConfiguration t = change_configuration i (pc_enabled_update (\<lambda>_. b)) (readConfiguration s)"
    if run: "pp_setEnabled (web_providers h) i a b s = (Inr u, t)"
    using run by (intro update_law [OF s]) (auto simp: web_providers_def store_setEnabled_def effect_Inr draw_run stored_configuration_def)
  show "providers_ok t \<and> readConfiguration t = change_configuration i
      (\<lambda>c. c\<lparr>pc_enabled := False, pc_validationStatus := NOT_VALIDATED, pc_credentials := []\<rparr>) (readConfiguration s)"
    if "pp_revoke (web_providers h) i a now s = (Inr u, t)" using revoke_law [OF s] that by (simp add: web_providers_def)
  show "providers_ok t \<and> readConfiguration t = change_configuration i (pc_validationStatus_update (\<lambda>_. status)) (readConfiguration s)"
    if run: "pp_record (web_providers h) i a status code now s = (Inr u, t)"
    using run by (intro update_law [OF s]) (auto simp: web_providers_def store_recordValidation_def effect_Inr draw_run stored_configuration_def)
  show "providers_ok t \<and> readConfiguration t = readConfiguration s" if "pp_setEnabled (web_providers h) i a b s = (Inl x, t)"
    using that by (simp add: web_providers_def store_setEnabled_def draw_def update_config_def eff_simps)
  show "providers_ok t \<and> readConfiguration t = readConfiguration s" if "pp_revoke (web_providers h) i a now s = (Inl x, t)"
    using that by (intro transaction_run_same [OF s]) (simp add: web_providers_def store_revokeCredentials_def)
  show "providers_ok t \<and> readConfiguration t = readConfiguration s" if "pp_record (web_providers h) i a status code now s = (Inl x, t)"
    using that by (simp add: web_providers_def store_recordValidation_def draw_def update_config_def eff_simps)
  show "providers_ok t \<and> readConfiguration t = readConfiguration s" if "pp_emit (web_providers h) ev s = (r1, t)"
    using that by (intro same_events_run [OF same_events(2) s]) (simp add: web_providers_def)
  show "providers_ok t \<and> readConfiguration t = readConfiguration s" if "pp_clock (web_providers h) s = (r2, t)"
    using that by (intro same_events_run [OF same_events(1) s]) (simp add: web_providers_def)
  show "providers_ok t \<and> readConfiguration t = readConfiguration s" if "pp_nonce (web_providers h) s = (r3, t)"
    using that by (intro same_events_run [OF same_events(1) s]) (simp add: web_providers_def)
  show "providers_ok t \<and> readConfiguration t = readConfiguration s" if "pp_validatePayMongo (web_providers h) key s = (r1, t)"
    using that by (intro same_events_run [OF same_events(3) s]) (simp add: web_providers_def validatePayMongo_def)
  show "providers_ok t \<and> readConfiguration t = readConfiguration s" if "pp_validateResend (web_providers h) key s = (r1, t)"
    using that by (intro same_events_run [OF same_events(3) s]) (simp add: web_providers_def validateResend_def)
qed

section \<open>Properties\<close>

lemma web_ports [simp]:
  "pp_runtime (web_providers h) = provider_runtime (ph_env h)" "pp_crypto (web_providers h) = ph_crypto h"
  "pp_keyRing (web_providers h) = provider_keyRing (ph_number h) (ph_env h)" "pp_resendSenderDomain (web_providers h) = ph_resendSenderDomain h"
  by (simp_all add: web_providers_def)

lemma request_keeps_live_off:
  "web.safe (web.live_off h) s \<Longrightarrow> web.safe (web.live_off h) (provider_request h r s)"
  by (cases r) (simp_all add: keeps_apply [OF web.save_keeps_live_off] keeps_apply [OF web.setState_keeps_live_off]
      keeps_apply [OF web.revoke_keeps_live_off] keeps_apply [OF web.validate_keeps_live_off])

lemma requests_keep_live_off:
  "web.safe (web.live_off h) s \<Longrightarrow> web.safe (web.live_off h) (provider_requests h rs s)"
  unfolding provider_requests_def by (induction rs arbitrary: s) (simp_all add: request_keeps_live_off)

lemma nothing_safe: "web.safe (web.live_off h) no_providers"
  by (simp add: web.safe_def web.live_off_def providers_ok_def no_providers_def live_rows_def readConfiguration_def config_row_def)

text \<open>C32 Whatever source a payment configuration is resolved from, the database, the environment, or the environment after the
  database failed, its mode is the configured one, live only in production that is not simulated, and its secret key and
  webhook secret are of that mode and shape.\<close>

theorem resolved_payments_fit_mode:
  assumes "resolvePayMongo d s = (Inr r, t)"
  shows "py_livemode r = rt_payMongoLivemode (pp_runtime d) \<and>
    (py_livemode r \<longrightarrow> rt_deploymentEnvironment (pp_runtime d) = ''production'' \<and> \<not> rt_localProductionSimulation (pp_runtime d)) \<and>
    startsWith (py_secretKey r) (if py_livemode r then ''sk_live_'' else ''sk_test_'') \<and> startsWith (py_webhookSecret r) ''whsk_''"
proof -
  obtain ctx where ctx: "desiredPayMongoContext (pp_runtime d) = Inr ctx"
      and source: "resolveProviderSource (rt_source (pp_runtime d)) (rt_allowEnvironmentFallback (pp_runtime d))
        (databasePayMongo d ctx) (from_result (environmentPayMongo (pp_runtime d) (pp_resendSenderDomain d))) s = (Inr r, t)"
    using assms by (auto simp: resolvePayMongo_def effect_Inr)
  have "fits_mode (pp_runtime d) r"
    using resolve_source_Inr [OF source] database_fits [OF ctx] environment_fits by (auto simp: from_result_Inr)
  then show ?thesis by (auto simp: fits_mode_def live_forbidden_def)
qed

text \<open>C30 Outside production, and in a local simulation of it, no sequence of administrator requests, failed ones included, leaves a
  live payment configuration enabled, and none of them makes live payments resolve.\<close>

theorem live_payments_stay_off:
  assumes forbidden: "live_forbidden (provider_runtime (ph_env h))"
  shows "(\<forall>c. readConfiguration (provider_requests h rs no_providers) PAYMONGO LIVE = Some c \<longrightarrow> \<not> pc_enabled c) \<and>
    (\<forall>r t. resolvePayMongo (web_providers h) (provider_requests h rs no_providers) = (Inr r, t) \<longrightarrow> \<not> py_livemode r)"
proof (intro conjI allI impI)
  let ?s = "provider_requests h rs no_providers"
  show "\<not> pc_enabled c" if "readConfiguration ?s PAYMONGO LIVE = Some c" for c
    using requests_keep_live_off [OF nothing_safe, of h rs] that forbidden by (auto simp: web.safe_def web.live_off_def)
  show "\<not> py_livemode r" if "resolvePayMongo (web_providers h) ?s = (Inr r, t)" for r t
    using that forbidden desired_context [of "provider_runtime (ph_env h)"] database_fits [of "web_providers h" _ _ r] environment_fits
    by (auto simp: resolvePayMongo_def effect_Inr from_result_Inr fits_mode_def dest!: resolve_source_Inr)
qed

text \<open>C31 Rotation of the payment credentials round-trips through encryption, the tables and decryption: when a save with both secrets
  returns, a host that resolves from the database gets exactly the new secrets if the configuration was enabled before, and finds
  it disabled otherwise.\<close>

theorem rotated_payments_resolve:
  assumes tables: "providers_ok s" and cipher: "opens (ph_crypto h)" and nonces: "\<forall>n. ph_nonce h n \<noteq> []"
    and runtime: "rt_source (provider_runtime (ph_env h)) = DATABASE" "\<not> rt_allowEnvironmentFallback (provider_runtime (ph_env h))"
      "desiredPayMongoContext (provider_runtime (ph_env h)) = Inr ctx"
    and input: "sq_provider input = PAYMONGO" "sq_environment input = ctx" "sq_secrets input = [(SECRET_KEY, sk), (WEBHOOK_SECRET, wh)]"
    and shape: "assertProviderCredentialShape PAYMONGO ctx [(SECRET_KEY, sk), (WEBHOOK_SECRET, wh)] None (ph_resendSenderDomain h) = Inr ()"
    and run: "saveConfiguration (web_providers h) input s = (Inr i, t)"
  shows "resolvePayMongo (web_providers h) t = (case readConfiguration s PAYMONGO ctx of
      Some c \<Rightarrow> if pc_enabled c then Inr \<lparr>py_source = DATABASE, py_secretKey = sk, py_webhookSecret = wh, py_livemode = (ctx = LIVE)\<rparr>
                else Inl ''PROVIDER_CONFIG_DISABLED''
    | None \<Rightarrow> Inl ''PROVIDER_CONFIG_DISABLED'', t)"
proof -
  have "draws_nonces (web_providers h)" using nonces by (auto simp: draws_nonces_def web_providers_def draw_run)
  with web.replaced_payments_resolve [OF tables, of h input ctx sk wh i t] assms show ?thesis by simp
qed

text \<open>C33 Once the payment credentials of the configured mode are revoked, a host that resolves from the database alone finds its payment
  configuration disabled.\<close>

theorem revoked_provider_stays_off:
  assumes "providers_ok s" and "revokeCredentials (web_providers h) actor PAYMONGO ctx s = (Inr (), t)"
    and "rt_source (provider_runtime (ph_env h)) = DATABASE" "\<not> rt_allowEnvironmentFallback (provider_runtime (ph_env h))"
    and "desiredPayMongoContext (provider_runtime (ph_env h)) = Inr ctx"
  shows "resolvePayMongo (web_providers h) t = (Inl ''PROVIDER_CONFIG_DISABLED'', t)"
  using web.revoked_payments_do_not_resolve [OF assms(1,2)] assms(3-5) by simp

section \<open>A concrete host\<close>

definition numbered :: "string \<Rightarrow> nat \<Rightarrow> string" where
  "numbered prefix n = prefix @ decimal (int n)"

text \<open>A cipher that seals in clear, with the nonce as tag.\<close>

definition clear_crypto :: ProviderCrypto where
  "clear_crypto = \<lparr>pv_sha256 = id, pv_seal = (\<lambda>key nonce aad body. (body, CHR ''t'' # nonce)),
     pv_open = (\<lambda>key nonce aad tag body. if tag = CHR ''t'' # nonce then Some body else None)\<rparr>"

definition demo_env :: process_env where
  "demo_env = map_of [(''DEPLOYMENT_ENV'', ''staging''), (''PROVIDER_CREDENTIALS_ENCRYPTION_KEY'', replicate 32 CHR ''k'')]"

definition provider_demo :: ProviderHost where
  "provider_demo = \<lparr>ph_uuid = numbered ''u'', ph_nonce = numbered ''n'', ph_clock = (\<lambda>n. 1000 + int n), ph_now = (\<lambda>n. 1000 + int n),
     ph_fetch = (\<lambda>n url auth. Inr 200), ph_env = demo_env, ph_number = (\<lambda>_. None), ph_crypto = clear_crypto,
     ph_resendSenderDomain = ''jl-bke.com''\<rparr>"

definition test_secrets :: "string \<Rightarrow> SaveRequest" where
  "test_secrets suffix = \<lparr>sq_actorId = ''admin'', sq_provider = PAYMONGO, sq_environment = TEST,
     sq_secrets = [(SECRET_KEY, ''sk_test_'' @ suffix), (WEBHOOK_SECRET, ''whsk_'' @ suffix)],
     sq_senderName = None, sq_senderEmail = None, sq_supportEmail = None\<rparr>"

definition enabled_db :: ProviderDb where
  "enabled_db = provider_requests provider_demo [SaveProvider (test_secrets ''a''), ValidateProvider ''admin'' PAYMONGO TEST,
     SetProvider ''admin'' PAYMONGO TEST True, SetProvider ''admin'' PAYMONGO LIVE True] no_providers"

lemma enabled_db_ok: "providers_ok enabled_db"
  using requests_keep_live_off [OF nothing_safe] by (simp add: enabled_db_def web.safe_def)

lemma demo_runtime:
  "rt_source (provider_runtime (ph_env provider_demo)) = DATABASE" "\<not> rt_allowEnvironmentFallback (provider_runtime (ph_env provider_demo))"
  "desiredPayMongoContext (provider_runtime (ph_env provider_demo)) = Inr TEST" "live_forbidden (provider_runtime (ph_env provider_demo))"
  by code_simp+

lemma demo_enabled: "map_option pc_enabled (readConfiguration enabled_db PAYMONGO TEST) = Some True"
  by code_simp

lemma resolved_payments_fit_mode_witness:
  "\<exists>r t. resolvePayMongo (web_providers provider_demo) enabled_db = (Inr r, t) \<and> \<not> py_livemode r \<and> startsWith (py_secretKey r) ''sk_test_''"
proof -
  have "fst (resolvePayMongo (web_providers provider_demo) enabled_db) =
      Inr \<lparr>py_source = DATABASE, py_secretKey = ''sk_test_a'', py_webhookSecret = ''whsk_a'', py_livemode = False\<rparr>" by code_simp
  then obtain r t where run: "resolvePayMongo (web_providers provider_demo) enabled_db = (Inr r, t)"
    by (cases "resolvePayMongo (web_providers provider_demo) enabled_db") auto
  moreover have "\<not> rt_payMongoLivemode (pp_runtime (web_providers provider_demo))" by code_simp
  ultimately show ?thesis using resolved_payments_fit_mode [OF run] by auto
qed

lemma live_payments_stay_off_witness:
  "\<not> (\<exists>c. readConfiguration (provider_requests provider_demo [SaveProvider (test_secrets ''a''\<lparr>sq_environment := LIVE\<rparr>),
      ValidateProvider ''admin'' PAYMONGO LIVE, SetProvider ''admin'' PAYMONGO LIVE True] no_providers) PAYMONGO LIVE = Some c \<and> pc_enabled c)"
  using live_payments_stay_off [OF demo_runtime(4)] by blast

lemma rotated_payments_resolve_witness:
  "\<exists>i t. saveConfiguration (web_providers provider_demo) (test_secrets ''b'') enabled_db = (Inr i, t) \<and>
     resolvePayMongo (web_providers provider_demo) t =
       (Inr \<lparr>py_source = DATABASE, py_secretKey = ''sk_test_b'', py_webhookSecret = ''whsk_b'', py_livemode = False\<rparr>, t)"
proof -
  have "fst (saveConfiguration (web_providers provider_demo) (test_secrets ''b'') enabled_db) = Inr ''u4''" by code_simp
  then obtain i t where run: "saveConfiguration (web_providers provider_demo) (test_secrets ''b'') enabled_db = (Inr i, t)"
    by (cases "saveConfiguration (web_providers provider_demo) (test_secrets ''b'') enabled_db") auto
  have cipher: "opens (ph_crypto provider_demo)" by (auto simp: opens_def provider_demo_def clear_crypto_def)
  have nonces: "\<forall>n. ph_nonce provider_demo n \<noteq> []" by (simp add: provider_demo_def numbered_def)
  have input: "sq_provider (test_secrets ''b'') = PAYMONGO" "sq_environment (test_secrets ''b'') = TEST"
      "sq_secrets (test_secrets ''b'') = [(SECRET_KEY, ''sk_test_b''), (WEBHOOK_SECRET, ''whsk_b'')]" by (simp_all add: test_secrets_def)
  have shape: "assertProviderCredentialShape PAYMONGO TEST [(SECRET_KEY, ''sk_test_b''), (WEBHOOK_SECRET, ''whsk_b'')] None
      (ph_resendSenderDomain provider_demo) = Inr ()" by code_simp
  obtain c where "readConfiguration enabled_db PAYMONGO TEST = Some c" "pc_enabled c" using demo_enabled by auto
  then show ?thesis
    using rotated_payments_resolve [OF enabled_db_ok cipher nonces demo_runtime(1-3) input shape run] run by auto
qed

lemma revoked_provider_stays_off_witness:
  "\<exists>t. revokeCredentials (web_providers provider_demo) ''admin'' PAYMONGO TEST enabled_db = (Inr (), t) \<and>
     resolvePayMongo (web_providers provider_demo) t = (Inl ''PROVIDER_CONFIG_DISABLED'', t)"
proof -
  have "fst (revokeCredentials (web_providers provider_demo) ''admin'' PAYMONGO TEST enabled_db) = Inr ()" by code_simp
  then obtain t where run: "revokeCredentials (web_providers provider_demo) ''admin'' PAYMONGO TEST enabled_db = (Inr (), t)"
    by (cases "revokeCredentials (web_providers provider_demo) ''admin'' PAYMONGO TEST enabled_db") auto
  then show ?thesis using revoked_provider_stays_off [OF enabled_db_ok run demo_runtime(1-3)] by blast
qed

end
