(* ===== verification/Agent_Db.thy ===== *)
theory Agent_Db
  imports Agent_Material
begin

text \<open>
  The tables of the agent sessions, as the migrations declare them, and who may act for an account
  (\<open>apps/web/accounts/agent-device-session-authorization.ts\<close>). A statement that would break a constraint of
  its table throws and changes nothing; a transaction that throws is rolled back. Foreign keys to users and
  accounts are not checked, and \<open>createdAt\<close> and \<open>updatedAt\<close> are kept only where the code reads them.
\<close>

section \<open>Rows\<close>

datatype AuthorizationKind = DEVICE_CODE | NATIVE_HANDOFF

datatype AuthorizationStatus = AUTH_PENDING | AUTH_APPROVED | AUTH_DENIED | AUTH_EXPIRED | AUTH_CONSUMED

record AuthorizationRow =
  au_id :: ident
  au_deviceCodeHash :: string
  au_userCodeHash :: string
  au_deviceId :: string
  au_deviceName :: "string option"
  au_platform :: string
  au_architecture :: string
  au_kind :: AuthorizationKind
  au_status :: AuthorizationStatus
  au_expiresAt :: time
  au_pollIntervalSeconds :: int
  au_lastPollAt :: "time option"
  au_approvedByUserId :: "ident option"
  au_approvedAccountId :: "ident option"
  au_approvedAt :: "time option"
  au_deniedAt :: "time option"
  au_consumedAt :: "time option"
  au_handoffExpiresAt :: "time option"
  au_sessionId :: "ident option"
  au_tokenBundleCiphertext :: "string option"

record SessionRow =
  se_id :: ident
  se_deviceAuthorizationId :: ident
  se_userId :: ident
  se_accountId :: ident
  se_deviceId :: string
  se_accessTokenHash :: string
  se_accessExpiresAt :: time
  se_refreshExpiresAt :: time
  se_refreshGeneration :: int
  se_revokedAt :: "time option"
  se_lastSeenAt :: "time option"
  se_recentAuthenticatedAt :: "time option"
  se_createdAt :: time

datatype TokenStatus = TOKEN_ACTIVE | TOKEN_ROTATED | TOKEN_REVOKED

record TokenRow =
  tk_id :: ident
  tk_sessionId :: ident
  tk_tokenHash :: string
  tk_generation :: int
  tk_status :: TokenStatus
  tk_expiresAt :: time
  tk_rotatedAt :: "time option"
  tk_revokedAt :: "time option"

datatype LifecycleState = ACTIVE | SUSPENDED | CLOSURE_REQUESTED | CLOSED | PRIVACY_REVIEW | PSEUDONYMIZED | PURGE_ELIGIBLE

record UserRow =
  us_id :: ident
  us_email :: string
  us_emailVerified :: "time option"
  us_lifecycleState :: LifecycleState

record AccountRow =
  ac_id :: ident
  ac_type :: AccountType
  ac_displayName :: string
  ac_ownerId :: ident
  ac_lifecycleState :: LifecycleState
  ac_memberships :: "(ident \<times> string) list"

text \<open>The time of the last password change, and when the administrator's second factor was enabled and disabled.\<close>

record CredentialRow =
  cr_userId :: ident
  cr_changedAt :: time

record MfaRow =
  mf_userId :: ident
  mf_enabledAt :: "time option"
  mf_disabledAt :: "time option"

record AuditEntry =
  ae_actorId :: ident
  ae_accountId :: ident
  ae_action :: string
  ae_targetType :: string
  ae_targetId :: ident
  ae_metadata :: json_object

record AgentDb =
  ag_auths :: "AuthorizationRow list"
  ag_sessions :: "SessionRow list"
  ag_tokens :: "TokenRow list"
  ag_users :: "UserRow list"
  ag_accounts :: "AccountRow list"
  ag_credentials :: "CredentialRow list"
  ag_mfa :: "MfaRow list"
  ag_audit :: "AuditEntry list"

section \<open>Constraints\<close>

text \<open>The five shape checks of a device authorization.\<close>

definition auth_check :: "AuthorizationRow \<Rightarrow> bool" where
  "auth_check r \<longleftrightarrow>
     2 \<le> au_pollIntervalSeconds r \<and> au_pollIntervalSeconds r \<le> 60 \<and>
     (au_status r \<noteq> AUTH_PENDING \<or>
        (au_approvedByUserId r = None \<and> au_approvedAccountId r = None \<and> au_approvedAt r = None \<and> au_deniedAt r = None \<and>
         au_consumedAt r = None \<and> au_sessionId r = None)) \<and>
     (au_status r \<notin> {AUTH_APPROVED, AUTH_CONSUMED} \<or>
        (au_approvedByUserId r \<noteq> None \<and> au_approvedAccountId r \<noteq> None \<and> au_approvedAt r \<noteq> None)) \<and>
     (au_status r \<noteq> AUTH_DENIED \<or> au_deniedAt r \<noteq> None) \<and>
     (au_status r \<noteq> AUTH_CONSUMED \<or> (au_consumedAt r \<noteq> None \<and> au_handoffExpiresAt r \<noteq> None \<and> au_sessionId r \<noteq> None))"

definition session_check :: "SessionRow \<Rightarrow> bool" where
  "session_check r \<longleftrightarrow> 0 \<le> se_refreshGeneration r \<and> se_accessExpiresAt r < se_refreshExpiresAt r"

definition token_check :: "TokenRow \<Rightarrow> bool" where
  "token_check r \<longleftrightarrow> 0 \<le> tk_generation r \<and> (tk_status r \<noteq> TOKEN_ROTATED \<or> tk_rotatedAt r \<noteq> None) \<and>
     (tk_status r \<noteq> TOKEN_REVOKED \<or> tk_revokedAt r \<noteq> None)"

definition auths_ok :: "AuthorizationRow list \<Rightarrow> bool" where
  "auths_ok rows \<longleftrightarrow> list_all auth_check rows \<and> distinct (map au_id rows) \<and> distinct (map au_deviceCodeHash rows) \<and>
     distinct (map au_userCodeHash rows) \<and> distinct (List.map_filter au_sessionId rows)"

definition sessions_ok :: "AuthorizationRow list \<Rightarrow> SessionRow list \<Rightarrow> bool" where
  "sessions_ok auths rows \<longleftrightarrow> list_all session_check rows \<and> distinct (map se_id rows) \<and>
     distinct (map se_deviceAuthorizationId rows) \<and> distinct (map se_accessTokenHash rows) \<and>
     list_all (\<lambda>r. se_deviceAuthorizationId r \<in> au_id ` set auths) rows"

definition tokens_ok :: "SessionRow list \<Rightarrow> TokenRow list \<Rightarrow> bool" where
  "tokens_ok sessions rows \<longleftrightarrow> list_all token_check rows \<and> distinct (map tk_id rows) \<and> distinct (map tk_tokenHash rows) \<and>
     distinct (map (\<lambda>r. (tk_sessionId r, tk_generation r)) rows) \<and>
     list_all (\<lambda>r. tk_sessionId r \<in> se_id ` set sessions) rows"

definition CONSTRAINT :: error where
  "CONSTRAINT = ''violates constraint''"

definition write_auths :: "(AuthorizationRow list \<Rightarrow> AuthorizationRow list) \<Rightarrow> (AgentDb, unit) eff" where
  "write_auths f s = (if auths_ok (f (ag_auths s)) then (Inr (), s\<lparr>ag_auths := f (ag_auths s)\<rparr>) else (Inl CONSTRAINT, s))"

definition write_sessions :: "(SessionRow list \<Rightarrow> SessionRow list) \<Rightarrow> (AgentDb, unit) eff" where
  "write_sessions f s =
     (if sessions_ok (ag_auths s) (f (ag_sessions s)) then (Inr (), s\<lparr>ag_sessions := f (ag_sessions s)\<rparr>) else (Inl CONSTRAINT, s))"

definition write_tokens :: "(TokenRow list \<Rightarrow> TokenRow list) \<Rightarrow> (AgentDb, unit) eff" where
  "write_tokens f s =
     (if tokens_ok (ag_sessions s) (f (ag_tokens s)) then (Inr (), s\<lparr>ag_tokens := f (ag_tokens s)\<rparr>) else (Inl CONSTRAINT, s))"

definition audit_create :: "AuditEntry \<Rightarrow> (AgentDb, unit) eff" where
  "audit_create e = modify (\<lambda>s. s\<lparr>ag_audit := ag_audit s @ [e]\<rparr>)"

section \<open>Access to accounts\<close>

record AgentDeviceAuthorizedAccount =
  aa_id :: ident
  aa_type :: AccountType
  aa_displayName :: string
  aa_effectiveRole :: string

definition account_matches :: "ident \<Rightarrow> AccountRow \<Rightarrow> bool" where
  "account_matches who a \<longleftrightarrow> ac_ownerId a = who \<or> (\<exists>m\<in>set (ac_memberships a). fst m = who)"

text \<open>The first membership of the user, and the role it gives beside ownership.\<close>

definition effective_role :: "ident \<Rightarrow> AccountRow \<Rightarrow> string option" where
  "effective_role who a =
     (if ac_ownerId a = who then Some ''OWNER'' else map_of (ac_memberships a) who)"

definition authorized_account :: "AccountRow \<Rightarrow> string \<Rightarrow> AgentDeviceAuthorizedAccount" where
  "authorized_account a role =
     \<lparr>aa_id = ac_id a, aa_type = ac_type a, aa_displayName = ac_displayName a, aa_effectiveRole = role\<rparr>"

definition account_access :: "AccountRow list \<Rightarrow> ident \<Rightarrow> ident \<Rightarrow> error + AgentDeviceAuthorizedAccount" where
  "account_access accounts principalId accountId =
     (let who = js_trim principalId; i = js_trim accountId in
      if who = [] \<or> i = [] then Inl ''ACCOUNT_ROLE_FORBIDDEN''
      else case List.find (\<lambda>a. ac_id a = i \<and> account_matches who a) accounts of
          None \<Rightarrow> Inl ''NOT_FOUND''
        | Some a \<Rightarrow>
            (if ac_lifecycleState a = SUSPENDED then Inl ''SUSPENDED_ACCOUNT''
             else if ac_lifecycleState a = CLOSED then Inl ''CLOSED_ACCOUNT''
             else if ac_lifecycleState a \<noteq> ACTIVE then Inl ''ACCOUNT_NOT_ACTIVE''
             else case effective_role who a of
                 None \<Rightarrow> Inl ''ACCOUNT_ROLE_FORBIDDEN''
               | Some role \<Rightarrow> (if role = [] then Inl ''ACCOUNT_ROLE_FORBIDDEN'' else Inr (authorized_account a role))))"

definition requireAgentDeviceAccountAccessInTransaction ::
    "ident \<Rightarrow> ident \<Rightarrow> (AgentDb, AgentDeviceAuthorizedAccount) eff" where
  "requireAgentDeviceAccountAccessInTransaction principalId accountId =
     bnd (gets ag_accounts) (\<lambda>accounts. from_result (account_access accounts principalId accountId))"

text \<open>
  The accounts a principal may choose, with the ones it has no role in left out; the ordering of the query
  is by type, display name and id.
\<close>

definition account_key :: "AccountRow \<Rightarrow> nat \<times> string \<times> ident" where
  "account_key a = ((case ac_type a of INDIVIDUAL \<Rightarrow> 0 | ORGANIZATION \<Rightarrow> 1), ac_displayName a, ac_id a)"

fun string_less :: "string \<Rightarrow> string \<Rightarrow> bool" where
  "string_less [] [] = False"
| "string_less [] (d # ds) = True"
| "string_less (c # cs) [] = False"
| "string_less (c # cs) (d # ds) = ((of_char c :: nat) < of_char d \<or> c = d \<and> string_less cs ds)"

definition account_before :: "AccountRow \<Rightarrow> AccountRow \<Rightarrow> bool" where
  "account_before a b =
     (case (account_key a, account_key b) of ((t, n, i), (t', n', i')) \<Rightarrow>
        t < t' \<or> t = t' \<and> (string_less n n' \<or> n = n' \<and> string_less i i'))"

fun insert_account :: "AccountRow \<Rightarrow> AccountRow list \<Rightarrow> AccountRow list" where
  "insert_account a [] = [a]"
| "insert_account a (b # bs) = (if account_before b a then b # insert_account a bs else a # b # bs)"

definition listAgentDeviceAccountsInTransaction :: "ident \<Rightarrow> (AgentDb, AgentDeviceAuthorizedAccount list) eff" where
  "listAgentDeviceAccountsInTransaction principalId =
     (let who = js_trim principalId in
      if who = [] then ret []
      else
      bnd (gets (\<lambda>s. foldr insert_account (filter (\<lambda>a. ac_lifecycleState a = ACTIVE \<and> account_matches who a) (ag_accounts s)) []))
        (\<lambda>accounts. ret (List.map_filter (\<lambda>a. case effective_role who a of
            None \<Rightarrow> None | Some role \<Rightarrow> if role = [] then None else Some (authorized_account a role)) accounts)))"

end
