(* ===== verification/Customer_Lifecycle.thy ===== *)
theory Customer_Lifecycle
  imports Commerce_Db Agent_Db
begin

text \<open>
  The life of a customer: \<open>apps/web/accounts/customer-lifecycle-operations.ts\<close>, and the suspension of
  \<open>app/api/admin/customers/[id]/route.ts\<close>. Closure, reopening, privacy review, legal hold, pseudonymization and purge change
  the rows of the customer in a transaction; five of the operations read the customer before it, and the model keeps that
  reading and the transaction apart. The retention and transition policies of \<open>@bke/accounts\<close> and the minimization
  planner of \<open>@bke/privacy\<close> are parameters. A lifecycle error is its code; rows of tables that are not modelled do not refer to the
  customer.
\<close>

section \<open>Tables\<close>

record CustomerUser =
  cu_id :: ident
  cu_email :: string
  cu_name :: "string option"
  cu_emailVerified :: "time option"
  cu_role :: string
  cu_lifecycleState :: LifecycleState
  cu_suspendedAt :: "time option"
  cu_privacyRequestedAt :: "time option"
  cu_pseudonymizedAt :: "time option"
  cu_retentionExpiresAt :: "time option"
  cu_legalHoldAt :: "time option"
  cu_legalHoldReason :: "string option"
  cu_emailHash :: "string option"

record CustomerAccount =
  ca_id :: ident
  ca_type :: AccountType
  ca_displayName :: string
  ca_ownerId :: ident
  ca_billingEmail :: string
  ca_taxId :: "string option"
  ca_lifecycleState :: LifecycleState
  ca_closureRequestedAt :: "time option"
  ca_closedAt :: "time option"
  ca_privacyRequestedAt :: "time option"
  ca_pseudonymizedAt :: "time option"
  ca_retentionExpiresAt :: "time option"
  ca_legalHoldAt :: "time option"
  ca_legalHoldReason :: "string option"

record MembershipRow =
  mb_accountId :: ident
  mb_userId :: ident
  mb_role :: string
  mb_createdAt :: time

record AssignmentRow =
  as_id :: ident
  as_licenseId :: ident
  as_userId :: ident
  as_createdAt :: time

record TrialRow =
  tr_id :: ident
  tr_accountId :: ident
  tr_licenseId :: ident

record AcceptanceRow =
  lg_id :: ident
  lg_userId :: ident
  lg_accountId :: "ident option"

record CustomerMail =
  ml_id :: ident
  ml_recipient :: string
  ml_payload :: jvalue

record LifecycleAudit =
  la_actorId :: "ident option"
  la_accountId :: "ident option"
  la_action :: string
  la_targetType :: string
  la_targetId :: ident
  la_metadata :: json_object

text \<open>Rows of which only the owner is read are pairs of their id and the owner's id.\<close>

record CustomerDb =
  lf_users :: "CustomerUser list"
  lf_accounts :: "CustomerAccount list"
  lf_sessions :: "(ident \<times> ident) list"
  lf_credentials :: "ident list"
  lf_resetTokens :: "(ident \<times> ident) list"
  lf_verificationTokens :: "(ident \<times> string) list"
  lf_mails :: "CustomerMail list"
  lf_memberships :: "MembershipRow list"
  lf_assignments :: "AssignmentRow list"
  lf_orders :: "OrderRow list"
  lf_payments :: "PaymentRow list"
  lf_licenses :: "LicenseRow list"
  lf_subscriptions :: "SubscriptionRow list"
  lf_activations :: "ActivationRow list"
  lf_trials :: "TrialRow list"
  lf_acceptances :: "AcceptanceRow list"
  lf_carts :: "(ident \<times> ident) list"
  lf_invitations :: "(ident \<times> ident) list"
  lf_licenseEvents :: "LicenseEventRow list"
  lf_audit :: "LifecycleAudit list"

section \<open>Policies\<close>

record RetentionCounts =
  rc_ownedAccounts :: nat
  rc_organizationAccounts :: nat
  rc_memberships :: nat
  rc_licenseAssignments :: nat
  rc_orders :: nat
  rc_licenses :: nat
  rc_subscriptions :: nat
  rc_trials :: nat
  rc_legalAcceptances :: nat
  rc_activeSubscriptions :: nat
  rc_unresolvedPayments :: nat

text \<open>The facts are the counts but the first, with the four flags.\<close>

record RetentionFacts =
  rf_userId :: ident
  rf_administratorProtected :: bool
  rf_counts :: RetentionCounts
  rf_legalHold :: bool
  rf_retentionActive :: bool
  rf_pseudonymized :: bool

record RetentionReport =
  rr_userId :: ident
  rr_counts :: RetentionCounts
  rr_blockers :: "string list"
  rr_canPseudonymize :: bool
  rr_canMarkPurgeEligible :: bool
  rr_canPurge :: bool

record RetentionDecision =
  rd_userId :: ident
  rd_blockers :: "string list"
  rd_canPseudonymize :: bool
  rd_canMarkPurgeEligible :: bool
  rd_canPurge :: bool

record MinimizationPlan =
  mz_hashSource :: string
  mz_mailRecipient :: string
  mz_mailPayload :: jvalue
  mz_user :: "CustomerUser \<Rightarrow> CustomerUser"
  mz_account :: "CustomerAccount \<Rightarrow> CustomerAccount"
  mz_action :: string
  mz_targetType :: string
  mz_metadata :: json_object

record CustomerPolicies =
  cp_evaluate :: "RetentionFacts \<Rightarrow> error + RetentionDecision"
  cp_close :: "ident \<Rightarrow> ident \<Rightarrow> bool \<Rightarrow> LifecycleState \<Rightarrow> nat \<Rightarrow> error + unit"
  cp_reopen :: "bool \<Rightarrow> LifecycleState \<Rightarrow> bool \<Rightarrow> bool \<Rightarrow> error + unit"
  cp_requestDeletion :: "bool \<Rightarrow> bool \<Rightarrow> time \<Rightarrow> time \<Rightarrow> error + unit"
  cp_legalHold :: "bool \<Rightarrow> bool \<Rightarrow> string option \<Rightarrow> time \<Rightarrow> error + (time option \<times> string option)"
  cp_pseudonymize :: "LifecycleState \<Rightarrow> bool \<Rightarrow> string list \<Rightarrow> error + unit"
  cp_markPurgeEligible :: "bool \<Rightarrow> string list \<Rightarrow> error + unit"
  cp_finalPurge :: "ident \<Rightarrow> string \<Rightarrow> LifecycleState \<Rightarrow> bool \<Rightarrow> string list \<Rightarrow> error + unit"
  cp_minimize :: "ident \<Rightarrow> string \<Rightarrow> time \<Rightarrow> MinimizationPlan"
  cp_emailHash :: "string \<Rightarrow> string"  \<comment> \<open>the HMAC under the session secret\<close>

definition NOT_FOUND :: error where
  "NOT_FOUND = ''NOT_FOUND''"

definition FOREIGN_KEY :: error where
  "FOREIGN_KEY = ''violates foreign key constraint''"

section \<open>Statements\<close>

abbreviation set_users where "set_users f s \<equiv> s\<lparr>lf_users := f (lf_users s)\<rparr>"
abbreviation set_accounts where "set_accounts f s \<equiv> s\<lparr>lf_accounts := f (lf_accounts s)\<rparr>"

definition customers_ok :: "CustomerUser list \<Rightarrow> bool" where
  "customers_ok rows \<longleftrightarrow> distinct (map cu_id rows) \<and> distinct (map cu_email rows)"

definition find_user :: "CustomerDb \<Rightarrow> ident \<Rightarrow> CustomerUser option" where
  "find_user s i = find_by cu_id i (lf_users s)"

definition owned_accounts :: "CustomerDb \<Rightarrow> ident \<Rightarrow> CustomerAccount list" where
  "owned_accounts s i = filter (\<lambda>a. ca_ownerId a = i) (lf_accounts s)"

text \<open>\<open>user.update\<close>: the row must exist, and its e-mail stays unique.\<close>

definition update_user :: "ident \<Rightarrow> (CustomerUser \<Rightarrow> CustomerUser) \<Rightarrow> (CustomerDb, unit) eff" where
  "update_user i f =
     bnd (gets (\<lambda>s. find_user s i)) (\<lambda>found.
     if found = None then throw RECORD_NOT_FOUND
     else
     bnd (gets (\<lambda>s. update_rows (\<lambda>u. cu_id u = i) f (lf_users s))) (\<lambda>rows.
     if customers_ok rows then modify (set_users (\<lambda>_. rows)) else throw VIOLATION))"

definition update_accounts :: "(CustomerAccount \<Rightarrow> bool) \<Rightarrow> (CustomerAccount \<Rightarrow> CustomerAccount) \<Rightarrow> (CustomerDb, unit) eff" where
  "update_accounts p f = modify (set_accounts (update_rows p f))"

definition delete_sessions :: "ident \<Rightarrow> (CustomerDb, unit) eff" where
  "delete_sessions i = modify (\<lambda>s. s\<lparr>lf_sessions := filter (\<lambda>(_, u). u \<noteq> i) (lf_sessions s)\<rparr>)"

definition lifecycle_audit :: "ident \<Rightarrow> string \<Rightarrow> string \<Rightarrow> ident \<Rightarrow> json_object \<Rightarrow> (CustomerDb, unit) eff" where
  "lifecycle_audit actorId action targetType targetId metadata =
     modify (\<lambda>s. s\<lparr>lf_audit := lf_audit s @ [\<lparr>la_actorId = Some actorId, la_accountId = None, la_action = action, la_targetType = targetType,
       la_targetId = targetId, la_metadata = metadata\<rparr>]\<rparr>)"

text \<open>\<open>customerAccount.deleteMany\<close>: orders, licenses, subscriptions, trials and acceptances restrict it; memberships, carts and invitations
  go with the account; the audit log no longer refers to it (\<open>ON DELETE SET NULL\<close>).\<close>

definition forget_accounts :: "ident list \<Rightarrow> LifecycleAudit list \<Rightarrow> LifecycleAudit list" where
  "forget_accounts ids = update_rows (\<lambda>r. case la_accountId r of None \<Rightarrow> False | Some a \<Rightarrow> a \<in> set ids) (la_accountId_update (\<lambda>_. None))"

definition forget_actor :: "ident \<Rightarrow> LifecycleAudit list \<Rightarrow> LifecycleAudit list" where
  "forget_actor i = update_rows (\<lambda>r. la_actorId r = Some i) (la_actorId_update (\<lambda>_. None))"

definition delete_accounts :: "ident list \<Rightarrow> (CustomerDb, unit) eff" where
  "delete_accounts ids =
     bnd (gets (\<lambda>s. list_ex (\<lambda>r. or_accountId r \<in> set ids) (lf_orders s) \<or> list_ex (\<lambda>r. li_accountId r \<in> set ids) (lf_licenses s) \<or>
       list_ex (\<lambda>r. su_accountId r \<in> set ids) (lf_subscriptions s) \<or> list_ex (\<lambda>r. tr_accountId r \<in> set ids) (lf_trials s) \<or>
       list_ex (\<lambda>r. case lg_accountId r of None \<Rightarrow> False | Some a \<Rightarrow> a \<in> set ids) (lf_acceptances s))) (\<lambda>referred.
     if referred then throw FOREIGN_KEY
     else modify (\<lambda>s. s\<lparr>lf_accounts := filter (\<lambda>a. ca_id a \<notin> set ids) (lf_accounts s),
       lf_memberships := filter (\<lambda>m. mb_accountId m \<notin> set ids) (lf_memberships s),
       lf_carts := filter (\<lambda>(_, a). a \<notin> set ids) (lf_carts s), lf_invitations := filter (\<lambda>(_, a). a \<notin> set ids) (lf_invitations s),
       lf_audit := forget_accounts ids (lf_audit s)\<rparr>))"

text \<open>\<open>user.delete\<close>: accounts, license assignments and acceptances restrict it; sessions, the credential and memberships go with the user,
  and the audit log no longer names it as an actor.\<close>

definition delete_user :: "ident \<Rightarrow> (CustomerDb, unit) eff" where
  "delete_user i =
     bnd (gets (\<lambda>s. find_user s i)) (\<lambda>found.
     if found = None then throw RECORD_NOT_FOUND
     else
     bnd (gets (\<lambda>s. list_ex (\<lambda>a. ca_ownerId a = i) (lf_accounts s) \<or> list_ex (\<lambda>a. as_userId a = i) (lf_assignments s) \<or>
       list_ex (\<lambda>a. lg_userId a = i) (lf_acceptances s))) (\<lambda>referred.
     if referred then throw FOREIGN_KEY
     else modify (\<lambda>s. s\<lparr>lf_users := filter (\<lambda>u. cu_id u \<noteq> i) (lf_users s), lf_sessions := filter (\<lambda>(_, u). u \<noteq> i) (lf_sessions s),
       lf_credentials := filter (\<lambda>u. u \<noteq> i) (lf_credentials s), lf_memberships := filter (\<lambda>m. mb_userId m \<noteq> i) (lf_memberships s),
       lf_audit := forget_actor i (lf_audit s)\<rparr>)))"

section \<open>The retention report\<close>

definition live_subscription :: "SubscriptionRow \<Rightarrow> bool" where
  "live_subscription r \<longleftrightarrow> su_status r \<in> {SUB_ACTIVE, SUB_PAST_DUE, SUB_PENDING}"

definition unresolved_order :: "CustomerDb \<Rightarrow> OrderRow \<Rightarrow> bool" where
  "unresolved_order s r \<longleftrightarrow> or_status r = ORDER_PENDING \<or>
     list_ex (\<lambda>p. pm_orderId p = or_id r \<and> pm_status p \<in> {PAYMENT_PENDING, PAYMENT_PAID, PAYMENT_PARTIALLY_REFUNDED}) (lf_payments s)"

definition retention_counts :: "CustomerDb \<Rightarrow> ident \<Rightarrow> RetentionCounts" where
  "retention_counts s i =
     (let owned = owned_accounts s i; mine = (\<lambda>a. a \<in> ca_id ` set owned) in
      \<lparr>rc_ownedAccounts = length owned, rc_organizationAccounts = count_rows (\<lambda>a. ca_type a = ORGANIZATION) owned,
       rc_memberships = count_rows (\<lambda>m. mb_userId m = i) (lf_memberships s),
       rc_licenseAssignments = count_rows (\<lambda>a. as_userId a = i) (lf_assignments s),
       rc_orders = count_rows (\<lambda>r. mine (or_accountId r)) (lf_orders s), rc_licenses = count_rows (\<lambda>r. mine (li_accountId r)) (lf_licenses s),
       rc_subscriptions = count_rows (\<lambda>r. mine (su_accountId r)) (lf_subscriptions s),
       rc_trials = count_rows (\<lambda>r. mine (tr_accountId r)) (lf_trials s),
       rc_legalAcceptances = count_rows (\<lambda>r. lg_userId r = i) (lf_acceptances s) +
         count_rows (\<lambda>r. case lg_accountId r of None \<Rightarrow> False | Some a \<Rightarrow> mine a) (lf_acceptances s),
       rc_activeSubscriptions = count_rows (\<lambda>r. mine (su_accountId r) \<and> live_subscription r) (lf_subscriptions s),
       rc_unresolvedPayments = count_rows (\<lambda>r. mine (or_accountId r) \<and> unresolved_order s r) (lf_orders s)\<rparr>)"

definition retention_facts :: "CustomerDb \<Rightarrow> time \<Rightarrow> CustomerUser \<Rightarrow> RetentionFacts" where
  "retention_facts s now user =
     (let owned = owned_accounts s (cu_id user) in
      \<lparr>rf_userId = cu_id user, rf_administratorProtected = (cu_role user = ''ADMIN''),
       rf_counts = (retention_counts s (cu_id user))\<lparr>rc_ownedAccounts := 0\<rparr>,
       rf_legalHold = (cu_legalHoldAt user \<noteq> None \<or> list_ex (\<lambda>a. ca_legalHoldAt a \<noteq> None) owned),
       rf_retentionActive = list_ex (\<lambda>d. case d of None \<Rightarrow> False | Some e \<Rightarrow> e > now) (cu_retentionExpiresAt user # map ca_retentionExpiresAt owned),
       rf_pseudonymized = (cu_pseudonymizedAt user \<noteq> None)\<rparr>)"

definition customerRetentionBlockers :: "CustomerPolicies \<Rightarrow> time \<Rightarrow> ident \<Rightarrow> (CustomerDb, RetentionReport) eff" where
  "customerRetentionBlockers pol now userId =
     bnd (gets (\<lambda>s. find_user s userId)) (\<lambda>found.
     case found of
       None \<Rightarrow> throw NOT_FOUND
     | Some user \<Rightarrow>
         bnd (gets (\<lambda>s. cp_evaluate pol (retention_facts s now user))) (\<lambda>result.
         bnd (from_result result) (\<lambda>decision.
         gets (\<lambda>s. \<lparr>rr_userId = rd_userId decision, rr_counts = retention_counts s (cu_id user), rr_blockers = rd_blockers decision,
           rr_canPseudonymize = rd_canPseudonymize decision, rr_canMarkPurgeEligible = rd_canMarkPurgeEligible decision,
           rr_canPurge = rd_canPurge decision\<rparr>))))"

section \<open>Closing and reopening\<close>

definition suspend_entitlements :: "ident list \<Rightarrow> time \<Rightarrow> CustomerDb \<Rightarrow> CustomerDb" where
  "suspend_entitlements ids now s = s
     \<lparr>lf_subscriptions := update_rows (\<lambda>r. su_accountId r \<in> set ids \<and> live_subscription r) (su_status_update (\<lambda>_. SUB_CANCELLED)) (lf_subscriptions s),
      lf_licenses := update_rows (\<lambda>r. li_accountId r \<in> set ids \<and> li_status r = LICENSE_ACTIVE) (li_status_update (\<lambda>_. LICENSE_SUSPENDED)) (lf_licenses s),
      lf_activations := update_rows (\<lambda>d. list_ex (\<lambda>r. li_id r = da_licenseId d \<and> li_accountId r \<in> set ids) (lf_licenses s) \<and> da_active d)
        (\<lambda>d. d\<lparr>da_active := False, da_deactivatedAt := Some now\<rparr>) (lf_activations s)\<rparr>"

definition closeCustomer :: "CustomerPolicies \<Rightarrow> time \<Rightarrow> ident \<Rightarrow> ident \<Rightarrow> (CustomerDb, nat) eff" where
  "closeCustomer pol now userId actorId = transaction (
     bnd (gets (\<lambda>s. find_user s userId)) (\<lambda>found.
     case found of
       None \<Rightarrow> throw NOT_FOUND
     | Some user \<Rightarrow>
         bnd (gets (\<lambda>s. owned_accounts s (cu_id user))) (\<lambda>owned.
         bnd (from_result (cp_close pol (cu_id user) actorId (cu_role user = ''ADMIN'') (cu_lifecycleState user)
                (count_rows (\<lambda>a. ca_type a = ORGANIZATION) owned))) (\<lambda>_.
         let accountIds = map ca_id owned in
         bnd (delete_sessions (cu_id user)) (\<lambda>_.
         bnd (update_user (cu_id user) (\<lambda>u. u\<lparr>cu_lifecycleState := CLOSED, cu_suspendedAt := Some now\<rparr>)) (\<lambda>_.
         bnd (if accountIds = [] then ret ()
              else
              bnd (update_accounts (\<lambda>a. ca_id a \<in> set accountIds)
                     (\<lambda>a. a\<lparr>ca_lifecycleState := CLOSED, ca_closureRequestedAt := Some now, ca_closedAt := Some now\<rparr>)) (\<lambda>_.
              modify (suspend_entitlements accountIds now))) (\<lambda>_.
         bnd (lifecycle_audit actorId ''CUSTOMER_ACCOUNT_CLOSED'' ''User'' (cu_id user) [(''accountCount'', JNumber (int (length accountIds)))]) (\<lambda>_.
         ret (length accountIds)))))))))"

definition reopenCustomer :: "CustomerPolicies \<Rightarrow> ident \<Rightarrow> ident \<Rightarrow> (CustomerDb, unit) eff" where
  "reopenCustomer pol userId actorId = transaction (
     bnd (gets (\<lambda>s. find_user s userId)) (\<lambda>found.
     case found of
       None \<Rightarrow> throw NOT_FOUND
     | Some user \<Rightarrow>
         bnd (from_result (cp_reopen pol (cu_role user = ''ADMIN'') (cu_lifecycleState user) (cu_pseudonymizedAt user \<noteq> None)
                (cu_legalHoldAt user \<noteq> None))) (\<lambda>_.
         bnd (gets (\<lambda>s. map ca_id (filter (\<lambda>a. ca_type a = INDIVIDUAL) (owned_accounts s (cu_id user))))) (\<lambda>ids.
         bnd (update_user (cu_id user) (\<lambda>u. u\<lparr>cu_lifecycleState := ACTIVE, cu_suspendedAt := None\<rparr>)) (\<lambda>_.
         bnd (update_accounts (\<lambda>a. ca_id a \<in> set ids \<and> ca_lifecycleState a = CLOSED)
                (\<lambda>a. a\<lparr>ca_lifecycleState := ACTIVE, ca_closedAt := None\<rparr>)) (\<lambda>_.
         lifecycle_audit actorId ''CUSTOMER_ACCOUNT_REOPENED'' ''User'' (cu_id user)
           [(''accountCount'', JNumber (int (length ids))), (''entitlementsRemainSuspended'', JBool True)]))))))"

text \<open>The suspension of the administration route: the state is checked before the transaction.\<close>

definition suspendCustomer :: "time \<Rightarrow> bool \<Rightarrow> ident \<Rightarrow> ident \<Rightarrow> (CustomerDb, unit) eff" where
  "suspendCustomer now suspend userId actorId =
     bnd (gets (\<lambda>s. find_user s userId)) (\<lambda>found.
     case found of
       None \<Rightarrow> throw RECORD_NOT_FOUND
     | Some user \<Rightarrow>
         if cu_role user = ''ADMIN'' then throw ''FORBIDDEN''
         else if cu_lifecycleState user \<noteq> (if suspend then ACTIVE else SUSPENDED) then throw ''INVALID_STATE''
         else
         bnd (gets (\<lambda>s. length (owned_accounts s userId))) (\<lambda>accountCount.
         bnd (transaction (
           bnd (update_user userId (\<lambda>u. u\<lparr>cu_suspendedAt := if suspend then Some now else None,
                  cu_lifecycleState := if suspend then SUSPENDED else ACTIVE\<rparr>)) (\<lambda>_.
           if suspend then delete_sessions userId else ret ()))) (\<lambda>_.
         lifecycle_audit actorId (if suspend then ''CUSTOMER_SUSPEND'' else ''CUSTOMER_REACTIVATE'') ''User'' userId
           [(''accountCount'', JNumber (int accountCount))])))"

section \<open>Operations that read the customer before their transaction\<close>

text \<open>What an operation has decided from what it read, and carries out in its transaction.\<close>

datatype LifecycleCommit =
    CommitPrivacyReview ident ident time "ident list"
  | CommitHold ident ident bool "time option \<times> string option" "ident list"
  | CommitPseudonymize ident ident RetentionReport
  | CommitPurgeEligible ident ident RetentionReport
  | CommitPurge ident ident string RetentionReport

definition prepare_privacy_review :: "CustomerPolicies \<Rightarrow> time \<Rightarrow> ident \<Rightarrow> ident \<Rightarrow> time \<Rightarrow> (CustomerDb, LifecycleCommit) eff" where
  "prepare_privacy_review pol now userId actorId retentionExpiresAt =
     bnd (from_result (cp_requestDeletion pol False False retentionExpiresAt now)) (\<lambda>_.
     bnd (gets (\<lambda>s. find_user s userId)) (\<lambda>found.
     case found of
       None \<Rightarrow> throw NOT_FOUND
     | Some user \<Rightarrow>
         bnd (from_result (cp_requestDeletion pol (cu_role user = ''ADMIN'') (cu_legalHoldAt user \<noteq> None) retentionExpiresAt now)) (\<lambda>_.
         gets (\<lambda>s. CommitPrivacyReview userId actorId retentionExpiresAt (map ca_id (owned_accounts s userId))))))"

definition commit_privacy_review :: "time \<Rightarrow> ident \<Rightarrow> ident \<Rightarrow> time \<Rightarrow> ident list \<Rightarrow> (CustomerDb, unit) eff" where
  "commit_privacy_review now userId actorId retentionExpiresAt ids = transaction (
     bnd (delete_sessions userId) (\<lambda>_.
     bnd (update_user userId (\<lambda>u. u\<lparr>cu_lifecycleState := PRIVACY_REVIEW, cu_privacyRequestedAt := Some now,
            cu_retentionExpiresAt := Some retentionExpiresAt, cu_suspendedAt := Some now\<rparr>)) (\<lambda>_.
     bnd (update_accounts (\<lambda>a. ca_id a \<in> set ids) (\<lambda>a. a\<lparr>ca_lifecycleState := PRIVACY_REVIEW, ca_privacyRequestedAt := Some now,
            ca_retentionExpiresAt := Some retentionExpiresAt\<rparr>)) (\<lambda>_.
     lifecycle_audit actorId ''PRIVACY_DELETION_REQUESTED'' ''User'' userId [(''retentionConfigured'', JBool True)]))))"

definition prepare_hold :: "CustomerPolicies \<Rightarrow> time \<Rightarrow> ident \<Rightarrow> ident \<Rightarrow> bool \<Rightarrow> string option \<Rightarrow> (CustomerDb, LifecycleCommit) eff" where
  "prepare_hold pol now userId actorId enabled reason =
     bnd (gets (\<lambda>s. find_user s userId)) (\<lambda>found.
     case found of
       None \<Rightarrow> throw NOT_FOUND
     | Some user \<Rightarrow>
         bnd (from_result (cp_legalHold pol (cu_role user = ''ADMIN'') enabled reason now)) (\<lambda>hold.
         gets (\<lambda>s. CommitHold userId actorId enabled hold (map ca_id (owned_accounts s userId)))))"

definition commit_hold :: "ident \<Rightarrow> ident \<Rightarrow> bool \<Rightarrow> time option \<times> string option \<Rightarrow> ident list \<Rightarrow> (CustomerDb, unit) eff" where
  "commit_hold userId actorId enabled hold ids = transaction (
     bnd (update_user userId (\<lambda>u. u\<lparr>cu_legalHoldAt := fst hold, cu_legalHoldReason := snd hold\<rparr>)) (\<lambda>_.
     bnd (update_accounts (\<lambda>a. ca_id a \<in> set ids) (\<lambda>a. a\<lparr>ca_legalHoldAt := fst hold, ca_legalHoldReason := snd hold\<rparr>)) (\<lambda>_.
     lifecycle_audit actorId (if enabled then ''LEGAL_HOLD_APPLIED'' else ''LEGAL_HOLD_REMOVED'') ''User'' userId
       [(''reasonCode'', JString (if enabled then ''ADMINISTRATIVE'' else ''RELEASED''))])))"

definition prepare_pseudonymize :: "CustomerPolicies \<Rightarrow> time \<Rightarrow> ident \<Rightarrow> ident \<Rightarrow> (CustomerDb, LifecycleCommit) eff" where
  "prepare_pseudonymize pol now userId actorId =
     bnd (customerRetentionBlockers pol now userId) (\<lambda>report. ret (CommitPseudonymize userId actorId report))"

definition minimize_rows :: "MinimizationPlan \<Rightarrow> CustomerUser \<Rightarrow> CustomerDb \<Rightarrow> CustomerDb" where
  "minimize_rows plan user s = s
     \<lparr>lf_sessions := filter (\<lambda>(_, u). u \<noteq> cu_id user) (lf_sessions s), lf_credentials := filter (\<lambda>u. u \<noteq> cu_id user) (lf_credentials s),
      lf_resetTokens := filter (\<lambda>(_, u). u \<noteq> cu_id user) (lf_resetTokens s),
      lf_verificationTokens := filter (\<lambda>(_, i). i \<noteq> cu_email user) (lf_verificationTokens s),
      lf_mails := update_rows (\<lambda>m. ml_recipient m = cu_email user)
        (\<lambda>m. m\<lparr>ml_recipient := mz_mailRecipient plan, ml_payload := mz_mailPayload plan\<rparr>) (lf_mails s)\<rparr>"

definition commit_pseudonymize :: "CustomerPolicies \<Rightarrow> time \<Rightarrow> ident \<Rightarrow> ident \<Rightarrow> RetentionReport \<Rightarrow> (CustomerDb, unit) eff" where
  "commit_pseudonymize pol now userId actorId report = transaction (
     bnd (gets (\<lambda>s. find_user s userId)) (\<lambda>found.
     case found of
       None \<Rightarrow> throw RECORD_NOT_FOUND
     | Some user \<Rightarrow>
         bnd (gets (\<lambda>s. map ca_id (owned_accounts s (cu_id user)))) (\<lambda>ids.
         bnd (from_result (cp_pseudonymize pol (cu_lifecycleState user) (rr_canPseudonymize report) (rr_blockers report))) (\<lambda>_.
         let plan = cp_minimize pol (cu_id user) (cu_email user) now; emailHash = cp_emailHash pol (mz_hashSource plan) in
         bnd (modify (minimize_rows plan user)) (\<lambda>_.
         bnd (update_user (cu_id user) (\<lambda>u. (mz_user plan u)\<lparr>cu_emailHash := Some emailHash\<rparr>)) (\<lambda>_.
         bnd (update_accounts (\<lambda>a. ca_id a \<in> set ids) (mz_account plan)) (\<lambda>_.
         lifecycle_audit actorId (mz_action plan) (mz_targetType plan) (cu_id user) (mz_metadata plan))))))))"

definition prepare_purge_eligible :: "CustomerPolicies \<Rightarrow> time \<Rightarrow> ident \<Rightarrow> ident \<Rightarrow> (CustomerDb, LifecycleCommit) eff" where
  "prepare_purge_eligible pol now userId actorId =
     bnd (customerRetentionBlockers pol now userId) (\<lambda>report.
     bnd (from_result (cp_markPurgeEligible pol (rr_canMarkPurgeEligible report) (rr_blockers report))) (\<lambda>_.
     ret (CommitPurgeEligible userId actorId report)))"

definition commit_purge_eligible :: "ident \<Rightarrow> ident \<Rightarrow> RetentionReport \<Rightarrow> (CustomerDb, unit) eff" where
  "commit_purge_eligible userId actorId report = transaction (
     bnd (update_user userId (cu_lifecycleState_update (\<lambda>_. PURGE_ELIGIBLE))) (\<lambda>_.
     bnd (update_accounts (\<lambda>a. ca_ownerId a = userId) (ca_lifecycleState_update (\<lambda>_. PURGE_ELIGIBLE))) (\<lambda>_.
     lifecycle_audit actorId ''CUSTOMER_MARKED_PURGE_ELIGIBLE'' ''User'' userId [(''blockerCount'', JNumber (int (length (rr_blockers report))))])))"

definition prepare_purge :: "CustomerPolicies \<Rightarrow> time \<Rightarrow> ident \<Rightarrow> ident \<Rightarrow> string \<Rightarrow> (CustomerDb, LifecycleCommit) eff" where
  "prepare_purge pol now userId actorId confirmation =
     bnd (from_result (cp_finalPurge pol userId confirmation PURGE_ELIGIBLE True [])) (\<lambda>_.
     bnd (customerRetentionBlockers pol now userId) (\<lambda>report.
     ret (CommitPurge userId actorId confirmation report)))"

definition commit_purge :: "CustomerPolicies \<Rightarrow> ident \<Rightarrow> ident \<Rightarrow> string \<Rightarrow> RetentionReport \<Rightarrow> (CustomerDb, unit) eff" where
  "commit_purge pol userId actorId confirmation report = transaction (
     bnd (gets (\<lambda>s. find_user s userId)) (\<lambda>found.
     case found of
       None \<Rightarrow> throw RECORD_NOT_FOUND
     | Some user \<Rightarrow>
         bnd (from_result (cp_finalPurge pol userId confirmation (cu_lifecycleState user) (rr_canPurge report) (rr_blockers report))) (\<lambda>_.
         bnd (gets (\<lambda>s. map ca_id (owned_accounts s (cu_id user)))) (\<lambda>accountIds.
         bnd (modify (\<lambda>s. s\<lparr>lf_carts := filter (\<lambda>(_, a). a \<notin> set accountIds) (lf_carts s),
                lf_invitations := filter (\<lambda>(_, a). a \<notin> set accountIds) (lf_invitations s)\<rparr>)) (\<lambda>_.
         bnd (delete_accounts accountIds) (\<lambda>_.
         bnd (modify (\<lambda>s. s\<lparr>lf_resetTokens := filter (\<lambda>(_, u). u \<noteq> cu_id user) (lf_resetTokens s)\<rparr>)) (\<lambda>_.
         bnd (delete_user (cu_id user)) (\<lambda>_.
         lifecycle_audit actorId ''CUSTOMER_FINAL_PURGE_EXECUTED'' ''PurgedUser'' userId [(''integrityVerified'', JBool True)]))))))))"

fun run_commit :: "CustomerPolicies \<Rightarrow> time \<Rightarrow> LifecycleCommit \<Rightarrow> (CustomerDb, unit) eff" where
  "run_commit pol now (CommitPrivacyReview u a e ids) = commit_privacy_review now u a e ids"
| "run_commit pol now (CommitHold u a b hold ids) = commit_hold u a b hold ids"
| "run_commit pol now (CommitPseudonymize u a report) = commit_pseudonymize pol now u a report"
| "run_commit pol now (CommitPurgeEligible u a report) = commit_purge_eligible u a report"
| "run_commit pol now (CommitPurge u a c report) = commit_purge pol u a c report"

text \<open>The operations as they run when nothing comes between; the time of the transaction is that of the preparation.\<close>

definition requestPrivacyDeletion where
  "requestPrivacyDeletion pol now userId actorId retentionExpiresAt =
     bnd (prepare_privacy_review pol now userId actorId retentionExpiresAt) (run_commit pol now)"

definition setLegalHold where
  "setLegalHold pol now userId actorId enabled reason = bnd (prepare_hold pol now userId actorId enabled reason) (run_commit pol now)"

definition pseudonymizeCustomer where
  "pseudonymizeCustomer pol now userId actorId = bnd (prepare_pseudonymize pol now userId actorId) (run_commit pol now)"

definition markPurgeEligible where
  "markPurgeEligible pol now userId actorId = bnd (prepare_purge_eligible pol now userId actorId) (run_commit pol now)"

definition executeFinalPurge where
  "executeFinalPurge pol now userId actorId confirmation = bnd (prepare_purge pol now userId actorId confirmation) (run_commit pol now)"

end
