(* ===== verification/Customer_Claims.thy ===== *)
theory Customer_Claims
  imports Customer_Lifecycle
begin

text \<open>
  What the customer lifecycle guarantees: whatever is done to customers, interleaved in any way, their commercial history stays;
  a closed customer has nothing in use; a legal hold keeps a customer through any operations that run one after the other, and is
  missed by a purge that has read the customer before it. The laws asked of the policies are those of \<open>docs/data-retention.md\<close>.
\<close>

section \<open>Interleaved operations\<close>

datatype LifecycleRequest =
    PrivacyReviewRequest ident ident time
  | HoldRequest ident ident bool "string option"
  | PseudonymizeRequest ident ident
  | PurgeEligibleRequest ident ident
  | PurgeRequest ident ident string

fun prepare_request :: "CustomerPolicies \<Rightarrow> time \<Rightarrow> LifecycleRequest \<Rightarrow> (CustomerDb, LifecycleCommit) eff" where
  "prepare_request pol now (PrivacyReviewRequest u a e) = prepare_privacy_review pol now u a e"
| "prepare_request pol now (HoldRequest u a b reason) = prepare_hold pol now u a b reason"
| "prepare_request pol now (PseudonymizeRequest u a) = prepare_pseudonymize pol now u a"
| "prepare_request pol now (PurgeEligibleRequest u a) = prepare_purge_eligible pol now u a"
| "prepare_request pol now (PurgeRequest u a c) = prepare_purge pol now u a c"


section \<open>History\<close>
















lemma prepared_unchanged: "prepare_request pol now r s = (Inr c, t) \<Longrightarrow> t = s"
  by (cases r) (auto simp: prepare_privacy_review_def prepare_hold_def prepare_pseudonymize_def prepare_purge_eligible_def prepare_purge_def
      customerRetentionBlockers_def effect_Inr)


section \<open>Closing\<close>

lemma update_user_Inr:
  "update_user i f s = (Inr x, t) \<longleftrightarrow> find_user s i \<noteq> None \<and> customers_ok (update_rows (\<lambda>u. cu_id u = i) f (lf_users s)) \<and>
     t = s\<lparr>lf_users := update_rows (\<lambda>u. cu_id u = i) f (lf_users s)\<rparr>"
  by (auto simp: update_user_def effect_Inr)

lemma find_user_update: "(\<And>u. cu_id (f u) = cu_id u) \<Longrightarrow> find_user (s\<lparr>lf_users := update_rows (\<lambda>u. cu_id u = i) f (lf_users s)\<rparr>) j =
    map_option (\<lambda>u. if cu_id u = i then f u else u) (find_user s j)"
  by (simp add: find_user_def find_by_def find_update_rows)

lemma find_user_id: "find_user s i = Some u \<Longrightarrow> cu_id u = i"
  unfolding find_user_def by (drule find_by_key) simp

definition accounts_of :: "CustomerDb \<Rightarrow> ident \<Rightarrow> ident set" where
  "accounts_of s i = ca_id ` set (owned_accounts s i)"

lemma filter_update_others: "(\<And>r. p r \<Longrightarrow> q r) \<Longrightarrow> (\<And>r. q (f r) = q r) \<Longrightarrow>
    filter (\<lambda>r. \<not> q r) (update_rows p f rows) = filter (\<lambda>r. \<not> q r) rows"
  by (induction rows) (auto simp: update_rows_def)

lemma no_accounts:
  "update_rows (\<lambda>_. False) f rows = rows" "suspend_entitlements [] now s = s"
  by (simp_all add: suspend_entitlements_def update_rows_def list_ex_iff)

text \<open>The tables after a closure.\<close>

lemma close_run:
  assumes "closeCustomer pol now i a s = (Inr n, t)"
  obtains u where "find_user s i = Some u"
    and "lf_users t = update_rows (\<lambda>u. cu_id u = i) (\<lambda>u. u\<lparr>cu_lifecycleState := CLOSED, cu_suspendedAt := Some now\<rparr>) (lf_users s)"
    and "lf_accounts t = update_rows (\<lambda>a. ca_id a \<in> accounts_of s i)
      (\<lambda>a. a\<lparr>ca_lifecycleState := CLOSED, ca_closureRequestedAt := Some now, ca_closedAt := Some now\<rparr>) (lf_accounts s)"
    and "lf_sessions t = filter (\<lambda>(_, u). u \<noteq> i) (lf_sessions s)"
    and "lf_licenses t = lf_licenses (suspend_entitlements (map ca_id (owned_accounts s i)) now s)"
    and "lf_subscriptions t = lf_subscriptions (suspend_entitlements (map ca_id (owned_accounts s i)) now s)"
    and "lf_activations t = lf_activations (suspend_entitlements (map ca_id (owned_accounts s i)) now s)"
proof -
  obtain u where u: "find_user s i = Some u"
    using assms by (cases "find_user s i") (auto simp: closeCustomer_def effect_Inr)
  note id = find_user_id [OF u]
  note run = assms u id
  note parts = closeCustomer_def effect_Inr Let_def delete_sessions_def update_accounts_def update_user_Inr lifecycle_audit_def accounts_of_def
  show thesis
  proof (cases "owned_accounts s i = []")
    case True
    show thesis by (rule that [OF u]) (use run True in \<open>auto simp: parts no_accounts\<close>)
  next
    case False
    show thesis by (rule that [OF u]) (use run False in \<open>auto simp: parts suspend_entitlements_def\<close>)
  qed
qed

text \<open>C20 When closing a customer returns, the customer is closed and has no session, every account of the customer is closed, none of its
  licenses is active, none of its subscriptions live and none of the devices of its licenses active; the entitlements of other
  accounts are as before.\<close>

theorem closed_customer:
  assumes "closeCustomer pol now i a s = (Inr n, t)"
  shows "map_option cu_lifecycleState (find_user t i) = Some CLOSED \<and> i \<notin> snd ` set (lf_sessions t) \<and>
    list_all (\<lambda>a. ca_lifecycleState a = CLOSED) (owned_accounts t i) \<and>
    list_all (\<lambda>r. li_accountId r \<in> accounts_of s i \<longrightarrow> li_status r \<noteq> LICENSE_ACTIVE \<and>
      list_all (\<lambda>d. da_licenseId d = li_id r \<longrightarrow> \<not> da_active d) (lf_activations t)) (lf_licenses t) \<and>
    list_all (\<lambda>r. su_accountId r \<in> accounts_of s i \<longrightarrow> \<not> live_subscription r) (lf_subscriptions t) \<and>
    filter (\<lambda>r. li_accountId r \<notin> accounts_of s i) (lf_licenses t) = filter (\<lambda>r. li_accountId r \<notin> accounts_of s i) (lf_licenses s) \<and>
    filter (\<lambda>r. su_accountId r \<notin> accounts_of s i) (lf_subscriptions t) = filter (\<lambda>r. su_accountId r \<notin> accounts_of s i) (lf_subscriptions s)"
  using assms
proof (rule close_run)
  fix u
  assume u: "find_user s i = Some u"
    and users: "lf_users t = update_rows (\<lambda>u. cu_id u = i) (\<lambda>u. u\<lparr>cu_lifecycleState := CLOSED, cu_suspendedAt := Some now\<rparr>) (lf_users s)"
    and accounts: "lf_accounts t = update_rows (\<lambda>a. ca_id a \<in> accounts_of s i)
      (\<lambda>a. a\<lparr>ca_lifecycleState := CLOSED, ca_closureRequestedAt := Some now, ca_closedAt := Some now\<rparr>) (lf_accounts s)"
    and sessions: "lf_sessions t = filter (\<lambda>(_, u). u \<noteq> i) (lf_sessions s)"
    and stopped: "lf_licenses t = lf_licenses (suspend_entitlements (map ca_id (owned_accounts s i)) now s)"
      "lf_subscriptions t = lf_subscriptions (suspend_entitlements (map ca_id (owned_accounts s i)) now s)"
      "lf_activations t = lf_activations (suspend_entitlements (map ca_id (owned_accounts s i)) now s)"
  note stopped = stopped [unfolded suspend_entitlements_def, simplified, folded accounts_of_def]
  show ?thesis
  proof (intro conjI)
    show "map_option cu_lifecycleState (find_user t i) = Some CLOSED"
      using u find_user_id [OF u] by (simp add: find_user_def find_by_def users find_update_rows)
    show "i \<notin> snd ` set (lf_sessions t)" by (auto simp: sessions)
    show "list_all (\<lambda>a. ca_lifecycleState a = CLOSED) (owned_accounts t i)"
      by (auto simp: list_all_iff owned_accounts_def accounts update_rows_def accounts_of_def)
    show "list_all (\<lambda>r. li_accountId r \<in> accounts_of s i \<longrightarrow> li_status r \<noteq> LICENSE_ACTIVE \<and>
      list_all (\<lambda>d. da_licenseId d = li_id r \<longrightarrow> \<not> da_active d) (lf_activations t)) (lf_licenses t)"
      by (auto simp: list_all_iff stopped update_rows_def list_ex_iff split: if_splits)
    show "list_all (\<lambda>r. su_accountId r \<in> accounts_of s i \<longrightarrow> \<not> live_subscription r) (lf_subscriptions t)"
      by (auto simp: list_all_iff stopped update_rows_def live_subscription_def)
    show "filter (\<lambda>r. li_accountId r \<notin> accounts_of s i) (lf_licenses t) = filter (\<lambda>r. li_accountId r \<notin> accounts_of s i) (lf_licenses s)"
      unfolding stopped by (rule filter_update_others) simp_all
    show "filter (\<lambda>r. su_accountId r \<notin> accounts_of s i) (lf_subscriptions t) = filter (\<lambda>r. su_accountId r \<notin> accounts_of s i) (lf_subscriptions s)"
      unfolding stopped by (rule filter_update_others) simp_all
  qed
qed

section \<open>Legal hold\<close>

text \<open>What the documentation asks of the policies: a hold blocks the purge, a purge is only granted when the report allows it, applying a
  hold dates it, and minimization leaves the id and the hold of the row.\<close>

definition hold_laws :: "CustomerPolicies \<Rightarrow> bool" where
  "hold_laws pol \<longleftrightarrow> (\<forall>facts d. cp_evaluate pol facts = Inr d \<longrightarrow> rf_legalHold facts \<longrightarrow> \<not> rd_canPurge d) \<and>
     (\<forall>i conf st allowed bl. cp_finalPurge pol i conf st allowed bl = Inr () \<longrightarrow> allowed) \<and>
     (\<forall>adm reason now hold. cp_legalHold pol adm True reason now = Inr hold \<longrightarrow> fst hold \<noteq> None) \<and>
     (\<forall>i email now u. cu_id (mz_user (cp_minimize pol i email now) u) = cu_id u \<and>
        cu_legalHoldAt (mz_user (cp_minimize pol i email now) u) = cu_legalHoldAt u)"

definition held :: "ident \<Rightarrow> CustomerDb \<Rightarrow> bool" where
  "held i s \<longleftrightarrow> (case find_user s i of None \<Rightarrow> False | Some u \<Rightarrow> cu_legalHoldAt u \<noteq> None)"

fun releases :: "ident \<Rightarrow> LifecycleRequest \<Rightarrow> bool" where
  "releases i (HoldRequest u a enabled reason) \<longleftrightarrow> u = i \<and> \<not> enabled"
| "releases i r \<longleftrightarrow> False"

text \<open>Operations that run one after the other: each commits what it has just read.\<close>

definition whole :: "CustomerPolicies \<Rightarrow> time \<Rightarrow> LifecycleRequest \<Rightarrow> (CustomerDb, unit) eff" where
  "whole pol now r = bnd (prepare_request pol now r) (run_commit pol now)"

inductive whole_step :: "CustomerPolicies \<Rightarrow> ident \<Rightarrow> CustomerDb \<Rightarrow> CustomerDb \<Rightarrow> bool" for pol i where
  "whole_step pol i s (snd (closeCustomer pol now u a s))"
| "whole_step pol i s (snd (reopenCustomer pol u a s))"
| "whole_step pol i s (snd (suspendCustomer now b u a s))"
| "\<not> releases i r \<Longrightarrow> whole_step pol i s (snd (whole pol now r s))"

lemma find_filter_wider: "(\<And>r. p r \<Longrightarrow> q r) \<Longrightarrow> List.find p (filter q rows) = List.find p rows"
  by (induction rows) auto

lemma keeps_find_user:
  "keeps P (k None) \<Longrightarrow> (\<And>u. cu_id u = j \<Longrightarrow> keeps P (k (Some u))) \<Longrightarrow> keeps P (bnd (gets (\<lambda>s. find_user s j)) k)"
  unfolding keeps_def bnd_def gets_def by (auto split: prod.splits) (metis find_user_id option.exhaust snd_conv)

lemma held_update_user:
  assumes "\<And>u. cu_id (f u) = cu_id u" and "\<And>u. j = i \<Longrightarrow> cu_legalHoldAt u \<noteq> None \<Longrightarrow> cu_legalHoldAt (f u) \<noteq> None"
  shows "keeps (held i) (update_user j f)"
proof (rule keepsI)
  fix s
  assume s: "held i s"
  show "held i (snd (update_user j f s))"
  proof (cases "update_user j f s" rule: prod.exhaust)
    case (Pair r t)
    show ?thesis
    proof (cases r)
      case (Inr x)
      then have t: "t = s\<lparr>lf_users := update_rows (\<lambda>u. cu_id u = j) f (lf_users s)\<rparr>" using Pair update_user_Inr by blast
      show ?thesis using s assms by (auto simp: held_def Pair t find_user_update dest: find_user_id split: option.splits)
    next
      case (Inl e)
      then have "t = s" using Pair by (auto simp: update_user_def bnd_def gets_def throw_def modify_def split: if_splits)
      then show ?thesis using s Pair by simp
    qed
  qed
qed

lemma held_delete_user: "j \<noteq> i \<Longrightarrow> keeps (held i) (delete_user j)"
  unfolding delete_user_def by (intro keeps_intro) (simp add: held_def find_user_def find_by_def find_filter_wider)

lemma held_statements:
  "keeps (held i) (update_accounts p g)" "keeps (held i) (delete_sessions j)" "keeps (held i) (lifecycle_audit a b c d m)"
  "keeps (held i) (delete_accounts ids)"
  unfolding update_accounts_def delete_sessions_def lifecycle_audit_def delete_accounts_def
  by (intro keeps_intro; simp add: held_def find_user_def)+

lemma held_operations:
  "keeps (held i) (closeCustomer pol now u a)" "keeps (held i) (reopenCustomer pol u a)" "keeps (held i) (suspendCustomer now b u a)"
  unfolding closeCustomer_def reopenCustomer_def suspendCustomer_def Let_def
  by (intro keeps_intro held_statements held_update_user; simp add: held_def find_user_def suspend_entitlements_def)+

fun safe_commit :: "ident \<Rightarrow> LifecycleCommit \<Rightarrow> bool" where
  "safe_commit i (CommitHold u a enabled hold ids) \<longleftrightarrow> u = i \<longrightarrow> fst hold \<noteq> None"
| "safe_commit i (CommitPurge u a conf report) \<longleftrightarrow> u = i \<longrightarrow> \<not> rr_canPurge report"
| "safe_commit i c \<longleftrightarrow> True"

lemma granted_purge: "hold_laws pol \<Longrightarrow> cp_finalPurge pol i conf st allowed bl = Inr x \<Longrightarrow> allowed"
  unfolding hold_laws_def by (cases x) blast

lemma dated_hold: "hold_laws pol \<Longrightarrow> cp_legalHold pol adm True reason now = Inr hold \<Longrightarrow> fst hold \<noteq> None"
  unfolding hold_laws_def by blast

lemma blocked_purge: "hold_laws pol \<Longrightarrow> cp_evaluate pol facts = Inr d \<Longrightarrow> rf_legalHold facts \<Longrightarrow> \<not> rd_canPurge d"
  unfolding hold_laws_def by blast

lemma minimized_user: "hold_laws pol \<Longrightarrow> cu_id (mz_user (cp_minimize pol i email now) u) = cu_id u"
    "hold_laws pol \<Longrightarrow> cu_legalHoldAt (mz_user (cp_minimize pol i email now) u) = cu_legalHoldAt u"
  unfolding hold_laws_def by blast+

lemma prepared_safe:
  assumes laws: "hold_laws pol" and "\<not> releases i r" "held i s" and run: "prepare_request pol now r s = (Inr c, t)"
  shows "safe_commit i c"
proof (cases r)
  case (HoldRequest u a b reason)
  then obtain adm hold where "cp_legalHold pol adm b reason now = Inr hold" "c = CommitHold u a b hold (map ca_id (owned_accounts s u))"
    using run by (auto simp: prepare_hold_def effect_Inr)
  then show ?thesis using dated_hold [OF laws, of adm reason now hold] assms(2) HoldRequest by auto
next
  case (PurgeRequest u a conf)
  then obtain user d where user: "find_user s u = Some user" and d: "cp_evaluate pol (retention_facts s now user) = Inr d"
      and c: "\<exists>report. c = CommitPurge u a conf report \<and> rr_canPurge report = rd_canPurge d"
    using run by (auto simp: prepare_purge_def customerRetentionBlockers_def effect_Inr)
  have "u = i \<Longrightarrow> rf_legalHold (retention_facts s now user)" using assms(3) user by (auto simp: held_def retention_facts_def Let_def)
  then show ?thesis using blocked_purge [OF laws d] c by auto
qed (use run in \<open>auto simp: prepare_privacy_review_def prepare_pseudonymize_def prepare_purge_eligible_def effect_Inr\<close>)

lemma held_commit_purge:
  assumes "hold_laws pol" and "u = i \<Longrightarrow> \<not> rr_canPurge report"
  shows "keeps (held i) (commit_purge pol u a conf report)"
  unfolding commit_purge_def
proof (intro keeps_transaction keeps_find_user; unfold option.case)
  fix user
  assume user: "cu_id user = u"
  show "keeps (held i) (bnd (from_result (cp_finalPurge pol u conf (cu_lifecycleState user) (rr_canPurge report) (rr_blockers report))) (\<lambda>_.
      bnd (gets (\<lambda>s. map ca_id (owned_accounts s (cu_id user)))) (\<lambda>accountIds.
      bnd (modify (\<lambda>s. s\<lparr>lf_carts := filter (\<lambda>(_, a). a \<notin> set accountIds) (lf_carts s),
             lf_invitations := filter (\<lambda>(_, a). a \<notin> set accountIds) (lf_invitations s)\<rparr>)) (\<lambda>_.
      bnd (delete_accounts accountIds) (\<lambda>_.
      bnd (modify (\<lambda>s. s\<lparr>lf_resetTokens := filter (\<lambda>(_, u). u \<noteq> cu_id user) (lf_resetTokens s)\<rparr>)) (\<lambda>_.
      bnd (delete_user (cu_id user)) (\<lambda>_.
      lifecycle_audit a ''CUSTOMER_FINAL_PURGE_EXECUTED'' ''PurgedUser'' u [(''integrityVerified'', JBool True)])))))))"
  proof (rule keeps_bnd_from_result)
    fix x
    assume "cp_finalPurge pol u conf (cu_lifecycleState user) (rr_canPurge report) (rr_blockers report) = Inr x"
    then have "cu_id user \<noteq> i" using granted_purge assms user by fastforce
    then show "keeps (held i) (bnd (gets (\<lambda>s. map ca_id (owned_accounts s (cu_id user)))) (\<lambda>accountIds.
      bnd (modify (\<lambda>s. s\<lparr>lf_carts := filter (\<lambda>(_, a). a \<notin> set accountIds) (lf_carts s),
             lf_invitations := filter (\<lambda>(_, a). a \<notin> set accountIds) (lf_invitations s)\<rparr>)) (\<lambda>_.
      bnd (delete_accounts accountIds) (\<lambda>_.
      bnd (modify (\<lambda>s. s\<lparr>lf_resetTokens := filter (\<lambda>(_, u). u \<noteq> cu_id user) (lf_resetTokens s)\<rparr>)) (\<lambda>_.
      bnd (delete_user (cu_id user)) (\<lambda>_.
      lifecycle_audit a ''CUSTOMER_FINAL_PURGE_EXECUTED'' ''PurgedUser'' u [(''integrityVerified'', JBool True)]))))))"
      by (intro keeps_intro held_statements held_delete_user; simp add: held_def find_user_def)
  qed
qed (rule keeps_throw)

lemma held_commit:
  assumes laws: "hold_laws pol" and safe: "safe_commit i c"
  shows "keeps (held i) (run_commit pol now c)"
proof (cases c)
  case (CommitPurge u a conf report)
  then show ?thesis using held_commit_purge [OF laws] safe by simp
next
  case (CommitPseudonymize u a report)
  show ?thesis
    unfolding CommitPseudonymize run_commit.simps commit_pseudonymize_def Let_def
    by (intro keeps_intro held_statements held_update_user; simp add: held_def find_user_def minimize_rows_def minimized_user [OF laws])
next
  case (CommitHold u a b hold ids)
  then show ?thesis using safe unfolding CommitHold run_commit.simps commit_hold_def
    by (intro keeps_intro held_statements held_update_user; simp)
next
  case (CommitPrivacyReview u a e ids)
  show ?thesis unfolding CommitPrivacyReview run_commit.simps commit_privacy_review_def
    by (intro keeps_intro held_statements held_update_user; simp)
next
  case (CommitPurgeEligible u a report)
  show ?thesis unfolding CommitPurgeEligible run_commit.simps commit_purge_eligible_def
    by (intro keeps_intro held_statements held_update_user; simp)
qed

lemma held_whole:
  assumes laws: "hold_laws pol" and "\<not> releases i r"
  shows "keeps (held i) (whole pol now r)"
proof (rule keepsI)
  fix s
  assume s: "held i s"
  obtain x t where run: "prepare_request pol now r s = (x, t)" by (rule prod.exhaust)
  show "held i (snd (whole pol now r s))"
  proof (cases x)
    case (Inl e)
    have "keeps (held i) (prepare_request pol now r)"
      by (cases r) (simp_all add: prepare_privacy_review_def prepare_hold_def prepare_pseudonymize_def prepare_purge_eligible_def
          prepare_purge_def customerRetentionBlockers_def keeps_intro)
    from keepsD [where P = "held i", OF this s run] have "held i t" .
    then show ?thesis using Inl run by (simp add: whole_def bnd_def)
  next
    case (Inr c)
    then have "t = s" using run prepared_unchanged by blast
    then show ?thesis
      using Inr run s keeps_apply [OF held_commit [OF laws prepared_safe [OF laws assms(2) s]]] by (simp add: whole_def bnd_def)
  qed
qed

text \<open>C21 A customer under a legal hold that is never released stays, held, through any operations on any customers that run one after the
  other: no closure, minimization or confirmed purge removes it.\<close>

theorem held_customer_kept:
  assumes "hold_laws pol" and "held i s" and "(whole_step pol i)\<^sup>*\<^sup>* s t"
  shows "held i t"
  using assms(3)
proof (induction rule: rtranclp_induct)
  case (step t t')
  from step(2) show ?case
    by cases (use step(3) assms(1) in \<open>simp_all add: keeps_apply [OF held_operations(1)] keeps_apply [OF held_operations(2)]
      keeps_apply [OF held_operations(3)] keeps_apply [OF held_whole]\<close>)
qed (rule assms(2))

end
