(* ===== verification/Customer_Demo.thy ===== *)
theory Customer_Demo
  imports Customer_Claims
begin

text \<open>
  Two customers on small tables, under policies that keep the laws: one with a license, a device and a subscription, one ready to be
  purged. The runs apply the theorems of \<open>Customer_Claims\<close>, and show a purge that misses a legal hold.
\<close>

section \<open>Policies and tables\<close>

definition demo_plan :: "ident \<Rightarrow> time \<Rightarrow> MinimizationPlan" where
  "demo_plan i now =
     \<lparr>mz_hashSource = i, mz_mailRecipient = ''privacy.invalid'', mz_mailPayload = JVObj [],
      mz_user = (\<lambda>u. u\<lparr>cu_email := i @ ''@privacy.invalid'', cu_name := None, cu_emailVerified := None, cu_lifecycleState := PSEUDONYMIZED,
        cu_pseudonymizedAt := Some now\<rparr>),
      mz_account = (\<lambda>a. a\<lparr>ca_displayName := ''Deleted customer'', ca_taxId := None, ca_lifecycleState := PSEUDONYMIZED, ca_pseudonymizedAt := Some now\<rparr>),
      mz_action = ''CUSTOMER_PSEUDONYMIZED'', mz_targetType = ''User'', mz_metadata = []\<rparr>"

definition refuse :: "bool \<Rightarrow> string \<Rightarrow> error + unit" where
  "refuse b code = (if b then Inl code else Inr ())"

definition demo_policies :: CustomerPolicies where
  "demo_policies =
     \<lparr>cp_evaluate = (\<lambda>facts.
        let blockers = (if rf_legalHold facts then [''LEGAL_HOLD''] else []) @ (if rc_licenses (rf_counts facts) > 0 then [''COMMERCIAL_HISTORY''] else [])
        in Inr \<lparr>rd_userId = rf_userId facts, rd_blockers = blockers, rd_canPseudonymize = \<not> rf_legalHold facts,
             rd_canMarkPurgeEligible = (blockers = []), rd_canPurge = (blockers = [])\<rparr>),
      cp_close = (\<lambda>i actor admin st n. refuse (admin \<or> st = CLOSED \<or> n > 0) ''INVALID_STATE''),
      cp_reopen = (\<lambda>admin st pseudonymized hold. refuse (st \<noteq> CLOSED \<or> hold) ''INVALID_STATE''),
      cp_requestDeletion = (\<lambda>admin hold expires now. refuse (admin \<or> hold \<or> expires \<le> now) ''INVALID_STATE''),
      cp_legalHold = (\<lambda>admin enabled reason now. Inr (if enabled then (Some now, reason) else (None, None))),
      cp_pseudonymize = (\<lambda>st allowed blockers. refuse (\<not> allowed) ''RETENTION_BLOCKED''),
      cp_markPurgeEligible = (\<lambda>allowed blockers. refuse (\<not> allowed) ''RETENTION_BLOCKED''),
      cp_finalPurge = (\<lambda>i confirmation st allowed blockers. refuse (\<not> allowed \<or> st \<noteq> PURGE_ELIGIBLE \<or> confirmation \<noteq> ''PURGE '' @ i) ''RETENTION_BLOCKED''),
      cp_minimize = (\<lambda>i email now. demo_plan i now), cp_emailHash = (\<lambda>s. ''h'' @ s)\<rparr>"

definition demo_customer :: "ident \<Rightarrow> LifecycleState \<Rightarrow> CustomerUser" where
  "demo_customer i st =
     \<lparr>cu_id = i, cu_email = i @ ''@example.com'', cu_name = Some i, cu_emailVerified = None, cu_role = ''CUSTOMER'', cu_lifecycleState = st,
      cu_suspendedAt = None, cu_privacyRequestedAt = None, cu_pseudonymizedAt = None, cu_retentionExpiresAt = None, cu_legalHoldAt = None,
      cu_legalHoldReason = None, cu_emailHash = None\<rparr>"

definition demo_customer_account :: "ident \<Rightarrow> ident \<Rightarrow> CustomerAccount" where
  "demo_customer_account i owner =
     \<lparr>ca_id = i, ca_type = INDIVIDUAL, ca_displayName = owner, ca_ownerId = owner, ca_billingEmail = owner @ ''@example.com'', ca_taxId = None,
      ca_lifecycleState = ACTIVE, ca_closureRequestedAt = None, ca_closedAt = None, ca_privacyRequestedAt = None, ca_pseudonymizedAt = None,
      ca_retentionExpiresAt = None, ca_legalHoldAt = None, ca_legalHoldReason = None\<rparr>"

definition demo_license :: LicenseRow where
  "demo_license =
     \<lparr>li_id = ''l1'', li_publicId = ''p1'', li_keyHash = ''k1'', li_keyLastFour = ''AAAA'', li_keyCiphertext = None, li_accountId = ''a1'',
      li_orderId = ''o1'', li_orderItemId = ''i1'', li_productId = ''prod'', li_editionId = None, li_purchasePlanId = None,
      li_subscriptionId = Some ''s1'', li_status = LICENSE_ACTIVE, li_maxSeats = 1, li_maxDevicesPerSeat = 1, li_expiresAt = None\<rparr>"

definition demo_subscription :: SubscriptionRow where
  "demo_subscription =
     \<lparr>su_id = ''s1'', su_accountId = ''a1'', su_orderId = ''o1'', su_productId = ''prod'', su_editionId = None, su_purchasePlanId = None,
      su_status = SUB_ACTIVE, su_seats = 1, su_currentPeriodStart = 0, su_currentPeriodEnd = 100, su_renewalReminderAt = 90, su_currency = None,
      su_normalRecurringAmountMinor = None, su_discountedRecurringAmountMinor = None, su_promotionalDiscountBps = None,
      su_discountedCyclesTotal = None, su_discountedCyclesConsumed = 0, su_offerId = None, su_offerSnapshot = None, su_pricingVersion = None\<rparr>"

definition demo_customers :: CustomerDb where
  "demo_customers =
     \<lparr>lf_users = [demo_customer ''c1'' ACTIVE, demo_customer ''c2'' PURGE_ELIGIBLE],
      lf_accounts = [demo_customer_account ''a1'' ''c1'', demo_customer_account ''a2'' ''c2''],
      lf_sessions = [(''t1'', ''c1'')], lf_credentials = [''c1'', ''c2''], lf_resetTokens = [], lf_verificationTokens = [], lf_mails = [],
      lf_memberships = [], lf_assignments = [], lf_orders = [], lf_payments = [], lf_licenses = [demo_license],
      lf_subscriptions = [demo_subscription],
      lf_activations = [\<lparr>da_id = ''d1'', da_licenseId = ''l1'', da_deviceHash = ''h'', da_active = True, da_deactivatedAt = None\<rparr>],
      lf_trials = [], lf_acceptances = [], lf_carts = [], lf_invitations = [], lf_licenseEvents = [],
      lf_audit = [\<lparr>la_actorId = Some ''c2'', la_accountId = Some ''a2'', la_action = ''ORDER_CREATED'', la_targetType = ''Order'', la_targetId = ''o0'',
        la_metadata = []\<rparr>]\<rparr>"

lemma demo_hold_laws: "hold_laws demo_policies"
  by (auto simp: hold_laws_def demo_policies_def Let_def refuse_def demo_plan_def split: if_splits)

section \<open>Runs\<close>

lemma closed_customer_witness:
  "fst (closeCustomer demo_policies 10 ''c1'' ''admin'' demo_customers) = Inr 1 \<and>
   map_option cu_lifecycleState (find_user (snd (closeCustomer demo_policies 10 ''c1'' ''admin'' demo_customers)) ''c1'') = Some CLOSED"
proof -
  obtain r t where run: "closeCustomer demo_policies 10 ''c1'' ''admin'' demo_customers = (r, t)" by (rule prod.exhaust)
  have "fst (closeCustomer demo_policies 10 ''c1'' ''admin'' demo_customers) = Inr 1" by code_simp
  then have "r = Inr 1" using run by simp
  with run closed_customer [of demo_policies 10 "''c1''" "''admin''" demo_customers 1 t] show ?thesis by simp
qed




definition held_customers :: CustomerDb where
  "held_customers = snd (setLegalHold demo_policies 5 ''c2'' ''admin'' True None demo_customers)"

lemma held_customer_kept_witness:
  "held ''c2'' held_customers \<and> held ''c2'' (snd (whole demo_policies 20 (PurgeRequest ''c2'' ''admin'' ''PURGE c2'') held_customers))"
proof -
  have held: "held ''c2'' held_customers" by code_simp
  have run: "(whole_step demo_policies ''c2'')\<^sup>*\<^sup>* held_customers (snd (whole demo_policies 20 (PurgeRequest ''c2'' ''admin'' ''PURGE c2'') held_customers))"
    by (intro r_into_rtranclp whole_step.intros(4)) simp
  show ?thesis using held_customer_kept [OF demo_hold_laws held run] held by (rule conjI [rotated])
qed

text \<open>In this run a hold is set after the purge has read its report, and the purge removes the held customer.\<close>

lemma purge_misses_hold_in_this_run:
  "case fst (prepare_purge demo_policies 4 ''c2'' ''admin'' ''PURGE c2'' demo_customers) of Inl e \<Rightarrow> False
   | Inr c \<Rightarrow> held ''c2'' held_customers \<and> find_user (snd (run_commit demo_policies 6 c held_customers)) ''c2'' = None"
  by code_simp

end
