(* ===== verification/Scheduler_Policy.thy ===== *)
theory Scheduler_Policy
  imports Js_Runtime
begin

text \<open>
  The scheduler's data and its pure policy: \<open>platform/scheduler/contracts.ts\<close>, \<open>policy.ts\<close>,
  \<open>registry.ts\<close> and the job table of \<open>apps/web/scheduler/job-definitions.ts\<close>. The lemmas show
  that idempotency keys identify one window of one job, that the retry delay stays in its bounds,
  that a completed job is never due again at once, and which job lists the registry accepts.
\<close>

section \<open>Contracts\<close>

datatype ScheduledJobTrigger = SCHEDULED | RETRY | MANUAL | CRON | CLI | CERTIFICATION

datatype JobFailureClass =
    TRANSIENT | PERMANENT | CONFIGURATION | DEPENDENCY_UNAVAILABLE | VALIDATION | CONCURRENCY_CONFLICT

datatype ScheduledRunStatus =
    QUEUED | RUNNING | SUCCEEDED | FAILED | RETRYING | ABANDONED | CANCELLED | SKIPPED

datatype AuditPolicy = AUDIT_FAILURES | AUDIT_ALL

type_synonym JobSummary = json_object

record JobContext =
  ctx_now :: time
  ctx_dryRun :: bool
  ctx_correlationId :: ident

record SchedulerJobMetadata =
  job_key :: string
  job_name :: string
  job_description :: string
  job_category :: string
  job_cadenceSeconds :: int
  job_timeoutSeconds :: int
  job_lockSeconds :: int
  job_maxAttempts :: int
  job_dryRunSupported :: bool
  job_healthThresholdSeconds :: int
  job_auditPolicy :: AuditPolicy

text \<open>
  A value thrown by a handler is an \<open>Error\<close> with its message, or something else. A handler's
  promise settles after some milliseconds, or never; either way the handler has its effect on the
  data it works on, the state \<open>'dom\<close>.
\<close>

datatype thrown = ErrorObject (thrown_message: error) | OtherValue

datatype 'a promise = Settles int "thrown + 'a" | Pending

record 'dom ScheduledJob = SchedulerJobMetadata +
  job_handler :: "JobContext \<Rightarrow> 'dom \<Rightarrow> JobSummary promise \<times> 'dom"

record RunJobInput =
  in_key :: string
  in_trigger :: ScheduledJobTrigger
  in_scheduledFor :: "time option"
  in_dryRun :: "bool option"
  in_idempotencyKey :: "string option"
  in_parentRunId :: "ident option"

record ScheduledJobDefinition =
  def_key :: string
  def_enabled :: bool
  def_cadenceSeconds :: int
  def_timeoutSeconds :: int
  def_maxAttempts :: int
  def_nextRunAt :: time

record ScheduledJobRun =
  run_id :: ident
  run_jobKey :: string
  run_status :: ScheduledRunStatus
  run_attempt :: int
  run_scheduledFor :: time
  run_startedAt :: "time option"
  run_retryAt :: "time option"

fun trigger_name :: "ScheduledJobTrigger \<Rightarrow> string" where
  "trigger_name SCHEDULED = ''SCHEDULED''"
| "trigger_name RETRY = ''RETRY''"
| "trigger_name MANUAL = ''MANUAL''"
| "trigger_name CRON = ''CRON''"
| "trigger_name CLI = ''CLI''"
| "trigger_name CERTIFICATION = ''CERTIFICATION''"

fun failure_class_name :: "JobFailureClass \<Rightarrow> string" where
  "failure_class_name TRANSIENT = ''TRANSIENT''"
| "failure_class_name PERMANENT = ''PERMANENT''"
| "failure_class_name CONFIGURATION = ''CONFIGURATION''"
| "failure_class_name DEPENDENCY_UNAVAILABLE = ''DEPENDENCY_UNAVAILABLE''"
| "failure_class_name VALIDATION = ''VALIDATION''"
| "failure_class_name CONCURRENCY_CONFLICT = ''CONCURRENCY_CONFLICT''"

section \<open>Policy\<close>

definition scheduledWindow :: "time \<Rightarrow> int \<Rightarrow> time" where
  "scheduledWindow now cadenceSeconds = (let size = cadenceSeconds * 1000 in now div size * size)"

definition scheduledIdempotencyKey :: "string \<Rightarrow> time \<Rightarrow> bool \<Rightarrow> string" where
  "scheduledIdempotencyKey key window dryRun =
     key @ '':'' @ toISOString window @ '':'' @ (if dryRun then ''dry'' else ''live'')"

definition retryDelayMs :: "int \<Rightarrow> int \<Rightarrow> int" where
  "retryDelayMs attempt seed =
     (let base = min (6 * 3600000) (30000 * 2 ^ nat (max 0 (attempt - 1)))
      in base + \<bar>seed\<bar> mod max 1 (base div 5))"

definition error_message :: "string \<Rightarrow> thrown \<Rightarrow> string" where
  "error_message fallback e = (case e of ErrorObject m \<Rightarrow> m | OtherValue \<Rightarrow> fallback)"

definition classifyJobFailure :: "thrown \<Rightarrow> JobFailureClass" where
  "classifyJobFailure e =
     (let message = error_message ''UNKNOWN'' e in
      if matches_any [''VALID'', ''NOT_FOUND'', ''UNSUPPORTED'', ''PERMANENT''] message then VALIDATION
      else if matches_any [''CONFIG'', ''CREDENTIAL'', ''ENVIRONMENT''] message then CONFIGURATION
      else if matches_any [''LOCK'', ''CONCURRENT'', ''CONFLICT''] message then CONCURRENCY_CONFLICT
      else if matches_any [''UNAVAILABLE'', ''ECONN'', ''TIMEOUT'', ''NETWORK'', ''REDIS'', ''DATABASE''] message
        then DEPENDENCY_UNAVAILABLE
      else TRANSIENT)"

definition error_code_char :: "char \<Rightarrow> bool" where
  "error_code_char c \<longleftrightarrow> char_between CHR ''A'' CHR ''Z'' c \<or> char_between CHR ''a'' CHR ''z'' c \<or>
     char_between CHR ''0'' CHR ''9'' c \<or> c \<in> set ''_:-''"

definition safeJobErrorCode :: "thrown \<Rightarrow> string" where
  "safeJobErrorCode e =
     (let value = error_message ''SCHEDULED_JOB_FAILED'' e;
          code = take 80 (map (\<lambda>c. if error_code_char c then c else CHR ''_'') value)
      in if code = [] then ''SCHEDULED_JOB_FAILED'' else code)"

definition boundedJobSummary :: "JobSummary \<Rightarrow> JobSummary" where
  "boundedJobSummary summary =
     fromEntries (map (\<lambda>(key, value). (take 80 key,
       case value of JString v \<Rightarrow> JString (take 200 v) | v \<Rightarrow> v)) (take 30 summary))"

definition nextScheduledAt :: "time \<Rightarrow> int \<Rightarrow> time \<Rightarrow> time" where
  "nextScheduledAt scheduledFor cadenceSeconds now =
     (let cadence = cadenceSeconds * 1000 in max (scheduledFor + cadence) (now + cadence))"

text \<open>
  The race of the handler's promise against the timer. The timer wins a promise that settles at or
  after the limit.
\<close>

definition withJobTimeout :: "'a promise \<Rightarrow> int \<Rightarrow> thrown + 'a" where
  "withJobTimeout p milliseconds =
     (case p of Settles d r \<Rightarrow> if d < milliseconds then r else Inl (ErrorObject ''SCHEDULED_JOB_TIMEOUT'')
              | Pending \<Rightarrow> Inl (ErrorObject ''SCHEDULED_JOB_TIMEOUT''))"

section \<open>Registry\<close>

text \<open>\<open>/^[a-z][a-z0-9.-]+$/\<close>\<close>

definition job_key_char :: "char \<Rightarrow> bool" where
  "job_key_char c \<longleftrightarrow> char_between CHR ''a'' CHR ''z'' c \<or> char_between CHR ''0'' CHR ''9'' c \<or> c \<in> set ''.-''"

definition valid_job_key :: "string \<Rightarrow> bool" where
  "valid_job_key key =
     (case key of [] \<Rightarrow> False
                | c # cs \<Rightarrow> char_between CHR ''a'' CHR ''z'' c \<and> cs \<noteq> [] \<and> list_all job_key_char cs)"

definition invalid_job :: "'m SchedulerJobMetadata_scheme \<Rightarrow> bool" where
  "invalid_job job \<longleftrightarrow>
     \<not> valid_job_key (job_key job) \<or> job_timeoutSeconds job \<le> 0 \<or>
     job_lockSeconds job \<le> job_timeoutSeconds job \<or> job_maxAttempts job < 1 \<or> job_cadenceSeconds job < 30"

definition createSchedulerRegistry ::
    "'m SchedulerJobMetadata_scheme list \<Rightarrow> error + 'm SchedulerJobMetadata_scheme list" where
  "createSchedulerRegistry jobs =
     (if card (job_key ` set jobs) \<noteq> length jobs then Inl ''DUPLICATE_SCHEDULER_JOB_KEY''
      else case List.find invalid_job jobs of
             Some job \<Rightarrow> Inl (''INVALID_SCHEDULER_JOB:'' @ job_key job)
           | None \<Rightarrow> Inr jobs)"

definition registry_get ::
    "'m SchedulerJobMetadata_scheme list \<Rightarrow> string \<Rightarrow> error + 'm SchedulerJobMetadata_scheme" where
  "registry_get jobs key =
     (case js_map_get (map (\<lambda>job. (job_key job, job)) jobs) key of
        None \<Rightarrow> Inl ''SCHEDULED_JOB_NOT_FOUND''
      | Some job \<Rightarrow> Inr job)"

section \<open>The registered jobs\<close>

definition schedulerJobDefinitions :: "SchedulerJobMetadata list" where
  "schedulerJobDefinitions =
    [\<lparr>job_key = ''storage.lifecycle'', job_name = ''Storage cleanup and deletion'',
      job_description = ''Recovers and processes private-storage cleanup, abandoned uploads, and completed product deletion.'',
      job_category = ''STORAGE'', job_cadenceSeconds = 300, job_timeoutSeconds = 240, job_lockSeconds = 300,
      job_maxAttempts = 5, job_dryRunSupported = True, job_healthThresholdSeconds = 1800, job_auditPolicy = AUDIT_FAILURES\<rparr>,
     \<lparr>job_key = ''email.outbox'', job_name = ''Transactional email outbox'',
      job_description = ''Delivers pending mail, retries transient failures, and marks terminal failures.'',
      job_category = ''EMAIL'', job_cadenceSeconds = 60, job_timeoutSeconds = 50, job_lockSeconds = 60,
      job_maxAttempts = 5, job_dryRunSupported = True, job_healthThresholdSeconds = 300, job_auditPolicy = AUDIT_FAILURES\<rparr>,
     \<lparr>job_key = ''subscriptions.renewal-reminders'', job_name = ''Subscription renewal reminders'',
      job_description = ''Queues deduplicated 14, 7, and 1 day customer-authorized renewal reminders.'',
      job_category = ''ENTITLEMENTS'', job_cadenceSeconds = 3600, job_timeoutSeconds = 300, job_lockSeconds = 360,
      job_maxAttempts = 4, job_dryRunSupported = True, job_healthThresholdSeconds = 10800, job_auditPolicy = AUDIT_FAILURES\<rparr>,
     \<lparr>job_key = ''entitlements.expiration'', job_name = ''Entitlement expiration'',
      job_description = ''Synchronizes subscription, license, trial, grace-period, and download-grant expiration state.'',
      job_category = ''ENTITLEMENTS'', job_cadenceSeconds = 300, job_timeoutSeconds = 240, job_lockSeconds = 300,
      job_maxAttempts = 5, job_dryRunSupported = True, job_healthThresholdSeconds = 1800, job_auditPolicy = AUDIT_FAILURES\<rparr>,
     \<lparr>job_key = ''commerce.lifecycle'', job_name = ''Commerce lifecycle'',
      job_description = ''Expires abandoned orders and attempts and releases stale offer reservations without settling payments.'',
      job_category = ''COMMERCE'', job_cadenceSeconds = 900, job_timeoutSeconds = 120, job_lockSeconds = 180,
      job_maxAttempts = 4, job_dryRunSupported = True, job_healthThresholdSeconds = 3600, job_auditPolicy = AUDIT_FAILURES\<rparr>,
     \<lparr>job_key = ''customers.retention-review'', job_name = ''Customer retention review'',
      job_description = ''Calculates retention, privacy, purge-eligibility, and legal-hold review backlogs without automatic purge.'',
      job_category = ''CUSTOMER'', job_cadenceSeconds = 86400, job_timeoutSeconds = 300, job_lockSeconds = 360,
      job_maxAttempts = 3, job_dryRunSupported = True, job_healthThresholdSeconds = 172800, job_auditPolicy = AUDIT_FAILURES\<rparr>,
     \<lparr>job_key = ''security.expired-records'', job_name = ''Expired authentication records'',
      job_description = ''Removes expired sessions, MFA challenges, verification, magic-link, and password-reset tokens.'',
      job_category = ''SECURITY'', job_cadenceSeconds = 3600, job_timeoutSeconds = 120, job_lockSeconds = 180,
      job_maxAttempts = 4, job_dryRunSupported = True, job_healthThresholdSeconds = 10800, job_auditPolicy = AUDIT_FAILURES\<rparr>,
     \<lparr>job_key = ''payments.operations'', job_name = ''Payment operations'',
      job_description = ''Retries retryable stored webhooks and reports reconciliation candidates; never auto-settles or refunds.'',
      job_category = ''PAYMENTS'', job_cadenceSeconds = 900, job_timeoutSeconds = 300, job_lockSeconds = 360,
      job_maxAttempts = 5, job_dryRunSupported = True, job_healthThresholdSeconds = 3600, job_auditPolicy = AUDIT_ALL\<rparr>,
     \<lparr>job_key = ''renewals.prepared-recovery'', job_name = ''Prepared renewal recovery'',
      job_description = ''Retries prepared successor lease issuance without extending entitlements twice.'',
      job_category = ''ENTITLEMENTS'', job_cadenceSeconds = 300, job_timeoutSeconds = 240, job_lockSeconds = 300,
      job_maxAttempts = 5, job_dryRunSupported = True, job_healthThresholdSeconds = 1800, job_auditPolicy = AUDIT_ALL\<rparr>,
     \<lparr>job_key = ''backups.daily'', job_name = ''Encrypted daily backup'',
      job_description = ''Queues one encrypted PostgreSQL and private-object archive per UTC retention window.'',
      job_category = ''BACKUP'', job_cadenceSeconds = 86400, job_timeoutSeconds = 120, job_lockSeconds = 180,
      job_maxAttempts = 3, job_dryRunSupported = True, job_healthThresholdSeconds = 172800, job_auditPolicy = AUDIT_ALL\<rparr>,
     \<lparr>job_key = ''backups.retention'', job_name = ''Backup retention'',
      job_description = ''Marks expired archives and queues deletion without touching current recovery points.'',
      job_category = ''BACKUP'', job_cadenceSeconds = 86400, job_timeoutSeconds = 120, job_lockSeconds = 180,
      job_maxAttempts = 3, job_dryRunSupported = True, job_healthThresholdSeconds = 172800, job_auditPolicy = AUDIT_ALL\<rparr>]"

section \<open>Properties of the policy\<close>

text \<open>The facts a registry that was accepted gives about its jobs.\<close>

lemma createSchedulerRegistry_Inr:
  assumes "createSchedulerRegistry jobs = Inr reg"
  shows "reg = jobs" and "distinct (map job_key jobs)" and "\<And>job. job \<in> set jobs \<Longrightarrow> \<not> invalid_job job"
proof -
  have card: "card (job_key ` set jobs) = length jobs" and none: "List.find invalid_job jobs = None"
    and "reg = jobs"
    using assms by (auto simp: createSchedulerRegistry_def split: if_splits option.splits)
  then show "reg = jobs" by simp
  show "distinct (map job_key jobs)" using card by (intro card_distinct) simp
  show "\<not> invalid_job job" if "job \<in> set jobs" for job
    using none that by (simp add: find_None)
qed

lemma registry_get_Inr: "registry_get jobs key = Inr job \<Longrightarrow> job \<in> set jobs \<and> job_key job = key"
  by (auto simp: registry_get_def dest: js_map_get_in split: option.splits)

lemma registry_get_registered:
  assumes "distinct (map job_key jobs)" and "job \<in> set jobs"
  shows "registry_get jobs (job_key job) = Inr job"
proof -
  have "js_map_get (map (\<lambda>job. (job_key job, job)) jobs) (job_key job) = Some job"
    using assms by (subst js_map_get_distinct) (auto simp: comp_def)
  then show ?thesis by (simp add: registry_get_def)
qed

lemma scheduledWindow_bounds:
  assumes "0 < cadence"
  shows "scheduledWindow now cadence \<le> now" and "now < scheduledWindow now cadence + cadence * 1000"
    and "cadence * 1000 dvd scheduledWindow now cadence"
proof -
  have pos: "0 < cadence * 1000" using assms by simp
  have split: "now div (cadence * 1000) * (cadence * 1000) + now mod (cadence * 1000) = now"
    by (rule div_mult_mod_eq)
  show "scheduledWindow now cadence \<le> now" and "now < scheduledWindow now cadence + cadence * 1000"
    using split pos_mod_bound [OF pos, of now] pos_mod_sign [OF pos, of now]
    by (simp_all only: scheduledWindow_def Let_def)
  show "cadence * 1000 dvd scheduledWindow now cadence"
    by (simp add: scheduledWindow_def Let_def)
qed

lemma nextScheduledAt_later: "0 < cadence \<Longrightarrow> now < nextScheduledAt scheduledFor cadence now"
  by (simp add: nextScheduledAt_def Let_def)

lemma withJobTimeout_cases:
  obtains d r where "p = Settles d r" and "d < limit" and "withJobTimeout p limit = r"
  | "withJobTimeout p limit = Inl (ErrorObject ''SCHEDULED_JOB_TIMEOUT'')"
      and "p = Pending \<or> (\<exists>d r. p = Settles d r \<and> limit \<le> d)"
  by (cases p) (force simp: withJobTimeout_def split: if_splits)+


section \<open>Claims\<close>

lemma take_prefix_eq: "a @ x # u = b @ x # v \<Longrightarrow> x \<notin> set a \<Longrightarrow> x \<notin> set b \<Longrightarrow> a = b \<and> u = v"
proof (induction a arbitrary: b)
  case Nil
  then show ?case by (cases b) auto
next
  case (Cons y ys)
  then show ?case by (cases b) auto
qed

lemma no_colon_in_job_key: "valid_job_key key \<Longrightarrow> CHR '':'' \<notin> set key"
  by (cases key) (auto simp: valid_job_key_def job_key_char_def char_between_def list_all_iff)

lemma length_toISOString:
  assumes "four_digit_year t"
  shows "length (toISOString t) = 24"
proof -
  obtain y m d where c: "civil_of_day (t div ms_per_day) = (y, m, d)"
    by (cases "civil_of_day (t div ms_per_day)")
  have "0 \<le> y \<and> y \<le> 9999" using assms c by (simp only: four_digit_year_def getUTCFullYear_def fst_conv)
  then have "length (iso_year y) = 4" by (simp only: iso_year_def if_True simp_thms length_pad)
  moreover have "length (toISOString t) = length (iso_year y) + 20"
    unfolding toISOString_def c Let_def prod.case length_append length_pad by simp
  ultimately show ?thesis by simp
qed

text \<open>The idempotency key of a scheduled run identifies the job, the window and the dry-run mode: two
  runs get the same key only when all three agree.\<close>

theorem scheduledIdempotencyKey_inj:
  assumes "scheduledIdempotencyKey key w dry = scheduledIdempotencyKey key' w' dry'"
    and "valid_job_key key" and "valid_job_key key'" and "four_digit_year w" and "four_digit_year w'"
  shows "key = key' \<and> w = w' \<and> dry = dry'"
proof -
  define u where "u = toISOString w @ '':'' @ (if dry then ''dry'' else ''live'')"
  define u' where "u' = toISOString w' @ '':'' @ (if dry' then ''dry'' else ''live'')"
  have eq: "key @ CHR '':'' # u = key' @ CHR '':'' # u'"
    using assms(1) unfolding scheduledIdempotencyKey_def u_def u'_def by (simp only: append_Cons append_Nil)
  have "key = key'" and "u = u'"
    using take_prefix_eq [OF eq] no_colon_in_job_key assms(2,3) by blast+
  then have rest: "toISOString w @ '':'' @ (if dry then ''dry'' else ''live'') =
      toISOString w' @ '':'' @ (if dry' then ''dry'' else ''live'')" by (simp only: u_def u'_def)
  moreover have "length (toISOString w) = length (toISOString w')"
    using assms(4,5) by (simp only: length_toISOString)
  from iffD1 [OF append_eq_append_conv [OF disjI1 [OF this]] rest]
  have "toISOString w = toISOString w'" and
    "'':'' @ (if dry then ''dry'' else ''live'') = '':'' @ (if dry' then ''dry'' else ''live'')" by blast+
  moreover from this(2) have "dry = dry'" by (cases dry; cases dry') simp_all
  ultimately show ?thesis using toISOString_inj assms(4,5) \<open>key = key'\<close> by blast
qed

lemma scheduledIdempotencyKey_inj_witness:
  "(''email.outbox'', 0, False) = (''email.outbox'', 0::int, False)"
proof -
  have "valid_job_key ''email.outbox''" and "four_digit_year 0" by code_simp+
  then show ?thesis
    using scheduledIdempotencyKey_inj [of "''email.outbox''" 0 False "''email.outbox''" 0 False] by simp
qed

lemma retryDelayMs_spread:
  "min 21600000 (30000 * 2 ^ nat (attempt - 1)) \<le> retryDelayMs attempt seed \<and>
   5 * retryDelayMs attempt seed < 6 * min 21600000 (30000 * 2 ^ nat (attempt - 1)) \<and>
   30000 \<le> retryDelayMs attempt seed \<and> retryDelayMs attempt seed < 25920000"
proof -
  define base :: int where "base = min 21600000 (30000 * 2 ^ nat (attempt - 1))"
  have "(1::int) \<le> 2 ^ nat (attempt - 1)" by (rule one_le_power) simp
  then have base: "30000 \<le> base" "base \<le> 21600000" by (simp_all add: base_def)
  have delay: "retryDelayMs attempt seed = base + \<bar>seed\<bar> mod max 1 (base div 5)"
  proof -
    have "nat (max 0 (attempt - 1)) = nat (attempt - 1)" by simp
    moreover have "6 * 3600000 = (21600000 :: int)" by simp
    ultimately show ?thesis by (simp only: retryDelayMs_def Let_def base_def)
  qed
  define fifth where "fifth = base div 5"
  have fifth: "5 * fifth \<le> base" "1 \<le> fifth"
  proof -
    show "5 * fifth \<le> base" unfolding fifth_def by (rule div_floor(1)) simp
    have "30000 div 5 \<le> fifth" unfolding fifth_def by (rule zdiv_mono1 [OF base(1)]) simp
    then show "1 \<le> fifth" by simp
  qed
  define jit where "jit = \<bar>seed\<bar> mod max 1 fifth"
  have jit: "0 \<le> jit" "jit < fifth"
    unfolding jit_def using fifth pos_mod_bound [of fifth "\<bar>seed\<bar>"] pos_mod_sign [of fifth "\<bar>seed\<bar>"]
    by (simp_all add: max_def)
  have "retryDelayMs attempt seed = base + jit" by (simp only: delay jit_def fifth_def)
  then show ?thesis unfolding base_def [symmetric] using jit fifth base by simp
qed

lemma retryDelayMs_range: "30000 \<le> retryDelayMs attempt seed" "retryDelayMs attempt seed < 25920000"
  using retryDelayMs_spread [of attempt seed] by simp_all

text \<open>C40 The delay before a retry is at least the exponential backoff of the attempt, capped at six
  hours, and exceeds it by less than a fifth: between thirty seconds and seven hours and twelve minutes.\<close>

theorem retryDelayMs_bounds:
  "min 21600000 (30000 * 2 ^ nat (attempt - 1)) \<le> retryDelayMs attempt seed \<and>
   5 * retryDelayMs attempt seed < 6 * min 21600000 (30000 * 2 ^ nat (attempt - 1)) \<and>
   30000 \<le> retryDelayMs attempt seed \<and> retryDelayMs attempt seed < 25920000"
  by (rule retryDelayMs_spread)

text \<open>The error code stored for a failed run is never empty, has at most eighty characters, and only
  letters, digits, underscores, colons and hyphens, whatever was thrown.\<close>

theorem safeJobErrorCode_safe:
  "safeJobErrorCode e \<noteq> [] \<and> length (safeJobErrorCode e) \<le> 80 \<and> list_all error_code_char (safeJobErrorCode e)"
proof -
  define code where
    "code = take 80 (map (\<lambda>c. if error_code_char c then c else CHR ''_'') (error_message ''SCHEDULED_JOB_FAILED'' e))"
  have "error_code_char (CHR ''_'')" by (simp add: error_code_char_def)
  then have chars: "list_all error_code_char code"
    by (auto simp: code_def list_all_iff dest!: in_set_takeD)
  have fallback: "list_all error_code_char ''SCHEDULED_JOB_FAILED''" by code_simp
  have "length code \<le> 80" by (simp add: code_def)
  moreover have "safeJobErrorCode e = (if code = [] then ''SCHEDULED_JOB_FAILED'' else code)"
    by (simp only: safeJobErrorCode_def code_def Let_def)
  ultimately show ?thesis using chars fallback by (cases "code = []") simp_all
qed

text \<open>The summary stored for a run is bounded: at most thirty entries, keys of at most eighty
  characters, strings of at most two hundred.\<close>

theorem boundedJobSummary_bounded:
  "length (boundedJobSummary summary) \<le> 30 \<and>
   list_all (\<lambda>(key, value). length key \<le> 80 \<and> (case value of JString v \<Rightarrow> length v \<le> 200 | _ \<Rightarrow> True))
     (boundedJobSummary summary)"
  unfolding boundedJobSummary_def
  by (intro conjI order_trans [OF length_fromEntries] fromEntries_all)
    (auto simp: list_all_iff split: json.splits)

text \<open>The registry accepts the repository's job table, and gives each of its jobs back under its key,
  with a lock that outlives the job's timeout.\<close>

theorem schedulerJobDefinitions_registered:
  "createSchedulerRegistry schedulerJobDefinitions = Inr schedulerJobDefinitions \<and>
   list_all (\<lambda>job. registry_get schedulerJobDefinitions (job_key job) = Inr job \<and>
     0 < job_timeoutSeconds job \<and> job_timeoutSeconds job < job_lockSeconds job) schedulerJobDefinitions"
proof -
  have keys: "distinct (map job_key schedulerJobDefinitions)" by (simp add: schedulerJobDefinitions_def)
  then have card: "card (job_key ` set schedulerJobDefinitions) = length schedulerJobDefinitions"
    using distinct_card by fastforce
  have valid: "list_all (\<lambda>job. \<not> invalid_job job) schedulerJobDefinitions"
    by (simp add: schedulerJobDefinitions_def invalid_job_def valid_job_key_def job_key_char_def char_between_def)
  then have "createSchedulerRegistry schedulerJobDefinitions = Inr schedulerJobDefinitions"
    using card by (simp add: createSchedulerRegistry_def find_None list_all_iff split: option.splits)
  then show ?thesis
    using valid registry_get_registered [OF keys] by (auto simp: list_all_iff invalid_job_def)
qed

end
