(* ===== verification/Scheduler_Store.thy ===== *)
theory Scheduler_Store
  imports Scheduler_Policy
begin

text \<open>
  The scheduler's persistent store: the interface \<open>SchedulerStore\<close> of
  \<open>platform/scheduler/contracts.ts\<close> as a record of operations, its contract as a locale, and the
  implementation over two tables in \<open>platform/host/scheduler/store.ts\<close>. The identifiers that the
  database client generates are a parameter; unique columns, foreign keys and the defaults of new
  rows are those of \<open>prisma/schema.prisma\<close>.
\<close>

section \<open>The interface\<close>

record CreateRunInput =
  new_jobKey :: string
  new_scheduledFor :: time
  new_trigger :: ScheduledJobTrigger
  new_dryRun :: bool
  new_correlationId :: ident
  new_idempotencyKey :: string
  new_parentRunId :: "ident option"
  new_attempt :: int

record FailureReport =
  fail_completedAt :: time
  fail_durationMs :: int
  fail_errorCode :: string
  fail_failureClass :: JobFailureClass
  fail_retryAt :: "time option"
  fail_nextRunAt :: time

record 'st SchedulerStore =
  st_synchronizeDefinition :: "SchedulerJobMetadata \<Rightarrow> time \<Rightarrow> ('st, unit) eff"
  st_getDefinition :: "string \<Rightarrow> ('st, ScheduledJobDefinition) eff"
  st_getRun :: "ident \<Rightarrow> ('st, ScheduledJobRun option) eff"
  st_createRun :: "CreateRunInput \<Rightarrow> ('st, bool \<times> ScheduledJobRun) eff"
  st_markLockConflict :: "ident \<Rightarrow> time \<Rightarrow> ('st, unit) eff"
  st_markRunning :: "ident \<Rightarrow> time \<Rightarrow> ident \<Rightarrow> ('st, unit) eff"
  st_markSucceeded :: "ident \<Rightarrow> time \<Rightarrow> int \<Rightarrow> JobSummary \<Rightarrow> time \<Rightarrow> ('st, unit) eff"
  st_markFailed :: "ident \<Rightarrow> FailureReport \<Rightarrow> ('st, unit) eff"
  st_listRunning :: "int \<Rightarrow> ('st, ScheduledJobRun list) eff"
  st_markAbandoned :: "ident \<Rightarrow> time \<Rightarrow> int \<Rightarrow> bool \<Rightarrow> ('st, unit) eff"
  st_listDueRetries :: "time \<Rightarrow> int \<Rightarrow> ('st, ScheduledJobRun list) eff"
  st_consumeRetrySource :: "ident \<Rightarrow> ('st, bool) eff"
  st_listDueDefinitions :: "time \<Rightarrow> int \<Rightarrow> ('st, ScheduledJobDefinition list) eff"
  st_setEnabled :: "string \<Rightarrow> bool \<Rightarrow> time option \<Rightarrow> ('st, unit) eff"
  st_acknowledgeFailure :: "ident \<Rightarrow> ident \<Rightarrow> time \<Rightarrow> ('st, unit) eff"

text \<open>A predicate of the store's state that every operation preserves, on success and on failure.\<close>

locale store_invariant =
  fixes S :: "'st SchedulerStore" and P :: "'st \<Rightarrow> bool"
  assumes synchronizeDefinition_keeps [keeps_intro]: "keeps P (st_synchronizeDefinition S job t1)"
    and getDefinition_keeps [keeps_intro]: "keeps P (st_getDefinition S k)"
    and getRun_keeps [keeps_intro]: "keeps P (st_getRun S i)"
    and createRun_keeps [keeps_intro]: "keeps P (st_createRun S input)"
    and markLockConflict_keeps [keeps_intro]: "keeps P (st_markLockConflict S i t1)"
    and markRunning_keeps [keeps_intro]: "keeps P (st_markRunning S i t1 o')"
    and markSucceeded_keeps [keeps_intro]: "keeps P (st_markSucceeded S i t1 d summary t2)"
    and markFailed_keeps [keeps_intro]: "keeps P (st_markFailed S i report)"
    and listRunning_keeps [keeps_intro]: "keeps P (st_listRunning S n)"
    and markAbandoned_keeps [keeps_intro]: "keeps P (st_markAbandoned S i t1 d b)"
    and listDueRetries_keeps [keeps_intro]: "keeps P (st_listDueRetries S t1 n)"
    and consumeRetrySource_keeps [keeps_intro]: "keeps P (st_consumeRetrySource S i)"
    and listDueDefinitions_keeps [keeps_intro]: "keeps P (st_listDueDefinitions S t1 n)"
    and setEnabled_keeps [keeps_intro]: "keeps P (st_setEnabled S k b t3)"
    and acknowledgeFailure_keeps [keeps_intro]: "keeps P (st_acknowledgeFailure S i a t1)"

text \<open>
  The contract the engine relies on: \<open>used s\<close> are the idempotency keys of all runs ever created. A run
  is created exactly when its key is new, and no operation forgets a key.
\<close>

locale scheduler_store =
  fixes S :: "'st SchedulerStore" and used :: "'st \<Rightarrow> string set"
  assumes monotone: "store_invariant S (\<lambda>s. U \<subseteq> used s)"
    and createRun_ok: "st_createRun S input s = (Inr (c, r), t) \<Longrightarrow>
      c = (new_idempotencyKey input \<notin> used s) \<and> new_idempotencyKey input \<in> used t"

sublocale scheduler_store \<subseteq> grows: store_invariant S "\<lambda>s. U \<subseteq> used s" for U
  by (rule monotone)

section \<open>The tables\<close>

record DefinitionRow = ScheduledJobDefinition +
  def_lastRunAt :: "time option"
  def_lastSuccessAt :: "time option"
  def_lastFailureAt :: "time option"
  def_consecutiveFailures :: int

record RunRow = ScheduledJobRun +
  row_completedAt :: "time option"
  row_durationMs :: "int option"
  row_trigger :: ScheduledJobTrigger
  row_dryRun :: bool
  row_lockOwner :: "ident option"
  row_correlationId :: ident
  row_idempotencyKey :: string
  row_parentRunId :: "ident option"
  row_resultSummary :: JobSummary
  row_errorCode :: "string option"
  row_failureClass :: "JobFailureClass option"
  row_acknowledgedAt :: "time option"
  row_acknowledgedById :: "ident option"

record SchedulerDb =
  db_definitions :: "DefinitionRow list"
  db_runs :: "RunRow list"
  db_cuids :: nat
  db_users :: "ident list"

abbreviation (input) record_not_found :: error where
  "record_not_found \<equiv> ''No record was found''"

definition definitionSnapshot :: "DefinitionRow \<Rightarrow> ScheduledJobDefinition" where
  "definitionSnapshot row = ScheduledJobDefinition.truncate row"

definition runSnapshot :: "RunRow \<Rightarrow> ScheduledJobRun" where
  "runSnapshot row = ScheduledJobRun.truncate row"

text \<open>\<open>update\<close> by a unique column, which raises when there is no such row.\<close>

definition update_run :: "ident \<Rightarrow> (RunRow \<Rightarrow> RunRow) \<Rightarrow> (SchedulerDb, unit) eff" where
  "update_run runId f s =
     (if \<exists>r\<in>set (db_runs s). run_id r = runId
      then (Inr (), s\<lparr>db_runs := update_rows (\<lambda>r. run_id r = runId) f (db_runs s)\<rparr>)
      else (Inl record_not_found, s))"

definition update_definition :: "string \<Rightarrow> (DefinitionRow \<Rightarrow> DefinitionRow) \<Rightarrow> (SchedulerDb, unit) eff" where
  "update_definition key f s =
     (if \<exists>d\<in>set (db_definitions s). def_key d = key
      then (Inr (), s\<lparr>db_definitions := update_rows (\<lambda>d. def_key d = key) f (db_definitions s)\<rparr>)
      else (Inl record_not_found, s))"

definition find_run :: "(RunRow \<Rightarrow> bool) \<Rightarrow> (SchedulerDb, RunRow) eff" where
  "find_run p = bnd (gets (\<lambda>s. List.find p (db_runs s)))
     (\<lambda>x. case x of None \<Rightarrow> throw record_not_found | Some row \<Rightarrow> ret row)"

section \<open>The operations\<close>

definition synchronizeDefinition :: "SchedulerJobMetadata \<Rightarrow> time \<Rightarrow> (SchedulerDb, unit) eff" where
  "synchronizeDefinition job initialNextRunAt =
     modify (\<lambda>s.
       if \<exists>d\<in>set (db_definitions s). def_key d = job_key job
       then s\<lparr>db_definitions := update_rows (\<lambda>d. def_key d = job_key job)
         (\<lambda>d. d\<lparr>def_cadenceSeconds := job_cadenceSeconds job, def_timeoutSeconds := job_timeoutSeconds job,
                def_maxAttempts := job_maxAttempts job\<rparr>) (db_definitions s)\<rparr>
       else s\<lparr>db_definitions := db_definitions s @
         [\<lparr>def_key = job_key job, def_enabled = True, def_cadenceSeconds = job_cadenceSeconds job,
           def_timeoutSeconds = job_timeoutSeconds job, def_maxAttempts = job_maxAttempts job,
           def_nextRunAt = initialNextRunAt, def_lastRunAt = None, def_lastSuccessAt = None,
           def_lastFailureAt = None, def_consecutiveFailures = 0\<rparr>]\<rparr>)"

definition getDefinition :: "string \<Rightarrow> (SchedulerDb, ScheduledJobDefinition) eff" where
  "getDefinition key = bnd (gets (\<lambda>s. List.find (\<lambda>d. def_key d = key) (db_definitions s)))
     (\<lambda>x. case x of None \<Rightarrow> throw record_not_found | Some row \<Rightarrow> ret (definitionSnapshot row))"

definition getRun :: "ident \<Rightarrow> (SchedulerDb, ScheduledJobRun option) eff" where
  "getRun i = gets (\<lambda>s. map_option runSnapshot (List.find (\<lambda>r. run_id r = i) (db_runs s)))"

definition new_run :: "ident \<Rightarrow> CreateRunInput \<Rightarrow> RunRow" where
  "new_run i input =
     \<lparr>run_id = i, run_jobKey = new_jobKey input, run_status = QUEUED, run_attempt = new_attempt input,
      run_scheduledFor = new_scheduledFor input, run_startedAt = None, run_retryAt = None,
      row_completedAt = None, row_durationMs = None, row_trigger = new_trigger input,
      row_dryRun = new_dryRun input, row_lockOwner = None, row_correlationId = new_correlationId input,
      row_idempotencyKey = new_idempotencyKey input, row_parentRunId = new_parentRunId input,
      row_resultSummary = [], row_errorCode = None, row_failureClass = None,
      row_acknowledgedAt = None, row_acknowledgedById = None\<rparr>"

text \<open>\<open>createMany\<close> with \<open>skipDuplicates\<close>: a row that violates a unique index is left out.\<close>

definition insert_run :: "RunRow \<Rightarrow> (SchedulerDb, bool) eff" where
  "insert_run row s =
     (if \<exists>r\<in>set (db_runs s). run_id r = run_id row \<or> row_correlationId r = row_correlationId row \<or>
           row_idempotencyKey r = row_idempotencyKey row
      then (Inr False, s)
      else if \<forall>d\<in>set (db_definitions s). def_key d \<noteq> run_jobKey row
      then (Inl ''Foreign key constraint violated'', s)
      else (Inr True, s\<lparr>db_runs := db_runs s @ [row]\<rparr>))"

definition createRun :: "(nat \<Rightarrow> ident) \<Rightarrow> CreateRunInput \<Rightarrow> (SchedulerDb, bool \<times> ScheduledJobRun) eff" where
  "createRun cuid input =
     bnd (gets (\<lambda>s. cuid (db_cuids s))) (\<lambda>i.
     bnd (modify (\<lambda>s. s\<lparr>db_cuids := Suc (db_cuids s)\<rparr>)) (\<lambda>_.
     bnd (insert_run (new_run i input)) (\<lambda>created.
     bnd (find_run (\<lambda>r. row_idempotencyKey r = new_idempotencyKey input)) (\<lambda>row.
     ret (created, runSnapshot row)))))"

definition markLockConflict :: "ident \<Rightarrow> time \<Rightarrow> (SchedulerDb, unit) eff" where
  "markLockConflict runId completedAt =
     update_run runId (\<lambda>r. r\<lparr>run_status := SKIPPED, row_completedAt := Some completedAt,
       row_durationMs := Some 0, row_errorCode := Some ''SCHEDULER_LOCK_CONFLICT'',
       row_failureClass := Some CONCURRENCY_CONFLICT\<rparr>)"

definition markRunning :: "ident \<Rightarrow> time \<Rightarrow> ident \<Rightarrow> (SchedulerDb, unit) eff" where
  "markRunning runId startedAt lockOwner =
     update_run runId (\<lambda>r. r\<lparr>run_status := RUNNING, run_startedAt := Some startedAt, row_lockOwner := Some lockOwner\<rparr>)"

definition markSucceeded :: "ident \<Rightarrow> time \<Rightarrow> int \<Rightarrow> JobSummary \<Rightarrow> time \<Rightarrow> (SchedulerDb, unit) eff" where
  "markSucceeded runId completedAt durationMs resultSummary nextRunAt =
     bnd (find_run (\<lambda>r. run_id r = runId)) (\<lambda>run.
     transaction (
       bnd (update_run runId (\<lambda>r. r\<lparr>run_status := SUCCEEDED, row_completedAt := Some completedAt,
              row_durationMs := Some durationMs, row_resultSummary := resultSummary,
              row_errorCode := None, row_failureClass := None\<rparr>)) (\<lambda>_.
       update_definition (run_jobKey run) (\<lambda>d. d\<lparr>def_lastRunAt := Some completedAt,
         def_lastSuccessAt := Some completedAt, def_consecutiveFailures := 0, def_nextRunAt := nextRunAt\<rparr>))))"

definition markFailed :: "ident \<Rightarrow> FailureReport \<Rightarrow> (SchedulerDb, unit) eff" where
  "markFailed runId f =
     bnd (find_run (\<lambda>r. run_id r = runId)) (\<lambda>run.
     transaction (
       bnd (update_run runId (\<lambda>r. r\<lparr>run_status := (if fail_retryAt f \<noteq> None then RETRYING else FAILED),
              row_completedAt := Some (fail_completedAt f), row_durationMs := Some (fail_durationMs f),
              row_errorCode := Some (fail_errorCode f), row_failureClass := Some (fail_failureClass f),
              run_retryAt := fail_retryAt f\<rparr>)) (\<lambda>_.
       update_definition (run_jobKey run) (\<lambda>d. d\<lparr>def_lastRunAt := Some (fail_completedAt f),
         def_lastFailureAt := Some (fail_completedAt f),
         def_consecutiveFailures := def_consecutiveFailures d + 1, def_nextRunAt := fail_nextRunAt f\<rparr>))))"

definition listRunning :: "int \<Rightarrow> (SchedulerDb, ScheduledJobRun list) eff" where
  "listRunning limit = gets (\<lambda>s. map runSnapshot
     (order_take (\<lambda>r. the (run_startedAt r)) limit
       (filter (\<lambda>r. run_status r = RUNNING \<and> run_startedAt r \<noteq> None) (db_runs s))))"

definition markAbandoned :: "ident \<Rightarrow> time \<Rightarrow> int \<Rightarrow> bool \<Rightarrow> (SchedulerDb, unit) eff" where
  "markAbandoned runId completedAt durationMs retryable =
     update_run runId (\<lambda>r. r\<lparr>run_status := ABANDONED, row_completedAt := Some completedAt,
       row_durationMs := Some durationMs, row_errorCode := Some ''ABANDONED_AFTER_RESTART'',
       row_failureClass := Some TRANSIENT\<rparr>)"

definition listDueRetries :: "time \<Rightarrow> int \<Rightarrow> (SchedulerDb, ScheduledJobRun list) eff" where
  "listDueRetries now limit = gets (\<lambda>s. map runSnapshot
     (order_take (\<lambda>r. the (run_retryAt r)) limit
       (filter (\<lambda>r. run_status r = RETRYING \<and> (case run_retryAt r of None \<Rightarrow> False | Some t \<Rightarrow> t \<le> now)) (db_runs s))))"

definition consumeRetrySource :: "ident \<Rightarrow> (SchedulerDb, bool) eff" where
  "consumeRetrySource runId =
     bnd (gets (\<lambda>s. count_rows (\<lambda>r. run_id r = runId \<and> run_status r = RETRYING) (db_runs s))) (\<lambda>count.
     bnd (modify (\<lambda>s. s\<lparr>db_runs := update_rows (\<lambda>r. run_id r = runId \<and> run_status r = RETRYING)
       (\<lambda>r. r\<lparr>run_status := FAILED\<rparr>) (db_runs s)\<rparr>)) (\<lambda>_.
     ret (count > 0)))"

definition listDueDefinitions :: "time \<Rightarrow> int \<Rightarrow> (SchedulerDb, ScheduledJobDefinition list) eff" where
  "listDueDefinitions now limit = gets (\<lambda>s. map definitionSnapshot
     (order_take def_nextRunAt limit (filter (\<lambda>d. def_enabled d \<and> def_nextRunAt d \<le> now) (db_definitions s))))"

definition setEnabled :: "string \<Rightarrow> bool \<Rightarrow> time option \<Rightarrow> (SchedulerDb, unit) eff" where
  "setEnabled key enabled nextRunAt =
     update_definition key (\<lambda>d. d\<lparr>def_enabled := enabled, def_nextRunAt := or_else nextRunAt (def_nextRunAt d)\<rparr>)"

text \<open>\<open>acknowledgedById\<close> references a user, which the database checks when there is a row to update.\<close>

definition store_acknowledgeFailure :: "ident \<Rightarrow> ident \<Rightarrow> time \<Rightarrow> (SchedulerDb, unit) eff" where
  "store_acknowledgeFailure runId actorId acknowledgedAt =
     bnd (gets (\<lambda>s. actorId \<notin> set (db_users s) \<and> (\<exists>r\<in>set (db_runs s). run_id r = runId))) (\<lambda>dangling.
     if dangling then throw ''Foreign key constraint violated''
     else update_run runId (\<lambda>r. r\<lparr>row_acknowledgedAt := Some acknowledgedAt, row_acknowledgedById := Some actorId\<rparr>))"

definition schedulerStore :: "(nat \<Rightarrow> ident) \<Rightarrow> SchedulerDb SchedulerStore" where
  "schedulerStore cuid =
     \<lparr>st_synchronizeDefinition = synchronizeDefinition, st_getDefinition = getDefinition, st_getRun = getRun,
      st_createRun = createRun cuid, st_markLockConflict = markLockConflict, st_markRunning = markRunning,
      st_markSucceeded = markSucceeded, st_markFailed = markFailed, st_listRunning = listRunning,
      st_markAbandoned = markAbandoned, st_listDueRetries = listDueRetries,
      st_consumeRetrySource = consumeRetrySource, st_listDueDefinitions = listDueDefinitions,
      st_setEnabled = setEnabled, st_acknowledgeFailure = store_acknowledgeFailure\<rparr>"

section \<open>The contract holds\<close>

definition used_keys :: "SchedulerDb \<Rightarrow> string set" where
  "used_keys s = row_idempotencyKey ` set (db_runs s)"

text \<open>
  The tables' consistency: primary keys, unique columns and the foreign key to the definitions, and
  what a run's status says about its other columns.
\<close>

definition run_shape :: "RunRow \<Rightarrow> bool" where
  "run_shape r \<longleftrightarrow>
     (run_status r = RUNNING \<longrightarrow> run_startedAt r \<noteq> None \<and> row_lockOwner r \<noteq> None) \<and>
     (run_status r = RETRYING \<longrightarrow> run_retryAt r \<noteq> None) \<and>
     (run_status r \<noteq> QUEUED \<and> run_status r \<noteq> RUNNING \<longrightarrow> row_completedAt r \<noteq> None)"

definition store_ok :: "SchedulerDb \<Rightarrow> bool" where
  "store_ok s \<longleftrightarrow>
     distinct (map run_id (db_runs s)) \<and> distinct (map row_idempotencyKey (db_runs s)) \<and>
     distinct (map row_correlationId (db_runs s)) \<and> distinct (map def_key (db_definitions s)) \<and>
     run_jobKey ` set (db_runs s) \<subseteq> def_key ` set (db_definitions s) \<and> list_all run_shape (db_runs s)"

definition same_keys :: "(RunRow \<Rightarrow> RunRow) \<Rightarrow> bool" where
  "same_keys f \<longleftrightarrow> (\<forall>r. run_id (f r) = run_id r \<and> row_idempotencyKey (f r) = row_idempotencyKey r \<and>
     row_correlationId (f r) = row_correlationId r \<and> run_jobKey (f r) = run_jobKey r)"

lemma image_update_rows:
  "(\<And>r. p r \<Longrightarrow> key (f r) = key r) \<Longrightarrow> key ` set (update_rows p f rows) = key ` set rows"
  by (metis list.set_map map_update_rows)

lemma used_keys_update:
  assumes "same_keys f"
  shows "used_keys (s\<lparr>db_runs := update_rows p f (db_runs s)\<rparr>) = used_keys s"
  using assms by (simp add: used_keys_def same_keys_def image_update_rows)

lemma store_ok_update_runs:
  assumes "same_keys f" and "\<And>r. run_shape r \<Longrightarrow> p r \<Longrightarrow> run_shape (f r)" and "store_ok s"
  shows "store_ok (s\<lparr>db_runs := update_rows p f (db_runs s)\<rparr>)"
  using assms by (simp add: store_ok_def same_keys_def image_update_rows map_update_rows list_all_update_rows)

lemma store_ok_update_definitions:
  assumes "\<And>d. def_key (f d) = def_key d" and "store_ok s"
  shows "store_ok (s\<lparr>db_definitions := update_rows p f (db_definitions s)\<rparr>)"
  using assms by (simp add: store_ok_def image_update_rows map_update_rows)

lemma update_run_ok:
  "same_keys f \<Longrightarrow> (\<And>r. run_shape r \<Longrightarrow> run_shape (f r)) \<Longrightarrow> keeps store_ok (update_run i f)"
  by (rule keepsI) (simp add: update_run_def store_ok_update_runs)

lemma update_definition_ok: "(\<And>d. def_key (f d) = def_key d) \<Longrightarrow> keeps store_ok (update_definition k f)"
  by (rule keepsI) (simp add: update_definition_def store_ok_update_definitions)

lemma update_run_used: "same_keys f \<Longrightarrow> keeps (\<lambda>s. U \<subseteq> used_keys s) (update_run i f)"
  by (rule keepsI) (simp add: update_run_def used_keys_update)

lemma update_definition_used: "keeps (\<lambda>s. U \<subseteq> used_keys s) (update_definition k f)"
  by (rule keepsI) (simp add: update_definition_def used_keys_def)

lemma find_run_keeps: "keeps P (find_run p)"
  unfolding find_run_def by (intro keeps_intro)

lemma insert_run_used: "keeps (\<lambda>s. U \<subseteq> used_keys s) (insert_run row)"
  by (rule keepsI) (auto simp: insert_run_def used_keys_def)

lemma insert_run_ok: "run_shape row \<Longrightarrow> keeps store_ok (insert_run row)"
  by (rule keepsI) (auto simp: insert_run_def store_ok_def intro: rev_image_eqI)

lemma store_ok_insert_definition:
  "store_ok s \<Longrightarrow> \<forall>d\<in>set (db_definitions s). def_key d \<noteq> def_key new \<Longrightarrow>
   store_ok (s\<lparr>db_definitions := db_definitions s @ [new]\<rparr>)"
  by (auto simp: store_ok_def)

lemma store_ok_cuids [simp]: "store_ok (s\<lparr>db_cuids := n\<rparr>) = store_ok s"
  by (simp add: store_ok_def)

lemmas store_operation_defs = schedulerStore_def synchronizeDefinition_def getDefinition_def getRun_def
  createRun_def markLockConflict_def markRunning_def markSucceeded_def markFailed_def listRunning_def
  markAbandoned_def listDueRetries_def consumeRetrySource_def listDueDefinitions_def setEnabled_def
  store_acknowledgeFailure_def

lemma schedulerStore_keeps_used: "store_invariant (schedulerStore cuid) (\<lambda>s. U \<subseteq> used_keys s)"
  by unfold_locales
    (auto simp: store_operation_defs same_keys_def used_keys_def image_update_rows
      intro!: keeps_intro update_run_used [unfolded used_keys_def] update_definition_used [unfolded used_keys_def]
        find_run_keeps insert_run_used [unfolded used_keys_def])

interpretation runs_ok: store_invariant "schedulerStore cuid" store_ok for cuid
  by unfold_locales
    (auto simp: store_operation_defs same_keys_def run_shape_def new_run_def
      intro!: keeps_intro update_run_ok update_definition_ok find_run_keeps insert_run_ok
        store_ok_update_runs store_ok_update_definitions store_ok_insert_definition)

interpretation host_store: scheduler_store "schedulerStore cuid" used_keys for cuid
proof (rule scheduler_store.intro)
  show "store_invariant (schedulerStore cuid) (\<lambda>s. U \<subseteq> used_keys s)" for U
    by (rule schedulerStore_keeps_used)
  show "c = (new_idempotencyKey input \<notin> used_keys s) \<and> new_idempotencyKey input \<in> used_keys t"
    if "st_createRun (schedulerStore cuid) input s = (Inr (c, r), t)" for input s c r t
    using that
    by (auto simp: schedulerStore_def createRun_def insert_run_def find_run_def eff_simps used_keys_def new_run_def
        intro: rev_image_eqI dest!: find_in_set split: prod.splits sum.splits if_splits option.splits)
qed

end
