(* ===== verification/Scheduler_Locks.thy ===== *)
theory Scheduler_Locks
  imports Scheduler_Policy
begin

text \<open>
  The scheduler's locks: the provider interface of \<open>platform/scheduler/contracts.ts\<close>, the memory
  and distributed providers of \<open>platform/scheduler/locks.ts\<close> and the host's choice among them
  (\<open>platform/host/scheduler/lock-provider.ts\<close>). The contract of a provider is a locale that the
  memory provider interprets; a step relation over interleaved acquisitions, releases and the
  passing of time shows that two unexpired leases of one key are the same lease.
\<close>

section \<open>The interface\<close>

record SchedulerLock =
  lock_key :: string
  lock_owner :: ident

record 'lk SchedulerLockProvider =
  lock_acquire :: "string \<Rightarrow> int \<Rightarrow> ('lk, SchedulerLock option) eff"
  lock_release :: "SchedulerLock \<Rightarrow> ('lk, unit) eff"

text \<open>\<open>owner_of s key\<close> is the owner the provider has on record for a key.\<close>

locale lock_provider =
  fixes acquire :: "string \<Rightarrow> int \<Rightarrow> ('lk, SchedulerLock option) eff"
    and release :: "SchedulerLock \<Rightarrow> ('lk, unit) eff"
    and owner_of :: "'lk \<Rightarrow> string \<Rightarrow> ident option"
  assumes acquire_granted: "acquire k ttl s = (Inr (Some l), t) \<Longrightarrow>
      owner_of t = (owner_of s)(lock_key l := Some (lock_owner l))"
    and acquire_refused: "acquire k ttl s = (Inr None, t) \<Longrightarrow> owner_of t = owner_of s"
    and release_owned: "release l s = (r, t) \<Longrightarrow> owner_of s (lock_key l) = Some (lock_owner l) \<Longrightarrow>
      owner_of t = (owner_of s)(lock_key l := None)"
    and release_foreign: "release l s = (r, t) \<Longrightarrow> owner_of s (lock_key l) \<noteq> Some (lock_owner l) \<Longrightarrow>
      owner_of t = owner_of s"
begin

lemma acquire_then_owner: "acquire k ttl s = (Inr (Some l), t) \<Longrightarrow> owner_of t (lock_key l) = Some (lock_owner l)"
  by (simp add: acquire_granted)

lemma release_clears: "release l s = (r, t) \<Longrightarrow> owner_of t (lock_key l) \<noteq> Some (lock_owner l)"
  by (cases "owner_of s (lock_key l) = Some (lock_owner l)") (simp_all add: release_owned release_foreign)

text \<open>A holder whose lock was taken over in the meantime does not release its successor's lock.\<close>

lemma stale_release_harmless:
  assumes "acquire k ttl s = (Inr (Some new), t)" and "lock_key old = lock_key new"
    and "lock_owner old \<noteq> lock_owner new" and "release old t = (r, u)"
  shows "owner_of u (lock_key new) = Some (lock_owner new)"
  using assms acquire_then_owner [OF assms(1)] release_foreign [OF assms(4)] by simp

lemma acquire_release_restores:
  assumes "acquire k ttl s = (Inr (Some l), t)" and "release l t = (r, u)"
  shows "owner_of u = (owner_of s)(lock_key l := None)"
  using assms release_owned [OF assms(2)] by (simp add: acquire_granted)

end

section \<open>The memory provider\<close>

text \<open>The table of locks, and how often the clock and the identifier source were read.\<close>

record MemoryLocks =
  mem_locks :: "string \<Rightarrow> (ident \<times> time) option"
  mem_reads :: nat
  mem_ids :: nat

record MemoryLockOptions =
  mem_prefix :: string
  mem_now :: "nat \<Rightarrow> time"
  mem_randomId :: "nat \<Rightarrow> ident"

definition lock_name :: "string \<Rightarrow> string \<Rightarrow> string" where
  "lock_name prefix jobKey = prefix @ '':'' @ jobKey"

text \<open>The effect of an acquisition on the table at the time \<open>now\<close>, for a new owner.\<close>

definition try_lock ::
    "string \<Rightarrow> time \<Rightarrow> ident \<Rightarrow> int \<Rightarrow> (string \<Rightarrow> (ident \<times> time) option) \<Rightarrow>
     SchedulerLock option \<times> (string \<Rightarrow> (ident \<times> time) option)" where
  "try_lock key now owner ttlMs locks =
     (case locks key of
        Some (held_by, expiresAt) \<Rightarrow>
          if expiresAt > now then (None, locks)
          else (Some \<lparr>lock_key = key, lock_owner = owner\<rparr>, locks(key \<mapsto> (owner, now + ttlMs)))
      | None \<Rightarrow> (Some \<lparr>lock_key = key, lock_owner = owner\<rparr>, locks(key \<mapsto> (owner, now + ttlMs))))"

definition drop_lock :: "SchedulerLock \<Rightarrow> (string \<Rightarrow> (ident \<times> time) option) \<Rightarrow> string \<Rightarrow> (ident \<times> time) option" where
  "drop_lock l locks =
     (if map_option fst (locks (lock_key l)) = Some (lock_owner l) then locks(lock_key l := None) else locks)"

definition memory_acquire :: "MemoryLockOptions \<Rightarrow> string \<Rightarrow> int \<Rightarrow> (MemoryLocks, SchedulerLock option) eff" where
  "memory_acquire options jobKey ttlMs s =
     (let key = lock_name (mem_prefix options) jobKey; now = mem_now options (mem_reads s);
          s1 = s\<lparr>mem_reads := Suc (mem_reads s)\<rparr>;
          (lock, locks) = try_lock key now (mem_randomId options (mem_ids s)) ttlMs (mem_locks s)
      in case lock of
           None \<Rightarrow> (Inr None, s1)
         | Some l \<Rightarrow> (Inr (Some l), s1\<lparr>mem_ids := Suc (mem_ids s), mem_locks := locks\<rparr>))"

definition memory_release :: "SchedulerLock \<Rightarrow> (MemoryLocks, unit) eff" where
  "memory_release l = modify (\<lambda>s. s\<lparr>mem_locks := drop_lock l (mem_locks s)\<rparr>)"

definition createMemorySchedulerLockProvider :: "MemoryLockOptions \<Rightarrow> MemoryLocks SchedulerLockProvider" where
  "createMemorySchedulerLockProvider options =
     \<lparr>lock_acquire = memory_acquire options, lock_release = memory_release\<rparr>"

definition mem_owner_of :: "MemoryLocks \<Rightarrow> string \<Rightarrow> ident option" where
  "mem_owner_of s key = map_option fst (mem_locks s key)"

lemma try_lock_cases:
  assumes "try_lock key now owner ttl locks = (r, locks')"
  obtains e where "r = None" and "locks' = locks" and "locks key = Some e" and "snd e > now"
  | "r = Some \<lparr>lock_key = key, lock_owner = owner\<rparr>" and "locks' = locks(key \<mapsto> (owner, now + ttl))"
      and "\<And>e. locks key = Some e \<Longrightarrow> snd e \<le> now"
  using assms by (force simp: try_lock_def split: option.splits prod.splits if_splits)

interpretation memory: lock_provider "memory_acquire options" memory_release mem_owner_of for options
proof
  show "mem_owner_of t = (mem_owner_of s)(lock_key l := Some (lock_owner l))"
    if "memory_acquire options k ttl s = (Inr (Some l), t)" for k ttl s l t
    using that by (auto simp: memory_acquire_def Let_def mem_owner_of_def fun_eq_iff
        elim!: try_lock_cases split: prod.splits option.splits)
  show "mem_owner_of t = mem_owner_of s" if "memory_acquire options k ttl s = (Inr None, t)" for k ttl s t
    using that by (auto simp: memory_acquire_def Let_def mem_owner_of_def fun_eq_iff
        split: prod.splits option.splits)
  show "mem_owner_of t = (mem_owner_of s)(lock_key l := None)"
    if "memory_release l s = (r, t)" "mem_owner_of s (lock_key l) = Some (lock_owner l)" for l s r t
    using that by (auto simp: memory_release_def modify_run drop_lock_def mem_owner_of_def fun_eq_iff)
  show "mem_owner_of t = mem_owner_of s"
    if "memory_release l s = (r, t)" "mem_owner_of s (lock_key l) \<noteq> Some (lock_owner l)" for l s r t
    using that by (auto simp: memory_release_def modify_run drop_lock_def mem_owner_of_def fun_eq_iff)
qed

section \<open>The distributed provider\<close>

record 'b LockBackend =
  backend_setIfAbsent :: "string \<Rightarrow> ident \<Rightarrow> int \<Rightarrow> ('b, bool) eff"
  backend_deleteIfOwner :: "string \<Rightarrow> ident \<Rightarrow> ('b, unit) eff"

record 'b DistributedLocks =
  dist_backend :: 'b
  dist_ids :: nat

definition in_backend :: "('b, 'a) eff \<Rightarrow> ('b DistributedLocks, 'a) eff" where
  "in_backend = zoom dist_backend (\<lambda>b s. s\<lparr>dist_backend := b\<rparr>)"

definition createDistributedSchedulerLockProvider ::
    "'b LockBackend \<Rightarrow> string \<Rightarrow> (nat \<Rightarrow> ident) \<Rightarrow> 'b DistributedLocks SchedulerLockProvider" where
  "createDistributedSchedulerLockProvider backend prefix randomId =
     \<lparr>lock_acquire = (\<lambda>jobKey ttlMs.
        bnd (gets (\<lambda>s. randomId (dist_ids s))) (\<lambda>owner.
        bnd (modify (\<lambda>s. s\<lparr>dist_ids := Suc (dist_ids s)\<rparr>)) (\<lambda>_.
        let key = prefix @ '':scheduler:lock:'' @ jobKey in
        bnd (in_backend (backend_setIfAbsent backend key owner ttlMs)) (\<lambda>acquired.
        ret (if acquired then Some \<lparr>lock_key = key, lock_owner = owner\<rparr> else None))))),
      lock_release = (\<lambda>l. in_backend (backend_deleteIfOwner backend (lock_key l) (lock_owner l)))\<rparr>"

text \<open>
  The Redis commands the host's backend issues are parameters: \<open>SET key value NX PX ttl\<close>, \<open>GET\<close> and
  \<open>DEL\<close>. The backend compares the reply of \<open>SET\<close> with \<open>OK\<close>, and releases a lock by the script
  that deletes the key only when it holds the owner.
\<close>

record 'r RedisClient =
  redis_set_nx_px :: "string \<Rightarrow> string \<Rightarrow> int \<Rightarrow> ('r, string option) eff"
  redis_get :: "string \<Rightarrow> ('r, string option) eff"
  redis_del :: "string \<Rightarrow> ('r, int) eff"

definition redis_backend :: "'r RedisClient \<Rightarrow> 'r LockBackend" where
  "redis_backend client =
     \<lparr>backend_setIfAbsent = (\<lambda>key owner ttlMs.
        bnd (redis_set_nx_px client key owner ttlMs) (\<lambda>reply. ret (reply = Some ''OK''))),
      backend_deleteIfOwner = (\<lambda>key owner.
        bnd (redis_get client key) (\<lambda>current.
        if current = Some owner then bnd (redis_del client key) (\<lambda>_. ret ()) else ret ()))\<rparr>"

text \<open>
  The host's choice: the distributed provider when a backend is configured, otherwise no locks at all
  in production and the memory provider elsewhere.
\<close>

record 'b HostLocks =
  host_dist :: "'b DistributedLocks"
  host_mem :: MemoryLocks

definition lift_provider ::
    "('s \<Rightarrow> 'p) \<Rightarrow> ('p \<Rightarrow> 's \<Rightarrow> 's) \<Rightarrow> 'p SchedulerLockProvider \<Rightarrow> 's SchedulerLockProvider" where
  "lift_provider get put p =
     \<lparr>lock_acquire = (\<lambda>k ttl. zoom get put (lock_acquire p k ttl)), lock_release = (\<lambda>l. zoom get put (lock_release p l))\<rparr>"

definition createHostSchedulerLockProvider ::
    "'b LockBackend option \<Rightarrow> bool \<Rightarrow> string \<Rightarrow> (nat \<Rightarrow> time) \<Rightarrow> (nat \<Rightarrow> ident) \<Rightarrow> 'b HostLocks SchedulerLockProvider" where
  "createHostSchedulerLockProvider backend production keyPrefix dateNow randomUUID =
     (case backend of
        Some b \<Rightarrow> lift_provider host_dist (\<lambda>d s. s\<lparr>host_dist := d\<rparr>)
          (createDistributedSchedulerLockProvider b keyPrefix randomUUID)
      | None \<Rightarrow>
          if production then
            \<lparr>lock_acquire = (\<lambda>_ _. throw ''SCHEDULER_LOCK_BACKEND_UNAVAILABLE''),
             lock_release = (\<lambda>_. throw ''SCHEDULER_LOCK_BACKEND_UNAVAILABLE'')\<rparr>
          else lift_provider host_mem (\<lambda>m s. s\<lparr>host_mem := m\<rparr>)
            (createMemorySchedulerLockProvider
              \<lparr>mem_prefix = keyPrefix @ '':scheduler:lock'', mem_now = dateNow, mem_randomId = randomUUID\<rparr>))"

section \<open>Interleaved leases\<close>

text \<open>
  The memory provider used by several workers. A lease is a lock handed out, with the time it expires;
  it stays in the list until its worker releases it. Owners are fresh, as \<open>randomUUID\<close> makes them.
\<close>

record LockWorld =
  lw_locks :: "string \<Rightarrow> (ident \<times> time) option"
  lw_now :: time
  lw_leases :: "(SchedulerLock \<times> time) list"
  lw_owners :: "ident set"

inductive lock_step :: "string \<Rightarrow> LockWorld \<Rightarrow> LockWorld \<Rightarrow> bool" for prefix where
  granted: "owner \<notin> lw_owners w \<Longrightarrow>
    try_lock (lock_name prefix jobKey) (lw_now w) owner ttl (lw_locks w) = (Some l, locks) \<Longrightarrow>
    lock_step prefix w (w\<lparr>lw_locks := locks, lw_leases := (l, lw_now w + ttl) # lw_leases w,
      lw_owners := insert owner (lw_owners w)\<rparr>)"
| refused: "try_lock (lock_name prefix jobKey) (lw_now w) owner ttl (lw_locks w) = (None, locks) \<Longrightarrow>
    lock_step prefix w (w\<lparr>lw_locks := locks\<rparr>)"
| released: "(l, e) \<in> set (lw_leases w) \<Longrightarrow>
    lock_step prefix w (w\<lparr>lw_locks := drop_lock l (lw_locks w),
      lw_leases := filter (\<lambda>x. fst x \<noteq> l) (lw_leases w)\<rparr>)"
| passed: "lw_now w \<le> t \<Longrightarrow> lock_step prefix w (w\<lparr>lw_now := t\<rparr>)"

inductive lock_reachable :: "string \<Rightarrow> LockWorld \<Rightarrow> bool" for prefix where
  start: "lock_reachable prefix \<lparr>lw_locks = (\<lambda>_. None), lw_now = t, lw_leases = [], lw_owners = {}\<rparr>"
| step: "lock_reachable prefix w \<Longrightarrow> lock_step prefix w w' \<Longrightarrow> lock_reachable prefix w'"

text \<open>A live lease is the one on record for its key.\<close>

definition leases_recorded :: "LockWorld \<Rightarrow> bool" where
  "leases_recorded w \<longleftrightarrow>
     (\<forall>(l, e)\<in>set (lw_leases w). lock_owner l \<in> lw_owners w \<and>
       (lw_now w < e \<longrightarrow> lw_locks w (lock_key l) = Some (lock_owner l, e))) \<and>
     (\<forall>(l, e)\<in>set (lw_leases w). \<forall>(l', e')\<in>set (lw_leases w). lock_owner l = lock_owner l' \<longrightarrow> l = l')"

lemma leases_recorded_step:
  assumes "leases_recorded w" and "lock_step prefix w w'"
  shows "leases_recorded w'"
  using assms(2)
proof (cases rule: lock_step.cases)
  case (granted owner jobKey ttl l locks)
  from granted(3) obtain l: "l = \<lparr>lock_key = lock_name prefix jobKey, lock_owner = owner\<rparr>"
      and locks: "locks = (lw_locks w)(lock_name prefix jobKey \<mapsto> (owner, lw_now w + ttl))"
      and free: "\<And>e. lw_locks w (lock_name prefix jobKey) = Some e \<Longrightarrow> snd e \<le> lw_now w"
    by (auto elim!: try_lock_cases)
  have "lock_owner m \<noteq> owner" if "(m, e) \<in> set (lw_leases w)" for m e
    using assms(1) granted(2) that by (force simp: leases_recorded_def)
  then show ?thesis
    using assms(1) free unfolding granted(1) leases_recorded_def by (force simp: l locks)
next
  case (refused jobKey owner ttl locks)
  then show ?thesis using assms(1) by (auto elim!: try_lock_cases)
next
  case (released l e)
  then show ?thesis
    using assms(1) unfolding released(1) leases_recorded_def by (force simp: drop_lock_def)
next
  case (passed t)
  then show ?thesis using assms(1) unfolding leases_recorded_def by force
qed

text \<open>C26 Mutual exclusion of the memory lock provider under every interleaving of acquisitions,
  releases and passing time: two leases of the same key that have not expired are one lease.\<close>

theorem memory_lock_exclusive:
  assumes "lock_reachable prefix w"
    and "(l, e) \<in> set (lw_leases w)" and "(l', e') \<in> set (lw_leases w)"
    and "lw_now w < e" and "lw_now w < e'" and "lock_key l = lock_key l'"
  shows "l = l'"
proof -
  have "leases_recorded w" using assms(1)
    by induction (auto simp: leases_recorded_step, simp add: leases_recorded_def)
  then have "lw_locks w (lock_key l) = Some (lock_owner l, e)" "lw_locks w (lock_key l') = Some (lock_owner l', e')"
    using assms(2-5) by (force simp: leases_recorded_def)+
  then show ?thesis using assms(6) by (cases l, cases l') simp
qed

text \<open>A state with one live lease.\<close>

lemma memory_lock_exclusive_witness:
  "\<exists>w l e. lock_reachable ''bke'' w \<and> (l, e) \<in> set (lw_leases w) \<and> lw_now w < e \<and> lock_key l = ''bke:job'' \<and>
    (\<forall>l' e'. (l', e') \<in> set (lw_leases w) \<longrightarrow> lw_now w < e' \<longrightarrow> lock_key l' = ''bke:job'' \<longrightarrow> l = l')"
proof -
  define l where "l = \<lparr>lock_key = ''bke:job'', lock_owner = ''worker''\<rparr>"
  define w0 where "w0 = \<lparr>lw_locks = (\<lambda>_. None), lw_now = 0, lw_leases = [], lw_owners = {}\<rparr>"
  define w where "w = w0\<lparr>lw_locks := [''bke:job'' \<mapsto> (''worker'', 60000)], lw_leases := (l, lw_now w0 + 60000) # lw_leases w0,
    lw_owners := insert ''worker'' (lw_owners w0)\<rparr>"
  have "lock_step ''bke'' w0 w" unfolding w_def
    by (rule lock_step.granted [of _ _ _ "''job''"]) (simp_all add: w0_def l_def try_lock_def lock_name_def)
  then have reach: "lock_reachable ''bke'' w"
    using lock_reachable.start [of "''bke''" 0] lock_reachable.step w0_def by blast
  have lease: "(l, 60000) \<in> set (lw_leases w)" "lw_now w < 60000" "lock_key l = ''bke:job''"
    by (simp_all add: w_def w0_def l_def)
  then have "l = l'" if "(l', e') \<in> set (lw_leases w)" "lw_now w < e'" "lock_key l' = ''bke:job''" for l' e'
    using memory_lock_exclusive [OF reach, of l 60000 l' e'] that by simp
  with reach lease show ?thesis by blast
qed

end
