(* ===== verification/Scheduler_Engine.thy ===== *)
theory Scheduler_Engine
  imports Scheduler_Store Scheduler_Locks
begin

text \<open>
  The scheduler engine of \<open>platform/scheduler/scheduler.ts\<close>, over the interfaces of its store, its lock
  provider and its event sink, and the job table with its handlers (\<open>apps/web/scheduler/service.ts\<close>).
  The clock and the identifier source are supplies that every read advances. The lemmas show that the
  engine keeps every invariant its store keeps, that a run key is executed at most once, when the lock
  is released and when it is retained, and how outcomes are recorded.
\<close>

section \<open>State and dependencies\<close>

record SchedulerEvent =
  ev_action :: string
  ev_targetType :: string
  ev_targetId :: string
  ev_actorId :: "ident option"
  ev_metadata :: "json_object option"

record ('st, 'lk, 'ev, 'dom) SchedulerDependencies =
  eng_jobs :: "'dom ScheduledJob list"
  eng_store :: "'st SchedulerStore"
  eng_locks :: "'lk SchedulerLockProvider"
  eng_emit :: "(SchedulerEvent \<Rightarrow> ('ev, unit) eff) option"
  eng_now :: "nat \<Rightarrow> time"
  eng_randomId :: "nat \<Rightarrow> ident"

record ('st, 'lk, 'ev, 'dom) SchedulerWorld =
  sw_store :: 'st
  sw_locks :: 'lk
  sw_events :: 'ev
  sw_domain :: 'dom
  sw_reads :: nat
  sw_ids :: nat

datatype RunResult =
    JobPaused
  | DuplicateRun ScheduledJobRun
  | LockConflict ident
  | RunSucceeded ident JobSummary
  | RunFailed ident string "time option"

record DueReport =
  due_recovered :: int
  due_retries :: nat
  due_due :: nat
  due_results :: "RunResult list"

definition in_store :: "('st, 'a) eff \<Rightarrow> (('st, 'lk, 'ev, 'dom) SchedulerWorld, 'a) eff" where
  "in_store = zoom sw_store (\<lambda>s w. w\<lparr>sw_store := s\<rparr>)"

definition in_locks :: "('lk, 'a) eff \<Rightarrow> (('st, 'lk, 'ev, 'dom) SchedulerWorld, 'a) eff" where
  "in_locks = zoom sw_locks (\<lambda>s w. w\<lparr>sw_locks := s\<rparr>)"

definition in_events :: "('ev, 'a) eff \<Rightarrow> (('st, 'lk, 'ev, 'dom) SchedulerWorld, 'a) eff" where
  "in_events = zoom sw_events (\<lambda>s w. w\<lparr>sw_events := s\<rparr>)"

definition clock ::
    "('st, 'lk, 'ev, 'dom) SchedulerDependencies \<Rightarrow> (('st, 'lk, 'ev, 'dom) SchedulerWorld, time) eff" where
  "clock eng = bnd (gets (\<lambda>w. eng_now eng (sw_reads w))) (\<lambda>t.
     bnd (modify (\<lambda>w. w\<lparr>sw_reads := Suc (sw_reads w)\<rparr>)) (\<lambda>_. ret t))"

definition randomId ::
    "('st, 'lk, 'ev, 'dom) SchedulerDependencies \<Rightarrow> (('st, 'lk, 'ev, 'dom) SchedulerWorld, ident) eff" where
  "randomId eng = bnd (gets (\<lambda>w. eng_randomId eng (sw_ids w))) (\<lambda>i.
     bnd (modify (\<lambda>w. w\<lparr>sw_ids := Suc (sw_ids w)\<rparr>)) (\<lambda>_. ret i))"

section \<open>The engine\<close>

text \<open>Creating the engine validates the job list.\<close>

definition createSchedulerEngine ::
    "('st, 'lk, 'ev, 'dom) SchedulerDependencies \<Rightarrow> error + ('st, 'lk, 'ev, 'dom) SchedulerDependencies" where
  "createSchedulerEngine dependencies =
     (case createSchedulerRegistry (eng_jobs dependencies) of
        Inl e \<Rightarrow> Inl e
      | Inr jobs \<Rightarrow> Inr (dependencies\<lparr>eng_jobs := jobs\<rparr>))"

definition emit ::
    "('st, 'lk, 'ev, 'dom) SchedulerDependencies \<Rightarrow> SchedulerEvent \<Rightarrow> (('st, 'lk, 'ev, 'dom) SchedulerWorld, unit) eff" where
  "emit eng event = (case eng_emit eng of None \<Rightarrow> ret () | Some sink \<Rightarrow> in_events (sink event))"

definition synchronizeJobs ::
    "('st, 'lk, 'ev, 'dom) SchedulerDependencies \<Rightarrow> time \<Rightarrow> (('st, 'lk, 'ev, 'dom) SchedulerWorld, nat) eff" where
  "synchronizeJobs eng now =
     bnd (collect (\<lambda>job. in_store (st_synchronizeDefinition (eng_store eng) (SchedulerJobMetadata.truncate job)
            (scheduledWindow now (job_cadenceSeconds job)))) (eng_jobs eng)) (\<lambda>_.
     ret (length (eng_jobs eng)))"

definition event ::
    "string \<Rightarrow> string \<Rightarrow> string \<Rightarrow> ident option \<Rightarrow> json_object option \<Rightarrow> SchedulerEvent" where
  "event action targetType targetId actorId metadata =
     \<lparr>ev_action = action, ev_targetType = targetType, ev_targetId = targetId, ev_actorId = actorId, ev_metadata = metadata\<rparr>"

definition windowed :: "ScheduledJobTrigger \<Rightarrow> bool" where
  "windowed t \<longleftrightarrow> t = SCHEDULED \<or> t = CRON"

definition dry_run :: "RunJobInput \<Rightarrow> bool" where
  "dry_run input = or_else (in_dryRun input) False"

definition scheduled_for :: "'m SchedulerJobMetadata_scheme \<Rightarrow> RunJobInput \<Rightarrow> time \<Rightarrow> time" where
  "scheduled_for job input now =
     or_else (in_scheduledFor input)
       (if windowed (in_trigger input) then scheduledWindow now (job_cadenceSeconds job) else now)"

definition idempotency_key ::
    "('st, 'lk, 'ev, 'dom) SchedulerDependencies \<Rightarrow> 'm SchedulerJobMetadata_scheme \<Rightarrow> RunJobInput \<Rightarrow> time \<Rightarrow>
     (('st, 'lk, 'ev, 'dom) SchedulerWorld, string) eff" where
  "idempotency_key eng job input scheduledFor =
     (case in_idempotencyKey input of
        Some key \<Rightarrow> ret key
      | None \<Rightarrow>
          if windowed (in_trigger input) then ret (scheduledIdempotencyKey (job_key job) scheduledFor (dry_run input))
          else bnd (randomId eng) (\<lambda>i. ret (job_key job @ '':'' @ toLowerCase (trigger_name (in_trigger input)) @ '':'' @ i)))"

text \<open>The handler runs on the data it works on, and the timer limits how long its promise is awaited.\<close>

definition run_handler ::
    "'dom ScheduledJob \<Rightarrow> JobContext \<Rightarrow> (('st, 'lk, 'ev, 'dom) SchedulerWorld, thrown + JobSummary) eff" where
  "run_handler job context w =
     (case job_handler job context (sw_domain w) of
        (promise, domain) \<Rightarrow> (Inr (withJobTimeout promise (job_timeoutSeconds job * 1000)), w\<lparr>sw_domain := domain\<rparr>))"

text \<open>The rest of the \<open>try\<close> block, after the handler has settled.\<close>

definition complete_run ::
    "('st, 'lk, 'ev, 'dom) SchedulerDependencies \<Rightarrow> 'dom ScheduledJob \<Rightarrow> RunJobInput \<Rightarrow> time \<Rightarrow> ScheduledJobRun \<Rightarrow>
     time \<Rightarrow> JobSummary \<Rightarrow> (('st, 'lk, 'ev, 'dom) SchedulerWorld, RunResult) eff" where
  "complete_run eng job input scheduledFor run startedAt summary =
     bnd (clock eng) (\<lambda>completedAt.
     bnd (in_store (st_markSucceeded (eng_store eng) (run_id run) completedAt (completedAt - startedAt)
            (boundedJobSummary summary) (nextScheduledAt scheduledFor (job_cadenceSeconds job) completedAt))) (\<lambda>_.
     bnd (if job_auditPolicy job = AUDIT_ALL \<or> in_trigger input = MANUAL
          then emit eng (event ''SCHEDULER_JOB_SUCCEEDED'' ''ScheduledJob'' (job_key job) None
            (Some [(''runId'', JString (run_id run)), (''trigger'', JString (trigger_name (in_trigger input))),
                   (''dryRun'', JBool (dry_run input))]))
          else ret ()) (\<lambda>_.
     ret (RunSucceeded (run_id run) summary))))"

definition retryable_failure :: "JobFailureClass \<Rightarrow> int \<Rightarrow> int \<Rightarrow> bool" where
  "retryable_failure failureClass attempt maxAttempts \<longleftrightarrow>
     failureClass \<notin> {PERMANENT, VALIDATION, CONFIGURATION} \<and> attempt < maxAttempts"

text \<open>The \<open>catch\<close> block.\<close>

definition fail_run ::
    "('st, 'lk, 'ev, 'dom) SchedulerDependencies \<Rightarrow> 'dom ScheduledJob \<Rightarrow> time \<Rightarrow> ScheduledJobRun \<Rightarrow> time \<Rightarrow> thrown \<Rightarrow>
     (('st, 'lk, 'ev, 'dom) SchedulerWorld, RunResult) eff" where
  "fail_run eng job scheduledFor run startedAt e =
     bnd (clock eng) (\<lambda>completedAt.
     let failureClass = classifyJobFailure e;
         retryable = retryable_failure failureClass (run_attempt run) (job_maxAttempts job);
         retryAt = (if retryable then Some (completedAt + retryDelayMs (run_attempt run) completedAt) else None);
         errorCode = safeJobErrorCode e
     in
     bnd (in_store (st_markFailed (eng_store eng) (run_id run)
            \<lparr>fail_completedAt = completedAt, fail_durationMs = completedAt - startedAt, fail_errorCode = errorCode,
             fail_failureClass = failureClass, fail_retryAt = retryAt,
             fail_nextRunAt = or_else retryAt (nextScheduledAt scheduledFor (job_cadenceSeconds job) completedAt)\<rparr>)) (\<lambda>_.
     bnd (emit eng (event (if retryable then ''SCHEDULER_JOB_RETRY_SCHEDULED'' else ''SCHEDULER_JOB_FAILED'')
            ''ScheduledJob'' (job_key job) None
            (Some [(''runId'', JString (run_id run)), (''errorCode'', JString errorCode),
                   (''failureClass'', JString (failure_class_name failureClass)), (''attempt'', JNumber (run_attempt run))]))) (\<lambda>_.
     ret (RunFailed (run_id run) errorCode retryAt))))"

definition release_quietly ::
    "('st, 'lk, 'ev, 'dom) SchedulerDependencies \<Rightarrow> SchedulerLock \<Rightarrow> (('st, 'lk, 'ev, 'dom) SchedulerWorld, unit) eff" where
  "release_quietly eng lock = bnd (caught (in_locks (lock_release (eng_locks eng) lock))) (\<lambda>_. ret ())"

text \<open>The whole \<open>try\<close> block: its outcome is the result it returns or the value thrown in it.\<close>

definition attempt_run ::
    "('st, 'lk, 'ev, 'dom) SchedulerDependencies \<Rightarrow> 'dom ScheduledJob \<Rightarrow> RunJobInput \<Rightarrow> time \<Rightarrow> ident \<Rightarrow> ScheduledJobRun \<Rightarrow>
     time \<Rightarrow> (('st, 'lk, 'ev, 'dom) SchedulerWorld, thrown + RunResult) eff" where
  "attempt_run eng job input scheduledFor correlationId run startedAt =
     bnd (run_handler job \<lparr>ctx_now = startedAt, ctx_dryRun = dry_run input, ctx_correlationId = correlationId\<rparr>) (\<lambda>settled.
     case settled of
       Inl e \<Rightarrow> ret (Inl e)
     | Inr summary \<Rightarrow>
         bnd (caught (complete_run eng job input scheduledFor run startedAt summary)) (\<lambda>r.
         ret (map_sum ErrorObject id r)))"

text \<open>
  From the acquired lock to the result. A timed-out run keeps its lock, since its handler may still
  be running; every other outcome of the \<open>try\<close> block releases it.
\<close>

definition execute_run ::
    "('st, 'lk, 'ev, 'dom) SchedulerDependencies \<Rightarrow> 'dom ScheduledJob \<Rightarrow> RunJobInput \<Rightarrow> time \<Rightarrow> ident \<Rightarrow> ScheduledJobRun \<Rightarrow>
     SchedulerLock \<Rightarrow> (('st, 'lk, 'ev, 'dom) SchedulerWorld, RunResult) eff" where
  "execute_run eng job input scheduledFor correlationId run lock =
     bnd (clock eng) (\<lambda>startedAt.
     bnd (in_store (st_markRunning (eng_store eng) (run_id run) startedAt (lock_owner lock))) (\<lambda>_.
     bnd (attempt_run eng job input scheduledFor correlationId run startedAt) (\<lambda>outcome.
     case outcome of
       Inr result \<Rightarrow> finally_do (ret result) (release_quietly eng lock)
     | Inl e \<Rightarrow> finally_do (fail_run eng job scheduledFor run startedAt e)
         (if safeJobErrorCode e = ''SCHEDULED_JOB_TIMEOUT'' then ret () else release_quietly eng lock))))"

definition start_run ::
    "('st, 'lk, 'ev, 'dom) SchedulerDependencies \<Rightarrow> 'dom ScheduledJob \<Rightarrow> RunJobInput \<Rightarrow> time \<Rightarrow> time \<Rightarrow> ident \<Rightarrow>
     ScheduledJobRun \<Rightarrow> (('st, 'lk, 'ev, 'dom) SchedulerWorld, RunResult) eff" where
  "start_run eng job input now scheduledFor correlationId run =
     bnd (in_locks (lock_acquire (eng_locks eng) (job_key job) (job_lockSeconds job * 1000))) (\<lambda>acquired.
     case acquired of
       None \<Rightarrow>
         bnd (in_store (st_markLockConflict (eng_store eng) (run_id run) now)) (\<lambda>_.
         bnd (emit eng (event ''SCHEDULER_LOCK_CONFLICT'' ''ScheduledJob'' (job_key job) None
                (Some [(''runId'', JString (run_id run)), (''trigger'', JString (trigger_name (in_trigger input)))]))) (\<lambda>_.
         ret (LockConflict (run_id run))))
     | Some lock \<Rightarrow> execute_run eng job input scheduledFor correlationId run lock)"

text \<open>A run of a registered job.\<close>

definition run_registered ::
    "('st, 'lk, 'ev, 'dom) SchedulerDependencies \<Rightarrow> RunJobInput \<Rightarrow> 'dom ScheduledJob \<Rightarrow>
     (('st, 'lk, 'ev, 'dom) SchedulerWorld, RunResult) eff" where
  "run_registered eng input job =
     bnd (clock eng) (\<lambda>now.
     bnd (synchronizeJobs eng now) (\<lambda>_.
     bnd (in_store (st_getDefinition (eng_store eng) (job_key job))) (\<lambda>definition.
     if \<not> def_enabled definition then ret JobPaused
     else if dry_run input \<and> \<not> job_dryRunSupported job then throw ''DRY_RUN_NOT_SUPPORTED''
     else
     let scheduledFor = scheduled_for job input now in
     bnd (idempotency_key eng job input scheduledFor) (\<lambda>idempotencyKey.
     bnd (randomId eng) (\<lambda>correlationId.
     bnd (if truthy (in_parentRunId input) then in_store (st_getRun (eng_store eng) (the (in_parentRunId input)))
          else ret None) (\<lambda>parent.
     bnd (in_store (st_createRun (eng_store eng)
            \<lparr>new_jobKey = job_key job, new_scheduledFor = scheduledFor, new_trigger = in_trigger input,
             new_dryRun = dry_run input, new_correlationId = correlationId, new_idempotencyKey = idempotencyKey,
             new_parentRunId = in_parentRunId input, new_attempt = or_else (map_option run_attempt parent) 0 + 1\<rparr>))
       (\<lambda>(created, run).
     if \<not> created then ret (DuplicateRun run)
     else start_run eng job input now scheduledFor correlationId run)))))))"

definition runJob ::
    "('st, 'lk, 'ev, 'dom) SchedulerDependencies \<Rightarrow> RunJobInput \<Rightarrow> (('st, 'lk, 'ev, 'dom) SchedulerWorld, RunResult) eff" where
  "runJob eng input = bnd (from_result (registry_get (eng_jobs eng) (in_key input))) (run_registered eng input)"

definition retry_input :: "string \<Rightarrow> time \<Rightarrow> string \<Rightarrow> ident \<Rightarrow> RunJobInput" where
  "retry_input key scheduledFor idempotencyKey parentRunId =
     \<lparr>in_key = key, in_trigger = RETRY, in_scheduledFor = Some scheduledFor, in_dryRun = None,
      in_idempotencyKey = Some idempotencyKey, in_parentRunId = Some parentRunId\<rparr>"

definition retry_key :: "ScheduledJobRun \<Rightarrow> string" where
  "retry_key run = ''retry:'' @ run_id run @ '':'' @ decimal (run_attempt run + 1)"

definition recover_run ::
    "('st, 'lk, 'ev, 'dom) SchedulerDependencies \<Rightarrow> time \<Rightarrow> ScheduledJobRun \<Rightarrow> (('st, 'lk, 'ev, 'dom) SchedulerWorld, int) eff" where
  "recover_run eng now run =
     (case run_startedAt run of
        None \<Rightarrow> ret 0
      | Some startedAt \<Rightarrow>
          bnd (from_result (registry_get (eng_jobs eng) (run_jobKey run))) (\<lambda>job.
          if startedAt + job_timeoutSeconds job * 1000 \<ge> now then ret 0
          else
          let retryable = run_attempt run < job_maxAttempts job in
          bnd (in_store (st_markAbandoned (eng_store eng) (run_id run) now (now - startedAt) retryable)) (\<lambda>_.
          bnd (emit eng (event ''SCHEDULER_JOB_ABANDONED'' ''ScheduledJob'' (run_jobKey run) None
                 (Some [(''runId'', JString (run_id run)), (''retryable'', JBool retryable)]))) (\<lambda>_.
          bnd (if retryable
               then bnd (runJob eng (retry_input (run_jobKey run) now (retry_key run) (run_id run))) (\<lambda>_. ret ())
               else ret ()) (\<lambda>_.
          ret 1)))))"

definition recoverAbandonedRuns ::
    "('st, 'lk, 'ev, 'dom) SchedulerDependencies \<Rightarrow> time \<Rightarrow> (('st, 'lk, 'ev, 'dom) SchedulerWorld, int) eff" where
  "recoverAbandonedRuns eng now =
     bnd (in_store (st_listRunning (eng_store eng) 100)) (\<lambda>running.
     bnd (collect (recover_run eng now) running) (\<lambda>recovered.
     ret (sum_list recovered)))"

definition run_retry ::
    "('st, 'lk, 'ev, 'dom) SchedulerDependencies \<Rightarrow> time \<Rightarrow> ScheduledJobRun \<Rightarrow>
     (('st, 'lk, 'ev, 'dom) SchedulerWorld, RunResult list) eff" where
  "run_retry eng now prior =
     bnd (in_store (st_consumeRetrySource (eng_store eng) (run_id prior))) (\<lambda>consumed.
     if \<not> consumed then ret []
     else bnd (runJob eng (retry_input (run_jobKey prior) now (retry_key prior) (run_id prior))) (\<lambda>r. ret [r]))"

definition runDueJobs ::
    "('st, 'lk, 'ev, 'dom) SchedulerDependencies \<Rightarrow> ScheduledJobTrigger \<Rightarrow> time \<Rightarrow>
     (('st, 'lk, 'ev, 'dom) SchedulerWorld, DueReport) eff" where
  "runDueJobs eng trigger now =
     bnd (synchronizeJobs eng now) (\<lambda>_.
     bnd (recoverAbandonedRuns eng now) (\<lambda>recovered.
     bnd (in_store (st_listDueRetries (eng_store eng) now 20)) (\<lambda>retries.
     bnd (collect (run_retry eng now) retries) (\<lambda>retried.
     bnd (in_store (st_listDueDefinitions (eng_store eng) now 50)) (\<lambda>due.
     bnd (collect (\<lambda>definition. runJob eng
            \<lparr>in_key = def_key definition, in_trigger = trigger,
             in_scheduledFor = Some (scheduledWindow now (def_cadenceSeconds definition)), in_dryRun = None,
             in_idempotencyKey = None, in_parentRunId = None\<rparr>) due) (\<lambda>results.
     ret \<lparr>due_recovered = recovered, due_retries = length retries, due_due = length due,
          due_results = concat retried @ results\<rparr>))))))"

definition setJobEnabled ::
    "('st, 'lk, 'ev, 'dom) SchedulerDependencies \<Rightarrow> string \<Rightarrow> bool \<Rightarrow> ident \<Rightarrow> (('st, 'lk, 'ev, 'dom) SchedulerWorld, unit) eff" where
  "setJobEnabled eng key enabled actorId =
     bnd (from_result (registry_get (eng_jobs eng) key)) (\<lambda>_.
     bnd (clock eng) (\<lambda>now.
     bnd (synchronizeJobs eng now) (\<lambda>_.
     bnd (if enabled then bnd (clock eng) (\<lambda>t. ret (Some t)) else ret None) (\<lambda>nextRunAt.
     bnd (in_store (st_setEnabled (eng_store eng) key enabled nextRunAt)) (\<lambda>_.
     emit eng (event (if enabled then ''SCHEDULER_JOB_ENABLED'' else ''SCHEDULER_JOB_DISABLED'')
       ''ScheduledJob'' key (Some actorId) None))))))"

definition acknowledgeFailure ::
    "('st, 'lk, 'ev, 'dom) SchedulerDependencies \<Rightarrow> ident \<Rightarrow> ident \<Rightarrow> (('st, 'lk, 'ev, 'dom) SchedulerWorld, unit) eff" where
  "acknowledgeFailure eng runId actorId =
     bnd (in_store (st_getRun (eng_store eng) runId)) (\<lambda>found.
     case found of
       None \<Rightarrow> throw ''INVALID_SCHEDULED_RUN_STATE''
     | Some run \<Rightarrow>
         if run_status run \<noteq> FAILED \<and> run_status run \<noteq> ABANDONED then throw ''INVALID_SCHEDULED_RUN_STATE''
         else
         bnd (clock eng) (\<lambda>acknowledgedAt.
         bnd (in_store (st_acknowledgeFailure (eng_store eng) runId actorId acknowledgedAt)) (\<lambda>_.
         emit eng (event ''SCHEDULER_FAILURE_ACKNOWLEDGED'' ''ScheduledJobRun'' runId (Some actorId)
           (Some [(''jobKey'', JString (run_jobKey run))])))))"

definition retryFailure ::
    "('st, 'lk, 'ev, 'dom) SchedulerDependencies \<Rightarrow> ident \<Rightarrow> ident \<Rightarrow> (('st, 'lk, 'ev, 'dom) SchedulerWorld, RunResult) eff" where
  "retryFailure eng runId actorId =
     bnd (in_store (st_getRun (eng_store eng) runId)) (\<lambda>found.
     case found of
       None \<Rightarrow> throw ''INVALID_SCHEDULED_RUN_STATE''
     | Some run \<Rightarrow>
         if run_status run \<notin> {FAILED, ABANDONED, RETRYING} then throw ''INVALID_SCHEDULED_RUN_STATE''
         else
         bnd (emit eng (event ''SCHEDULER_JOB_RETRY_REQUESTED'' ''ScheduledJobRun'' runId (Some actorId)
                (Some [(''jobKey'', JString (run_jobKey run))]))) (\<lambda>_.
         bnd (clock eng) (\<lambda>scheduledFor.
         bnd (randomId eng) (\<lambda>i.
         runJob eng (retry_input (run_jobKey run) scheduledFor (''manual-retry:'' @ run_id run @ '':'' @ i) (run_id run))))))"

text \<open>The job table of the web application: each definition with the handler registered for its key.\<close>

definition scheduledJobs ::
    "(string \<times> (JobContext \<Rightarrow> 'dom \<Rightarrow> JobSummary promise \<times> 'dom)) list \<Rightarrow> error + 'dom ScheduledJob list" where
  "scheduledJobs handlers =
     (case List.find (\<lambda>d. js_map_get handlers (job_key d) = None) schedulerJobDefinitions of
        Some d \<Rightarrow> Inl (''MISSING_SCHEDULER_JOB_HANDLER:'' @ job_key d)
      | None \<Rightarrow> Inr (map (\<lambda>d. SchedulerJobMetadata.extend d
          (ScheduledJob.fields (the (js_map_get handlers (job_key d))))) schedulerJobDefinitions))"

section \<open>Invariants of the store are invariants of the engine\<close>

lemma keeps_in_store: "keeps P m \<Longrightarrow> keeps (\<lambda>w. P (sw_store w)) (in_store m)"
  unfolding in_store_def by (erule keeps_zoom_part) simp

lemma store_pred_parts [keeps_intro]:
  "keeps (\<lambda>w. P (sw_store w)) (in_locks m)" "keeps (\<lambda>w. P (sw_store w)) (in_events n)"
  "keeps (\<lambda>w. P (sw_store w)) (clock eng)" "keeps (\<lambda>w. P (sw_store w)) (randomId eng)"
  unfolding in_locks_def in_events_def clock_def randomId_def
  by (rule keeps_zoom, simp)+ (intro keeps_intro, simp)+

lemma store_pred_emit [keeps_intro]: "keeps (\<lambda>w. P (sw_store w)) (emit eng ev)"
  unfolding emit_def by (intro keeps_intro)

lemma store_pred_handler [keeps_intro]: "keeps (\<lambda>w. P (sw_store w)) (run_handler job ctx)"
  by (rule keepsI) (simp add: run_handler_def split: prod.splits)

text \<open>The engine's operations, as steps of a system that runs them one after the other.\<close>

inductive engine_step ::
    "('st, 'lk, 'ev, 'dom) SchedulerDependencies \<Rightarrow> ('st, 'lk, 'ev, 'dom) SchedulerWorld \<Rightarrow>
     ('st, 'lk, 'ev, 'dom) SchedulerWorld \<Rightarrow> bool" for eng where
  "engine_step eng w (snd (synchronizeJobs eng now w))"
| "engine_step eng w (snd (runJob eng input w))"
| "engine_step eng w (snd (recoverAbandonedRuns eng now w))"
| "engine_step eng w (snd (runDueJobs eng trigger now w))"
| "engine_step eng w (snd (setJobEnabled eng key enabled actor w))"
| "engine_step eng w (snd (acknowledgeFailure eng runId actor w))"
| "engine_step eng w (snd (retryFailure eng runId actor w))"

context store_invariant
begin

lemmas in_store_keeps [keeps_intro] = keeps_in_store [of P]

lemma synchronizeJobs_keeps [keeps_intro]:
  assumes eng: "eng_store eng = S"
  shows "keeps (\<lambda>w. P (sw_store w)) (synchronizeJobs eng now)"
  unfolding synchronizeJobs_def Let_def eng by (intro keeps_intro eng)

lemma execute_run_keeps [keeps_intro]:
  assumes eng: "eng_store eng = S"
  shows "keeps (\<lambda>w. P (sw_store w)) (execute_run eng job input sf c run lock)"
  unfolding execute_run_def attempt_run_def complete_run_def fail_run_def release_quietly_def Let_def eng by (intro keeps_intro eng)

lemma start_run_keeps [keeps_intro]:
  assumes eng: "eng_store eng = S"
  shows "keeps (\<lambda>w. P (sw_store w)) (start_run eng job input now sf c run)"
  unfolding start_run_def eng by (intro keeps_intro eng)

lemma runJob_keeps [keeps_intro]:
  assumes eng: "eng_store eng = S"
  shows "keeps (\<lambda>w. P (sw_store w)) (runJob eng input)"
  unfolding runJob_def run_registered_def idempotency_key_def Let_def eng by (intro keeps_intro eng)

lemma recoverAbandonedRuns_keeps [keeps_intro]:
  assumes eng: "eng_store eng = S"
  shows "keeps (\<lambda>w. P (sw_store w)) (recoverAbandonedRuns eng now)"
  unfolding recoverAbandonedRuns_def recover_run_def Let_def eng by (intro keeps_intro eng)

lemma runDueJobs_keeps [keeps_intro]:
  assumes eng: "eng_store eng = S"
  shows "keeps (\<lambda>w. P (sw_store w)) (runDueJobs eng trigger now)"
  unfolding runDueJobs_def run_retry_def Let_def eng by (intro keeps_intro eng)

lemma setJobEnabled_keeps [keeps_intro]:
  assumes eng: "eng_store eng = S"
  shows "keeps (\<lambda>w. P (sw_store w)) (setJobEnabled eng key enabled actor)"
  unfolding setJobEnabled_def Let_def eng by (intro keeps_intro eng)

lemma acknowledgeFailure_engine_keeps [keeps_intro]:
  assumes eng: "eng_store eng = S"
  shows "keeps (\<lambda>w. P (sw_store w)) (acknowledgeFailure eng runId actor)"
  unfolding acknowledgeFailure_def Let_def eng by (intro keeps_intro eng)

lemma retryFailure_keeps [keeps_intro]:
  assumes eng: "eng_store eng = S"
  shows "keeps (\<lambda>w. P (sw_store w)) (retryFailure eng runId actor)"
  unfolding retryFailure_def Let_def eng by (intro keeps_intro eng)

lemma engine_step_invariant:
  assumes "eng_store eng = S" and "(engine_step eng)\<^sup>*\<^sup>* w w'" and "P (sw_store w)"
  shows "P (sw_store w')"
  using assms(2,3)
proof induction
  case (step v u)
  from step.hyps(2) step.IH [OF step.prems] show ?case
    by cases (auto intro!: keeps_apply [where P = "\<lambda>w. P (sw_store w)"] keeps_intro assms(1))
qed

end

section \<open>At most one execution for a key\<close>

text \<open>The idempotency key that a call determines before anything runs.\<close>

definition run_key :: "RunJobInput \<Rightarrow> string option" where
  "run_key input =
     (case in_idempotencyKey input of
        Some k \<Rightarrow> Some k
      | None \<Rightarrow> if windowed (in_trigger input)
          then map_option (\<lambda>t. scheduledIdempotencyKey (in_key input) t (dry_run input)) (in_scheduledFor input)
          else None)"

lemma idempotency_key_run_key:
  assumes "run_key input = Some k" and "job_key job = in_key input"
  shows "idempotency_key eng job input (scheduled_for job input now) = ret k"
  using assms by (auto simp: run_key_def idempotency_key_def scheduled_for_def split: option.splits if_splits)

text \<open>A state in which the key is used, the handlers' data is \<open>d\<close> and the locks are \<open>l\<close>.\<close>

definition key_used ::
    "('st \<Rightarrow> string set) \<Rightarrow> string \<Rightarrow> 'dom \<Rightarrow> 'lk \<Rightarrow> ('st, 'lk, 'ev, 'dom) SchedulerWorld \<Rightarrow> bool" where
  "key_used used k d l w \<longleftrightarrow> {k} \<subseteq> used (sw_store w) \<and> sw_domain w = d \<and> sw_locks w = l"

lemma key_used_in_store:
  assumes "keeps (\<lambda>s. {k} \<subseteq> used s) m"
  shows "keeps (key_used used k d l) (in_store m)"
  using keeps_in_store [OF assms] by (auto simp: key_used_def keeps_def in_store_def zoom_def split: prod.splits)

lemma key_used_supplies: "keeps (key_used used k d l) (clock eng)" "keeps (key_used used k d l) (randomId eng)"
  unfolding clock_def randomId_def by (intro keeps_intro, simp add: key_used_def)+

context scheduler_store
begin

lemma createRun_used:
  assumes "new_idempotencyKey i = k"
  shows "triple (key_used used k d l) (in_store (st_createRun S i)) (\<lambda>a w. \<not> fst a \<and> key_used used k d l w) (key_used used k d l)"
    (is "triple ?Q ?m _ _")
proof (rule tripleI)
  have keep: "keeps ?Q ?m" by (rule key_used_in_store [OF grows.createRun_keeps])
  show "?Q t" if "?Q w" "?m w = (Inl e, t)" for w e t using keepsD [OF keep] that by blast
  show "\<not> fst a \<and> ?Q t" if w: "?Q w" and m: "?m w = (Inr a, t)" for w a t
  proof -
    have "st_createRun S i (sw_store w) = (Inr (fst a, snd a), sw_store t)"
      using m by (auto simp: in_store_def zoom_def split: prod.splits)
    from createRun_ok [OF this] have "\<not> fst a" using w assms by (simp add: key_used_def)
    then show ?thesis using keepsD [OF keep w m] by simp
  qed
qed

text \<open>Once a key is used, a call with that key neither runs the handler nor touches the locks.\<close>

lemma used_key_keeps:
  assumes eng: "eng_store eng = S" and key: "run_key input = Some k"
  shows "keeps (key_used used k d l) (runJob eng input)"
proof -
  have sync: "keeps (key_used used k d l) (synchronizeJobs eng now)" for now
    unfolding synchronizeJobs_def eng
    by (intro keeps_intro key_used_in_store grows.synchronizeDefinition_keeps)
  have tail: "keeps (key_used used k d l) (bnd (in_store (st_createRun S i)) (\<lambda>(created, run).
      if \<not> created then ret (DuplicateRun run) else m run))" if "new_idempotencyKey i = k" for i m
    by (rule keeps_bnd_result [OF createRun_used [OF that]]) (auto intro: keeps_ret)
  have body: "keeps (key_used used k d l) (bnd (idempotency_key eng job input (scheduled_for job input now)) f)"
    if "job_key job = in_key input" "keeps (key_used used k d l) (f k)" for job now f
    using that by (simp add: idempotency_key_run_key [OF key] bnd_def ret_def)
  have "keeps (key_used used k d l) (run_registered eng input job)" if "job_key job = in_key input" for job
    unfolding run_registered_def Let_def eng
    by (intro keeps_intro key_used_supplies sync body [OF that] tail key_used_in_store
        grows.getDefinition_keeps grows.getRun_keeps) simp
  then show ?thesis
    unfolding runJob_def by (intro keeps_bnd_from_result) (blast dest: registry_get_Inr)
qed

text \<open>A call whose handler changes the data leaves its key used.\<close>

lemma effect_uses_key:
  fixes d :: 'dom
  defines "P \<equiv> \<lambda>k w. sw_domain w = d \<or> {k} \<subseteq> used (sw_store w)"
  assumes eng: "eng_store eng = S" and key: "run_key input = Some k"
  shows "keeps (P k) (runJob eng input)"
proof -
  have store: "keeps (P k) (in_store m)" if "keeps (\<lambda>s. {k} \<subseteq> used s) m" for m :: "('st, 'x) eff"
    using keeps_in_store [OF that] by (auto simp: P_def keeps_def in_store_def zoom_def split: prod.splits)
  have supplies: "keeps (P k) (clock eng)" "keeps (P k) (randomId eng)"
    unfolding clock_def randomId_def by (intro keeps_intro, simp add: P_def)+
  have sync: "keeps (P k) (synchronizeJobs eng now)" for now
    unfolding synchronizeJobs_def eng by (intro keeps_intro store grows.synchronizeDefinition_keeps)
  have create: "triple (P k) (in_store (st_createRun S i))
      (\<lambda>a w. (fst a \<longrightarrow> {k} \<subseteq> used (sw_store w)) \<and> P k w) (P k)" (is "triple _ ?m _ _")
    if "new_idempotencyKey i = k" for i
  proof (rule tripleI)
    show "P k t" if "P k w" "?m w = (Inl e, t)" for w e t
      using keepsD [OF store [OF grows.createRun_keeps]] that by blast
    show "(fst a \<longrightarrow> {k} \<subseteq> used (sw_store t)) \<and> P k t" if w: "P k w" and m: "?m w = (Inr a, t)" for w a t
    proof -
      have "st_createRun S i (sw_store w) = (Inr (fst a, snd a), sw_store t)"
        using m by (auto simp: in_store_def zoom_def split: prod.splits)
      from createRun_ok [OF this] show ?thesis using \<open>new_idempotencyKey i = k\<close> by (simp add: P_def)
    qed
  qed
  have tail: "keeps (P k) (bnd (in_store (st_createRun S i)) (\<lambda>(created, run).
      if \<not> created then ret (DuplicateRun run) else start_run eng job input now sf c run))"
    if "new_idempotencyKey i = k" for i job now sf c
  proof -
    have "triple (\<lambda>w. {k} \<subseteq> used (sw_store w)) (start_run eng job input now sf c run) (\<lambda>_. P k) (P k)" for run
      by (rule triple_post [OF triple_keeps [OF grows.start_run_keeps [OF eng]]]) (simp_all add: P_def)
    then have "triple (\<lambda>w. {k} \<subseteq> used (sw_store w) \<and> P k w) (start_run eng job input now sf c run) (\<lambda>_. P k) (P k)" for run
      by (rule triple_pre) simp
    then show ?thesis
      unfolding keeps_triple by (intro triple_bnd [OF create [OF that]]) (auto intro!: triple_ret)
  qed
  have body: "keeps (P k) (bnd (idempotency_key eng job input (scheduled_for job input now)) f)"
    if "job_key job = in_key input" "keeps (P k) (f k)" for job now f
    using that by (simp add: idempotency_key_run_key [OF key] bnd_def ret_def)
  have "keeps (P k) (run_registered eng input job)" if "job_key job = in_key input" for job
    unfolding run_registered_def Let_def eng
    by (intro keeps_intro supplies sync body [OF that] tail store grows.getDefinition_keeps grows.getRun_keeps) simp
  then show ?thesis
    unfolding runJob_def by (intro keeps_bnd_from_result) (blast dest: registry_get_Inr)
qed

text \<open>At most one of the calls with one key runs the handler, whatever the engine does in between.\<close>

lemma one_effect_per_key:
  assumes eng: "eng_store eng = S" and "run_key input = Some k" and "run_key input' = Some k"
    and effect: "sw_domain (snd (runJob eng input w)) \<noteq> sw_domain w"
    and later: "(engine_step eng)\<^sup>*\<^sup>* (snd (runJob eng input w)) w'"
  shows "sw_domain (snd (runJob eng input' w')) = sw_domain w' \<and> sw_locks (snd (runJob eng input' w')) = sw_locks w'"
proof -
  have "{k} \<subseteq> used (sw_store (snd (runJob eng input w)))"
    using keeps_apply [OF effect_uses_key [OF eng assms(2), of "sw_domain w"], of w] effect by simp
  then have "{k} \<subseteq> used (sw_store w')" by (rule grows.engine_step_invariant [OF eng later])
  then have "key_used used k (sw_domain w') (sw_locks w') (snd (runJob eng input' w'))"
    by (intro keeps_apply [OF used_key_keeps [OF eng assms(3)]]) (simp add: key_used_def)
  then show ?thesis by (simp add: key_used_def)
qed

end

section \<open>Locks of finished runs\<close>

definition timed_out :: "RunResult \<Rightarrow> bool" where
  "timed_out r = (case r of RunFailed i code t \<Rightarrow> code = ''SCHEDULED_JOB_TIMEOUT'' | _ \<Rightarrow> False)"

definition executed :: "RunResult \<Rightarrow> bool" where
  "executed r = (case r of RunSucceeded i m \<Rightarrow> True | RunFailed i code t \<Rightarrow> True | _ \<Rightarrow> False)"

lemma lock_pred_parts [keeps_intro]:
  "keeps (\<lambda>w. P (sw_locks w)) (in_store m)" "keeps (\<lambda>w. P (sw_locks w)) (in_events n)"
  "keeps (\<lambda>w. P (sw_locks w)) (clock eng)" "keeps (\<lambda>w. P (sw_locks w)) (randomId eng)"
  unfolding in_store_def in_events_def clock_def randomId_def
  by (rule keeps_zoom, simp)+ (intro keeps_intro, simp)+

lemma lock_pred_emit [keeps_intro]: "keeps (\<lambda>w. P (sw_locks w)) (emit eng ev)"
  unfolding emit_def by (intro keeps_intro)

lemma lock_pred_handler [keeps_intro]: "keeps (\<lambda>w. P (sw_locks w)) (run_handler job ctx)"
  by (rule keepsI) (simp add: run_handler_def split: prod.splits)

lemma fail_run_result:
  "fail_run eng job sf run startedAt e w = (Inr r, w') \<Longrightarrow> \<exists>t. r = RunFailed (run_id run) (safeJobErrorCode e) t"
  by (auto simp: fail_run_def Let_def elim!: bnd_Inr_E simp: ret_run)

lemma complete_run_result:
  "complete_run eng job input sf run startedAt m w = (Inr r, w') \<Longrightarrow> r = RunSucceeded (run_id run) m"
  by (auto simp: complete_run_def elim!: bnd_Inr_E simp: ret_run)

lemma attempt_outcome:
  assumes "keeps P (clock eng)" and "\<And>m :: ('st, unit) eff. keeps P (in_store m)" and "\<And>ev. keeps P (emit eng ev)"
    and "\<And>ctx. keeps P (run_handler job ctx)"
  shows "triple P (attempt_run eng job input sf c run t0)
    (\<lambda>outcome w. (\<forall>r. outcome = Inr r \<longrightarrow> (\<exists>m. r = RunSucceeded (run_id run) m)) \<and> P w) P" (is "triple P ?m _ _")
proof (rule tripleI)
  have keep: "keeps P ?m"
    unfolding attempt_run_def complete_run_def by (intro keeps_intro assms)
  show "P t" if "P s" "?m s = (Inl e, t)" for s e t using keepsD [OF keep that] .
  show "(\<forall>r. outcome = Inr r \<longrightarrow> (\<exists>m. r = RunSucceeded (run_id run) m)) \<and> P t"
    if s: "P s" and m: "?m s = (Inr outcome, t)" for s outcome t
  proof
    show "\<forall>r. outcome = Inr r \<longrightarrow> (\<exists>m. r = RunSucceeded (run_id run) m)"
      using m by (auto simp: attempt_run_def ret_run caught_run elim!: bnd_Inr_E dest!: complete_run_result
          split: sum.splits prod.splits)
    show "P t" using keepsD [OF keep s m] .
  qed
qed

context lock_provider
begin

text \<open>
  A run that finishes has released its lock, unless it timed out: then the lock is still the one it
  acquired.
\<close>

lemma execute_run_lock:
  assumes eng: "eng_locks eng = \<lparr>lock_acquire = acquire, lock_release = release\<rparr>"
  shows "triple (\<lambda>w. owner_of (sw_locks w) (lock_key lock) = Some (lock_owner lock))
    (execute_run eng job input sf c run lock)
    (\<lambda>r w. executed r \<and> owner_of (sw_locks w) (lock_key lock) = (if timed_out r then Some (lock_owner lock) else None))
    (\<lambda>_. True)" (is "triple ?H _ ?Q ?E")
proof -
  have release: "triple ?H (release_quietly eng lock)
      (\<lambda>_ w. owner_of (sw_locks w) (lock_key lock) = None) (\<lambda>_. True)"
  proof (rule tripleI)
    show "owner_of (sw_locks t) (lock_key lock) = None" if "?H s" "release_quietly eng lock s = (Inr a, t)" for s a t
      using that unfolding release_quietly_def eng
      by (auto simp: caught_run in_locks_def zoom_run ret_run elim!: bnd_Inr_E dest!: release_owned split: prod.splits)
  qed simp
  have failed: "triple ?H (fail_run eng job sf run t0 e)
      (\<lambda>r w. (\<exists>t. r = RunFailed (run_id run) (safeJobErrorCode e) t) \<and> ?H w) (\<lambda>_. True)" for t0 e
  proof (rule tripleI)
    have keep: "keeps ?H (fail_run eng job sf run t0 e)"
      unfolding fail_run_def Let_def by (intro keeps_intro)
    show "(\<exists>t. r = RunFailed (run_id run) (safeJobErrorCode e) t) \<and> ?H t" if "?H s" "fail_run eng job sf run t0 e s = (Inr r, t)" for s r t
      using that keepsD [OF keep] fail_run_result by blast
  qed simp
  have catch: "triple ?H (finally_do (fail_run eng job sf run t0 e)
      (if safeJobErrorCode e = ''SCHEDULED_JOB_TIMEOUT'' then ret () else release_quietly eng lock)) ?Q ?E" for t0 e
  proof (rule triple_finally [OF failed])
    fix r
    show "triple (\<lambda>w. (\<exists>t. r = RunFailed (run_id run) (safeJobErrorCode e) t) \<and> ?H w)
      (if safeJobErrorCode e = ''SCHEDULED_JOB_TIMEOUT'' then ret () else release_quietly eng lock) (\<lambda>_. ?Q r) ?E"
    proof (rule triple_pure)
      assume "\<exists>t. r = RunFailed (run_id run) (safeJobErrorCode e) t"
      then have "timed_out r = (safeJobErrorCode e = ''SCHEDULED_JOB_TIMEOUT'')" and "executed r"
        by (auto simp: timed_out_def executed_def)
      then show "triple ?H (if safeJobErrorCode e = ''SCHEDULED_JOB_TIMEOUT'' then ret () else release_quietly eng lock) (\<lambda>_. ?Q r) ?E"
        by (auto intro!: triple_ret triple_post [OF release])
    qed
  qed (rule triple_True)
  have success: "triple ?H (finally_do (ret r) (release_quietly eng lock)) ?Q ?E" if "r = RunSucceeded i m" for r i m
    by (rule triple_finally [of _ _ "\<lambda>a w. a = r \<and> ?H w" "\<lambda>_. False"])
      (auto simp: that timed_out_def executed_def triple_def [of "\<lambda>_. False"] intro!: triple_ret triple_pure triple_post [OF release])
  show ?thesis
    unfolding execute_run_def
  proof (rule triple_bnd_keeps, rule keeps_intro, simp, rule triple_bnd_keeps, rule keeps_intro, simp)
    fix t0
    show "triple ?H (bnd (attempt_run eng job input sf c run t0) (\<lambda>outcome. case outcome of
         Inr result \<Rightarrow> finally_do (ret result) (release_quietly eng lock)
       | Inl e \<Rightarrow> finally_do (fail_run eng job sf run t0 e)
           (if safeJobErrorCode e = ''SCHEDULED_JOB_TIMEOUT'' then ret () else release_quietly eng lock))) ?Q ?E"
    proof (rule triple_bnd [where R = "\<lambda>outcome w. (\<forall>r. outcome = Inr r \<longrightarrow> (\<exists>m. r = RunSucceeded (run_id run) m)) \<and> ?H w"])
      have "triple ?H (attempt_run eng job input sf c run t0)
        (\<lambda>outcome w. (\<forall>r. outcome = Inr r \<longrightarrow> (\<exists>m. r = RunSucceeded (run_id run) m)) \<and> ?H w) ?H"
        by (rule attempt_outcome) (rule keeps_intro)+
      then show "triple ?H (attempt_run eng job input sf c run t0)
        (\<lambda>outcome w. (\<forall>r. outcome = Inr r \<longrightarrow> (\<exists>m. r = RunSucceeded (run_id run) m)) \<and> ?H w) ?E"
        by (rule triple_post) simp_all
      show "triple (\<lambda>w. (\<forall>r. outcome = Inr r \<longrightarrow> (\<exists>m. r = RunSucceeded (run_id run) m)) \<and> ?H w)
        (case outcome of
           Inr result \<Rightarrow> finally_do (ret result) (release_quietly eng lock)
         | Inl e \<Rightarrow> finally_do (fail_run eng job sf run t0 e)
             (if safeJobErrorCode e = ''SCHEDULED_JOB_TIMEOUT'' then ret () else release_quietly eng lock)) ?Q ?E"
        for outcome
        using catch success by (cases outcome) (auto intro!: triple_pure)
    qed
  qed
qed

end

lemma memory_start_run:
  assumes "eng_locks eng = createMemorySchedulerLockProvider options"
  shows "triple (\<lambda>_. True) (start_run eng job input now sf c run)
    (\<lambda>r w. executed r \<longrightarrow>
      (mem_owner_of (sw_locks w) (lock_name (mem_prefix options) (job_key job)) = None) = (\<not> timed_out r))
    (\<lambda>_. True)" (is "triple _ _ ?Q _")
proof -
  have eng: "eng_locks eng = \<lparr>lock_acquire = memory_acquire options, lock_release = memory_release\<rparr>"
    using assms by (simp add: createMemorySchedulerLockProvider_def)
  have acquired: "triple (\<lambda>_. True) (in_locks (lock_acquire (eng_locks eng) (job_key job) ttl))
      (\<lambda>a w. case a of None \<Rightarrow> True
        | Some l \<Rightarrow> lock_key l = lock_name (mem_prefix options) (job_key job) \<and>
            mem_owner_of (sw_locks w) (lock_key l) = Some (lock_owner l)) (\<lambda>_. True)" for ttl
    unfolding eng by (rule tripleI)
      (auto simp: in_locks_def zoom_def memory_acquire_def Let_def mem_owner_of_def elim!: try_lock_cases
        split: prod.splits option.splits)
  have none: "triple (\<lambda>_. True) (bnd m (\<lambda>_. bnd n (\<lambda>_. ret (LockConflict i)))) ?Q (\<lambda>_. True)"
    for m :: "(('a, MemoryLocks, 'b, 'c) SchedulerWorld, unit) eff" and n :: "(('a, MemoryLocks, 'b, 'c) SchedulerWorld, unit) eff" and i
    by (intro triple_bnd_True triple_ret) (simp add: executed_def)
  have some: "triple (\<lambda>w. lock_key l = lock_name (mem_prefix options) (job_key job) \<and>
            mem_owner_of (sw_locks w) (lock_key l) = Some (lock_owner l))
      (execute_run eng job input sf c run l) ?Q (\<lambda>_. True)" for l
    by (rule triple_pure, rule triple_post [OF memory.execute_run_lock [OF eng]]) auto
  show ?thesis
    unfolding start_run_def
  proof (rule triple_bnd [OF acquired])
    fix a :: "SchedulerLock option"
    show "triple (\<lambda>w. case a of None \<Rightarrow> True
        | Some l \<Rightarrow> lock_key l = lock_name (mem_prefix options) (job_key job) \<and>
            mem_owner_of (sw_locks w) (lock_key l) = Some (lock_owner l))
      (case a of None \<Rightarrow>
         bnd (in_store (st_markLockConflict (eng_store eng) (run_id run) now)) (\<lambda>_.
         bnd (emit eng (event ''SCHEDULER_LOCK_CONFLICT'' ''ScheduledJob'' (job_key job) None
                (Some [(''runId'', JString (run_id run)), (''trigger'', JString (trigger_name (in_trigger input)))]))) (\<lambda>_.
         ret (LockConflict (run_id run))))
     | Some lock \<Rightarrow> execute_run eng job input sf c run lock) ?Q (\<lambda>_. True)"
      by (cases a) (simp_all add: none some)
  qed
qed

text \<open>C25 A run that executed has given its lock back when it ends, and only a run that timed out leaves the
  job locked, since its handler may still be running (with the memory lock provider).\<close>

theorem finished_run_lock:
  assumes "eng_locks eng = createMemorySchedulerLockProvider options"
    and "runJob eng input w = (Inr r, w')" and "executed r"
  shows "mem_owner_of (sw_locks w') (lock_name (mem_prefix options) (in_key input)) = None \<longleftrightarrow> \<not> timed_out r"
proof -
  let ?Q = "\<lambda>r w. executed r \<longrightarrow>
    (mem_owner_of (sw_locks w) (lock_name (mem_prefix options) (in_key input)) = None) = (\<not> timed_out r)"
  have registered: "triple (\<lambda>_. True) (run_registered eng input job) ?Q (\<lambda>_. True)" if "job_key job = in_key input" for job
    unfolding run_registered_def Let_def
    by (intro triple_bnd_True triple_if triple_case_prod triple_throw triple_ret TrueI
        memory_start_run [OF assms(1), of job, unfolded that]) (simp_all add: executed_def)
  have "triple (\<lambda>_. True) (runJob eng input) ?Q (\<lambda>_. True)"
    unfolding runJob_def by (intro triple_bnd_from_result TrueI registered) (blast dest: registry_get_Inr)
  from triple_Inr [OF this TrueI assms(2)] show ?thesis using assms(3) by simp
qed

text \<open>C22 For one idempotency key at most one call of the engine lets the handler change the data it works
  on, whatever the engine is asked to do between two such calls (with the host's store); the calls that
  lose neither run the handler nor take a lock.\<close>

theorem window_runs_once:
  assumes "eng_store eng = schedulerStore cuid" and "run_key input = Some k" and "run_key input' = Some k"
    and "sw_domain (snd (runJob eng input w)) \<noteq> sw_domain w"
    and "(engine_step eng)\<^sup>*\<^sup>* (snd (runJob eng input w)) w'"
  shows "sw_domain (snd (runJob eng input' w')) = sw_domain w' \<and> sw_locks (snd (runJob eng input' w')) = sw_locks w'"
  by (rule host_store.one_effect_per_key [OF assms])

text \<open>C24 Every operation of the engine keeps the scheduler's tables consistent: run identifiers, idempotency
  keys and correlation identifiers stay unique, runs refer to defined jobs, and a run's status agrees with
  its start, lock owner, retry time and completion time.\<close>

theorem engine_keeps_store_ok:
  assumes "eng_store eng = schedulerStore cuid" and "(engine_step eng)\<^sup>*\<^sup>* w w'" and "store_ok (sw_store w)"
  shows "store_ok (sw_store w')"
  by (rule runs_ok.engine_step_invariant [OF assms])

end
