(* ===== verification/Scheduler_Outcomes.thy ===== *)
theory Scheduler_Outcomes
  imports Scheduler_Engine
begin

text \<open>
  What the scheduler's tables hold after a run: the row that a returned result stands for, with the
  host's store (\<open>platform/host/scheduler/store.ts\<close>) under the engine of
  \<open>platform/scheduler/scheduler.ts\<close>, and two runs of a small engine that show how a failing audit
  sink and a retained lock change the outcome.
\<close>

definition recorded :: "RunResult \<Rightarrow> SchedulerDb \<Rightarrow> bool" where
  "recorded r s =
     (case r of
        JobPaused \<Rightarrow> True
      | DuplicateRun run \<Rightarrow> \<exists>row\<in>set (db_runs s). runSnapshot row = run
      | LockConflict i \<Rightarrow> \<exists>row\<in>set (db_runs s). run_id row = i \<and> run_status row = SKIPPED
      | RunSucceeded i summary \<Rightarrow> \<exists>row\<in>set (db_runs s). run_id row = i \<and> run_status row = SUCCEEDED \<and>
          row_resultSummary row = boundedJobSummary summary \<and> row_errorCode row = None
      | RunFailed i code retryAt \<Rightarrow> \<exists>row\<in>set (db_runs s). run_id row = i \<and>
          run_status row = (if retryAt = None then FAILED else RETRYING) \<and> row_errorCode row = Some code \<and>
          run_retryAt row = retryAt \<and>
          (\<forall>t. retryAt = Some t \<longrightarrow> (\<exists>c. row_completedAt row = Some c \<and> c + 30000 \<le> t \<and> t < c + 25920000)))"

lemma update_run_records:
  assumes "update_run i f s = (Inr u, s')" and "\<And>r. run_id (f r) = run_id r"
  shows "\<exists>r\<in>set (db_runs s'). run_id r = i \<and> (\<exists>q. r = f q)"
  using assms by (force simp: update_run_def set_update_rows split: if_splits)

lemma update_definition_runs: "update_definition k f s = (r, s') \<Longrightarrow> db_runs s' = db_runs s"
  by (auto simp: update_definition_def split: if_splits)

lemma update_both_records:
  assumes "bnd (find_run p) (\<lambda>run. transaction (bnd (update_run i f) (\<lambda>_. update_definition (run_jobKey run) g))) s = (Inr u, s')"
    and "\<And>r. run_id (f r) = run_id r"
  shows "\<exists>r\<in>set (db_runs s'). run_id r = i \<and> (\<exists>q. r = f q)"
  using assms(1)
proof (rule bnd_Inr_E)
  fix run s1
  assume "transaction (bnd (update_run i f) (\<lambda>_. update_definition (run_jobKey run) g)) s1 = (Inr u, s')"
  then have "bnd (update_run i f) (\<lambda>_. update_definition (run_jobKey run) g) s1 = (Inr u, s')"
    by (auto simp: transaction_run split: prod.splits sum.splits)
  then show ?thesis
  proof (rule bnd_Inr_E)
    fix v s2
    assume m: "update_run i f s1 = (Inr v, s2)" and "update_definition (run_jobKey run) g s2 = (Inr u, s')"
    then have "db_runs s' = db_runs s2" by (simp add: update_definition_runs)
    with update_run_records [OF m assms(2)] show ?thesis by simp
  qed
qed

lemma markSucceeded_records:
  "markSucceeded i t d m n s = (Inr u, s') \<Longrightarrow> \<exists>row\<in>set (db_runs s'). run_id row = i \<and> run_status row = SUCCEEDED \<and>
     row_resultSummary row = m \<and> row_errorCode row = None"
  unfolding markSucceeded_def by (drule update_both_records) auto

lemma markFailed_records:
  "markFailed i f s = (Inr u, s') \<Longrightarrow> \<exists>row\<in>set (db_runs s'). run_id row = i \<and>
     run_status row = (if fail_retryAt f = None then FAILED else RETRYING) \<and> row_errorCode row = Some (fail_errorCode f) \<and>
     run_retryAt row = fail_retryAt f \<and> row_completedAt row = Some (fail_completedAt f)"
  unfolding markFailed_def by (drule update_both_records) auto

lemma markLockConflict_records:
  "markLockConflict i t s = (Inr u, s') \<Longrightarrow> \<exists>row\<in>set (db_runs s'). run_id row = i \<and> run_status row = SKIPPED"
  unfolding markLockConflict_def by (drule update_run_records) auto

lemma find_run_Inr: "find_run p s = (Inr row, s') \<Longrightarrow> row \<in> set (db_runs s') \<and> p row"
  by (auto simp: find_run_def eff_simps dest!: find_in_set split: option.splits)

lemma createRun_records:
  "createRun cuid i s = (Inr (c, run), s') \<Longrightarrow> \<exists>row\<in>set (db_runs s'). runSnapshot row = run"
  unfolding createRun_def by (auto simp: ret_run elim!: bnd_Inr_E dest!: find_run_Inr)

text \<open>From an operation of the store to the engine's state.\<close>

lemma triple_store_records:
  assumes "\<And>s u s'. m s = (Inr u, s') \<Longrightarrow> Q u s'"
  shows "triple (\<lambda>_. True) (in_store m) (\<lambda>u w. Q u (sw_store w)) (\<lambda>_. True)"
  using assms by (auto intro!: tripleI simp: in_store_def zoom_def split: prod.splits)

text \<open>After the row is recorded, events and the release of the lock leave the tables alone.\<close>

lemma emit_then_ret:
  "triple (\<lambda>w. P (sw_store w)) (bnd (emit eng ev) (\<lambda>_. ret r)) (\<lambda>x w. x = r \<and> P (sw_store w)) (\<lambda>_. True)"
  by (rule triple_bnd_keeps [OF store_pred_emit]) (simp_all add: triple_ret)

lemma release_quietly_store: "keeps (\<lambda>w. P (sw_store w)) (release_quietly eng lock)"
  unfolding release_quietly_def by (intro keeps_intro)

lemma complete_run_records:
  assumes "eng_store eng = schedulerStore cuid"
  shows "triple (\<lambda>_. True) (complete_run eng job input sf run t0 m) (\<lambda>r w. recorded r (sw_store w)) (\<lambda>_. True)"
proof -
  have audit: "triple (\<lambda>w. recorded (RunSucceeded (run_id run) m) (sw_store w)) (bnd (if b then emit eng ev else ret ()) (\<lambda>_. ret (RunSucceeded (run_id run) m)))
      (\<lambda>r w. recorded r (sw_store w)) (\<lambda>_. True)" for b ev
    by (rule triple_bnd_keeps [OF keeps_if [OF store_pred_emit keeps_ret]]) (simp_all add: triple_ret)
  have mark: "triple (\<lambda>_. True) (in_store (st_markSucceeded (eng_store eng) (run_id run) t d (boundedJobSummary m) n))
      (\<lambda>_ w. recorded (RunSucceeded (run_id run) m) (sw_store w)) (\<lambda>_. True)" for t d n
    unfolding assms by (rule triple_store_records) (simp add: schedulerStore_def recorded_def markSucceeded_records)
  show ?thesis
    unfolding complete_run_def by (rule triple_bnd_True, rule triple_bnd [OF mark audit])
qed

lemma fail_run_records:
  assumes "eng_store eng = schedulerStore cuid"
  shows "triple (\<lambda>_. True) (fail_run eng job sf run t0 e) (\<lambda>r w. recorded r (sw_store w)) (\<lambda>_. True)"
proof -
  define code where "code = safeJobErrorCode e"
  have mark: "triple (\<lambda>_. True) (in_store (st_markFailed (eng_store eng) (run_id run) f))
      (\<lambda>_ w. recorded (RunFailed (run_id run) (fail_errorCode f) (fail_retryAt f)) (sw_store w)) (\<lambda>_. True)"
    if "\<And>t. fail_retryAt f = Some t \<Longrightarrow> t = fail_completedAt f + retryDelayMs (run_attempt run) (fail_completedAt f)" for f
    unfolding assms
  proof (rule triple_store_records)
    fix s s' and u :: unit
    assume "st_markFailed (schedulerStore cuid) (run_id run) f s = (Inr u, s')"
    then have "markFailed (run_id run) f s = (Inr u, s')" by (simp add: schedulerStore_def)
    from markFailed_records [OF this] show "recorded (RunFailed (run_id run) (fail_errorCode f) (fail_retryAt f)) s'"
      using that retryDelayMs_range by (fastforce simp: recorded_def)
  qed
  show ?thesis
    unfolding fail_run_def Let_def code_def [symmetric]
  proof (rule triple_bnd_True)
    fix t
    let ?retryable = "retryable_failure (classifyJobFailure e) (run_attempt run) (job_maxAttempts job)"
    let ?retryAt = "if ?retryable then Some (t + retryDelayMs (run_attempt run) t) else None"
    show "triple (\<lambda>_. True) (bnd (in_store (st_markFailed (eng_store eng) (run_id run)
            \<lparr>fail_completedAt = t, fail_durationMs = t - t0, fail_errorCode = code,
             fail_failureClass = classifyJobFailure e, fail_retryAt = ?retryAt,
             fail_nextRunAt = or_else ?retryAt (nextScheduledAt sf (job_cadenceSeconds job) t)\<rparr>)) (\<lambda>_.
      bnd (emit eng (event (if ?retryable then ''SCHEDULER_JOB_RETRY_SCHEDULED'' else ''SCHEDULER_JOB_FAILED'')
            ''ScheduledJob'' (job_key job) None
            (Some [(''runId'', JString (run_id run)), (''errorCode'', JString code),
                   (''failureClass'', JString (failure_class_name (classifyJobFailure e))), (''attempt'', JNumber (run_attempt run))]))) (\<lambda>_.
      ret (RunFailed (run_id run) code ?retryAt)))) (\<lambda>r w. recorded r (sw_store w)) (\<lambda>_. True)"
      by (rule triple_bnd [OF mark], simp split: if_splits, rule triple_post [OF emit_then_ret]) auto
  qed
qed

lemma attempt_run_records:
  assumes "eng_store eng = schedulerStore cuid"
  shows "triple (\<lambda>_. True) (attempt_run eng job input sf c run t0)
    (\<lambda>outcome w. \<forall>r. outcome = Inr r \<longrightarrow> recorded r (sw_store w)) (\<lambda>_. True)"
  unfolding attempt_run_def
proof (rule triple_bnd_True)
  fix settled :: "thrown + JobSummary"
  have "triple (\<lambda>_. True) (bnd (caught (complete_run eng job input sf run t0 m)) (\<lambda>r. ret (map_sum ErrorObject id r)))
      (\<lambda>outcome w. \<forall>r. outcome = Inr r \<longrightarrow> recorded r (sw_store w)) (\<lambda>_. True)" for m
    by (rule triple_bnd [OF triple_caught [OF complete_run_records [OF assms]]]) (auto intro!: triple_ret)
  then show "triple (\<lambda>_. True) (case settled of Inl e \<Rightarrow> ret (Inl e)
      | Inr m \<Rightarrow> bnd (caught (complete_run eng job input sf run t0 m)) (\<lambda>r. ret (map_sum ErrorObject id r)))
      (\<lambda>outcome w. \<forall>r. outcome = Inr r \<longrightarrow> recorded r (sw_store w)) (\<lambda>_. True)"
    by (cases settled) (auto intro: triple_ret)
qed

lemma execute_run_records:
  assumes "eng_store eng = schedulerStore cuid"
  shows "triple (\<lambda>_. True) (execute_run eng job input sf c run lock) (\<lambda>r w. recorded r (sw_store w)) (\<lambda>_. True)"
  unfolding execute_run_def
proof (rule triple_bnd_True, rule triple_bnd_True, rule triple_bnd [OF attempt_run_records [OF assms]])
  fix t0 and outcome :: "thrown + RunResult"
  have release: "triple (\<lambda>w. recorded r (sw_store w)) (if b then ret () else release_quietly eng lock)
      (\<lambda>_ w. recorded r (sw_store w)) (\<lambda>_. True)" for r b
    by (rule triple_post [OF triple_keeps [OF keeps_if [OF keeps_ret release_quietly_store]]]) simp_all
  have ok: "triple (\<lambda>w. recorded r (sw_store w)) (finally_do (ret r) (release_quietly eng lock)) (\<lambda>r w. recorded r (sw_store w)) (\<lambda>_. True)" for r
    by (rule triple_finally [OF _ release [of _ False, simplified] triple_True]) (simp add: triple_ret)
  have failed: "triple (\<lambda>_. True) (finally_do (fail_run eng job sf run t0 e) (if b then ret () else release_quietly eng lock))
      (\<lambda>r w. recorded r (sw_store w)) (\<lambda>_. True)" for e b
    by (rule triple_finally [OF fail_run_records [OF assms] release triple_True])
  show "triple (\<lambda>w. \<forall>r. outcome = Inr r \<longrightarrow> recorded r (sw_store w)) (case outcome of
       Inr result \<Rightarrow> finally_do (ret result) (release_quietly eng lock)
     | Inl e \<Rightarrow> finally_do (fail_run eng job sf run t0 e)
         (if safeJobErrorCode e = ''SCHEDULED_JOB_TIMEOUT'' then ret () else release_quietly eng lock))
      (\<lambda>r w. recorded r (sw_store w)) (\<lambda>_. True)"
    using ok failed by (cases outcome) simp_all
qed

lemma start_run_records:
  assumes "eng_store eng = schedulerStore cuid"
  shows "triple (\<lambda>_. True) (start_run eng job input now sf c run) (\<lambda>r w. recorded r (sw_store w)) (\<lambda>_. True)"
proof -
  have mark: "triple (\<lambda>_. True) (in_store (st_markLockConflict (eng_store eng) (run_id run) now))
      (\<lambda>_ w. recorded (LockConflict (run_id run)) (sw_store w)) (\<lambda>_. True)"
    unfolding assms by (rule triple_store_records) (simp add: schedulerStore_def recorded_def markLockConflict_records)
  show ?thesis
    unfolding start_run_def
    by (intro triple_bnd_True triple_case_option execute_run_records [OF assms] triple_bnd [OF mark]
        triple_post [OF emit_then_ret]) auto
qed

text \<open>C23 Every result that \<open>runJob\<close> returns is on record in the scheduler's tables when it returns: a succeeded
  run with its bounded summary, a failed run with its error code, and with status RETRYING and a retry time
  between thirty seconds and seven hours and twelve minutes after its completion exactly when a retry is due,
  a conflict as SKIPPED, a duplicate as the run that was there.\<close>

theorem runJob_result_recorded:
  assumes "eng_store eng = schedulerStore cuid" and "runJob eng input w = (Inr r, w')"
  shows "recorded r (sw_store w')"
proof -
  have create: "triple (\<lambda>_. True) (in_store (st_createRun (eng_store eng) i))
      (\<lambda>a w. recorded (DuplicateRun (snd a)) (sw_store w)) (\<lambda>_. True)" for i
    unfolding assms(1) by (rule triple_store_records) (auto simp: schedulerStore_def recorded_def intro: createRun_records)
  have "triple (\<lambda>_. True) (run_registered eng input job) (\<lambda>r w. recorded r (sw_store w)) (\<lambda>_. True)" for job
    unfolding run_registered_def Let_def
    by (intro triple_bnd_True triple_bnd [OF create] triple_if triple_case_prod triple_throw triple_ret TrueI
        triple_pre [OF start_run_records [OF assms(1)]]) (simp_all add: recorded_def)
  then have "triple (\<lambda>_. True) (runJob eng input) (\<lambda>r w. recorded r (sw_store w)) (\<lambda>_. True)"
    unfolding runJob_def by (rule triple_bnd_True)
  from triple_Inr [OF this TrueI assms(2)] show ?thesis .
qed

section \<open>A small engine\<close>

text \<open>
  One job over the host's store and the memory locks, with the handler's outcome, the audit sink, and the
  readings of the engine's and the locks' clocks as parameters. The handler counts its executions.
\<close>

definition demo_job :: "JobSummary promise \<Rightarrow> nat ScheduledJob" where
  "demo_job outcome =
     \<lparr>job_key = ''storage.lifecycle'', job_name = ''Storage'', job_description = [], job_category = ''STORAGE'',
      job_cadenceSeconds = 300, job_timeoutSeconds = 240, job_lockSeconds = 300, job_maxAttempts = 5,
      job_dryRunSupported = True, job_healthThresholdSeconds = 1800, job_auditPolicy = AUDIT_ALL,
      job_handler = (\<lambda>_ n. (outcome, Suc n))\<rparr>"

type_synonym demo_world = "(SchedulerDb, MemoryLocks, SchedulerEvent list, nat) SchedulerWorld"

definition demo_engine ::
    "JobSummary promise \<Rightarrow> (SchedulerEvent \<Rightarrow> (SchedulerEvent list, unit) eff) \<Rightarrow> time list \<Rightarrow> time list \<Rightarrow>
     (SchedulerDb, MemoryLocks, SchedulerEvent list, nat) SchedulerDependencies" where
  "demo_engine outcome sink ticks lock_ticks =
     \<lparr>eng_jobs = [demo_job outcome], eng_store = schedulerStore (\<lambda>n. replicate (Suc n) CHR ''c''),
      eng_locks = createMemorySchedulerLockProvider
        \<lparr>mem_prefix = ''bke'', mem_now = (\<lambda>n. lock_ticks ! n), mem_randomId = (\<lambda>n. replicate (Suc n) CHR ''o'')\<rparr>,
      eng_emit = Some sink, eng_now = (\<lambda>n. ticks ! n), eng_randomId = (\<lambda>n. replicate (Suc n) CHR ''r'')\<rparr>"

definition demo_start :: demo_world where
  "demo_start =
     \<lparr>sw_store = \<lparr>db_definitions = [], db_runs = [], db_cuids = 0, db_users = []\<rparr>,
      sw_locks = \<lparr>mem_locks = (\<lambda>_. None), mem_reads = 0, mem_ids = 0\<rparr>,
      sw_events = [], sw_domain = 0, sw_reads = 0, sw_ids = 0\<rparr>"

definition log_sink :: "SchedulerEvent \<Rightarrow> (SchedulerEvent list, unit) eff" where
  "log_sink e = modify (\<lambda>es. es @ [e])"

definition failing_sink :: "SchedulerEvent \<Rightarrow> (SchedulerEvent list, unit) eff" where
  "failing_sink e = (if ev_action e = ''SCHEDULER_JOB_SUCCEEDED'' then throw ''AUDIT_LOG_FULL'' else log_sink e)"

definition cron_input :: "time \<Rightarrow> RunJobInput" where
  "cron_input t = \<lparr>in_key = ''storage.lifecycle'', in_trigger = CRON, in_scheduledFor = Some t, in_dryRun = None,
    in_idempotencyKey = None, in_parentRunId = None\<rparr>"

definition good_engine where
  "good_engine = demo_engine (Settles 10 (Inr [(''n'', JNumber 1)])) log_sink [0, 1, 2, 3, 4, 5] [1, 4]"

definition after_one_run :: demo_world where
  "after_one_run = snd (runJob good_engine (cron_input 0) demo_start)"

lemma good_run:
  "runJob good_engine (cron_input 0) demo_start = (Inr (RunSucceeded ''c'' [(''n'', JNumber 1)]), after_one_run)"
proof -
  have "fst (runJob good_engine (cron_input 0) demo_start) = Inr (RunSucceeded ''c'' [(''n'', JNumber 1)])" by code_simp
  then show ?thesis by (simp add: after_one_run_def prod_eq_iff)
qed

lemma good_engine_parts:
  "eng_store good_engine = schedulerStore (\<lambda>n. replicate (Suc n) CHR ''c'')"
  "eng_locks good_engine = createMemorySchedulerLockProvider
    \<lparr>mem_prefix = ''bke'', mem_now = (\<lambda>n. [1, 4] ! n), mem_randomId = (\<lambda>n. replicate (Suc n) CHR ''o'')\<rparr>"
  by (simp_all add: good_engine_def demo_engine_def)

lemma runJob_result_recorded_witness:
  "recorded (RunSucceeded ''c'' [(''n'', JNumber 1)]) (sw_store after_one_run)"
  by (rule runJob_result_recorded [OF good_engine_parts(1) good_run])

lemma finished_run_lock_witness:
  "mem_owner_of (sw_locks after_one_run) (lock_name ''bke'' ''storage.lifecycle'') = None"
  using finished_run_lock [OF good_engine_parts(2) good_run] by (simp add: executed_def timed_out_def cron_input_def)

lemma window_runs_once_witness:
  "sw_domain after_one_run = 1 \<and> sw_domain (snd (runJob good_engine (cron_input 0) after_one_run)) = 1"
proof -
  have key: "run_key (cron_input 0) = Some (scheduledIdempotencyKey ''storage.lifecycle'' 0 False)"
    by (simp add: run_key_def cron_input_def windowed_def dry_run_def)
  have counts: "sw_domain demo_start = 0" "sw_domain after_one_run = 1" by code_simp+
  then have "sw_domain (snd (runJob good_engine (cron_input 0) demo_start)) \<noteq> sw_domain demo_start"
    by (simp add: good_run)
  from window_runs_once [OF good_engine_parts(1) key key this rtranclp.rtrancl_refl]
  show ?thesis using counts by (simp add: good_run)
qed

lemma engine_keeps_store_ok_witness: "store_ok (sw_store after_one_run) \<and> length (db_runs (sw_store after_one_run)) = 1"
proof
  have "engine_step good_engine demo_start after_one_run" unfolding after_one_run_def by (rule engine_step.intros)
  then have "(engine_step good_engine)\<^sup>*\<^sup>* demo_start after_one_run" by simp
  moreover have "store_ok (sw_store demo_start)" by code_simp
  ultimately show "store_ok (sw_store after_one_run)"
    using engine_keeps_store_ok [OF good_engine_parts(1)] by blast
  show "length (db_runs (sw_store after_one_run)) = 1" by code_simp
qed

section \<open>Two outcomes that the handler did not have\<close>

definition audit_engine where
  "audit_engine = demo_engine (Settles 10 (Inr [])) failing_sink [0, 1, 2, 3, 40000, 40001, 40002, 40003] [1, 40001]"

text \<open>In this run a handler's success is undone, because the audit event of its job cannot be written and attempts are
  left: the run that \<open>markSucceeded\<close> had recorded is overwritten with status RETRYING, and the tick after the retry time executes the
  handler a second time.\<close>

lemma failed_audit_repeats_success:
  "let (result, w) = runJob audit_engine (cron_input 0) demo_start;
       (report, w') = runDueJobs audit_engine CRON 40000 w
   in result = Inr (RunFailed ''c'' ''AUDIT_LOG_FULL'' (Some 30006)) \<and> sw_domain w = 1 \<and>
      map run_status (db_runs (sw_store w)) = [RETRYING] \<and> sw_domain w' = 2"
  by code_simp

definition slow_engine where
  "slow_engine = demo_engine Pending log_sink [0, 0, 240000, 270000, 270000, 270000, 270000] [0, 270000, 270000]"

text \<open>In this run a timed-out run keeps its lock, and its first retry falls into the time the lock is still held: with the
  timeout, lock time and retry delay of \<open>storage.lifecycle\<close> the tick at the retry time consumes the retry, meets
  the retained lock, and leaves the first run FAILED and the retry SKIPPED, with no retry pending.\<close>

lemma timed_out_retry_is_lost:
  "let (result, w) = runJob slow_engine (cron_input 0) demo_start;
       (report, w') = runDueJobs slow_engine CRON 270000 w
   in result = Inr (RunFailed ''c'' ''SCHEDULED_JOB_TIMEOUT'' (Some 270000)) \<and> sw_domain w = 1 \<and>
      sw_domain w' = 1 \<and> map run_status (db_runs (sw_store w')) = [FAILED, SKIPPED]"
  by code_simp

end
