(* ===== verification/Storage_Cleanup_Web.thy ===== *)
theory Storage_Cleanup_Web
  imports Storage_Cleanup
begin

text \<open>
  The storage cleanup of the web application, \<open>apps/web/storage/cleanup.ts\<close>: the PostgreSQL store, the
  guard that protects active catalog artifacts, the audit and security events, and the contract's proof for
  them. Generated identifiers and the storage are
  parameters; the tables a job refers to by foreign key are taken to hold the rows.
\<close>

section \<open>The PostgreSQL store\<close>

record ArtifactRow =
  art_objectKey :: string
  art_active :: bool
  art_removedAt :: "time option"

record CleanupDb =
  db_jobs :: "StorageCleanupJob list"
  db_artifacts :: "ArtifactRow list"
  db_uuids :: nat

definition cleanup_job_types :: "string list" where
  "cleanup_job_types = [''PRODUCT_DELETION'', ''ARTIFACT_REPLACEMENT'', ''ARTIFACT_REMOVAL'', ''ABANDONED_UPLOAD'', ''ORPHANED_OBJECT'']"

definition upsertQueued :: "(nat \<Rightarrow> ident) \<Rightarrow> StorageCleanupJob \<Rightarrow> (CleanupDb, StorageCleanupJob) eff" where
  "upsertQueued uuid input s =
     (let i = uuid (db_uuids s); s1 = s\<lparr>db_uuids := Suc (db_uuids s)\<rparr>;
          row = input\<lparr>cj_id := i, cj_status := CLEANUP_PENDING, cj_attempts := 0, cj_lastErrorCode := None,
            cj_startedAt := None, cj_completedAt := None\<rparr>
      in if cj_type input \<notin> set cleanup_job_types then (Inl ''invalid input value for enum'', s1)
         else case find_by cj_idempotencyKey (cj_idempotencyKey input) (db_jobs s) of
           Some existing \<Rightarrow> (Inr existing, s1)
         | None \<Rightarrow>
             if find_by cj_id i (db_jobs s) \<noteq> None then (Inl ''duplicate key value violates unique constraint'', s1)
             else (Inr row, s1\<lparr>db_jobs := db_jobs s @ [row]\<rparr>))"

definition get_job :: "ident \<Rightarrow> (CleanupDb, StorageCleanupJob option) eff" where
  "get_job i = gets (\<lambda>s. find_by cj_id i (db_jobs s))"

definition update_job :: "ident \<Rightarrow> (StorageCleanupJob \<Rightarrow> StorageCleanupJob) \<Rightarrow> (CleanupDb, unit) eff" where
  "update_job i f = modify (\<lambda>s. s\<lparr>db_jobs := update_key cj_id i f (db_jobs s)\<rparr>)"

definition claim :: "ident \<Rightarrow> time \<Rightarrow> (CleanupDb, bool) eff" where
  "claim i now =
     bnd (gets (\<lambda>s. case find_by cj_id i (db_jobs s) of None \<Rightarrow> False | Some j \<Rightarrow> claimable now j)) (\<lambda>matches.
     if matches then bnd (update_job i (set_claimed now)) (\<lambda>_. ret True) else ret False)"

definition store_recoverAbandoned :: "time \<Rightarrow> time \<Rightarrow> string \<Rightarrow> (CleanupDb, nat) eff" where
  "store_recoverAbandoned startedBefore retryAt errorCode =
     bnd (gets (\<lambda>s. count_rows (abandoned startedBefore) (db_jobs s))) (\<lambda>count.
     bnd (modify (\<lambda>s. s\<lparr>db_jobs := update_rows (abandoned startedBefore) (set_retrying retryAt (Some errorCode)) (db_jobs s)\<rparr>)) (\<lambda>_.
     ret count))"

definition requestRetry :: "ident \<Rightarrow> time \<Rightarrow> (CleanupDb, unit) eff" where
  "requestRetry i retryAt = update_job i (set_retrying retryAt None)"

definition cleanup_markSucceeded :: "ident \<Rightarrow> time \<Rightarrow> (CleanupDb, unit) eff" where
  "cleanup_markSucceeded i completedAt = update_job i (set_succeeded completedAt)"

definition cleanup_markRetrying :: "ident \<Rightarrow> time \<Rightarrow> string \<Rightarrow> (CleanupDb, unit) eff" where
  "cleanup_markRetrying i nextAttemptAt code = update_job i (set_retrying nextAttemptAt (Some code))"

definition cleanup_markFailed :: "ident \<Rightarrow> time \<Rightarrow> string \<Rightarrow> (CleanupDb, unit) eff" where
  "cleanup_markFailed i completedAt code = update_job i (set_failed completedAt code)"

text \<open>Rows are in the order of their creation.\<close>

definition listReady :: "time \<Rightarrow> int \<Rightarrow> (CleanupDb, ident list) eff" where
  "listReady now limit = gets (\<lambda>s. take (nat limit) (map cj_id (filter (claimable now) (db_jobs s))))"

definition cleanupStore :: "(nat \<Rightarrow> ident) \<Rightarrow> CleanupDb StorageCleanupStore" where
  "cleanupStore uuid =
     \<lparr>cs_upsertQueued = upsertQueued uuid, cs_get = get_job, cs_claim = claim,
      cs_recoverAbandoned = store_recoverAbandoned, cs_requestRetry = requestRetry,
      cs_markSucceeded = cleanup_markSucceeded, cs_markRetrying = cleanup_markRetrying,
      cs_markFailed = cleanup_markFailed, cs_listReady = listReady\<rparr>"

section \<open>Guard, events and platform\<close>

definition active_artifact :: "CleanupDb \<Rightarrow> string \<Rightarrow> bool" where
  "active_artifact s key \<longleftrightarrow>
     (\<exists>a\<in>set (db_artifacts s). art_objectKey a = key \<and> art_active a \<and> art_removedAt a = None)"

definition canDelete :: "StorageCleanupJob \<Rightarrow> (CleanupDb, bool \<times> string option) eff" where
  "canDelete candidate =
     (if cj_type candidate \<noteq> ''ARTIFACT_REPLACEMENT'' \<and> cj_type candidate \<noteq> ''ARTIFACT_REMOVAL'' then ret (True, None)
      else bnd (gets (\<lambda>s. active_artifact s (cj_objectKey candidate))) (\<lambda>active.
        ret (if active then (False, Some ''ACTIVE_ARTIFACT_REFERENCE'') else (True, None))))"

text \<open>The audit log entry of an event, and the security event of a terminal failure.\<close>

record CleanupLog =
  log_audit :: "(ident option \<times> string \<times> string \<times> string \<times> json_object) list"
  log_security :: "(ident option \<times> string \<times> json_object) list"

definition cleanup_emit :: "CleanupEvent \<Rightarrow> (CleanupLog, unit) eff" where
  "cleanup_emit ev =
     bnd (modify (\<lambda>l. l\<lparr>log_audit := log_audit l @ [(ce_actorId ev, ce_action ev, ce_targetType ev, ce_targetId ev,
            [(''cleanupJobId'', JString (ce_jobId ev)), (''attempts'', JNumber (ce_attempts ev))])]\<rparr>)) (\<lambda>_.
     if ce_action ev = ''STORAGE_CLEANUP_FAILED''
     then modify (\<lambda>l. l\<lparr>log_security := log_security l @ [(ce_actorId ev, ''STORAGE_CLEANUP_FAILED'', [(''count'', JNumber (ce_attempts ev))])]\<rparr>)
     else ret ())"

definition createPlatform ::
    "(nat \<Rightarrow> ident) \<Rightarrow> (nat \<Rightarrow> time) \<Rightarrow> (string \<Rightarrow> string) \<Rightarrow> (error \<Rightarrow> string option) \<Rightarrow> (string \<Rightarrow> ('ob, unit) eff) \<Rightarrow>
     (CleanupDb, 'ob, CleanupLog) CleanupDependencies" where
  "createPlatform uuid clock sha256 errorName removeObject =
     \<lparr>cd_store = cleanupStore uuid, cd_canDelete = canDelete, cd_deleteObject = removeObject, cd_emit = Some cleanup_emit,
      cd_now = clock, cd_correlationId = uuid, cd_sha256 = sha256, cd_errorName = errorName\<rparr>"

section \<open>The contract holds\<close>

definition lookup_job :: "CleanupDb \<Rightarrow> ident \<Rightarrow> StorageCleanupJob option" where
  "lookup_job s i = find_by cj_id i (db_jobs s)"

definition deletable :: "CleanupDb \<Rightarrow> StorageCleanupJob \<Rightarrow> bool" where
  "deletable s j \<longleftrightarrow> cj_type j \<notin> {''ARTIFACT_REPLACEMENT'', ''ARTIFACT_REMOVAL''} \<or> \<not> active_artifact s (cj_objectKey j)"

lemma job_row_ids [simp]:
  "cj_id (set_claimed t j) = cj_id j" "cj_id (set_retrying t c j) = cj_id j"
  "cj_id (set_succeeded t j) = cj_id j" "cj_id (set_failed t d j) = cj_id j"
  by (simp_all add: row_defs)

lemma update_job_run:
  assumes "\<And>j. cj_id (f j) = cj_id j"
  shows "update_job i f s = (r, t) \<longleftrightarrow> r = Inr () \<and> t = s\<lparr>db_jobs := update_key cj_id i f (db_jobs s)\<rparr>"
    and "lookup_job (s\<lparr>db_jobs := update_key cj_id i f (db_jobs s)\<rparr>) = (lookup_job s)(i := map_option f (lookup_job s i))"
  using assms by (auto simp: update_job_def modify_run lookup_job_def find_by_update_key fun_eq_iff)

lemma deletable_jobs [simp]: "deletable (s\<lparr>db_jobs := js\<rparr>) = deletable s"
  by (simp add: deletable_def active_artifact_def fun_eq_iff)

interpretation web_cleanup: cleanup_guard "cleanupStore uuid" lookup_job canDelete deletable for uuid
proof unfold_locales
  show "lookup_job t = lookup_job s \<and> (\<forall>x. r = Inr x \<longrightarrow> x = lookup_job s i)"
    if "cs_get (cleanupStore uuid) i s = (r, t)" for i s r t
    using that by (auto simp: cleanupStore_def get_job_def gets_run lookup_job_def)
  show "if \<exists>j. lookup_job s i = Some j \<and> claimable now j
       then b \<and> lookup_job t = (lookup_job s)(i := map_option (set_claimed now) (lookup_job s i))
       else \<not> b \<and> lookup_job t = lookup_job s"
    if "cs_claim (cleanupStore uuid) i now s = (Inr b, t)" for i now s b t
    using that by (auto simp: cleanupStore_def claim_def eff_simps lookup_job_def update_job_run
        fun_eq_iff find_by_update_key split: option.splits if_splits prod.splits sum.splits)
  show "lookup_job t = (lookup_job s)(i := map_option (set_succeeded t1) (lookup_job s i))"
    if "cs_markSucceeded (cleanupStore uuid) i t1 s = (Inr u, t)" for i t1 s u t
    using that by (auto simp: cleanupStore_def cleanup_markSucceeded_def update_job_run)
  show "lookup_job t = (lookup_job s)(i := map_option (set_retrying t1 (Some c)) (lookup_job s i))"
    if "cs_markRetrying (cleanupStore uuid) i t1 c s = (Inr u, t)" for i t1 c s u t
    using that by (auto simp: cleanupStore_def cleanup_markRetrying_def update_job_run)
  show "lookup_job t = (lookup_job s)(i := map_option (set_failed t1 c) (lookup_job s i))"
    if "cs_markFailed (cleanupStore uuid) i t1 c s = (Inr u, t)" for i t1 c s u t
    using that by (auto simp: cleanupStore_def cleanup_markFailed_def update_job_run)
  show "lookup_job t = lookup_job s" if "cs_claim (cleanupStore uuid) i now s = (Inl e, t)" for i now s e t
    using that by (auto simp: cleanupStore_def claim_def eff_simps update_job_def split: if_splits)
  show "lookup_job t = lookup_job s" if "cs_markSucceeded (cleanupStore uuid) i t1 s = (Inl e, t)" for i t1 s e t
    using that by (simp add: cleanupStore_def cleanup_markSucceeded_def update_job_run)
  show "lookup_job t = lookup_job s \<and> deletable t = deletable s \<and> (\<forall>a c. r = Inr (a, c) \<longrightarrow> a = deletable s j)"
    if "canDelete j s = (r, t)" for j s r t
    using that by (auto simp: canDelete_def eff_simps deletable_def split: if_splits)
  show "deletable t = deletable s" if "cs_claim (cleanupStore uuid) i now s = (claimed, t)" for i now s claimed t
    using that by (auto simp: cleanupStore_def claim_def eff_simps update_job_def split: if_splits)
  show "deletable t = deletable s" if "cs_get (cleanupStore uuid) i s = (found, t)" for i s found t
    using that by (simp add: cleanupStore_def get_job_def gets_run)
qed

lemma lookup_job_id: "lookup_job s i = Some j \<Longrightarrow> cj_id j = i"
  unfolding lookup_job_def by (drule find_by_key) simp

section \<open>Claims on one worker\<close>

text \<open>What processing a cleanup job does, on every branch: a job that is not due or not open is left alone; a
  claimed job ends SUCCEEDED, or, when the guard refuses, the deletion fails or the event cannot be written,
  FAILED from its fifth attempt on and otherwise RETRYING after the backoff of its attempts; no other job
  changes.\<close>

theorem process_outcome:
  assumes "process (createPlatform uuid clock sha256 errorName removeObject) i now w = (Inr r, w')"
  shows "process_effect i now (lookup_job (cw_store w)) r (lookup_job (cw_store w'))"
  by (rule web_cleanup.process_result [OF _ _ lookup_job_id assms]) (simp_all add: createPlatform_def)

text \<open>C28 Processing the cleanup of a replaced or removed artifact never touches the object storage while an
  active artifact of the catalog still refers to the object.\<close>

theorem active_artifact_kept:
  assumes "lookup_job (cw_store w) i = Some j"
    and "cj_type j = ''ARTIFACT_REPLACEMENT'' \<or> cj_type j = ''ARTIFACT_REMOVAL''"
    and "active_artifact (cw_store w) (cj_objectKey j)"
  shows "cw_objects (snd (process (createPlatform uuid clock sha256 errorName removeObject) i now w)) = cw_objects w"
proof (rule web_cleanup.process_blocked)
  show "\<not> deletable (cw_store w) (set_claimed now k)" if "lookup_job (cw_store w) i = Some k" for k
    using that assms by (auto simp: deletable_def set_claimed_def)
qed (simp_all add: createPlatform_def)

lemma upsert_then_found:
  assumes "upsertQueued uuid input s = (Inr j, t)"
  shows "find_by cj_idempotencyKey (cj_idempotencyKey input) (db_jobs t) = Some j"
  using assms
  by (auto simp: upsertQueued_def Let_def find_by_append_new split: if_splits option.splits)

lemma upsert_existing:
  assumes "find_by cj_idempotencyKey (cj_idempotencyKey input) (db_jobs s) = Some j"
    and "upsertQueued uuid input s = (Inr j', t)"
  shows "j' = j \<and> db_jobs t = db_jobs s"
  using assms by (auto simp: upsertQueued_def Let_def split: if_splits)

lemma queue_upserts:
  assumes "queue (createPlatform uuid clock sha256 errorName removeObject) input w = (Inr j, w')"
  obtains job s where "upsertQueued uuid job (cw_store w) = (Inr j, cw_store w')"
    and "cj_idempotencyKey job = storageCleanupIdempotencyKey sha256 (qc_type input) (qc_targetId input) (qc_objectKey input)"
  using assms
  by (auto simp: queue_def createPlatform_def cleanupStore_def cl_store_def cl_clock_def cl_correlationId_def
      eff_simps split: option.splits prod.splits)

text \<open>Queueing is idempotent: a second request for the same type, target and object returns the job of the
  first one and adds none, whatever else it says.\<close>

theorem queue_idempotent:
  assumes "queue (createPlatform uuid clock sha256 errorName removeObject) input w = (Inr j, w1)"
    and "queue (createPlatform uuid clock sha256 errorName removeObject) input' w1 = (Inr j', w2)"
    and "qc_type input' = qc_type input" and "qc_targetId input' = qc_targetId input"
    and "qc_objectKey input' = qc_objectKey input"
  shows "j' = j \<and> db_jobs (cw_store w2) = db_jobs (cw_store w1)"
proof -
  obtain job where first: "upsertQueued uuid job (cw_store w) = (Inr j, cw_store w1)"
    and key: "cj_idempotencyKey job = storageCleanupIdempotencyKey sha256 (qc_type input) (qc_targetId input) (qc_objectKey input)"
    using queue_upserts [OF assms(1)] .
  obtain job' where second: "upsertQueued uuid job' (cw_store w1) = (Inr j', cw_store w2)"
    and key': "cj_idempotencyKey job' = storageCleanupIdempotencyKey sha256 (qc_type input') (qc_targetId input') (qc_objectKey input')"
    using queue_upserts [OF assms(2)] .
  show ?thesis
    using upsert_existing [OF _ second] upsert_then_found [OF first] key key' assms(3-5) by simp
qed

section \<open>A small platform\<close>

text \<open>Two artifact removals, the second of an object that an active artifact uses; deletions are recorded.\<close>

definition demo_cleanup_job :: "ident \<Rightarrow> string \<Rightarrow> StorageCleanupJob" where
  "demo_cleanup_job i object =
     \<lparr>cj_id = i, cj_type = ''ARTIFACT_REMOVAL'', cj_targetType = ''ProductArtifact'', cj_targetId = ''a1'', cj_objectKey = object,
      cj_productId = None, cj_artifactId = None, cj_createdByActorId = None, cj_correlationId = ''c'', cj_idempotencyKey = i,
      cj_status = CLEANUP_PENDING, cj_attempts = 0, cj_nextAttemptAt = 0, cj_startedAt = None, cj_completedAt = None,
      cj_lastErrorCode = None\<rparr>"

definition demo_platform :: "(CleanupDb, string list, CleanupLog) CleanupDependencies" where
  "demo_platform = createPlatform (\<lambda>n. replicate (Suc n) CHR ''u'') (\<lambda>n. int n) (\<lambda>s. s) (\<lambda>e. Some ''Error'')
     (\<lambda>object. modify (\<lambda>deleted. object # deleted))"

definition demo_cleanup :: "(CleanupDb, string list, CleanupLog) CleanupWorld" where
  "demo_cleanup =
     \<lparr>cw_store = \<lparr>db_jobs = [demo_cleanup_job ''j1'' ''old.zip'', demo_cleanup_job ''j2'' ''live.zip''],
        db_artifacts = [\<lparr>art_objectKey = ''live.zip'', art_active = True, art_removedAt = None\<rparr>], db_uuids = 0\<rparr>,
      cw_objects = [], cw_events = \<lparr>log_audit = [], log_security = []\<rparr>, cw_reads = 0, cw_ids = 0\<rparr>"

lemma process_outcome_witness:
  "\<exists>w'. process demo_platform ''j1'' 10 demo_cleanup = (Inr CleanupSucceeded, w') \<and>
    process_effect ''j1'' 10 (lookup_job (cw_store demo_cleanup)) CleanupSucceeded (lookup_job (cw_store w'))"
proof -
  have "fst (process demo_platform ''j1'' 10 demo_cleanup) = Inr CleanupSucceeded" by code_simp
  then obtain w' where w': "process demo_platform ''j1'' 10 demo_cleanup = (Inr CleanupSucceeded, w')"
    by (cases "process demo_platform ''j1'' 10 demo_cleanup") simp
  then show ?thesis using process_outcome [OF w' [unfolded demo_platform_def]] by blast
qed

lemma active_artifact_kept_witness: "cw_objects (snd (process demo_platform ''j2'' 10 demo_cleanup)) = []"
proof -
  have "lookup_job (cw_store demo_cleanup) ''j2'' = Some (demo_cleanup_job ''j2'' ''live.zip'')"
    and "cj_type (demo_cleanup_job ''j2'' ''live.zip'') = ''ARTIFACT_REMOVAL''"
    and "active_artifact (cw_store demo_cleanup) (cj_objectKey (demo_cleanup_job ''j2'' ''live.zip''))"
    by (simp_all add: demo_cleanup_def demo_cleanup_job_def lookup_job_def find_by_def active_artifact_def)
  from active_artifact_kept [OF this(1) _ this(3)] this(2)
  show ?thesis by (simp add: demo_platform_def demo_cleanup_def)
qed

definition demo_request :: QueueStorageCleanupInput where
  "demo_request = \<lparr>qc_type = ''ORPHANED_OBJECT'', qc_targetType = ''Object'', qc_targetId = ''o'', qc_objectKey = ''x.zip'',
    qc_productId = None, qc_artifactId = None, qc_actorId = None, qc_correlationId = None\<rparr>"

lemma queue_idempotent_witness:
  "\<exists>j w1 w2. queue demo_platform demo_request demo_cleanup = (Inr j, w1) \<and> queue demo_platform demo_request w1 = (Inr j, w2) \<and>
    length (db_jobs (cw_store w2)) = 3"
proof -
  define w1 where "w1 = snd (queue demo_platform demo_request demo_cleanup)"
  define w2 where "w2 = snd (queue demo_platform demo_request w1)"
  have ok: "\<not> isl (fst (queue demo_platform demo_request demo_cleanup))" "\<not> isl (fst (queue demo_platform demo_request w1))"
    and three: "length (db_jobs (cw_store w1)) = 3"
    unfolding w1_def by code_simp+
  obtain j where j: "queue demo_platform demo_request demo_cleanup = (Inr j, w1)"
    using ok(1) unfolding w1_def by (cases "fst (queue demo_platform demo_request demo_cleanup)") (auto simp: prod_eq_iff)
  obtain j' where j': "queue demo_platform demo_request w1 = (Inr j', w2)"
    using ok(2) unfolding w2_def by (cases "fst (queue demo_platform demo_request w1)") (auto simp: prod_eq_iff)
  have "j' = j \<and> db_jobs (cw_store w2) = db_jobs (cw_store w1)"
    by (rule queue_idempotent [OF j [unfolded demo_platform_def] j' [unfolded demo_platform_def]]) simp_all
  then show ?thesis using j j' three by auto
qed

end
