(* ===== verification/Storage_Cleanup_Workers.thy ===== *)
theory Storage_Cleanup_Workers
  imports Storage_Cleanup_Web
begin

text \<open>
  Cleanup with several workers: \<open>process\<close> cut at its accesses to the database, the storage and the log
  (\<open>worker_step\<close>; without interruption its steps are \<open>process\<close>), and workers, requests and deaths of
  workers interleaved in any way. That a removed object is gone is a law on the storage.
\<close>

section \<open>A worker\<close>

datatype Worker =
    Claiming ident time
  | Reading ident
  | Guarding StorageCleanupJob
  | Deleting StorageCleanupJob
  | Completing StorageCleanupJob
  | Reporting StorageCleanupJob
  | Failing StorageCleanupJob error
  | ReportingFailure StorageCleanupJob bool string
  | Finished "error + ProcessResult"

definition after_access :: "(('st, 'ob, 'ev) CleanupWorld, 'a) eff \<Rightarrow> (error \<Rightarrow> Worker) \<Rightarrow> ('a \<Rightarrow> Worker) \<Rightarrow>
    ('st, 'ob, 'ev) CleanupWorld \<Rightarrow> Worker \<times> ('st, 'ob, 'ev) CleanupWorld" where
  "after_access m thrown returned w = (case m w of (Inl e, t) \<Rightarrow> (thrown e, t) | (Inr a, t) \<Rightarrow> (returned a, t))"

definition completed_event :: "StorageCleanupJob \<Rightarrow> CleanupEvent" where
  "completed_event job = \<lparr>ce_action = ''STORAGE_CLEANUP_COMPLETED'', ce_jobId = cj_id job, ce_targetType = cj_targetType job,
     ce_targetId = cj_targetId job, ce_actorId = cj_createdByActorId job, ce_attempts = cj_attempts job,
     ce_errorCode = None, ce_terminal = None\<rparr>"

definition failure_event :: "StorageCleanupJob \<Rightarrow> bool \<Rightarrow> string \<Rightarrow> CleanupEvent" where
  "failure_event job failed errorCode =
     \<lparr>ce_action = (if failed then ''STORAGE_CLEANUP_FAILED'' else ''STORAGE_CLEANUP_RETRY_SCHEDULED''),
      ce_jobId = cj_id job, ce_targetType = cj_targetType job, ce_targetId = cj_targetId job,
      ce_actorId = cj_createdByActorId job, ce_attempts = cj_attempts job, ce_errorCode = Some errorCode,
      ce_terminal = Some failed\<rparr>"

text \<open>One access of \<open>process\<close>; the clock is read with the access that follows it.\<close>

fun worker_step :: "('st, 'ob, 'ev) CleanupDependencies \<Rightarrow> Worker \<Rightarrow> ('st, 'ob, 'ev) CleanupWorld \<Rightarrow> Worker \<times> ('st, 'ob, 'ev) CleanupWorld" where
  "worker_step d (Claiming i now) = after_access (cl_store (cs_claim (cd_store d) i now)) (\<lambda>e. Finished (Inl e))
     (\<lambda>claimed. if claimed then Reading i else Finished (Inr NotClaimed))"
| "worker_step d (Reading i) = after_access (cl_store (cs_get (cd_store d) i)) (\<lambda>e. Finished (Inl e))
     (\<lambda>found. case found of None \<Rightarrow> Finished (Inl ''CLEANUP_JOB_DISAPPEARED_AFTER_CLAIM'') | Some job \<Rightarrow> Guarding job)"
| "worker_step d (Guarding job) = after_access (cl_store (cd_canDelete d job)) (Failing job)
     (\<lambda>(allowed, code). if allowed then Deleting job else Failing job (or_else code ''OBJECT_DELETE_BLOCKED''))"
| "worker_step d (Deleting job) = after_access (cl_objects (cd_deleteObject d (cj_objectKey job))) (Failing job) (\<lambda>_. Completing job)"
| "worker_step d (Completing job) =
     after_access (bnd (cl_clock d) (\<lambda>completedAt. cl_store (cs_markSucceeded (cd_store d) (cj_id job) completedAt)))
       (Failing job) (\<lambda>_. Reporting job)"
| "worker_step d (Reporting job) = after_access (cl_emit d (completed_event job)) (Failing job) (\<lambda>_. Finished (Inr CleanupSucceeded))"
| "worker_step d (Failing job e) =
     (let errorCode = storageCleanupErrorCode (cd_sha256 d) (cd_errorName d e); failed = (cj_attempts job \<ge> STORAGE_CLEANUP_MAX_ATTEMPTS) in
      after_access
        (bnd (cl_clock d) (\<lambda>now.
         if failed then cl_store (cs_markFailed (cd_store d) (cj_id job) now errorCode)
         else cl_store (cs_markRetrying (cd_store d) (cj_id job) (storageCleanupBackoffAt (cj_attempts job) now) errorCode)))
        (\<lambda>e. Finished (Inl e)) (\<lambda>_. ReportingFailure job failed errorCode))"
| "worker_step d (ReportingFailure job failed errorCode) =
     after_access (cl_emit d (failure_event job failed errorCode)) (\<lambda>e. Finished (Inl e))
       (\<lambda>_. Finished (Inr (CleanupFailed failed errorCode)))"
| "worker_step d (Finished r) = (\<lambda>w. (Finished r, w))"

fun worker_run :: "nat \<Rightarrow> ('st, 'ob, 'ev) CleanupDependencies \<Rightarrow> Worker \<Rightarrow> ('st, 'ob, 'ev) CleanupWorld \<Rightarrow> Worker \<times> ('st, 'ob, 'ev) CleanupWorld" where
  "worker_run 0 d k w = (k, w)"
| "worker_run (Suc n) d k w = (case worker_step d k w of (k', t) \<Rightarrow> worker_run n d k' t)"

text \<open>The steps of a worker, taken together, are \<open>process\<close>: eight of them always finish it.\<close>

abbreviation finished :: "(error + ProcessResult) \<times> ('st, 'ob, 'ev) CleanupWorld \<Rightarrow> Worker \<times> ('st, 'ob, 'ev) CleanupWorld" where
  "finished p \<equiv> (Finished (fst p), snd p)"

lemma run_access:
  "worker_step d k = after_access m thrown returned \<Longrightarrow> worker_run (Suc n) d k w =
     (case m w of (Inl e, t) \<Rightarrow> worker_run n d (thrown e) t | (Inr a, t) \<Rightarrow> worker_run n d (returned a) t)"
  by (simp add: after_access_def split: prod.splits sum.splits)

declare worker_run.simps [simp del] worker_step.simps [simp del]

lemmas worker_access = worker_step.simps(1-6,8) [THEN run_access] worker_step.simps(7) [unfolded Let_def, THEN run_access]

lemmas run_simps = bnd_def ret_def throw_def try_catch_def

lemma finished_run [simp]: "worker_run n d (Finished r) w = (Finished r, w)"
  by (induction n) (simp_all add: worker_run.simps worker_step.simps)

lemma failing_run: "worker_run (Suc (Suc n)) d (Failing job e) w = finished (record_failure d job e w)"
  by (simp add: worker_access record_failure_def Let_def run_simps failure_event_def split: prod.splits sum.splits)

lemma reporting_run:
  "worker_run (Suc (Suc (Suc n))) d (Reporting job) w =
     finished (try_catch (bnd (cl_emit d (completed_event job)) (\<lambda>_. ret CleanupSucceeded)) (record_failure d job) w)"
  by (simp add: worker_access(6) failing_run run_simps split: prod.splits sum.splits)

lemma completing_run:
  "worker_run (Suc (Suc (Suc (Suc n)))) d (Completing job) w =
     finished (try_catch (bnd (cl_clock d) (\<lambda>completedAt. bnd (cl_store (cs_markSucceeded (cd_store d) (cj_id job) completedAt)) (\<lambda>_.
       bnd (cl_emit d (completed_event job)) (\<lambda>_. ret CleanupSucceeded)))) (record_failure d job) w)"
  by (simp add: worker_access(5) failing_run reporting_run run_simps split: prod.splits sum.splits)

lemma deleting_run:
  "worker_run (Suc (Suc (Suc (Suc (Suc n))))) d (Deleting job) w =
     finished (try_catch (bnd (cl_objects (cd_deleteObject d (cj_objectKey job))) (\<lambda>_.
       bnd (cl_clock d) (\<lambda>completedAt. bnd (cl_store (cs_markSucceeded (cd_store d) (cj_id job) completedAt)) (\<lambda>_.
       bnd (cl_emit d (completed_event job)) (\<lambda>_. ret CleanupSucceeded))))) (record_failure d job) w)"
  by (simp add: worker_access(4) failing_run completing_run run_simps split: prod.splits sum.splits)

lemma guarding_run:
  "worker_run (Suc (Suc (Suc (Suc (Suc (Suc n)))))) d (Guarding job) w = finished (try_catch (delete_job_object d job) (record_failure d job) w)"
  unfolding delete_job_object_def completed_event_def [symmetric]
  by (simp add: worker_access(3) failing_run deleting_run run_simps split: prod.splits sum.splits)

text \<open>Eight steps of a worker that nothing interrupts are exactly one run of \<open>process\<close>.\<close>

theorem worker_is_process:
  "worker_run 8 d (Claiming i now) w = (Finished (fst (process d i now w)), snd (process d i now w))"
proof -
  have eight: "8 = Suc (Suc (Suc (Suc (Suc (Suc (Suc (Suc 0)))))))" by simp
  show ?thesis
    unfolding eight process_def
    by (simp add: worker_access(1,2) guarding_run run_simps split: prod.splits sum.splits option.splits)
qed

section \<open>Interleaving\<close>

text \<open>
  What can happen: a worker starts on a job, makes its next step or dies; a cleanup is queued; abandoned jobs are recovered; a retry
  is recorded (its check may be long past); the catalog changes its artifacts.
\<close>

datatype CleanupMove =
    StartWorker ident time
  | StepWorker nat
  | KillWorker nat
  | QueueJob QueueStorageCleanupInput
  | RecoverJobs time
  | RecordRetry ident time
  | ChangeArtifacts "ArtifactRow list"

fun cleanup_move :: "(CleanupDb, 'ob, 'ev) CleanupDependencies \<Rightarrow> CleanupMove \<Rightarrow> (CleanupDb, 'ob, 'ev) CleanupWorld \<times> Worker list \<Rightarrow>
    (CleanupDb, 'ob, 'ev) CleanupWorld \<times> Worker list" where
  "cleanup_move d (StartWorker i now) (w, ks) = (w, Claiming i now # ks)"
| "cleanup_move d (StepWorker n) (w, ks) =
     (if n < length ks then (case worker_step d (ks ! n) w of (k, t) \<Rightarrow> (t, ks[n := k])) else (w, ks))"
| "cleanup_move d (KillWorker n) (w, ks) = (w, take n ks @ drop (Suc n) ks)"
| "cleanup_move d (QueueJob input) (w, ks) = (snd (queue d input w), ks)"
| "cleanup_move d (RecoverJobs now) (w, ks) = (snd (recoverAbandoned d now w), ks)"
| "cleanup_move d (RecordRetry i now) (w, ks) = (snd (cl_store (cs_requestRetry (cd_store d) i now) w), ks)"
| "cleanup_move d (ChangeArtifacts rows) (w, ks) = (w\<lparr>cw_store := (cw_store w)\<lparr>db_artifacts := rows\<rparr>\<rparr>, ks)"

inductive cleanup_step :: "(CleanupDb, 'ob, 'ev) CleanupDependencies \<Rightarrow> (CleanupDb, 'ob, 'ev) CleanupWorld \<times> Worker list \<Rightarrow>
    (CleanupDb, 'ob, 'ev) CleanupWorld \<times> Worker list \<Rightarrow> bool" for d where
  moves: "cleanup_step d x (cleanup_move d m x)"

lemma cleanup_moves: "(cleanup_step d)\<^sup>*\<^sup>* x (fold (cleanup_move d) ms x)"
proof (induction ms arbitrary: x)
  case (Cons m ms)
  show ?case using converse_rtranclp_into_rtranclp [OF cleanup_step.moves Cons] by simp
qed simp

section \<open>Succeeded means deleted\<close>

text \<open>An object that the storage was asked to remove and that did not fail is gone, and stays so.\<close>

definition removes :: "('ob \<Rightarrow> string \<Rightarrow> bool) \<Rightarrow> (string \<Rightarrow> ('ob, unit) eff) \<Rightarrow> bool" where
  "removes gone removeObject \<longleftrightarrow> (\<forall>object s r t. removeObject object s = (r, t) \<longrightarrow>
     (r = Inr () \<longrightarrow> gone t object) \<and> (\<forall>other. gone s other \<longrightarrow> gone t other))"

definition done_gone :: "('ob \<Rightarrow> string \<Rightarrow> bool) \<Rightarrow> (CleanupDb, 'ob, 'ev) CleanupWorld \<Rightarrow> bool" where
  "done_gone gone w \<longleftrightarrow> (\<forall>i j. lookup_job (cw_store w) i = Some j \<longrightarrow> cj_status j = CLEANUP_SUCCEEDED \<longrightarrow> gone (cw_objects w) (cj_objectKey j))"

text \<open>Jobs keep their object, what is gone stays gone, and no job succeeds without its object being gone.\<close>

definition safe_move :: "('ob \<Rightarrow> string \<Rightarrow> bool) \<Rightarrow> (CleanupDb, 'ob, 'ev) CleanupWorld \<Rightarrow> (CleanupDb, 'ob, 'ev) CleanupWorld \<Rightarrow> bool" where
  "safe_move gone w t \<longleftrightarrow>
     (\<forall>i j. lookup_job (cw_store w) i = Some j \<longrightarrow> (\<exists>j'. lookup_job (cw_store t) i = Some j' \<and> cj_objectKey j' = cj_objectKey j)) \<and>
     (\<forall>object. gone (cw_objects w) object \<longrightarrow> gone (cw_objects t) object) \<and> (done_gone gone w \<longrightarrow> done_gone gone t)"

definition refers :: "(CleanupDb, 'ob, 'ev) CleanupWorld \<Rightarrow> StorageCleanupJob \<Rightarrow> bool" where
  "refers w job \<longleftrightarrow> (\<exists>j. lookup_job (cw_store w) (cj_id job) = Some j \<and> cj_objectKey j = cj_objectKey job)"

fun worker_ok :: "('ob \<Rightarrow> string \<Rightarrow> bool) \<Rightarrow> (CleanupDb, 'ob, 'ev) CleanupWorld \<Rightarrow> Worker \<Rightarrow> bool" where
  "worker_ok gone w (Guarding job) = refers w job"
| "worker_ok gone w (Deleting job) = refers w job"
| "worker_ok gone w (Completing job) = (refers w job \<and> gone (cw_objects w) (cj_objectKey job))"
| "worker_ok gone w k = True"

lemma refers_moves: "refers w job \<Longrightarrow> safe_move gone w t \<Longrightarrow> refers t job"
  unfolding safe_move_def refers_def by metis

lemma worker_ok_moves: "worker_ok gone w k \<Longrightarrow> safe_move gone w t \<Longrightarrow> worker_ok gone t k"
  using refers_moves [of w _ gone t] by (cases k) (auto simp: safe_move_def)

lemma safe_same: "cw_store t = cw_store w \<Longrightarrow> cw_objects t = cw_objects w \<Longrightarrow> safe_move gone w t"
  by (simp add: safe_move_def done_gone_def)

lemma safe_update:
  assumes "cw_objects t = cw_objects w" and "lookup_job (cw_store t) = (lookup_job (cw_store w))(i := map_option f (lookup_job (cw_store w) i))"
    and "\<And>j. cj_objectKey (f j) = cj_objectKey j"
    and "\<And>j. lookup_job (cw_store w) i = Some j \<Longrightarrow> cj_status (f j) = CLEANUP_SUCCEEDED \<Longrightarrow>
      cj_status j = CLEANUP_SUCCEEDED \<or> gone (cw_objects w) (cj_objectKey j)"
  shows "safe_move gone w t"
  unfolding safe_move_def done_gone_def assms(1,2) using assms(3,4) by (auto simp: map_option_case split: option.splits)

text \<open>Statements of the store on one job.\<close>

lemma safe_claim:
  assumes "claim i now s = (r, u)" and "cw_store w = s"
  shows "safe_move gone w (w\<lparr>cw_store := u\<rparr>)"
proof (cases r)
  case (Inr b)
  have c: "cs_claim (cleanupStore uuid) i now s = (Inr b, u)" for uuid using assms(1) Inr by (simp add: cleanupStore_def)
  show ?thesis
  proof (cases "\<exists>j. lookup_job s i = Some j \<and> claimable now j")
    case True
    then show ?thesis using web_cleanup.claim_ok [OF c] assms(2)
      by (intro safe_update [where i = i and f = "set_claimed now"]) (auto simp: set_claimed_def)
  next
    case False
    then show ?thesis using web_cleanup.claim_ok [OF c] assms(2) by (simp add: safe_move_def done_gone_def)
  qed
next
  case (Inl e)
  then show ?thesis using web_cleanup.claim_error [of _ i now s e u] assms by (simp add: cleanupStore_def safe_move_def done_gone_def)
qed

lemma safe_update_job:
  assumes "update_job i f (cw_store w) = (r, u)" and "\<And>j. cj_id (f j) = cj_id j" and "\<And>j. cj_objectKey (f j) = cj_objectKey j"
    and "\<And>j. lookup_job (cw_store w) i = Some j \<Longrightarrow> cj_status (f j) = CLEANUP_SUCCEEDED \<Longrightarrow>
      cj_status j = CLEANUP_SUCCEEDED \<or> gone (cw_objects w) (cj_objectKey j)"
  shows "safe_move gone w (w\<lparr>cw_store := u\<rparr>)"
  by (rule safe_update [where i = i and f = f])
    (use assms update_job_run(1) [of f i "cw_store w" r u] update_job_run(2) [of f i "cw_store w"] in auto)

section \<open>Accesses of a worker\<close>

lemmas platform_defs = createPlatform_def cleanupStore_def cl_store_def cl_objects_def cl_events_def cl_clock_def cl_emit_def zoom_def eff_simps

lemma store_frame: "safe_move gone w t \<Longrightarrow> cw_store u = cw_store t \<Longrightarrow> cw_objects u = cw_objects t \<Longrightarrow> safe_move gone w u"
  by (simp add: safe_move_def done_gone_def)

lemma step_claiming: "worker_step (createPlatform uuid clock sha errorName remove) (Claiming i now) w = (k, t) \<Longrightarrow>
    safe_move gone w t \<and> worker_ok gone t k"
  using safe_claim [OF _ refl, where i = i and now = now and w = w]
  by (auto simp: worker_step.simps after_access_def platform_defs split: prod.splits sum.splits if_splits)

lemma step_reading: "worker_step (createPlatform uuid clock sha errorName remove) (Reading i) w = (k, t) \<Longrightarrow>
    safe_move gone w t \<and> worker_ok gone t k"
  by (auto simp: worker_step.simps after_access_def platform_defs get_job_def safe_same refers_def lookup_job_def [symmetric]
      split: option.splits) (metis lookup_job_id)

lemma step_guarding: "worker_step (createPlatform uuid clock sha errorName remove) (Guarding job) w = (k, t) \<Longrightarrow> refers w job \<Longrightarrow>
    safe_move gone w t \<and> worker_ok gone t k"
  by (auto simp: worker_step.simps after_access_def platform_defs canDelete_def safe_same split: if_splits)

lemma step_deleting: "worker_step (createPlatform uuid clock sha errorName remove) (Deleting job) w = (k, t) \<Longrightarrow> refers w job \<Longrightarrow> removes gone remove \<Longrightarrow>
    safe_move gone w t \<and> worker_ok gone t k"
  by (auto simp: worker_step.simps after_access_def platform_defs removes_def safe_move_def done_gone_def refers_def split: prod.splits sum.splits)

lemma step_completing:
  assumes "worker_step (createPlatform uuid clock sha errorName remove) (Completing job) w = (k, t)" and "refers w job" and "gone (cw_objects w) (cj_objectKey job)"
  shows "safe_move gone w t \<and> worker_ok gone t k"
proof -
  obtain n u where u: "update_job (cj_id job) (set_succeeded (clock (cw_reads w))) (cw_store w) = (Inr (), u)" and k: "k = Reporting job"
      and t: "t = w\<lparr>cw_reads := n, cw_store := u\<rparr>"
    using assms(1) by (auto simp: worker_step.simps after_access_def platform_defs cleanup_markSucceeded_def update_job_def)
  have "safe_move gone w (w\<lparr>cw_store := u\<rparr>)"
    by (rule safe_update_job [OF u]) (use assms(2,3) in \<open>auto simp: set_succeeded_def refers_def\<close>)
  then show ?thesis using k by (simp add: store_frame t)
qed

lemma step_failing:
  assumes "worker_step (createPlatform uuid clock sha errorName remove) (Failing job e) w = (k, t)"
  shows "safe_move gone w t \<and> worker_ok gone t k"
proof -
  let ?c = "storageCleanupErrorCode sha (errorName e)"
  define f where "f = (if STORAGE_CLEANUP_MAX_ATTEMPTS \<le> cj_attempts job then set_failed (clock (cw_reads w)) ?c
    else set_retrying (storageCleanupBackoffAt (cj_attempts job) (clock (cw_reads w))) (Some ?c))"
  let ?u = "(cw_store w)\<lparr>db_jobs := update_key cj_id (cj_id job) f (db_jobs (cw_store w))\<rparr>"
  have u: "update_job (cj_id job) f (cw_store w) = (Inr (), ?u)" by (simp add: update_job_def modify_run)
  have k: "worker_ok gone t k" and t: "t = w\<lparr>cw_reads := Suc (cw_reads w), cw_store := ?u\<rparr>"
    using assms
    by (cases "STORAGE_CLEANUP_MAX_ATTEMPTS \<le> cj_attempts job";
      auto simp: f_def worker_step.simps Let_def after_access_def platform_defs cleanup_markFailed_def cleanup_markRetrying_def update_job_def)+
  have "safe_move gone w (w\<lparr>cw_store := ?u\<rparr>)"
    by (rule safe_update_job [OF u]) (auto simp: f_def set_failed_def set_retrying_def split: if_splits)
  then show ?thesis using k by (simp add: store_frame t)
qed

lemma step_reporting:
  "worker_step (createPlatform uuid clock sha errorName remove) (Reporting job) w = (k, t) \<Longrightarrow> safe_move gone w t \<and> worker_ok gone t k"
  "worker_step (createPlatform uuid clock sha errorName remove) (ReportingFailure job failed c) w = (k, t) \<Longrightarrow> safe_move gone w t \<and> worker_ok gone t k"
  by (auto simp: worker_step.simps after_access_def platform_defs safe_same split: prod.splits sum.splits)

lemma step_ok:
  assumes "worker_step (createPlatform uuid clock sha errorName remove) k w = (k', t)" and "worker_ok gone w k" and "removes gone remove"
  shows "safe_move gone w t \<and> worker_ok gone t k'"
  using assms step_claiming step_reading step_guarding step_deleting step_completing step_failing step_reporting
  by (cases k) (fastforce simp: worker_step.simps intro: safe_same)+

section \<open>Every interleaving\<close>

lemma lookup_update_rows: "(\<And>j. cj_id (f j) = cj_id j) \<Longrightarrow>
    lookup_job (s\<lparr>db_jobs := update_rows p f (db_jobs s)\<rparr>) i = map_option (\<lambda>j. if p j then f j else j) (lookup_job s i)"
  by (simp add: lookup_job_def find_by_def find_update_rows)

lemma safe_recover: "safe_move gone w (snd (recoverAbandoned (createPlatform uuid clock sha errorName remove) now w))"
  unfolding safe_move_def done_gone_def
  by (auto simp: recoverAbandoned_def platform_defs store_recoverAbandoned_def lookup_update_rows set_retrying_def split: if_splits)

lemma safe_retry: "safe_move gone w (snd (cl_store (cs_requestRetry (cd_store (createPlatform uuid clock sha errorName remove)) i now) w))"
  using safe_update_job [of i "set_retrying now None" w "Inr ()" _ gone]
  by (auto simp: platform_defs requestRetry_def update_job_def set_retrying_def)

lemma safe_insert:
  assumes "upsertQueued uuid input (cw_store w) = (r, u)"
  shows "safe_move gone w (w\<lparr>cw_store := u\<rparr>)"
  using assms unfolding safe_move_def done_gone_def
  by (auto simp: upsertQueued_def Let_def lookup_job_def find_by_def find_append split: if_splits option.splits)

lemma safe_queue: "safe_move gone w (snd (queue (createPlatform uuid clock sha errorName remove) input w))"
proof -
  define v where "v = w\<lparr>cw_reads := Suc (cw_reads w), cw_ids := (if qc_correlationId input = None then Suc (cw_ids w) else cw_ids w)\<rparr>"
  have v: "cw_store v = cw_store w" "cw_objects v = cw_objects w" by (simp_all add: v_def)
  have "\<exists>job. queue (createPlatform uuid clock sha errorName remove) input w = cl_store (upsertQueued uuid job) v"
    by (cases "qc_correlationId input";
      simp add: v_def queue_def cl_correlationId_def createPlatform_def cleanupStore_def cl_clock_def eff_simps; blast)
  then obtain job where queued: "queue (createPlatform uuid clock sha errorName remove) input w = cl_store (upsertQueued uuid job) v" by blast
  obtain r u where run: "upsertQueued uuid job (cw_store v) = (r, u)" by (rule prod.exhaust)
  have "safe_move gone v (v\<lparr>cw_store := u\<rparr>)" by (rule safe_insert [OF run])
  then show ?thesis using v run by (simp add: queued cl_store_def zoom_def safe_move_def done_gone_def)
qed

definition system_ok where
  "system_ok gone x \<longleftrightarrow> done_gone gone (fst x) \<and> list_all (worker_ok gone (fst x)) (snd x)"

lemma workers_moved: "safe_move gone w t \<Longrightarrow> list_all (worker_ok gone w) ks \<Longrightarrow> list_all (worker_ok gone t) ks"
  using worker_ok_moves by (fastforce simp: list_all_iff)

lemma move_ok:
  assumes "system_ok gone x" and "removes gone remove"
  shows "system_ok gone (cleanup_move (createPlatform uuid clock sha errorName remove) m x)"
proof (cases x)
  case (Pair w ks)
  let ?d = "createPlatform uuid clock sha errorName remove"
  have ok: "done_gone gone w" "list_all (worker_ok gone w) ks" using assms(1) Pair by (simp_all add: system_ok_def)
  have safe: "system_ok gone (t, ks)" if "safe_move gone w t" for t
    using that ok workers_moved [OF that] by (simp add: system_ok_def safe_move_def)
  show ?thesis
  proof (cases m)
    case (StepWorker n)
    show ?thesis
    proof (cases "n < length ks")
      case True
      obtain k t where run: "worker_step ?d (ks ! n) w = (k, t)" by (rule prod.exhaust)
      have "worker_ok gone w (ks ! n)" using ok(2) True by (simp add: list_all_length)
      from step_ok [OF run this assms(2)] have "safe_move gone w t" "worker_ok gone t k" by simp_all
      then show ?thesis using safe [of t] True run StepWorker Pair
        by (simp add: system_ok_def list_all_length nth_list_update)
    qed (use Pair StepWorker assms(1) in simp)
  next
    case (KillWorker n)
    then show ?thesis using ok Pair by (auto simp: system_ok_def list_all_iff dest: in_set_takeD in_set_dropD)
  next
    case (ChangeArtifacts rows)
    then show ?thesis using Pair safe [of "w\<lparr>cw_store := (cw_store w)\<lparr>db_artifacts := rows\<rparr>\<rparr>"]
      by (simp add: safe_move_def done_gone_def lookup_job_def)
  next
    case (QueueJob input)
    show ?thesis using safe [OF safe_queue] by (simp add: Pair QueueJob)
  next
    case (RecoverJobs now)
    show ?thesis using safe [OF safe_recover] by (simp add: Pair RecoverJobs)
  next
    case (RecordRetry i now)
    show ?thesis using safe [OF safe_retry] by (simp add: Pair RecordRetry)
  qed (use Pair ok in \<open>simp add: system_ok_def\<close>)
qed

lemma system_ok_run:
  assumes "(cleanup_step (createPlatform uuid clock sha errorName remove))\<^sup>*\<^sup>* x y" and "system_ok gone x" and "removes gone remove"
  shows "system_ok gone y"
  using assms
proof (induction rule: rtranclp_induct)
  case (step y z)
  from step.hyps(2) obtain m where "z = cleanup_move (createPlatform uuid clock sha errorName remove) m y" by (auto elim: cleanup_step.cases)
  then show ?case using move_ok step by blast
qed

text \<open>C27 Eight steps of a worker that nothing interrupts are one run of \<open>process\<close>; and whatever the interleaving of
  the accesses of workers that process jobs, die, are recovered and retried, with cleanups queued and artifacts changing meanwhile,
  a job of the store is SUCCEEDED only when the storage has removed its object. The run starts without workers in a store whose SUCCEEDED jobs
  have their object removed; the storage keeps what it removed (no upload reuses a removed object's key).\<close>

theorem succeeded_means_deleted:
  assumes "removes gone removeObject" and "(cleanup_step (createPlatform uuid clock sha256 errorName removeObject))\<^sup>*\<^sup>* (w, []) (t, ks)"
    and "done_gone gone w"
  shows "worker_run 8 (createPlatform uuid clock sha256 errorName removeObject) (Claiming i now) v =
      (Finished (fst (process (createPlatform uuid clock sha256 errorName removeObject) i now v)),
       snd (process (createPlatform uuid clock sha256 errorName removeObject) i now v)) \<and>
    (\<forall>i j. lookup_job (cw_store t) i = Some j \<longrightarrow> cj_status j = CLEANUP_SUCCEEDED \<longrightarrow> gone (cw_objects t) (cj_objectKey j))"
  using worker_is_process system_ok_run [OF assms(2) _ assms(1)] assms(3) by (simp add: system_ok_def done_gone_def)

section \<open>Two workers on one platform\<close>

text \<open>A worker claims the first job and dies; its job is recovered and a second worker completes it, while a third is refused the
  object in use.\<close>

definition demo_moves :: "CleanupMove list" where
  "demo_moves = [StartWorker ''j1'' 10, StepWorker 0, StepWorker 0, KillWorker 0, RecoverJobs 2000000, StartWorker ''j1'' 2000001,
     StepWorker 0, StartWorker ''j2'' 2000001, StepWorker 0, StepWorker 1, StepWorker 1, StepWorker 0, StepWorker 0, StepWorker 1, StepWorker 0,
     StepWorker 1]"

definition object_gone :: "string list \<Rightarrow> string \<Rightarrow> bool" where
  "object_gone deleted object \<longleftrightarrow> object \<in> set deleted"

abbreviation demo_reached :: "(CleanupDb, string list, CleanupLog) CleanupWorld \<times> Worker list" where
  "demo_reached \<equiv> fold (cleanup_move demo_platform) demo_moves (demo_cleanup, [])"

lemma demo_reached_state:
  "map cj_status (db_jobs (cw_store (fst demo_reached))) = [CLEANUP_SUCCEEDED, CLEANUP_RETRYING]"
  "map cj_attempts (db_jobs (cw_store (fst demo_reached))) = [2, 1]"
  by code_simp+

lemma succeeded_means_deleted_witness:
  "map cj_status (db_jobs (cw_store (fst demo_reached))) = [CLEANUP_SUCCEEDED, CLEANUP_RETRYING] \<and>
   (\<exists>j. lookup_job (cw_store (fst demo_reached)) ''j1'' = Some j \<and> cj_status j = CLEANUP_SUCCEEDED \<and>
     object_gone (cw_objects (fst demo_reached)) (cj_objectKey j)) \<and>
   fst (process demo_platform ''j1'' 10 demo_cleanup) = Inr CleanupSucceeded"
proof -
  have removes: "removes object_gone (\<lambda>object. modify (\<lambda>deleted. object # deleted))"
    by (auto simp: removes_def object_gone_def modify_run)
  have start: "done_gone object_gone demo_cleanup"
    by (auto simp: done_gone_def demo_cleanup_def demo_cleanup_job_def lookup_job_def find_by_def split: if_splits)
  obtain t ks where reached: "demo_reached = (t, ks)" by (rule prod.exhaust)
  have run: "(cleanup_step demo_platform)\<^sup>*\<^sup>* (demo_cleanup, []) (t, ks)" using cleanup_moves reached by metis
  have one: "fst (worker_run 8 demo_platform (Claiming ''j1'' 10) demo_cleanup) = Finished (Inr CleanupSucceeded)" by code_simp
  have found: "map_option cj_status (lookup_job (cw_store (fst demo_reached)) ''j1'') = Some CLEANUP_SUCCEEDED" by code_simp
  show ?thesis
    using succeeded_means_deleted [OF removes run [unfolded demo_platform_def] start, folded demo_platform_def, of "''j1''" 10 demo_cleanup]
      one found demo_reached_state(1) reached by auto
qed

text \<open>The attempts of a job whose workers die are not bounded: recovery does not look at them.\<close>

definition dying_workers :: "CleanupMove list" where
  "dying_workers = concat (map (\<lambda>n. [StartWorker ''j1'' (n * 2000000), StepWorker 0, KillWorker 0, RecoverJobs (n * 2000000 + 1000000)]) [1, 2, 3, 4, 5, 6, 7, 8, 9, 10])"

lemma ten_attempts_in_this_run:
  "map_option (\<lambda>j. (cj_status j, cj_attempts j)) (lookup_job (cw_store (fst (fold (cleanup_move demo_platform) dying_workers (demo_cleanup, [])))) ''j1'') =
    Some (CLEANUP_RETRYING, 10)"
  by code_simp

text \<open>A worker that outlived the timeout turns a job that another one completed back to RETRYING.\<close>

definition late_worker :: "CleanupMove list" where
  "late_worker = [StartWorker ''j1'' 10, StepWorker 0, StepWorker 0, RecoverJobs 2000000, StartWorker ''j1'' 2000001] @ replicate 6 (StepWorker 0) @
     [ChangeArtifacts [\<lparr>art_objectKey = ''old.zip'', art_active = True, art_removedAt = None\<rparr>]]"

lemma succeeded_job_reopened_in_this_run:
  "map_option cj_status (lookup_job (cw_store (fst (fold (cleanup_move demo_platform) late_worker (demo_cleanup, [])))) ''j1'') = Some CLEANUP_SUCCEEDED"
  "map_option cj_status (lookup_job (cw_store (fst (fold (cleanup_move demo_platform) (late_worker @ [StepWorker 1, StepWorker 1])
     (demo_cleanup, [])))) ''j1'') = Some CLEANUP_RETRYING"
  by code_simp+

end
