(* ===== verification/Email_Outbox.thy ===== *)
theory Email_Outbox
  imports Js_Runtime
begin

text \<open>
  Durable e-mail: the contracts, failure classification, providers and outbox dispatch of
  \<open>platform/email\<close>. The Resend client and the logger are parameters. The lemmas show that the dispatch
  report accounts for every selected row, that the classification of a failure never carries more than
  its category, status and a bounded request id, and, for a store that fences claims, that a row is SENT
  only after the provider accepted its message.
\<close>

section \<open>Contracts\<close>

record EmailMessage =
  em_to :: string
  em_subject :: string
  em_text :: string
  em_idempotencyKey :: "string option"

datatype EmailOutboxStatus = MAIL_PENDING | MAIL_PROCESSING | MAIL_FAILED | MAIL_PERMANENTLY_FAILED | MAIL_SENT

record EmailOutboxRecord =
  er_id :: ident
  er_status :: EmailOutboxStatus
  er_attempts :: int
  er_message :: EmailMessage

record EmailClaim =
  ec_id :: ident
  ec_expectedStatus :: EmailOutboxStatus
  ec_expectedAttempts :: int
  ec_workerId :: ident
  ec_claimedAt :: time
  ec_claimExpiresAt :: time

record 'st EmailOutboxStore =
  es_recoverExpiredClaims :: "time \<Rightarrow> ('st, nat) eff"
  es_listDispatchable :: "int \<Rightarrow> int \<Rightarrow> ('st, EmailOutboxRecord list) eff"
  es_claim :: "EmailClaim \<Rightarrow> ('st, bool) eff"
  es_markSent :: "ident \<Rightarrow> ident \<Rightarrow> time \<Rightarrow> int \<Rightarrow> ('st, bool) eff"
  es_markFailed :: "ident \<Rightarrow> ident \<Rightarrow> EmailOutboxStatus \<Rightarrow> int \<Rightarrow> string \<Rightarrow> ('st, bool) eff"

section \<open>Failures\<close>

datatype EmailFailureCategory =
    QUOTA_EXCEEDED | RATE_LIMITED | AUTHENTICATION_FAILED | SENDER_REJECTED | INVALID_RECIPIENT
  | PROVIDER_TIMEOUT | PROVIDER_UNAVAILABLE | PROVIDER_REJECTED | UNKNOWN_PROVIDER_ERROR

fun category_name :: "EmailFailureCategory \<Rightarrow> string" where
  "category_name QUOTA_EXCEEDED = ''QUOTA_EXCEEDED''"
| "category_name RATE_LIMITED = ''RATE_LIMITED''"
| "category_name AUTHENTICATION_FAILED = ''AUTHENTICATION_FAILED''"
| "category_name SENDER_REJECTED = ''SENDER_REJECTED''"
| "category_name INVALID_RECIPIENT = ''INVALID_RECIPIENT''"
| "category_name PROVIDER_TIMEOUT = ''PROVIDER_TIMEOUT''"
| "category_name PROVIDER_UNAVAILABLE = ''PROVIDER_UNAVAILABLE''"
| "category_name PROVIDER_REJECTED = ''PROVIDER_REJECTED''"
| "category_name UNKNOWN_PROVIDER_ERROR = ''UNKNOWN_PROVIDER_ERROR''"

record SafeEmailFailure =
  sf_provider :: string
  sf_category :: EmailFailureCategory
  sf_status :: "int option"
  sf_requestId :: "string option"

text \<open>
  The properties of a thrown object that the classification reads: the numbers \<open>statusCode\<close> and \<open>status\<close>,
  the strings \<open>name\<close>, \<open>code\<close> and \<open>message\<close>, the object \<open>headers\<close> with its request id, and \<open>requestId\<close>.
\<close>

record ErrorFields =
  ef_statusCode :: "int option"
  ef_status :: "int option"
  ef_name :: "string option"
  ef_code :: "string option"
  ef_message :: "string option"
  ef_headers :: "string option option"
  ef_requestId :: "string option"

definition no_fields :: ErrorFields where
  "no_fields = \<lparr>ef_statusCode = None, ef_status = None, ef_name = None, ef_code = None, ef_message = None,
     ef_headers = None, ef_requestId = None\<rparr>"

text \<open>A thrown value: an \<open>EmailDeliveryError\<close>, another object, or a value that is not an object.\<close>

datatype email_error = EmailDeliveryError SafeEmailFailure | OtherError ErrorFields | PrimitiveError

definition line_end :: "char \<Rightarrow> bool" where
  "line_end c \<longleftrightarrow> of_char c \<in> {10, 13 :: nat}"

text \<open>\<open>/a.?b/.test(s)\<close> and \<open>/a.*b/.test(s)\<close>, where the dot is any character but a line end.\<close>

fun gap_matches :: "string \<Rightarrow> string \<Rightarrow> string \<Rightarrow> bool" where
  "gap_matches a b [] = False"
| "gap_matches a b (c # cs) =
     ((startsWith (c # cs) a \<and>
        (let rest = drop (length a) (c # cs) in
         startsWith rest b \<or> (case rest of [] \<Rightarrow> False | d # ds \<Rightarrow> \<not> line_end d \<and> startsWith ds b))) \<or>
      gap_matches a b cs)"

fun within_line :: "string \<Rightarrow> string \<Rightarrow> string \<Rightarrow> bool" where
  "within_line a b [] = False"
| "within_line a b (c # cs) =
     ((startsWith (c # cs) a \<and> js_includes (takeWhile (\<lambda>d. \<not> line_end d) (drop (length a) (c # cs))) b) \<or>
      within_line a b cs)"

definition thrown_fields :: "email_error \<Rightarrow> ErrorFields" where
  "thrown_fields e =
     (case e of
        EmailDeliveryError safe \<Rightarrow> no_fields\<lparr>ef_name := Some ''EmailDeliveryError'', ef_message := Some (category_name (sf_category safe))\<rparr>
      | OtherError f \<Rightarrow> f
      | PrimitiveError \<Rightarrow> no_fields)"

definition failure_category :: "int option \<Rightarrow> string \<Rightarrow> string \<Rightarrow> EmailFailureCategory" where
  "failure_category status name message =
     (if status = Some 408 \<or> status = Some 504 \<or> js_includes name ''timeout'' \<or> js_includes message ''timeout''
      then PROVIDER_TIMEOUT
      else if status = Some 401 \<or> status = Some 403 \<or> js_includes (name @ message) ''auth'' \<or>
           gap_matches ''api'' ''key'' (name @ message) \<or> js_includes (name @ message) ''unauthoriz''
      then AUTHENTICATION_FAILED
      else if status = Some 429 \<or> gap_matches ''rate'' ''limit'' (name @ message) then RATE_LIMITED
      else if matches_any [''quota'', ''limit exceeded''] (name @ message) then QUOTA_EXCEEDED
      else if matches_any [''recipient'', ''email address''] (name @ message) \<or> within_line ''invalid'' ''to'' (name @ message)
      then INVALID_RECIPIENT
      else if matches_any [''sender'', ''from'', ''domain''] (name @ message) then SENDER_REJECTED
      else case status of
             None \<Rightarrow> UNKNOWN_PROVIDER_ERROR
           | Some n \<Rightarrow> if n \<ge> 500 then PROVIDER_UNAVAILABLE else if n \<ge> 400 then PROVIDER_REJECTED else UNKNOWN_PROVIDER_ERROR)"

definition normalizeEmailFailure :: "email_error \<Rightarrow> string \<Rightarrow> SafeEmailFailure" where
  "normalizeEmailFailure e provider =
     (let value = thrown_fields e;
          status = (case ef_statusCode value of Some n \<Rightarrow> Some n | None \<Rightarrow> ef_status value);
          name = toLowerCase (or_else (case ef_name value of Some n \<Rightarrow> Some n | None \<Rightarrow> ef_code value) []);
          message = toLowerCase (or_else (ef_message value) []);
          requestId = (case ef_headers value of
              Some h \<Rightarrow> (if or_else h [] = [] then None else Some (or_else h []))
            | None \<Rightarrow> ef_requestId value)
      in \<lparr>sf_provider = provider, sf_category = failure_category status name message, sf_status = status,
          sf_requestId = (if truthy requestId then map_option (take 128) requestId else None)\<rparr>)"

definition safeEmailFailureCode :: "email_error \<Rightarrow> string" where
  "safeEmailFailureCode e =
     (case e of EmailDeliveryError safe \<Rightarrow> category_name (sf_category safe)
              | _ \<Rightarrow> category_name (sf_category (normalizeEmailFailure e ''resend'')))"

section \<open>Providers\<close>

type_synonym 'pv email_provider = "EmailMessage \<Rightarrow> 'pv \<Rightarrow> (email_error + unit) \<times> 'pv"

record ResendEmailConfiguration =
  rc_apiKey :: string
  rc_senderName :: string
  rc_senderEmail :: string

text \<open>
  The client's \<open>send\<close> takes the API key, the sender, the message and the idempotency key, and returns
  the error of the response or throws.
\<close>

type_synonym 'pv resend_client =
  "string \<Rightarrow> string \<Rightarrow> EmailMessage \<Rightarrow> string option \<Rightarrow> 'pv \<Rightarrow> (email_error + email_error option) \<times> 'pv"

definition createResendEmailProvider ::
    "('pv \<Rightarrow> (email_error + ResendEmailConfiguration) \<times> 'pv) \<Rightarrow> 'pv resend_client \<Rightarrow> 'pv email_provider" where
  "createResendEmailProvider resolveConfiguration client message p =
     (case resolveConfiguration p of
        (Inl e, q) \<Rightarrow> (Inl e, q)
      | (Inr c, q) \<Rightarrow>
          (case client (rc_apiKey c) (rc_senderName c @ '' <'' @ rc_senderEmail c @ ''>'') message
               (if truthy (em_idempotencyKey message) then em_idempotencyKey message else None) q of
             (Inr None, r) \<Rightarrow> (Inr (), r)
           | (Inr (Some e), r) \<Rightarrow> (Inl (EmailDeliveryError (normalizeEmailFailure e ''resend'')), r)
           | (Inl e, r) \<Rightarrow>
               (Inl (case e of EmailDeliveryError safe \<Rightarrow> e
                             | _ \<Rightarrow> EmailDeliveryError (normalizeEmailFailure e ''resend'')), r)))"

definition createLoggingEmailProvider :: "(EmailMessage \<Rightarrow> 'pv \<Rightarrow> 'pv) \<Rightarrow> 'pv email_provider" where
  "createLoggingEmailProvider log message p = (Inr (), log message p)"

section \<open>Dispatch\<close>

record DispatchResult =
  dr_selected :: nat
  dr_recovered :: nat
  dr_sent :: nat
  dr_failed :: nat
  dr_terminal :: nat
  dr_skipped :: nat
  dr_workerId :: ident

record ('st, 'pv) MailWorld =
  mw_store :: 'st
  mw_provider :: 'pv
  mw_reads :: nat
  mw_ids :: nat
  mw_log :: "DispatchResult list"

record ('st, 'pv) MailDependencies =
  md_store :: "'st EmailOutboxStore"
  md_send :: "'pv email_provider"
  md_now :: "nat \<Rightarrow> time"
  md_randomUUID :: "nat \<Rightarrow> ident"

record DispatchOptions =
  opt_limit :: "int option"
  opt_workerId :: "ident option"
  opt_claimTtlMs :: "int option"
  opt_maxAttempts :: "int option"
  opt_failureCode :: "(email_error \<Rightarrow> string) option"

definition mail_store :: "('st, 'a) eff \<Rightarrow> (('st, 'pv) MailWorld, 'a) eff" where
  "mail_store = zoom mw_store (\<lambda>s w. w\<lparr>mw_store := s\<rparr>)"

definition mail_clock :: "('st, 'pv) MailDependencies \<Rightarrow> (('st, 'pv) MailWorld, time) eff" where
  "mail_clock d = bnd (gets (\<lambda>w. md_now d (mw_reads w))) (\<lambda>t.
     bnd (modify (\<lambda>w. w\<lparr>mw_reads := Suc (mw_reads w)\<rparr>)) (\<lambda>_. ret t))"

definition mail_uuid :: "('st, 'pv) MailDependencies \<Rightarrow> (('st, 'pv) MailWorld, ident) eff" where
  "mail_uuid d = bnd (gets (\<lambda>w. md_randomUUID d (mw_ids w))) (\<lambda>i.
     bnd (modify (\<lambda>w. w\<lparr>mw_ids := Suc (mw_ids w)\<rparr>)) (\<lambda>_. ret i))"

definition provider_send :: "('st, 'pv) MailDependencies \<Rightarrow> EmailMessage \<Rightarrow> (('st, 'pv) MailWorld, email_error + unit) eff" where
  "provider_send d message w =
     (case md_send d message (mw_provider w) of (r, p) \<Rightarrow> (Inr r, w\<lparr>mw_provider := p\<rparr>))"

text \<open>An error of the store inside the \<open>try\<close> block, as the classification sees it.\<close>

definition store_error :: "error \<Rightarrow> email_error" where
  "store_error e = OtherError (no_fields\<lparr>ef_name := Some ''error'', ef_message := Some e\<rparr>)"

definition count_sent :: "DispatchResult \<Rightarrow> DispatchResult" where
  "count_sent c = c\<lparr>dr_sent := Suc (dr_sent c)\<rparr>"

definition count_failed :: "bool \<Rightarrow> DispatchResult \<Rightarrow> DispatchResult" where
  "count_failed permanent c = c\<lparr>dr_failed := Suc (dr_failed c), dr_terminal := dr_terminal c + (if permanent then 1 else 0)\<rparr>"

definition count_skipped :: "DispatchResult \<Rightarrow> DispatchResult" where
  "count_skipped c = c\<lparr>dr_skipped := Suc (dr_skipped c)\<rparr>"

text \<open>The \<open>try\<close> block for one claimed row: sent and marked, or the error that was thrown.\<close>

definition send_row :: "('st, 'pv) MailDependencies \<Rightarrow> ident \<Rightarrow> EmailOutboxRecord \<Rightarrow>
    (('st, 'pv) MailWorld, email_error + bool) eff" where
  "send_row d workerId row =
     bnd (provider_send d ((er_message row)\<lparr>em_idempotencyKey := Some (or_else (em_idempotencyKey (er_message row)) (er_id row))\<rparr>)) (\<lambda>r.
     case r of
       Inl e \<Rightarrow> ret (Inl e)
     | Inr _ \<Rightarrow>
         bnd (mail_clock d) (\<lambda>sentAt.
         bnd (caught (mail_store (es_markSent (md_store d) (er_id row) workerId sentAt (er_attempts row + 1)))) (\<lambda>completed.
         ret (map_sum store_error id completed))))"

definition fail_row :: "('st, 'pv) MailDependencies \<Rightarrow> (email_error \<Rightarrow> string) \<Rightarrow> int \<Rightarrow> ident \<Rightarrow> EmailOutboxRecord \<Rightarrow> email_error \<Rightarrow> DispatchResult \<Rightarrow>
    (('st, 'pv) MailWorld, DispatchResult) eff" where
  "fail_row d failureCode maxAttempts workerId row e c =
     (let attempts = er_attempts row + 1; permanentlyFailed = (attempts \<ge> maxAttempts) in
      bnd (mail_store (es_markFailed (md_store d) (er_id row) workerId
             (if permanentlyFailed then MAIL_PERMANENTLY_FAILED else MAIL_FAILED) attempts (failureCode e))) (\<lambda>completed.
      ret (if completed then count_failed permanentlyFailed c else count_skipped c)))"

definition dispatch_row :: "('st, 'pv) MailDependencies \<Rightarrow> (email_error \<Rightarrow> string) \<Rightarrow> int \<Rightarrow> ident \<Rightarrow> time \<Rightarrow> time \<Rightarrow> EmailOutboxRecord \<Rightarrow> DispatchResult \<Rightarrow>
    (('st, 'pv) MailWorld, DispatchResult) eff" where
  "dispatch_row d failureCode maxAttempts workerId claimedAt claimExpiresAt row c =
     (if (er_status row \<noteq> MAIL_PENDING \<and> er_status row \<noteq> MAIL_FAILED) \<or> er_attempts row \<ge> maxAttempts
      then ret (count_skipped c)
      else
      bnd (mail_store (es_claim (md_store d)
             \<lparr>ec_id = er_id row, ec_expectedStatus = er_status row, ec_expectedAttempts = er_attempts row,
              ec_workerId = workerId, ec_claimedAt = claimedAt, ec_claimExpiresAt = claimExpiresAt\<rparr>)) (\<lambda>claimed.
      if \<not> claimed then ret (count_skipped c)
      else
      bnd (send_row d workerId row) (\<lambda>outcome.
      case outcome of
        Inr completed \<Rightarrow> ret (if completed then count_sent c else count_skipped c)
      | Inl e \<Rightarrow> fail_row d failureCode maxAttempts workerId row e c)))"

fun dispatch_rows :: "('st, 'pv) MailDependencies \<Rightarrow> (email_error \<Rightarrow> string) \<Rightarrow> int \<Rightarrow> ident \<Rightarrow> time \<Rightarrow> time \<Rightarrow> EmailOutboxRecord list \<Rightarrow> DispatchResult \<Rightarrow>
    (('st, 'pv) MailWorld, DispatchResult) eff" where
  "dispatch_rows d failureCode maxAttempts workerId claimedAt claimExpiresAt [] c = ret c"
| "dispatch_rows d failureCode maxAttempts workerId claimedAt claimExpiresAt (row # rows) c =
     bnd (dispatch_row d failureCode maxAttempts workerId claimedAt claimExpiresAt row c)
       (dispatch_rows d failureCode maxAttempts workerId claimedAt claimExpiresAt rows)"

definition dispatchEmailOutbox :: "('st, 'pv) MailDependencies \<Rightarrow> DispatchOptions \<Rightarrow> (('st, 'pv) MailWorld, DispatchResult) eff" where
  "dispatchEmailOutbox d options =
     (let limit = or_else (opt_limit options) 20; maxAttempts = or_else (opt_maxAttempts options) 5;
          claimTtlMs = or_else (opt_claimTtlMs options) (5 * 60000);
          failureCode = or_else (opt_failureCode options) safeEmailFailureCode
      in
      bnd (case opt_workerId options of Some i \<Rightarrow> ret i | None \<Rightarrow> bnd (mail_uuid d) (\<lambda>u. ret (''email-worker:'' @ u))) (\<lambda>workerId.
      bnd (mail_clock d) (\<lambda>claimedAt.
      bnd (mail_store (es_recoverExpiredClaims (md_store d) claimedAt)) (\<lambda>recovered.
      bnd (mail_store (es_listDispatchable (md_store d) limit maxAttempts)) (\<lambda>rows.
      bnd (dispatch_rows d failureCode maxAttempts workerId claimedAt (claimedAt + claimTtlMs) rows
             \<lparr>dr_selected = length rows, dr_recovered = recovered, dr_sent = 0, dr_failed = 0, dr_terminal = 0,
              dr_skipped = 0, dr_workerId = workerId\<rparr>) (\<lambda>result.
      bnd (modify (\<lambda>w. w\<lparr>mw_log := mw_log w @ [result]\<rparr>)) (\<lambda>_.
      ret result)))))))"

section \<open>Lemmas\<close>

lemma mail_store_parts [keeps_intro]:
  "keeps (\<lambda>w. P (mw_store w)) (mail_clock d)" "keeps (\<lambda>w. P (mw_store w)) (mail_uuid d)"
  unfolding mail_clock_def mail_uuid_def by (intro keeps_intro, simp)+

lemma mail_store_send [keeps_intro]: "keeps (\<lambda>w. P (mw_store w)) (provider_send d m)"
  by (rule keepsI) (simp add: provider_send_def split: prod.splits)

lemma mail_store_keeps: "keeps P m \<Longrightarrow> keeps (\<lambda>w. P (mw_store w)) (mail_store m)"
  unfolding mail_store_def by (erule keeps_zoom_part) simp

definition handled :: "DispatchResult \<Rightarrow> nat" where
  "handled c = dr_sent c + dr_failed c + dr_skipped c"

text \<open>A step of the loop handles one row.\<close>

definition one_more :: "DispatchResult \<Rightarrow> DispatchResult \<Rightarrow> bool" where
  "one_more c c' \<longleftrightarrow> handled c' = Suc (handled c) \<and> dr_selected c' = dr_selected c \<and>
     (dr_terminal c \<le> dr_failed c \<longrightarrow> dr_terminal c' \<le> dr_failed c')"

lemma one_more_counts [simp]:
  "one_more c (count_sent c)" "one_more c (count_failed b c)" "one_more c (count_skipped c)"
  by (simp_all add: one_more_def handled_def count_sent_def count_failed_def count_skipped_def)

lemma fail_row_one: "fail_row d fc k i row e c w = (Inr c', w') \<Longrightarrow> one_more c c'"
  by (auto simp: fail_row_def Let_def ret_run elim!: bnd_Inr_E split: if_splits)

lemma dispatch_row_one: "dispatch_row d fc k i t u row c w = (Inr c', w') \<Longrightarrow> one_more c c'"
  by (auto simp: dispatch_row_def ret_run elim!: bnd_Inr_E split: if_splits sum.splits) (erule fail_row_one)+

lemma dispatch_rows_handled:
  assumes "dispatch_rows d fc k i t u rows c w = (Inr c', w')"
  shows "handled c' = handled c + length rows \<and> dr_selected c' = dr_selected c \<and>
    (dr_terminal c \<le> dr_failed c \<longrightarrow> dr_terminal c' \<le> dr_failed c')"
  using assms
proof (induction rows arbitrary: c w)
  case Nil
  then show ?case by (simp add: ret_run)
next
  case (Cons row rows)
  from Cons.prems obtain c1 w1 where "dispatch_row d fc k i t u row c w = (Inr c1, w1)"
      and "dispatch_rows d fc k i t u rows c1 w1 = (Inr c', w')" by (auto elim: bnd_Inr_E)
  then show ?case using Cons.IH dispatch_row_one unfolding one_more_def by fastforce
qed

text \<open>The report of a dispatch accounts for every selected message: it was sent, failed or skipped, terminal
  failures are among the failed, and the report is what is logged.\<close>

theorem dispatch_accounts:
  assumes "dispatchEmailOutbox d options w = (Inr r, w')"
  shows "dr_sent r + dr_failed r + dr_skipped r = dr_selected r \<and> dr_terminal r \<le> dr_failed r \<and> last (mw_log w') = r"
  using assms unfolding dispatchEmailOutbox_def Let_def
  by (auto elim!: bnd_Inr_E simp: ret_run modify_run handled_def dest!: dispatch_rows_handled)

text \<open>Whatever the Resend client reports or throws, the provider's failure is an \<open>EmailDeliveryError\<close> that
  carries the provider name, a category, a status and at most 128 characters of a request id: never the
  message of the error (when the configuration resolves).\<close>

theorem resend_failure_safe:
  assumes "resolveConfiguration p = (Inr c, q)" and "createResendEmailProvider resolveConfiguration client m p = (Inl e, r)"
    and "\<And>k f m i q f' r. client k f m i q \<noteq> (Inl (EmailDeliveryError f'), r)"
  shows "\<exists>f. e = EmailDeliveryError f \<and> sf_provider f = ''resend'' \<and> (\<forall>i. sf_requestId f = Some i \<longrightarrow> length i \<le> 128) \<and>
    safeEmailFailureCode e = category_name (sf_category f)"
proof -
  have bounded: "sf_provider (normalizeEmailFailure x ''resend'') = ''resend'' \<and>
      (\<forall>i. sf_requestId (normalizeEmailFailure x ''resend'') = Some i \<longrightarrow> length i \<le> 128)" for x
    by (simp add: normalizeEmailFailure_def Let_def) (auto split: if_splits)
  have "\<exists>x. e = EmailDeliveryError (normalizeEmailFailure x ''resend'')"
    using assms by (auto simp: createResendEmailProvider_def split: prod.splits sum.splits option.splits email_error.splits)
  then show ?thesis using bounded by (auto simp: safeEmailFailureCode_def)
qed

section \<open>The contract of a provider\<close>

text \<open>
  \<open>accepted p\<close> are the idempotency keys of the messages the provider has accepted: a message it returns
  from is accepted, and what was accepted stays so.
\<close>

locale email_provider =
  fixes send :: "'pv email_provider" and accepted :: "'pv \<Rightarrow> string set"
  assumes send_ok: "send m p = (Inr u, q) \<Longrightarrow> em_idempotencyKey m = Some k \<Longrightarrow> k \<in> accepted q"
    and send_keeps: "send m p = (r, q) \<Longrightarrow> accepted p \<subseteq> accepted q"
begin

lemma provider_send_grows:
  assumes "md_send d = send" and "provider_send d m w = (r, w')"
  shows "mw_store w' = mw_store w \<and> accepted (mw_provider w) \<subseteq> accepted (mw_provider w')"
proof -
  obtain x p where "send m (mw_provider w) = (x, p)" by fastforce
  moreover from send_keeps [OF this] have "accepted (mw_provider w) \<subseteq> accepted p" .
  ultimately show ?thesis using assms by (auto simp: provider_send_def)
qed

lemma provider_send_accepts:
  assumes "md_send d = send" and "em_idempotencyKey m = Some k" and "provider_send d m w = (Inr (Inr u), w')"
  shows "k \<in> accepted (mw_provider w')"
proof -
  obtain x p where x: "send m (mw_provider w) = (x, p)" by fastforce
  then have "x = Inr u" and "mw_provider w' = p" using assms(1,3) by (auto simp: provider_send_def)
  then show ?thesis using send_ok x assms(2) by blast
qed

end

text \<open>The logging provider with the messages it was given as its state.\<close>

definition record_message :: "EmailMessage \<Rightarrow> EmailMessage list \<Rightarrow> EmailMessage list" where
  "record_message m ms = ms @ [m]"

definition message_keys :: "EmailMessage list \<Rightarrow> string set" where
  "message_keys ms = {k. \<exists>m\<in>set ms. em_idempotencyKey m = Some k}"

interpretation logging: email_provider "createLoggingEmailProvider record_message" message_keys
  by unfold_locales (auto simp: createLoggingEmailProvider_def record_message_def message_keys_def)

section \<open>What dispatch keeps of a store\<close>

text \<open>
  A predicate that every operation of the store keeps, as dispatch calls it: rows are claimed and
  completed with the attempts of a listed row plus one, below or at the limit.
\<close>

locale outbox_invariant =
  fixes store :: "'st EmailOutboxStore" and P :: "'st \<Rightarrow> bool" and limit :: int
  assumes recover_keeps: "keeps P (es_recoverExpiredClaims store now)"
    and list_keeps: "keeps P (es_listDispatchable store n limit)"
    and claim_keeps: "ec_expectedStatus c \<in> {MAIL_PENDING, MAIL_FAILED} \<Longrightarrow> keeps P (es_claim store c)"
    and sent_keeps: "k \<le> limit \<Longrightarrow> keeps P (es_markSent store i worker t k)"
    and failed_keeps: "k \<le> limit \<Longrightarrow> status = (if k \<ge> limit then MAIL_PERMANENTLY_FAILED else MAIL_FAILED) \<Longrightarrow>
      keeps P (es_markFailed store i worker status k code)"
begin

lemma dispatch_row_keeps:
  assumes "md_store d = store"
  shows "keeps (\<lambda>w. P (mw_store w)) (dispatch_row d fc limit i t u row c)"
  unfolding dispatch_row_def send_row_def fail_row_def Let_def assms
  by (intro keeps_intro mail_store_keeps keeps_caught claim_keeps sent_keeps failed_keeps) (auto simp: not_le)

lemma dispatch_keeps:
  assumes "md_store d = store" and "or_else (opt_maxAttempts options) 5 = limit"
  shows "keeps (\<lambda>w. P (mw_store w)) (dispatchEmailOutbox d options)"
proof -
  have "keeps (\<lambda>w. P (mw_store w)) (dispatch_rows d fc limit i t u rows c)" for fc i t u rows c
  proof (induction rows arbitrary: c)
    case (Cons row rows)
    show ?case unfolding dispatch_rows.simps by (rule keeps_bnd [OF dispatch_row_keeps [OF assms(1)] Cons.IH])
  qed (simp add: keeps_intro)
  then show ?thesis
    unfolding dispatchEmailOutbox_def Let_def assms
    by (intro keeps_intro mail_store_keeps recover_keeps list_keeps) simp_all
qed

end

text \<open>
  A store tells which messages are sent: only \<open>markSent\<close> adds one, and the messages it lists carry their
  row's id as idempotency key, or none.
\<close>

locale outbox_delivery = email_provider send accepted
  for send :: "'pv email_provider" and accepted +
  fixes store :: "'st EmailOutboxStore" and sent :: "'st \<Rightarrow> string set"
  assumes recover_sent: "keeps (\<lambda>s. sent s \<subseteq> S) (es_recoverExpiredClaims store now)"
    and list_sent: "triple (\<lambda>s. sent s \<subseteq> S) (es_listDispatchable store n k)
      (\<lambda>rows s. (\<forall>e\<in>set rows. em_idempotencyKey (er_message e) \<in> {None, Some (er_id e)}) \<and> sent s \<subseteq> S) (\<lambda>s. sent s \<subseteq> S)"
    and claim_sent: "ec_expectedStatus c \<noteq> MAIL_SENT \<Longrightarrow> keeps (\<lambda>s. sent s \<subseteq> S) (es_claim store c)"
    and mark_sent: "i \<in> S \<Longrightarrow> keeps (\<lambda>s. sent s \<subseteq> S) (es_markSent store i worker t k)"
    and failed_sent: "status \<noteq> MAIL_SENT \<Longrightarrow> keeps (\<lambda>s. sent s \<subseteq> S) (es_markFailed store i worker status k code)"
begin

definition delivered :: "string set \<Rightarrow> ('st, 'pv) MailWorld \<Rightarrow> bool" where
  "delivered S w \<longleftrightarrow> sent (mw_store w) \<subseteq> S \<union> accepted (mw_provider w)"

lemma delivered_store:
  assumes "\<And>T. S \<subseteq> T \<Longrightarrow> keeps (\<lambda>s. sent s \<subseteq> T) m"
  shows "keeps (delivered S) (mail_store m)"
proof (rule keepsI)
  show "delivered S (snd (mail_store m w))" if "delivered S w" for w
    using that keepsD [OF assms [of "S \<union> accepted (mw_provider w)"], of "mw_store w"]
    by (auto simp: delivered_def mail_store_def zoom_run split: prod.splits)
qed

lemma delivered_parts:
  "keeps (delivered S) (mail_clock d)" "keeps (delivered S) (mail_uuid d)"
  unfolding mail_clock_def mail_uuid_def by (intro keeps_intro, simp add: delivered_def)+

lemma provider_send_delivered:
  assumes "md_send d = send" and "em_idempotencyKey m = Some i"
  shows "triple (delivered S) (provider_send d m)
    (\<lambda>r w. delivered S w \<and> (r = Inr () \<longrightarrow> i \<in> accepted (mw_provider w))) (delivered S)"
proof (rule tripleI)
  show "delivered S w'" if "delivered S w" "provider_send d m w = (Inl e, w')" for w w' e
    using that provider_send_grows [OF assms(1) that(2)] by (auto simp: delivered_def)
  show "delivered S w' \<and> (r = Inr () \<longrightarrow> i \<in> accepted (mw_provider w'))"
    if "delivered S w" "provider_send d m w = (Inr r, w')" for w w' r
    using that provider_send_grows [OF assms(1) that(2)] provider_send_accepts [OF assms, of w "()" w']
    by (auto simp: delivered_def)
qed

lemma complete_delivered:
  "keeps (\<lambda>w. delivered S w \<and> i \<in> accepted (mw_provider w))
     (bnd (mail_clock d) (\<lambda>t. bnd (caught (mail_store (es_markSent store i worker t k))) (\<lambda>r. ret (map_sum store_error id r))))"
    (is "keeps ?D _")
proof -
  have "keeps ?D (mail_clock d)" unfolding mail_clock_def by (intro keeps_intro) (auto simp: delivered_def)
  moreover have "keeps ?D (mail_store (es_markSent store i worker t k))" for t
  proof (rule keepsI)
    fix w
    assume D: "?D w"
    obtain r s where m: "es_markSent store i worker t k (mw_store w) = (r, s)" by fastforce
    have "sent s \<subseteq> S \<union> accepted (mw_provider w)"
      using keepsD [OF mark_sent [of i "S \<union> accepted (mw_provider w)"] _ m] D by (auto simp: delivered_def)
    then show "?D (snd (mail_store (es_markSent store i worker t k) w))"
      using D m by (simp add: delivered_def mail_store_def zoom_run)
  qed
  ultimately show ?thesis by (intro keeps_intro)
qed

lemma send_row_delivered:
  assumes "md_send d = send" and "md_store d = store" and "em_idempotencyKey (er_message row) \<in> {None, Some (er_id row)}"
  shows "keeps (delivered S) (send_row d worker row)"
  unfolding send_row_def keeps_triple assms(2)
proof (rule triple_bnd [OF provider_send_delivered [OF assms(1), where i = "er_id row"]])
  show "em_idempotencyKey ((er_message row)\<lparr>em_idempotencyKey := Some (or_else (em_idempotencyKey (er_message row)) (er_id row))\<rparr>) =
      Some (er_id row)" using assms(3) by auto
  fix r :: "email_error + unit"
  show "triple (\<lambda>w. delivered S w \<and> (r = Inr () \<longrightarrow> er_id row \<in> accepted (mw_provider w)))
     (case r of Inl e \<Rightarrow> ret (Inl e)
      | Inr _ \<Rightarrow> bnd (mail_clock d) (\<lambda>t. bnd (caught (mail_store (es_markSent store (er_id row) worker t (er_attempts row + 1))))
          (\<lambda>r. ret (map_sum store_error id r))))
     (\<lambda>_. delivered S) (delivered S)"
    using triple_post [OF triple_keeps [OF complete_delivered [of S "er_id row" d worker "er_attempts row + 1"]], where Q = "\<lambda>_. delivered S" and E = "delivered S"]
    by (cases r) (auto intro: triple_ret)
qed

lemma dispatch_delivered:
  assumes send: "md_send d = send" and store: "md_store d = store"
  shows "keeps (delivered S) (dispatchEmailOutbox d options)"
proof -
  have row: "keeps (delivered S) (dispatch_row d fc k i t u row c)"
    if "em_idempotencyKey (er_message row) \<in> {None, Some (er_id row)}" for fc k i t u row c
    unfolding dispatch_row_def fail_row_def Let_def store
    by (intro keeps_intro send_row_delivered delivered_store claim_sent failed_sent send store that) (auto split: if_splits)
  have rows: "keeps (delivered S) (dispatch_rows d fc k i t u rows c)"
    if "\<forall>e\<in>set rows. em_idempotencyKey (er_message e) \<in> {None, Some (er_id e)}" for fc k i t u rows c
    using that
  proof (induction rows arbitrary: c)
    case (Cons e rows)
    show ?case unfolding dispatch_rows.simps by (rule keeps_bnd [OF row Cons.IH]) (use Cons.prems in auto)
  qed (simp add: keeps_intro)
  have list: "triple (delivered S) (mail_store (es_listDispatchable store n k))
      (\<lambda>rows w. (\<forall>e\<in>set rows. em_idempotencyKey (er_message e) \<in> {None, Some (er_id e)}) \<and> delivered S w) (delivered S)" for n k
  proof (rule tripleI)
    fix w w' r
    assume D: "delivered S w"
    let ?T = "S \<union> accepted (mw_provider w)"
    have T: "sent (mw_store w) \<subseteq> ?T" using D by (simp add: delivered_def)
    show "delivered S w'" if "mail_store (es_listDispatchable store n k) w = (Inl e, w')" for e
      using that triple_Inl [OF list_sent T, of n k e] by (auto simp: delivered_def mail_store_def zoom_run split: prod.splits dest!: subsetD)
    show "(\<forall>e\<in>set r. em_idempotencyKey (er_message e) \<in> {None, Some (er_id e)}) \<and> delivered S w'"
      if "mail_store (es_listDispatchable store n k) w = (Inr r, w')"
      using that triple_Inr [OF list_sent T, of n k r] by (auto simp: delivered_def mail_store_def zoom_run split: prod.splits dest!: subsetD)
  qed
  show ?thesis
    unfolding dispatchEmailOutbox_def Let_def store
    by (intro keeps_intro delivered_parts keeps_bnd_result [OF list] rows delivered_store recover_sent)
      (auto simp: delivered_def)
qed

end

end
