(* ===== verification/Email_Web.thy ===== *)
theory Email_Web
  imports Email_Outbox Scheduler_Policy
begin

text \<open>
  The web application's durable mail: the PostgreSQL outbox store and rendering of \<open>apps/web/email.ts\<close>, and
  the scheduled handler \<open>emailLifecycle\<close> of \<open>apps/web/scheduler/handlers.ts\<close>. The enum types the database
  knows are part of its state, since \<open>markFailed\<close> casts to one. The lemmas show which rows dispatch may
  change and how, and what the handler leaves behind.
\<close>

section \<open>The outbox table\<close>

record OutboxRow =
  ob_id :: ident
  ob_type :: string
  ob_recipient :: string
  ob_subject :: string
  ob_payload :: json_object
  ob_status :: EmailOutboxStatus
  ob_attempts :: int
  ob_lastError :: "string option"
  ob_sentAt :: "time option"
  ob_claimedBy :: "ident option"
  ob_claimedAt :: "time option"
  ob_claimExpiresAt :: "time option"

record OutboxDb =
  ob_rows :: "OutboxRow list"
  ob_enum_types :: "string list"

definition DURABLE_EMAIL_TYPES :: "string list" where
  "DURABLE_EMAIL_TYPES = [''INVOICE_ISSUED'', ''SECURITY_SESSIONS_REVOKED'', ''SECURITY_NEW_SESSION'', ''SECURITY_ACCOUNT_CHANGED'']"

text \<open>\<open>String(value ?? "")\<close> for a scalar.\<close>

fun json_text :: "json \<Rightarrow> string" where
  "json_text (JString s) = s"
| "json_text (JNumber n) = (if n < 0 then CHR ''-'' # decimal (- n) else decimal n)"
| "json_text (JBool b) = (if b then ''true'' else ''false'')"
| "json_text JNull = []"

definition render :: "string \<Rightarrow> json_object \<Rightarrow> error + string" where
  "render type payload =
     (let invoice = (case js_map_get payload ''invoiceNumber'' of None \<Rightarrow> [] | Some v \<Rightarrow> json_text v) in
      if type = ''INVOICE_ISSUED'' then Inr (''Commercial invoice '' @ invoice @ '' is available in your customer portal.'')
      else if type = ''SECURITY_SESSIONS_REVOKED'' then
        Inr ''Administrator session access was revoked. If this was not you, reset your password and review the security dashboard.''
      else if type = ''SECURITY_NEW_SESSION'' then
        Inr ''A new administrator session was created. Review the security dashboard if this was not you.''
      else if type = ''SECURITY_ACCOUNT_CHANGED'' then
        Inr ''A high-impact administrator security setting changed. Review the security dashboard if this was not you.''
      else Inl ''EMAIL_TYPE_NOT_DELIVERABLE'')"

definition release_claim :: "OutboxRow \<Rightarrow> OutboxRow" where
  "release_claim r = r\<lparr>ob_claimedBy := None, ob_claimedAt := None, ob_claimExpiresAt := None\<rparr>"

definition claim_expired :: "time \<Rightarrow> OutboxRow \<Rightarrow> bool" where
  "claim_expired now r \<longleftrightarrow>
     ob_status r = MAIL_PROCESSING \<and> (case ob_claimExpiresAt r of None \<Rightarrow> False | Some t \<Rightarrow> t < now)"

definition recoverExpiredClaims :: "time \<Rightarrow> (OutboxDb, nat) eff" where
  "recoverExpiredClaims now =
     bnd (gets (\<lambda>s. count_rows (claim_expired now) (ob_rows s))) (\<lambda>count.
     bnd (modify (\<lambda>s. s\<lparr>ob_rows := update_rows (claim_expired now)
       (\<lambda>r. (release_claim r)\<lparr>ob_status := MAIL_FAILED\<rparr>) (ob_rows s)\<rparr>)) (\<lambda>_.
     ret count))"

definition dispatchable :: "int \<Rightarrow> OutboxRow \<Rightarrow> bool" where
  "dispatchable maxAttempts r \<longleftrightarrow>
     ob_status r \<in> {MAIL_PENDING, MAIL_FAILED} \<and> ob_attempts r < maxAttempts \<and> ob_type r \<in> set DURABLE_EMAIL_TYPES"

definition outbox_record :: "OutboxRow \<Rightarrow> error + EmailOutboxRecord" where
  "outbox_record r =
     map_sum id (\<lambda>text. \<lparr>er_id = ob_id r, er_status = ob_status r, er_attempts = ob_attempts r,
       er_message = \<lparr>em_to = ob_recipient r, em_subject = ob_subject r, em_text = text, em_idempotencyKey = Some (ob_id r)\<rparr>\<rparr>)
       (render (ob_type r) (ob_payload r))"

text \<open>Rows are in the order of their creation.\<close>

definition listDispatchable :: "int \<Rightarrow> int \<Rightarrow> (OutboxDb, EmailOutboxRecord list) eff" where
  "listDispatchable limit maxAttempts =
     bnd (gets (\<lambda>s. take (nat limit) (filter (dispatchable maxAttempts) (ob_rows s))))
       (collect (\<lambda>r. from_result (outbox_record r)))"

text \<open>An update by primary key under a further condition, which reports whether it changed the row.\<close>

definition update_outbox :: "ident \<Rightarrow> (OutboxRow \<Rightarrow> bool) \<Rightarrow> (OutboxRow \<Rightarrow> OutboxRow) \<Rightarrow> (OutboxDb, bool) eff" where
  "update_outbox i p f s =
     (if (case find_by ob_id i (ob_rows s) of None \<Rightarrow> False | Some r \<Rightarrow> p r)
      then (Inr True, s\<lparr>ob_rows := update_key ob_id i f (ob_rows s)\<rparr>)
      else (Inr False, s))"

definition claim_row :: "EmailClaim \<Rightarrow> (OutboxDb, bool) eff" where
  "claim_row c =
     update_outbox (ec_id c) (\<lambda>r. ob_status r = ec_expectedStatus c \<and> ob_attempts r = ec_expectedAttempts c)
       (\<lambda>r. r\<lparr>ob_status := MAIL_PROCESSING, ob_claimedBy := Some (ec_workerId c), ob_claimedAt := Some (ec_claimedAt c),
              ob_claimExpiresAt := Some (ec_claimExpiresAt c)\<rparr>)"

definition claimed_by :: "ident \<Rightarrow> OutboxRow \<Rightarrow> bool" where
  "claimed_by workerId r \<longleftrightarrow> ob_status r = MAIL_PROCESSING \<and> ob_claimedBy r = Some workerId"

definition mail_markSent :: "ident \<Rightarrow> ident \<Rightarrow> time \<Rightarrow> int \<Rightarrow> (OutboxDb, bool) eff" where
  "mail_markSent i workerId sentAt attempts =
     update_outbox i (claimed_by workerId)
       (\<lambda>r. (release_claim r)\<lparr>ob_status := MAIL_SENT, ob_sentAt := Some sentAt, ob_attempts := attempts, ob_lastError := None\<rparr>)"

text \<open>The statement casts the new status to the enum type \<open>EmailOutboxStatus\<close>.\<close>

definition mail_markFailed :: "ident \<Rightarrow> ident \<Rightarrow> EmailOutboxStatus \<Rightarrow> int \<Rightarrow> string \<Rightarrow> (OutboxDb, bool) eff" where
  "mail_markFailed i workerId status attempts failureCode =
     bnd (gets ob_enum_types) (\<lambda>types.
     if ''EmailOutboxStatus'' \<notin> set types then throw ''type \"EmailOutboxStatus\" does not exist''
     else update_outbox i (claimed_by workerId)
       (\<lambda>r. (release_claim r)\<lparr>ob_status := status, ob_attempts := attempts, ob_lastError := Some failureCode\<rparr>))"

definition emailOutboxStore :: "OutboxDb EmailOutboxStore" where
  "emailOutboxStore =
     \<lparr>es_recoverExpiredClaims = recoverExpiredClaims, es_listDispatchable = listDispatchable, es_claim = claim_row,
      es_markSent = mail_markSent, es_markFailed = mail_markFailed\<rparr>"

text \<open>The application's dispatch: five attempts, and a worker id and claim time that a caller may choose.\<close>

definition web_dispatch :: "(OutboxDb, 'pv) MailDependencies \<Rightarrow> int \<Rightarrow> ident option \<Rightarrow> int option \<Rightarrow>
    ((OutboxDb, 'pv) MailWorld, DispatchResult) eff" where
  "web_dispatch d limit workerId claimTtlMs =
     dispatchEmailOutbox (d\<lparr>md_store := emailOutboxStore\<rparr>)
       \<lparr>opt_limit = Some limit, opt_workerId = workerId, opt_claimTtlMs = claimTtlMs, opt_maxAttempts = Some 5,
        opt_failureCode = None\<rparr>"

section \<open>The scheduled handler\<close>

definition RETIRED_COMMERCE_EMAIL_TYPES :: "string list" where
  "RETIRED_COMMERCE_EMAIL_TYPES =
     [''PAYMENT_RECEIPT'', ''LICENSE_ISSUED'', ''PAYMENT_FAILED'', ''REFUND_CONFIRMED'', ''RENEWAL_REMINDER'',
      ''SUBSCRIPTION_EXPIRED'', ''TRIAL_ENDING'', ''TRIAL_EXPIRED'', ''LICENSE_EXPIRED'', ''CUSTOMER_LIFECYCLE_REVIEW'',
      ''PAYMENT_RECONCILIATION_REVIEW'']"

definition open_row :: "OutboxRow \<Rightarrow> bool" where
  "open_row r \<longleftrightarrow> ob_status r \<in> {MAIL_PENDING, MAIL_FAILED}"

definition retired_row :: "OutboxRow \<Rightarrow> bool" where
  "retired_row r \<longleftrightarrow> ob_type r \<in> set RETIRED_COMMERCE_EMAIL_TYPES \<and> open_row r"

definition exhausted_row :: "OutboxRow \<Rightarrow> bool" where
  "exhausted_row r \<longleftrightarrow> ob_status r = MAIL_FAILED \<and> ob_attempts r \<ge> 5"

definition retire :: "OutboxRow \<Rightarrow> OutboxRow" where
  "retire r = (release_claim r)\<lparr>ob_status := MAIL_PERMANENTLY_FAILED, ob_lastError := Some ''EMAIL_CHANNEL_RETIRED''\<rparr>"

definition count_json :: "nat \<Rightarrow> json" where
  "count_json n = JNumber (int n)"

definition dispatch_summary :: "DispatchResult \<Rightarrow> JobSummary" where
  "dispatch_summary r =
     [(''selected'', count_json (dr_selected r)), (''recovered'', count_json (dr_recovered r)), (''sent'', count_json (dr_sent r)),
      (''failed'', count_json (dr_failed r)), (''terminal'', count_json (dr_terminal r)), (''skipped'', count_json (dr_skipped r)),
      (''workerId'', JString (dr_workerId r))]"

definition emailLifecycle :: "(OutboxDb, 'pv) MailDependencies \<Rightarrow> JobContext \<Rightarrow> ((OutboxDb, 'pv) MailWorld, JobSummary) eff" where
  "emailLifecycle d context =
     bnd (gets (\<lambda>w. count_rows retired_row (ob_rows (mw_store w)))) (\<lambda>retired.
     bnd (gets (\<lambda>w. count_rows (\<lambda>r. ob_type r \<in> set DURABLE_EMAIL_TYPES \<and> open_row r \<and> ob_attempts r < 5) (ob_rows (mw_store w)))) (\<lambda>pending.
     bnd (gets (\<lambda>w. count_rows (\<lambda>r. ob_status r = MAIL_PERMANENTLY_FAILED \<or> exhausted_row r) (ob_rows (mw_store w)))) (\<lambda>terminal.
     if ctx_dryRun context
     then ret [(''pending'', count_json pending), (''terminal'', count_json terminal), (''retired'', count_json retired)]
     else
     bnd (gets (\<lambda>w. count_rows retired_row (ob_rows (mw_store w)))) (\<lambda>retiredCount.
     bnd (mail_store (modify (\<lambda>s. s\<lparr>ob_rows := update_rows retired_row retire (ob_rows s)\<rparr>))) (\<lambda>_.
     bnd (web_dispatch d 100 None None) (\<lambda>result.
     bnd (mail_store (modify (\<lambda>s. s\<lparr>ob_rows := update_rows exhausted_row (\<lambda>r. r\<lparr>ob_status := MAIL_PERMANENTLY_FAILED\<rparr>) (ob_rows s)\<rparr>))) (\<lambda>_.
     ret (dispatch_summary result @ [(''terminalBefore'', count_json terminal), (''retired'', count_json retiredCount)]))))))))"

section \<open>Lemmas\<close>

lemma update_key_split:
  assumes "find_by key k rows = Some r"
  shows "\<exists>pre post. rows = pre @ r # post \<and> key r = k \<and> update_key key k f rows = pre @ f r # post"
  using assms
proof (induction rows)
  case (Cons q rows)
  show ?case
  proof (cases "key q = k")
    case True
    then have "q = r" using Cons.prems by (simp add: find_by_def)
    then show ?thesis using True by (intro exI [of _ "[]"] exI [of _ rows]) simp
  next
    case False
    then obtain pre post where "rows = pre @ r # post" "key r = k" "update_key key k f rows = pre @ f r # post"
      using Cons by (auto simp: find_by_def)
    then show ?thesis using False by (intro exI [of _ "q # pre"] exI [of _ post]) simp
  qed
qed (simp add: find_by_def)

text \<open>A guarded update changes at most the one row that satisfies the guard.\<close>

lemma update_outbox_cases:
  obtains "update_outbox i p f s = (Inr False, s)"
  | pre r post where "ob_rows s = pre @ r # post" and "ob_id r = i" and "p r"
      and "update_outbox i p f s = (Inr True, s\<lparr>ob_rows := pre @ f r # post\<rparr>)"
proof (cases "case find_by ob_id i (ob_rows s) of None \<Rightarrow> False | Some r \<Rightarrow> p r")
  case True
  then obtain r where r: "find_by ob_id i (ob_rows s) = Some r" "p r" by (auto split: option.splits)
  from update_key_split [OF r(1), of f] show ?thesis using that(2) r by (auto simp: update_outbox_def)
next
  case False
  then show ?thesis using that(1) by (auto simp: update_outbox_def)
qed

text \<open>A property of every row, and rows that are settled, survive updates that respect them.\<close>

definition all_rows :: "(OutboxRow \<Rightarrow> bool) \<Rightarrow> OutboxDb \<Rightarrow> bool" where
  "all_rows P s \<longleftrightarrow> (\<forall>r\<in>set (ob_rows s). P r)"

lemma all_rows_update:
  assumes "\<And>r. ob_id r = i \<Longrightarrow> p r \<Longrightarrow> P r \<Longrightarrow> P (f r)"
  shows "keeps (all_rows P) (update_outbox i p f)"
proof (rule keepsI)
  show "all_rows P (snd (update_outbox i p f s))" if "all_rows P s" for s
    using that assms by (cases rule: update_outbox_cases [of i p f s]) (auto simp: all_rows_def)
qed

lemma all_rows_update_rows: "(\<And>r. p r \<Longrightarrow> P r \<Longrightarrow> P (f r)) \<Longrightarrow> all_rows P s \<Longrightarrow>
    all_rows P (s\<lparr>ob_rows := update_rows p f (ob_rows s)\<rparr>)"
  by (auto simp: all_rows_def set_update_rows)

definition settled :: "OutboxRow \<Rightarrow> bool" where
  "settled r \<longleftrightarrow> ob_status r \<in> {MAIL_SENT, MAIL_PERMANENTLY_FAILED}"

definition has_rows :: "OutboxRow set \<Rightarrow> OutboxDb \<Rightarrow> bool" where
  "has_rows R s \<longleftrightarrow> R \<subseteq> set (ob_rows s)"

lemma has_rows_update:
  assumes "\<And>r. r \<in> R \<Longrightarrow> \<not> p r"
  shows "keeps (has_rows R) (update_outbox i p f)"
proof (rule keepsI)
  show "has_rows R (snd (update_outbox i p f s))" if "has_rows R s" for s
    using that assms by (cases rule: update_outbox_cases [of i p f s]) (auto simp: has_rows_def)
qed

lemma has_rows_update_rows: "(\<And>r. r \<in> R \<Longrightarrow> \<not> p r) \<Longrightarrow> has_rows R s \<Longrightarrow>
    has_rows R (s\<lparr>ob_rows := update_rows p f (ob_rows s)\<rparr>)"
  by (fastforce simp: has_rows_def set_update_rows image_iff)

section \<open>Rows are well formed\<close>

text \<open>A row holds a claim exactly while it is being processed, and at most five attempts; a sent row knows when.\<close>

definition row_ok :: "OutboxRow \<Rightarrow> bool" where
  "row_ok r \<longleftrightarrow> ((ob_status r = MAIL_PROCESSING) = (ob_claimedBy r \<noteq> None)) \<and>
     ((ob_claimedBy r = None) = (ob_claimedAt r = None)) \<and> ((ob_claimedBy r = None) = (ob_claimExpiresAt r = None)) \<and>
     (ob_status r = MAIL_SENT \<longrightarrow> ob_sentAt r \<noteq> None) \<and> ob_attempts r \<le> 5"

lemma keeps_listDispatchable: "keeps P (listDispatchable n k)"
  unfolding listDispatchable_def by (intro keeps_intro)

lemma keeps_recover:
  "(\<And>s. P s \<Longrightarrow> P (s\<lparr>ob_rows := update_rows (claim_expired now) (\<lambda>r. (release_claim r)\<lparr>ob_status := MAIL_FAILED\<rparr>) (ob_rows s)\<rparr>)) \<Longrightarrow>
   keeps P (recoverExpiredClaims now)"
  unfolding recoverExpiredClaims_def by (intro keeps_intro)

lemmas store_ops = emailOutboxStore_def EmailOutboxStore.simps

lemma keeps_markFailed:
  assumes "keeps P (update_outbox i (claimed_by worker)
    (\<lambda>r. (release_claim r)\<lparr>ob_status := status, ob_attempts := k, ob_lastError := Some code\<rparr>))"
  shows "keeps P (mail_markFailed i worker status k code)"
  unfolding mail_markFailed_def by (intro keeps_intro assms)

interpretation outbox_ok: outbox_invariant emailOutboxStore "all_rows row_ok" 5
proof unfold_locales
  show "keeps (all_rows row_ok) (es_recoverExpiredClaims emailOutboxStore now)" for now
    unfolding store_ops
    by (rule keeps_recover, rule all_rows_update_rows) (auto simp: row_ok_def release_claim_def)
  show "keeps (all_rows row_ok) (es_listDispatchable emailOutboxStore n 5)" for n
    unfolding store_ops by (rule keeps_listDispatchable)
  show "keeps (all_rows row_ok) (es_claim emailOutboxStore c)" for c
    unfolding store_ops claim_row_def by (rule all_rows_update, auto simp: row_ok_def)
  show "keeps (all_rows row_ok) (es_markSent emailOutboxStore i worker t k)" if "k \<le> 5" for k i worker t
    unfolding store_ops mail_markSent_def by (rule all_rows_update) (use that in \<open>auto simp: row_ok_def release_claim_def\<close>)
  show "keeps (all_rows row_ok) (es_markFailed emailOutboxStore i worker status k code)"
    if "k \<le> 5" "status = (if k \<ge> 5 then MAIL_PERMANENTLY_FAILED else MAIL_FAILED)" for k i worker status code
    unfolding store_ops by (intro keeps_markFailed all_rows_update) (use that in \<open>auto simp: row_ok_def release_claim_def\<close>)
qed

text \<open>Settled rows, sent or given up, are never touched again.\<close>

lemma settled_kept: "(\<And>r. r \<in> R \<Longrightarrow> settled r) \<Longrightarrow> outbox_invariant emailOutboxStore (has_rows R) 5"
proof unfold_locales
  assume R: "\<And>r. r \<in> R \<Longrightarrow> settled r"
  show "keeps (has_rows R) (es_recoverExpiredClaims emailOutboxStore now)" for now
    unfolding store_ops
    by (rule keeps_recover, rule has_rows_update_rows) (auto dest!: R simp: settled_def claim_expired_def)
  show "keeps (has_rows R) (es_listDispatchable emailOutboxStore n 5)" for n
    unfolding store_ops by (rule keeps_listDispatchable)
  show "keeps (has_rows R) (es_claim emailOutboxStore c)" if "ec_expectedStatus c \<in> {MAIL_PENDING, MAIL_FAILED}" for c
    unfolding store_ops claim_row_def by (rule has_rows_update) (use that in \<open>auto dest!: R simp: settled_def\<close>)
  show "keeps (has_rows R) (es_markSent emailOutboxStore i worker t k)" for k i worker t
    unfolding store_ops mail_markSent_def by (rule has_rows_update, auto dest!: R simp: settled_def claimed_by_def)
  show "keeps (has_rows R) (es_markFailed emailOutboxStore i worker status k code)" for k i worker status code
    unfolding store_ops by (intro keeps_markFailed has_rows_update, auto dest!: R simp: settled_def claimed_by_def)
qed

section \<open>Sent rows were delivered\<close>

definition sent_ids :: "OutboxDb \<Rightarrow> string set" where
  "sent_ids s = ob_id ` set (filter (\<lambda>r. ob_status r = MAIL_SENT) (ob_rows s))"

lemma sent_ids_rows: "sent_ids s \<subseteq> S \<longleftrightarrow> all_rows (\<lambda>r. ob_status r = MAIL_SENT \<longrightarrow> ob_id r \<in> S) s"
  by (auto simp: sent_ids_def all_rows_def)

lemma listed_keys:
  "triple P (listDispatchable n k) (\<lambda>rows s. (\<forall>e\<in>set rows. em_idempotencyKey (er_message e) \<in> {None, Some (er_id e)}) \<and> P s) P"
proof -
  have "triple P (collect (\<lambda>r. from_result (outbox_record r)) rows)
    (\<lambda>es s. (\<forall>e\<in>set es. em_idempotencyKey (er_message e) \<in> {None, Some (er_id e)}) \<and> P s) P" for rows
  proof (induction rows)
    case (Cons r rows)
    have "em_idempotencyKey (er_message e) \<in> {None, Some (er_id e)}" if "outbox_record r = Inr e" for e
      using that by (auto simp: outbox_record_def map_sum_def split: sum.splits)
    then show ?case unfolding collect.simps
      by (intro triple_bnd_from_result triple_bnd [OF Cons.IH] triple_ret) auto
  qed (auto intro: triple_ret)
  then show ?thesis unfolding listDispatchable_def by (intro triple_bnd_keeps keeps_intro)
qed

lemma web_delivery_axioms: "outbox_delivery_axioms emailOutboxStore sent_ids"
proof (rule outbox_delivery_axioms.intro; unfold sent_ids_rows)
  fix S now n k c worker t status code and i :: ident
  let ?P = "all_rows (\<lambda>r. ob_status r = MAIL_SENT \<longrightarrow> ob_id r \<in> S)"
  show "keeps ?P (es_recoverExpiredClaims emailOutboxStore now)"
    unfolding store_ops
    by (rule keeps_recover, rule all_rows_update_rows) (auto simp: release_claim_def)
  show "triple ?P (es_listDispatchable emailOutboxStore n k)
      (\<lambda>rows s. (\<forall>e\<in>set rows. em_idempotencyKey (er_message e) \<in> {None, Some (er_id e)}) \<and> ?P s) ?P"
    unfolding store_ops by (rule listed_keys)
  show "keeps ?P (es_claim emailOutboxStore c)"
    unfolding store_ops claim_row_def by (rule all_rows_update, simp)
  show "keeps ?P (es_markSent emailOutboxStore i worker t k)" if "i \<in> S"
    unfolding store_ops mail_markSent_def by (rule all_rows_update) (use that in \<open>simp add: release_claim_def\<close>)
  show "keeps ?P (es_markFailed emailOutboxStore i worker status k code)" if "status \<noteq> MAIL_SENT"
    unfolding store_ops by (intro keeps_markFailed all_rows_update) (use that in \<open>simp_all add: release_claim_def\<close>)
qed

lemma web_delivery: "email_provider send accepted \<Longrightarrow> outbox_delivery send accepted emailOutboxStore sent_ids"
  by (rule outbox_delivery.intro [OF _ web_delivery_axioms])

interpretation web_logging: outbox_delivery "createLoggingEmailProvider record_message" message_keys
    emailOutboxStore sent_ids
  by (rule web_delivery [OF logging.email_provider_axioms])

lemma web_dispatch_keeps:
  assumes "outbox_invariant emailOutboxStore P 5"
  shows "keeps (\<lambda>w. P (mw_store w)) (web_dispatch d n i t)"
  unfolding web_dispatch_def by (rule outbox_invariant.dispatch_keeps [OF assms]) simp_all

lemma emailLifecycle_keeps:
  assumes "outbox_invariant emailOutboxStore P 5"
    and "\<And>s. P s \<Longrightarrow> P (s\<lparr>ob_rows := update_rows retired_row retire (ob_rows s)\<rparr>)"
    and "\<And>s. P s \<Longrightarrow> P (s\<lparr>ob_rows := update_rows exhausted_row (\<lambda>r. r\<lparr>ob_status := MAIL_PERMANENTLY_FAILED\<rparr>) (ob_rows s)\<rparr>)"
  shows "keeps (\<lambda>w. P (mw_store w)) (emailLifecycle d context)"
  unfolding emailLifecycle_def by (intro keeps_intro mail_store_keeps web_dispatch_keeps assms)

text \<open>A run that is not a dry run retires, dispatches and then closes the exhausted rows.\<close>

lemma emailLifecycle_run:
  assumes "emailLifecycle d context w = (Inr summary, w')" and "\<not> ctx_dryRun context"
  obtains result w1 where "web_dispatch d 100 None None
      (w\<lparr>mw_store := (mw_store w)\<lparr>ob_rows := update_rows retired_row retire (ob_rows (mw_store w))\<rparr>\<rparr>) = (Inr result, w1)"
    and "ob_rows (mw_store w') = update_rows exhausted_row (\<lambda>r. r\<lparr>ob_status := MAIL_PERMANENTLY_FAILED\<rparr>) (ob_rows (mw_store w1))"
  using assms by (auto simp: emailLifecycle_def mail_store_def eff_simps split: prod.splits sum.splits)

text \<open>C35 Dispatch and the mail handler keep every outbox row well formed, whether they return or throw: a row
  holds a claim (worker, time and expiry) exactly while it is PROCESSING, a sent row has its time, and no row
  has more than five attempts.\<close>

theorem outbox_rows_ok:
  assumes "\<forall>r\<in>set (ob_rows (mw_store w)). row_ok r"
  shows "(\<forall>r\<in>set (ob_rows (mw_store (snd (emailLifecycle d context w)))). row_ok r) \<and>
    (\<forall>r\<in>set (ob_rows (mw_store (snd (web_dispatch d n i t w)))). row_ok r)"
proof -
  have "keeps (\<lambda>w. all_rows row_ok (mw_store w)) (emailLifecycle d context)"
    by (rule emailLifecycle_keeps [OF outbox_ok.outbox_invariant_axioms]; rule all_rows_update_rows)
      (auto simp: row_ok_def retire_def release_claim_def open_row_def retired_row_def exhausted_row_def)
  moreover note web_dispatch_keeps [OF outbox_ok.outbox_invariant_axioms, of d n i t]
  ultimately show ?thesis using assms by (auto simp: all_rows_def [symmetric] dest: keeps_apply [where s = w])
qed

text \<open>A message that was sent or given up is never touched again, by dispatch or by the mail handler.\<close>

theorem settled_mail_untouched:
  assumes "r \<in> set (ob_rows (mw_store w))" and "settled r"
  shows "r \<in> set (ob_rows (mw_store (snd (emailLifecycle d context w)))) \<and>
    r \<in> set (ob_rows (mw_store (snd (web_dispatch d n i t w))))"
proof -
  have inv: "outbox_invariant emailOutboxStore (has_rows {r}) 5" by (rule settled_kept) (use assms(2) in simp)
  have "keeps (\<lambda>w. has_rows {r} (mw_store w)) (emailLifecycle d context)"
    by (rule emailLifecycle_keeps [OF inv]; rule has_rows_update_rows)
      (use assms(2) in \<open>auto simp: settled_def retired_row_def open_row_def exhausted_row_def\<close>)
  moreover note web_dispatch_keeps [OF inv, of d n i t]
  moreover have "has_rows {r} (mw_store w)" using assms(1) by (simp add: has_rows_def)
  ultimately have "has_rows {r} (mw_store (snd (emailLifecycle d context w)))"
      and "has_rows {r} (mw_store (snd (web_dispatch d n i t w)))"
    by (auto dest: keeps_apply [where s = w])
  then show ?thesis by (simp add: has_rows_def)
qed

text \<open>C29 Nothing is marked as sent that was not: with a provider that returns only for messages it accepts, every
  message that dispatch marks SENT was accepted under its row's id as idempotency key.\<close>

theorem sent_mail_was_accepted:
  assumes "email_provider (md_send d) accepted"
  shows "sent_ids (mw_store (snd (web_dispatch d n i t w))) \<subseteq>
    sent_ids (mw_store w) \<union> accepted (mw_provider (snd (web_dispatch d n i t w)))"
proof -
  note delivery = web_delivery [OF assms]
  have "keeps (outbox_delivery.delivered accepted sent_ids (sent_ids (mw_store w))) (web_dispatch d n i t)"
    unfolding web_dispatch_def by (rule outbox_delivery.dispatch_delivered [OF delivery]) simp_all
  from keeps_apply [OF this, of w] show ?thesis by (simp add: outbox_delivery.delivered_def [OF delivery])
qed

text \<open>The mail handler on a dry run changes nothing; otherwise, when it returns, every open message of a retired
  type has ended PERMANENTLY_FAILED with the code EMAIL_CHANNEL_RETIRED and without a claim, unsent, and no
  failed message with five attempts is left open.\<close>

theorem emailLifecycle_closes:
  assumes "emailLifecycle d context w = (Inr summary, w')"
  shows "(ctx_dryRun context \<longrightarrow> w' = w) \<and>
    (\<not> ctx_dryRun context \<longrightarrow>
      (\<forall>r\<in>set (ob_rows (mw_store w)). retired_row r \<longrightarrow> retire r \<in> set (ob_rows (mw_store w'))) \<and>
      (\<forall>r\<in>set (ob_rows (mw_store w')). \<not> exhausted_row r))"
proof (cases "ctx_dryRun context")
  case True
  then show ?thesis using assms by (auto simp: emailLifecycle_def eff_simps)
next
  case False
  let ?w0 = "w\<lparr>mw_store := (mw_store w)\<lparr>ob_rows := update_rows retired_row retire (ob_rows (mw_store w))\<rparr>\<rparr>"
  obtain result w1 where dispatch: "web_dispatch d 100 None None ?w0 = (Inr result, w1)"
    and rows: "ob_rows (mw_store w') = update_rows exhausted_row (\<lambda>r. r\<lparr>ob_status := MAIL_PERMANENTLY_FAILED\<rparr>) (ob_rows (mw_store w1))"
    using emailLifecycle_run [OF assms False] .
  have "retire r \<in> set (ob_rows (mw_store w'))" if r: "r \<in> set (ob_rows (mw_store w))" "retired_row r" for r
  proof -
    have settled: "settled (retire r)" by (simp add: settled_def retire_def)
    have "has_rows {retire r} (mw_store ?w0)" using r by (auto simp: has_rows_def set_update_rows image_iff)
    from keepsD [OF web_dispatch_keeps [OF settled_kept] this dispatch] settled
    have "has_rows {retire r} (mw_store w1)" by simp
    then show ?thesis unfolding rows
      by (auto simp: has_rows_def set_update_rows image_iff exhausted_row_def retire_def intro!: bexI [of _ "retire r"])
  qed
  moreover have "\<not> exhausted_row r" if "r \<in> set (ob_rows (mw_store w'))" for r
    using that unfolding rows by (auto simp: set_update_rows exhausted_row_def)
  ultimately show ?thesis using False by simp
qed

section \<open>Without the enum type\<close>

definition no_status_enum :: "OutboxDb \<Rightarrow> bool" where
  "no_status_enum s \<longleftrightarrow> ''EmailOutboxStatus'' \<notin> set (ob_enum_types s)"

lemma update_outbox_types: "(\<And>s rows. P (s\<lparr>ob_rows := rows\<rparr>) = P s) \<Longrightarrow> keeps P (update_outbox i p f)"
  by (rule keepsI) (auto simp: update_outbox_def)

lemma no_enum_rows: "no_status_enum (s\<lparr>ob_rows := rows\<rparr>) = no_status_enum s"
  by (simp add: no_status_enum_def)

lemmas keeps_no_enum = update_outbox_types [where P = no_status_enum, OF no_enum_rows]

interpretation no_enum: outbox_invariant emailOutboxStore no_status_enum 5
  by unfold_locales (unfold store_ops claim_row_def mail_markSent_def,
    intro keeps_recover keeps_listDispatchable keeps_markFailed keeps_no_enum; simp add: no_enum_rows)+

text \<open>The failure statement always throws, so a run that returns has recorded no failure.\<close>

lemma no_enum_fail_row:
  assumes "no_status_enum (mw_store w)" and "md_store d = emailOutboxStore"
  shows "\<exists>e w'. fail_row d fc k i row x c w = (Inl e, w')"
  using assms
  by (simp add: fail_row_def Let_def store_ops mail_markFailed_def mail_store_def no_status_enum_def eff_simps)

lemma no_enum_send_row:
  "md_store d = emailOutboxStore \<Longrightarrow> keeps (\<lambda>w. no_status_enum (mw_store w)) (send_row d i row)"
  unfolding send_row_def store_ops mail_markSent_def
  by (simp add: mail_markSent_def) (intro keeps_intro mail_store_keeps keeps_no_enum)

lemma no_enum_dispatch_row:
  assumes P: "no_status_enum (mw_store w)" and d: "md_store d = emailOutboxStore"
    and run: "dispatch_row d fc k i t u row c w = (Inr c', w')"
  shows "dr_failed c' = dr_failed c"
proof (cases "(er_status row \<noteq> MAIL_PENDING \<and> er_status row \<noteq> MAIL_FAILED) \<or> er_attempts row \<ge> k")
  case True
  then show ?thesis using run by (auto simp: dispatch_row_def ret_run count_skipped_def)
next
  case False
  let ?claim = "es_claim emailOutboxStore \<lparr>ec_id = er_id row, ec_expectedStatus = er_status row, ec_expectedAttempts = er_attempts row,
    ec_workerId = i, ec_claimedAt = t, ec_claimExpiresAt = u\<rparr>"
  have claim: "keeps (\<lambda>w. no_status_enum (mw_store w)) (mail_store ?claim)"
    by (intro mail_store_keeps) (simp add: store_ops claim_row_def keeps_no_enum)
  obtain claimed w1 where 1: "mail_store ?claim w = (Inr claimed, w1)"
    and rest: "(if \<not> claimed then ret (count_skipped c) else bnd (send_row d i row) (\<lambda>outcome. case outcome of
        Inr completed \<Rightarrow> ret (if completed then count_sent c else count_skipped c)
      | Inl e \<Rightarrow> fail_row d fc k i row e c)) w1 = (Inr c', w')"
    using run False unfolding dispatch_row_def d by (auto elim: bnd_Inr_E)
  have P1: "no_status_enum (mw_store w1)" by (rule keepsD [OF claim P 1])
  show ?thesis
  proof (cases claimed)
    case True
    then obtain outcome w2 where 2: "send_row d i row w1 = (Inr outcome, w2)"
      and last: "(case outcome of Inr completed \<Rightarrow> ret (if completed then count_sent c else count_skipped c)
        | Inl e \<Rightarrow> fail_row d fc k i row e c) w2 = (Inr c', w')"
      using rest by (auto elim: bnd_Inr_E)
    have P2: "no_status_enum (mw_store w2)" by (rule keepsD [OF no_enum_send_row [OF d] P1 2])
    show ?thesis
    proof (cases outcome)
      case (Inl e)
      then show ?thesis using last no_enum_fail_row [OF P2 d, of fc k i row e c] by auto
    qed (use last in \<open>auto simp: ret_run count_sent_def count_skipped_def split: if_splits\<close>)
  qed (use rest in \<open>auto simp: ret_run count_skipped_def\<close>)
qed

lemma no_enum_dispatch_rows:
  assumes "no_status_enum (mw_store w)" and d: "md_store d = emailOutboxStore"
    and "dispatch_rows d fc 5 i t u rows c w = (Inr c', w')"
  shows "dr_failed c' = dr_failed c"
  using assms(1,3)
proof (induction rows arbitrary: c w)
  case (Cons row rows)
  from Cons.prems(2) obtain c1 w1 where 1: "dispatch_row d fc 5 i t u row c w = (Inr c1, w1)"
      and 2: "dispatch_rows d fc 5 i t u rows c1 w1 = (Inr c', w')" by (auto elim: bnd_Inr_E)
  have "no_status_enum (mw_store w1)" by (rule keepsD [OF no_enum.dispatch_row_keeps [OF d] Cons.prems(1) 1])
  then show ?case using Cons.IH [OF _ 2] no_enum_dispatch_row [OF Cons.prems(1) d 1] by simp
qed (simp add: ret_run)

text \<open>Rows that were given up before.\<close>

lemma no_enum_given_up:
  "outbox_invariant emailOutboxStore (\<lambda>s. no_status_enum s \<and> all_rows (\<lambda>r. ob_status r = MAIL_PERMANENTLY_FAILED \<longrightarrow> r \<in> R) s) 5"
    (is "outbox_invariant _ ?P 5")
proof unfold_locales
  have both: "keeps ?P m" if "keeps no_status_enum m" "keeps (all_rows (\<lambda>r. ob_status r = MAIL_PERMANENTLY_FAILED \<longrightarrow> r \<in> R)) m" for m :: "(OutboxDb, 'a) eff"
    using that by (auto simp: keeps_def)
  show "keeps ?P (es_recoverExpiredClaims emailOutboxStore now)" for now
    unfolding store_ops by (rule both; rule keeps_recover; (simp add: no_enum_rows)?)
      (rule all_rows_update_rows, auto simp: release_claim_def)
  show "keeps ?P (es_listDispatchable emailOutboxStore n 5)" for n
    unfolding store_ops by (rule keeps_listDispatchable)
  show "keeps ?P (es_claim emailOutboxStore c)" for c
    unfolding store_ops claim_row_def by (rule both [OF keeps_no_enum]) (rule all_rows_update, simp)
  show "keeps ?P (es_markSent emailOutboxStore i worker t k)" for i worker t k
    unfolding store_ops mail_markSent_def by (rule both [OF keeps_no_enum]) (rule all_rows_update, simp)
  show "keeps ?P (es_markFailed emailOutboxStore i worker status k code)" for i worker status k code
    by (rule keepsI) (auto simp: store_ops mail_markFailed_def no_status_enum_def eff_simps)
qed

text \<open>In a database without the enum type that the failure statement casts to, no failed delivery is ever
  recorded: a dispatch that returns reports no failure, and, returning or not, it gives up no message.\<close>

theorem missing_enum_loses_failures:
  assumes "''EmailOutboxStatus'' \<notin> set (ob_enum_types (mw_store w))" and "web_dispatch d n i t w = (r, w')"
  shows "(\<forall>report. r = Inr report \<longrightarrow> dr_failed report = 0) \<and>
    (\<forall>row\<in>set (ob_rows (mw_store w')). ob_status row = MAIL_PERMANENTLY_FAILED \<longrightarrow> row \<in> set (ob_rows (mw_store w)))"
proof
  let ?d = "d\<lparr>md_store := emailOutboxStore\<rparr>"
  have P: "no_status_enum (mw_store w)" using assms(1) by (simp add: no_status_enum_def)
  show "\<forall>report. r = Inr report \<longrightarrow> dr_failed report = 0"
  proof (intro allI impI)
    fix report
    assume "r = Inr report"
    with assms(2) have run: "dispatchEmailOutbox ?d \<lparr>opt_limit = Some n, opt_workerId = i, opt_claimTtlMs = t, opt_maxAttempts = Some 5,
        opt_failureCode = None\<rparr> w = (Inr report, w')"
      unfolding web_dispatch_def by simp
    obtain wid w1 at w2 rec w3 rows w4 w5 where
      1: "(case i of Some i \<Rightarrow> ret i | None \<Rightarrow> bnd (mail_uuid ?d) (\<lambda>u. ret (''email-worker:'' @ u))) w = (Inr wid, w1)"
      and 2: "mail_clock ?d w1 = (Inr at, w2)"
      and 3: "mail_store (recoverExpiredClaims at) w2 = (Inr rec, w3)"
      and 4: "mail_store (listDispatchable n 5) w3 = (Inr rows, w4)"
      and 5: "dispatch_rows ?d safeEmailFailureCode 5 wid at (at + or_else t (5 * 60000)) rows
        \<lparr>dr_selected = length rows, dr_recovered = rec, dr_sent = 0, dr_failed = 0, dr_terminal = 0, dr_skipped = 0, dr_workerId = wid\<rparr> w4 =
        (Inr report, w5)"
      using run unfolding dispatchEmailOutbox_def Let_def store_ops
      by (auto elim!: bnd_Inr_E simp: ret_run store_ops)
    let ?P = "\<lambda>w. no_status_enum (mw_store w)"
    have "keeps ?P (case i of Some i \<Rightarrow> ret i | None \<Rightarrow> bnd (mail_uuid ?d) (\<lambda>u. ret (''email-worker:'' @ u)))"
      by (intro keeps_intro)
    from keepsD [OF this P 1] have "?P w1" .
    from keepsD [OF mail_store_parts(1) [where P = no_status_enum] this 2] have "?P w2" .
    from keepsD [OF mail_store_keeps [OF no_enum.recover_keeps [unfolded store_ops]] this 3] have "?P w3" .
    from keepsD [OF mail_store_keeps [OF keeps_listDispatchable [where P = no_status_enum]] this 4] have "?P w4" .
    from no_enum_dispatch_rows [OF this _ 5] show "dr_failed report = 0" by simp
  qed
  let ?R = "set (ob_rows (mw_store w))"
  have "all_rows (\<lambda>r. ob_status r = MAIL_PERMANENTLY_FAILED \<longrightarrow> r \<in> ?R) (mw_store w)" by (simp add: all_rows_def)
  with keepsD [OF web_dispatch_keeps [OF no_enum_given_up [of ?R]] _ assms(2)] P
  show "\<forall>row\<in>set (ob_rows (mw_store w')). ob_status row = MAIL_PERMANENTLY_FAILED \<longrightarrow> row \<in> ?R"
    by (simp add: all_rows_def)
qed

section \<open>A small outbox\<close>

text \<open>
  An invoice to a bad address, one to a good address, a message of a retired type and one already sent, in a
  database without the enum type, as the migrations leave it. The provider refuses the bad address.
\<close>

definition demo_mail_row :: "ident \<Rightarrow> string \<Rightarrow> string \<Rightarrow> EmailOutboxStatus \<Rightarrow> time option \<Rightarrow> OutboxRow" where
  "demo_mail_row i type recipient status sent =
     \<lparr>ob_id = i, ob_type = type, ob_recipient = recipient, ob_subject = ''s'', ob_payload = [], ob_status = status, ob_attempts = 0,
      ob_lastError = None, ob_sentAt = sent, ob_claimedBy = None, ob_claimedAt = None, ob_claimExpiresAt = None\<rparr>"

definition demo_outbox :: "(OutboxDb, EmailMessage list) MailWorld" where
  "demo_outbox = \<lparr>mw_store = \<lparr>ob_rows =
       [demo_mail_row ''m1'' ''INVOICE_ISSUED'' ''bad'' MAIL_PENDING None, demo_mail_row ''m2'' ''INVOICE_ISSUED'' ''good'' MAIL_PENDING None,
        demo_mail_row ''m3'' ''TRIAL_ENDING'' ''good'' MAIL_FAILED None, demo_mail_row ''m4'' ''INVOICE_ISSUED'' ''good'' MAIL_SENT (Some 1)],
       ob_enum_types = []\<rparr>, mw_provider = [], mw_reads = 0, mw_ids = 0, mw_log = []\<rparr>"

definition demo_provider :: "EmailMessage list email_provider" where
  "demo_provider m sent = (if em_to m = ''bad'' then (Inl (EmailDeliveryError
     \<lparr>sf_provider = ''resend'', sf_category = INVALID_RECIPIENT, sf_status = Some 422, sf_requestId = None\<rparr>), sent)
     else (Inr (), sent @ [m]))"

text \<open>Each clock reading is ten minutes after the one before.\<close>

definition demo_mail :: "EmailMessage list email_provider \<Rightarrow> (OutboxDb, EmailMessage list) MailDependencies" where
  "demo_mail send = \<lparr>md_store = emailOutboxStore, md_send = send, md_now = (\<lambda>n. int n * 600000), md_randomUUID = (\<lambda>n. replicate n CHR ''u'')\<rparr>"

definition all_good :: "EmailMessage list email_provider" where
  "all_good = createLoggingEmailProvider record_message"

definition demo_context :: JobContext where
  "demo_context = \<lparr>ctx_now = 0, ctx_dryRun = False, ctx_correlationId = ''c''\<rparr>"

lemma dispatch_accounts_witness:
  "\<exists>r w'. dispatchEmailOutbox (demo_mail all_good) \<lparr>opt_limit = None, opt_workerId = None, opt_claimTtlMs = None, opt_maxAttempts = None,
      opt_failureCode = None\<rparr> demo_outbox = (Inr r, w') \<and> dr_selected r = 2 \<and> dr_sent r + dr_failed r + dr_skipped r = 2"
proof -
  let ?o = "\<lparr>opt_limit = None, opt_workerId = None, opt_claimTtlMs = None, opt_maxAttempts = None, opt_failureCode = None\<rparr>"
  have "case fst (dispatchEmailOutbox (demo_mail all_good) ?o demo_outbox) of Inl _ \<Rightarrow> False | Inr r \<Rightarrow> dr_selected r = 2" by code_simp
  then obtain r w' where r: "dispatchEmailOutbox (demo_mail all_good) ?o demo_outbox = (Inr r, w')" "dr_selected r = 2"
    by (cases "dispatchEmailOutbox (demo_mail all_good) ?o demo_outbox") (auto split: sum.splits)
  then show ?thesis using dispatch_accounts [OF r(1)] by auto
qed

lemma outbox_rows_ok_witness:
  "list_all row_ok (ob_rows (mw_store (snd (emailLifecycle (demo_mail demo_provider) demo_context demo_outbox))))"
proof -
  have "\<forall>r\<in>set (ob_rows (mw_store demo_outbox)). row_ok r" by (simp add: demo_outbox_def demo_mail_row_def row_ok_def)
  from outbox_rows_ok [OF this] show ?thesis by (simp add: list_all_iff)
qed

lemma settled_mail_untouched_witness:
  "demo_mail_row ''m4'' ''INVOICE_ISSUED'' ''good'' MAIL_SENT (Some 1) \<in>
     set (ob_rows (mw_store (snd (web_dispatch (demo_mail all_good) 10 None None demo_outbox))))"
proof -
  let ?r = "demo_mail_row ''m4'' ''INVOICE_ISSUED'' ''good'' MAIL_SENT (Some 1)"
  have "?r \<in> set (ob_rows (mw_store demo_outbox))" and "settled ?r"
    by (simp_all add: demo_outbox_def settled_def) (simp add: demo_mail_row_def)
  from settled_mail_untouched [OF this] show ?thesis by blast
qed

lemma sent_mail_was_accepted_witness:
  "''m2'' \<in> sent_ids (mw_store (snd (web_dispatch (demo_mail all_good) 10 None None demo_outbox))) \<and>
   sent_ids (mw_store (snd (web_dispatch (demo_mail all_good) 10 None None demo_outbox))) \<subseteq>
     {''m4''} \<union> message_keys (mw_provider (snd (web_dispatch (demo_mail all_good) 10 None None demo_outbox)))"
proof
  have ids: "sent_ids (mw_store demo_outbox) = {''m4''}"
    by (simp add: sent_ids_def demo_outbox_def demo_mail_row_def)
  show "''m2'' \<in> sent_ids (mw_store (snd (web_dispatch (demo_mail all_good) 10 None None demo_outbox)))" by code_simp
  have "email_provider (md_send (demo_mail all_good)) message_keys"
    using logging.email_provider_axioms by (simp add: demo_mail_def all_good_def)
  from sent_mail_was_accepted [OF this, of 10 None None demo_outbox, unfolded ids]
  show "sent_ids (mw_store (snd (web_dispatch (demo_mail all_good) 10 None None demo_outbox))) \<subseteq>
     {''m4''} \<union> message_keys (mw_provider (snd (web_dispatch (demo_mail all_good) 10 None None demo_outbox)))"
    .
qed

lemma emailLifecycle_closes_witness:
  "\<exists>summary w'. emailLifecycle (demo_mail all_good) demo_context demo_outbox = (Inr summary, w') \<and>
     retire (demo_mail_row ''m3'' ''TRIAL_ENDING'' ''good'' MAIL_FAILED None) \<in> set (ob_rows (mw_store w'))"
proof -
  have "\<not> isl (fst (emailLifecycle (demo_mail all_good) demo_context demo_outbox))" by code_simp
  then obtain summary w' where run: "emailLifecycle (demo_mail all_good) demo_context demo_outbox = (Inr summary, w')"
    by (cases "emailLifecycle (demo_mail all_good) demo_context demo_outbox"; cases "fst (emailLifecycle (demo_mail all_good) demo_context demo_outbox)") auto
  have "retired_row (demo_mail_row ''m3'' ''TRIAL_ENDING'' ''good'' MAIL_FAILED None)"
    by (simp add: retired_row_def open_row_def demo_mail_row_def RETIRED_COMMERCE_EMAIL_TYPES_def)
  then show ?thesis using emailLifecycle_closes [OF run] run by (simp add: demo_context_def demo_outbox_def)
qed

lemma missing_enum_loses_failures_witness:
  "\<exists>e w'. web_dispatch (demo_mail demo_provider) 10 None None demo_outbox = (Inl e, w') \<and>
     (\<forall>row\<in>set (ob_rows (mw_store w')). ob_status row \<noteq> MAIL_PERMANENTLY_FAILED)"
proof -
  have "isl (fst (web_dispatch (demo_mail demo_provider) 10 None None demo_outbox))" by code_simp
  then obtain e w' where run: "web_dispatch (demo_mail demo_provider) 10 None None demo_outbox = (Inl e, w')"
    by (cases "web_dispatch (demo_mail demo_provider) 10 None None demo_outbox"; cases "fst (web_dispatch (demo_mail demo_provider) 10 None None demo_outbox)") auto
  have "''EmailOutboxStatus'' \<notin> set (ob_enum_types (mw_store demo_outbox))" by (simp add: demo_outbox_def)
  from missing_enum_loses_failures [OF this run] run show ?thesis
    by (auto simp: demo_outbox_def demo_mail_row_def)
qed

lemma resend_failure_safe_witness:
  "\<exists>e r. createResendEmailProvider (\<lambda>p. (Inr \<lparr>rc_apiKey = ''k'', rc_senderName = ''n'', rc_senderEmail = ''e''\<rparr>, p))
      (\<lambda>k f m i q. (Inl (OtherError (no_fields\<lparr>ef_status := Some 429, ef_message := Some ''secret''\<rparr>)), q))
      \<lparr>em_to = ''t'', em_subject = ''s'', em_text = ''x'', em_idempotencyKey = None\<rparr> (0 :: nat) = (Inl e, r) \<and>
    safeEmailFailureCode e = ''RATE_LIMITED''"
proof -
  let ?conf = "\<lambda>p :: nat. (Inr \<lparr>rc_apiKey = ''k'', rc_senderName = ''n'', rc_senderEmail = ''e''\<rparr> :: email_error + ResendEmailConfiguration, p)"
  let ?client = "(\<lambda>k f m i q. (Inl (OtherError (no_fields\<lparr>ef_status := Some 429, ef_message := Some ''secret''\<rparr>)), q)) :: nat resend_client"
  let ?m = "\<lparr>em_to = ''t'', em_subject = ''s'', em_text = ''x'', em_idempotencyKey = None\<rparr>"
  let ?e = "EmailDeliveryError (normalizeEmailFailure (OtherError (no_fields\<lparr>ef_status := Some 429, ef_message := Some ''secret''\<rparr>)) ''resend'')"
  have run: "createResendEmailProvider ?conf ?client ?m 0 = (Inl ?e, 0)" by (simp add: createResendEmailProvider_def)
  have "safeEmailFailureCode ?e = category_name (sf_category (case ?e of EmailDeliveryError f \<Rightarrow> f))"
    using resend_failure_safe [OF _ run, of _ 0] by auto
  also have "\<dots> = ''RATE_LIMITED''" by code_simp
  finally show ?thesis using run by blast
qed

text \<open>In these three runs, ten minutes pass between two readings of the clock, so that each run finds the claim of the refused message
  expired, the handler throws each time and the message behind the refused one is not sent; the attempts of the refused one are
  not counted, since the database as migrated rejects \<open>markFailed\<close>. A run within the processing timeout skips the refused
  message, whose claim is still held, and goes on to the next.\<close>

lemma refused_message_blocks_queue:
  "case emailLifecycle (demo_mail demo_provider) demo_context demo_outbox of (r1, w1) \<Rightarrow>
   (case emailLifecycle (demo_mail demo_provider) demo_context w1 of (r2, w2) \<Rightarrow>
    (case emailLifecycle (demo_mail demo_provider) demo_context w2 of (r3, w3) \<Rightarrow>
     isl r1 \<and> isl r2 \<and> isl r3 \<and> mw_provider w3 = [] \<and>
     map (\<lambda>r. (ob_status r, ob_attempts r)) (take 2 (ob_rows (mw_store w3))) = [(MAIL_PROCESSING, 0), (MAIL_PENDING, 0)]))"
  by code_simp

end
