(* ===== verification/Agent_Sessions.thy ===== *)
theory Agent_Sessions
  imports Agent_Db
begin

text \<open>
  Device authorizations and agent sessions: \<open>apps/web/agent-sessions/device-authorization.ts\<close>,
  \<open>native-handoff.ts\<close> and \<open>recent-auth.ts\<close>. Every operation runs inside the transaction of its route. A
  call brings its time, the start of its transaction (\<open>NOW()\<close>), its random bytes and its identifiers.
\<close>

section \<open>Calls and results\<close>

record AgentCall =
  ca_now :: time
  ca_txNow :: time
  ca_bytes :: "nat \<Rightarrow> nat \<Rightarrow> string"  \<comment> \<open>the \<open>i\<close>-th request for \<open>n\<close> random bytes\<close>
  ca_uuid :: "nat \<Rightarrow> ident"

definition AUTHORIZATION_TTL_MS :: int where "AUTHORIZATION_TTL_MS = 10 * 60 * 1000"
definition HANDOFF_TTL_MS :: int where "HANDOFF_TTL_MS = 5 * 60 * 1000"
definition ACCESS_TOKEN_TTL_MS :: int where "ACCESS_TOKEN_TTL_MS = 15 * 60 * 1000"
definition REFRESH_TOKEN_TTL_MS :: int where "REFRESH_TOKEN_TTL_MS = 30 * 24 * 60 * 60 * 1000"
definition POLL_INTERVAL_SECONDS :: int where "POLL_INTERVAL_SECONDS = 5"
definition NATIVE_HANDOFF_TTL_MS :: int where "NATIVE_HANDOFF_TTL_MS = 90 * 1000"

definition device_char :: "char \<Rightarrow> bool" where
  "device_char c \<longleftrightarrow> char_between CHR ''A'' CHR ''Z'' c \<or> char_between CHR ''a'' CHR ''z'' c \<or> char_between CHR ''0'' CHR ''9'' c \<or>
     c \<in> {CHR ''.'', CHR ''_'', CHR '':'', CHR ''-''}"

definition validDeviceId :: "string \<Rightarrow> bool" where
  "validDeviceId v \<longleftrightarrow> 16 \<le> length v \<and> length v \<le> 256 \<and> list_all device_char v"

definition validPlatform :: "string \<Rightarrow> bool" where
  "validPlatform v \<longleftrightarrow> v \<in> {''windows'', ''macos'', ''linux''}"

definition validArchitecture :: "string \<Rightarrow> bool" where
  "validArchitecture v \<longleftrightarrow> v \<in> {''x64'', ''arm64'', ''x86''}"

text \<open>\<open>input.deviceName?.trim() || null\<close>.\<close>

definition trimmed_name :: "string option \<Rightarrow> string option" where
  "trimmed_name n = (case n of None \<Rightarrow> None | Some s \<Rightarrow> (if js_trim s = [] then None else Some (js_trim s)))"

record DeviceInput =
  di_deviceId :: string
  di_deviceName :: "string option"
  di_platform :: string
  di_architecture :: string

definition normalized_device :: "DeviceInput \<Rightarrow> DeviceInput" where
  "normalized_device d =
     \<lparr>di_deviceId = js_trim (di_deviceId d), di_deviceName = trimmed_name (di_deviceName d),
      di_platform = toLowerCase (js_trim (di_platform d)), di_architecture = toLowerCase (js_trim (di_architecture d))\<rparr>"

definition invalid_device :: "DeviceInput \<Rightarrow> bool" where
  "invalid_device d \<longleftrightarrow> \<not> validDeviceId (di_deviceId d) \<or>
     (case di_deviceName d of None \<Rightarrow> False | Some n \<Rightarrow> length n > 128) \<or>
     \<not> validPlatform (di_platform d) \<or> \<not> validArchitecture (di_architecture d)"

text \<open>A new row: pending, or for the native handoff approved from the start.\<close>

definition new_authorization :: "ident \<Rightarrow> string \<Rightarrow> string \<Rightarrow> DeviceInput \<Rightarrow> time \<Rightarrow> AuthorizationRow" where
  "new_authorization i deviceCodeHash userCodeHash d expiresAt =
     \<lparr>au_id = i, au_deviceCodeHash = deviceCodeHash, au_userCodeHash = userCodeHash, au_deviceId = di_deviceId d,
      au_deviceName = di_deviceName d, au_platform = di_platform d, au_architecture = di_architecture d, au_kind = DEVICE_CODE,
      au_status = AUTH_PENDING, au_expiresAt = expiresAt, au_pollIntervalSeconds = POLL_INTERVAL_SECONDS, au_lastPollAt = None,
      au_approvedByUserId = None, au_approvedAccountId = None, au_approvedAt = None, au_deniedAt = None, au_consumedAt = None,
      au_handoffExpiresAt = None, au_sessionId = None, au_tokenBundleCiphertext = None\<rparr>"

record StartedAuthorization =
  st_deviceCode :: string
  st_userCode :: string
  st_verificationUri :: string
  st_expiresIn :: int
  st_interval :: int

text \<open>\<open>verificationUri base code\<close> is \<open>new URL("/device", base)\<close> with the code as its query, or the error for a base that is no URL.\<close>

definition startAgentDeviceAuthorization ::
    "CryptoRuntime \<Rightarrow> (string \<Rightarrow> string \<Rightarrow> error + string) \<Rightarrow> AgentCall \<Rightarrow> DeviceInput \<Rightarrow> string \<Rightarrow> string \<Rightarrow>
     (AgentDb, StartedAuthorization) eff" where
  "startAgentDeviceAuthorization rt verificationUri call input verificationBaseUrl pepper =
     (let d = normalized_device input in
      if invalid_device d then throw ''INVALID_AGENT_DEVICE''
      else
      bnd (write_auths (update_rows (\<lambda>r. au_deviceId r = di_deviceId d \<and> au_status r = AUTH_PENDING) (\<lambda>r. r\<lparr>au_status := AUTH_EXPIRED\<rparr>))) (\<lambda>_.
      let deviceCode = generateAgentDeviceCode (ca_bytes call 0 32); userCode = generateAgentUserCode (ca_bytes call 1 8) in
      bnd (from_result (hashAgentDeviceCode rt deviceCode pepper)) (\<lambda>deviceCodeHash.
      bnd (from_result (hashAgentUserCode rt userCode pepper)) (\<lambda>userCodeHash.
      bnd (write_auths (\<lambda>rows. rows @ [new_authorization (ca_uuid call 0) deviceCodeHash userCodeHash d (ca_now call + AUTHORIZATION_TTL_MS)])) (\<lambda>_.
      bnd (from_result (verificationUri verificationBaseUrl userCode)) (\<lambda>uri.
      ret \<lparr>st_deviceCode = deviceCode, st_userCode = userCode, st_verificationUri = uri,
           st_expiresIn = AUTHORIZATION_TTL_MS div 1000, st_interval = POLL_INTERVAL_SECONDS\<rparr>))))))"

definition set_auth :: "ident \<Rightarrow> (AuthorizationRow \<Rightarrow> AuthorizationRow) \<Rightarrow> (AgentDb, unit) eff" where
  "set_auth i f = write_auths (update_rows (\<lambda>r. au_id r = i) f)"

definition set_auth_if :: "AuthorizationStatus \<Rightarrow> ident \<Rightarrow> (AuthorizationRow \<Rightarrow> AuthorizationRow) \<Rightarrow> (AgentDb, unit) eff" where
  "set_auth_if status i f = write_auths (update_rows (\<lambda>r. au_id r = i \<and> au_status r = status) f)"

section \<open>Approval\<close>

datatype ApproveResult =
    ApproveNotFound | ApproveExpired | ApproveAlready | ApproveDenied | ApproveConsumed
  | Approved string AgentDeviceAuthorizedAccount

definition approveAgentDeviceAuthorization ::
    "CryptoRuntime \<Rightarrow> AgentCall \<Rightarrow> string \<Rightarrow> ident \<Rightarrow> ident \<Rightarrow> string \<Rightarrow> (AgentDb, ApproveResult) eff" where
  "approveAgentDeviceAuthorization rt call userCode principalId accountId pepper =
     bnd (from_result (hashAgentUserCode rt userCode pepper)) (\<lambda>userCodeHash.
     bnd (gets (\<lambda>s. find_by au_userCodeHash userCodeHash (ag_auths s))) (\<lambda>found.
     case found of
       None \<Rightarrow> ret ApproveNotFound
     | Some authorization \<Rightarrow>
         if au_status authorization = AUTH_EXPIRED \<or>
            (au_status authorization = AUTH_PENDING \<and> au_expiresAt authorization \<le> ca_now call)
         then bnd (set_auth (au_id authorization) (\<lambda>r. r\<lparr>au_status := AUTH_EXPIRED\<rparr>)) (\<lambda>_. ret ApproveExpired)
         else if au_status authorization \<noteq> AUTH_PENDING
         then ret (if au_status authorization = AUTH_APPROVED then ApproveAlready
                   else if au_status authorization = AUTH_DENIED then ApproveDenied else ApproveConsumed)
         else
         bnd (requireAgentDeviceAccountAccessInTransaction principalId accountId) (\<lambda>account.
         bnd (set_auth_if AUTH_PENDING (au_id authorization)
                (\<lambda>r. r\<lparr>au_status := AUTH_APPROVED, au_approvedByUserId := Some principalId, au_approvedAccountId := Some (aa_id account),
                       au_approvedAt := Some (ca_txNow call)\<rparr>)) (\<lambda>_.
         bnd (audit_create
                \<lparr>ae_actorId = principalId, ae_accountId = aa_id account, ae_action = ''AGENT_DEVICE_AUTHORIZATION_APPROVED'',
                 ae_targetType = ''AgentDeviceAuthorization'', ae_targetId = au_id authorization,
                 ae_metadata = [(''deviceId'', JString (au_deviceId authorization)), (''accountRole'', JString (aa_effectiveRole account))]\<rparr>) (\<lambda>_.
         ret (Approved (au_deviceId authorization) account))))))"

section \<open>Polling\<close>

datatype PollResult = PollPending | PollSlowDown | PollDenied | PollExpired | PollApproved AgentAccountTokenBundle

definition deny_authorization :: "AgentCall \<Rightarrow> ident \<Rightarrow> (AgentDb, PollResult) eff" where
  "deny_authorization call i =
     bnd (set_auth i (\<lambda>r. r\<lparr>au_status := AUTH_DENIED, au_deniedAt := Some (ca_txNow call)\<rparr>)) (\<lambda>_. ret PollDenied)"

definition poll_pending :: "AgentCall \<Rightarrow> AuthorizationRow \<Rightarrow> (AgentDb, PollResult) eff" where
  "poll_pending call authorization =
     (let now = ca_now call; i = au_id authorization in
      if au_expiresAt authorization \<le> now
      then bnd (set_auth i (\<lambda>r. r\<lparr>au_status := AUTH_EXPIRED\<rparr>)) (\<lambda>_. ret PollExpired)
      else if (case au_lastPollAt authorization of None \<Rightarrow> False
               | Some t \<Rightarrow> now < t + au_pollIntervalSeconds authorization * 1000)
      then bnd (set_auth i (\<lambda>r. r\<lparr>au_pollIntervalSeconds := min 60 (au_pollIntervalSeconds authorization + 5), au_lastPollAt := Some now\<rparr>))
             (\<lambda>_. ret PollSlowDown)
      else bnd (set_auth i (\<lambda>r. r\<lparr>au_lastPollAt := Some now\<rparr>)) (\<lambda>_. ret PollPending))"

text \<open>A consumed authorization hands its bundle out again until the handoff expires.\<close>

definition poll_consumed :: "CryptoRuntime \<Rightarrow> AgentCall \<Rightarrow> string \<Rightarrow> AuthorizationRow \<Rightarrow> (AgentDb, PollResult) eff" where
  "poll_consumed rt call encryptionKey authorization =
     (if (case au_handoffExpiresAt authorization of None \<Rightarrow> True | Some t \<Rightarrow> t \<le> ca_now call) \<or>
         \<not> truthy (au_tokenBundleCiphertext authorization)
      then if truthy (au_tokenBundleCiphertext authorization)
           then bnd (set_auth (au_id authorization) (\<lambda>r. r\<lparr>au_tokenBundleCiphertext := None\<rparr>)) (\<lambda>_. ret PollExpired)
           else ret PollExpired
      else bnd (from_result (decryptAgentTokenBundle rt (or_else (au_tokenBundleCiphertext authorization) []) encryptionKey))
             (\<lambda>bundle. ret (PollApproved bundle)))"

definition session_user :: "ident \<Rightarrow> AgentDb \<Rightarrow> UserRow option" where
  "session_user i s = find_by us_id i (ag_users s)"

definition user_active :: "UserRow option \<Rightarrow> bool" where
  "user_active u \<longleftrightarrow> (case u of None \<Rightarrow> False | Some r \<Rightarrow> us_emailVerified r \<noteq> None \<and> us_lifecycleState r = ACTIVE)"

definition new_session :: "ident \<Rightarrow> AuthorizationRow \<Rightarrow> ident \<Rightarrow> ident \<Rightarrow> string \<Rightarrow> AgentCall \<Rightarrow> SessionRow" where
  "new_session i authorization userId accountId accessTokenHash call =
     \<lparr>se_id = i, se_deviceAuthorizationId = au_id authorization, se_userId = userId, se_accountId = accountId,
      se_deviceId = au_deviceId authorization, se_accessTokenHash = accessTokenHash,
      se_accessExpiresAt = ca_now call + ACCESS_TOKEN_TTL_MS, se_refreshExpiresAt = ca_now call + REFRESH_TOKEN_TTL_MS,
      se_refreshGeneration = 0, se_revokedAt = None, se_lastSeenAt = None, se_recentAuthenticatedAt = None,
      se_createdAt = ca_txNow call\<rparr>"

definition new_token :: "ident \<Rightarrow> ident \<Rightarrow> string \<Rightarrow> int \<Rightarrow> time \<Rightarrow> TokenRow" where
  "new_token i sessionId tokenHash generation expiresAt =
     \<lparr>tk_id = i, tk_sessionId = sessionId, tk_tokenHash = tokenHash, tk_generation = generation, tk_status = TOKEN_ACTIVE,
      tk_expiresAt = expiresAt, tk_rotatedAt = None, tk_revokedAt = None\<rparr>"

definition token_bundle :: "ident \<Rightarrow> string \<Rightarrow> string \<Rightarrow> time \<Rightarrow> time \<Rightarrow> UserRow \<Rightarrow> AgentDeviceAuthorizedAccount \<Rightarrow> AgentAccountTokenBundle" where
  "token_bundle sessionId accessToken refreshToken accessExpiresAt refreshExpiresAt user account =
     \<lparr>bu_sessionId = sessionId, bu_accessToken = accessToken, bu_refreshToken = refreshToken,
      bu_accessExpiresAt = toISOString accessExpiresAt, bu_refreshExpiresAt = toISOString refreshExpiresAt,
      bu_userId = us_id user, bu_email = us_email user, bu_accountId = aa_id account, bu_accountType = aa_type account,
      bu_accountDisplayName = aa_displayName account\<rparr>"

text \<open>The exchange of an approved authorization for a session with its first tokens.\<close>

definition create_session :: "CryptoRuntime \<Rightarrow> AgentCall \<Rightarrow> string \<Rightarrow> string \<Rightarrow> AuthorizationRow \<Rightarrow> UserRow \<Rightarrow>
    AgentDeviceAuthorizedAccount \<Rightarrow> (AgentDb, PollResult) eff" where
  "create_session rt call pepper encryptionKey authorization user account =
     (let sessionId = ca_uuid call 0;
          accessToken = generateAgentSessionToken (ca_bytes call 0 48);
          refreshToken = generateAgentSessionToken (ca_bytes call 1 48);
          bundle = token_bundle sessionId accessToken refreshToken (ca_now call + ACCESS_TOKEN_TTL_MS)
            (ca_now call + REFRESH_TOKEN_TTL_MS) user account
      in
      bnd (from_result (encryptAgentTokenBundle rt (ca_bytes call 2 12) bundle encryptionKey)) (\<lambda>tokenBundleCiphertext.
      bnd (from_result (hashAgentAccessToken rt accessToken pepper)) (\<lambda>accessTokenHash.
      bnd (write_sessions (\<lambda>rows. rows @ [new_session sessionId authorization (us_id user) (aa_id account) accessTokenHash call])) (\<lambda>_.
      bnd (from_result (hashAgentRefreshToken rt refreshToken pepper)) (\<lambda>refreshTokenHash.
      bnd (write_tokens (\<lambda>rows. rows @ [new_token (ca_uuid call 1) sessionId refreshTokenHash 0 (ca_now call + REFRESH_TOKEN_TTL_MS)])) (\<lambda>_.
      bnd (set_auth_if AUTH_APPROVED (au_id authorization)
             (\<lambda>r. r\<lparr>au_status := AUTH_CONSUMED, au_consumedAt := Some (ca_txNow call),
                    au_handoffExpiresAt := Some (ca_now call + HANDOFF_TTL_MS), au_sessionId := Some sessionId,
                    au_tokenBundleCiphertext := Some tokenBundleCiphertext\<rparr>)) (\<lambda>_.
      ret (PollApproved bundle))))))))"

definition poll_approved :: "CryptoRuntime \<Rightarrow> AgentCall \<Rightarrow> string \<Rightarrow> string \<Rightarrow> AuthorizationRow \<Rightarrow> (AgentDb, PollResult) eff" where
  "poll_approved rt call pepper encryptionKey authorization =
     (if \<not> truthy (au_approvedByUserId authorization) \<or> \<not> truthy (au_approvedAccountId authorization) then ret PollDenied
      else
      let userId = or_else (au_approvedByUserId authorization) []; accountId = or_else (au_approvedAccountId authorization) [] in
      bnd (caught (requireAgentDeviceAccountAccessInTransaction userId accountId)) (\<lambda>access.
      case access of
        Inl _ \<Rightarrow> deny_authorization call (au_id authorization)
      | Inr account \<Rightarrow>
          bnd (gets (session_user userId)) (\<lambda>user.
          if \<not> user_active user then deny_authorization call (au_id authorization)
          else (case user of None \<Rightarrow> ret PollDenied
                | Some u \<Rightarrow> create_session rt call pepper encryptionKey authorization u account))))"

definition pollAgentDeviceAuthorization ::
    "CryptoRuntime \<Rightarrow> AgentCall \<Rightarrow> string \<Rightarrow> string option \<Rightarrow> string \<Rightarrow> string \<Rightarrow> (AgentDb, PollResult) eff" where
  "pollAgentDeviceAuthorization rt call deviceCode deviceId pepper encryptionKey =
     bnd (from_result (hashAgentDeviceCode rt deviceCode pepper)) (\<lambda>deviceCodeHash.
     bnd (gets (\<lambda>s. find_by au_deviceCodeHash deviceCodeHash (ag_auths s))) (\<lambda>found.
     case found of
       None \<Rightarrow> ret PollExpired
     | Some authorization \<Rightarrow>
         if au_kind authorization = NATIVE_HANDOFF \<and>
            (\<not> truthy deviceId \<or> js_trim (or_else deviceId []) \<noteq> au_deviceId authorization)
         then ret PollDenied
         else (case au_status authorization of
             AUTH_PENDING \<Rightarrow> poll_pending call authorization
           | AUTH_DENIED \<Rightarrow> ret PollDenied
           | AUTH_EXPIRED \<Rightarrow> ret PollExpired
           | AUTH_CONSUMED \<Rightarrow> poll_consumed rt call encryptionKey authorization
           | AUTH_APPROVED \<Rightarrow>
               if au_expiresAt authorization \<le> ca_now call
               then bnd (set_auth_if AUTH_APPROVED (au_id authorization)
                      (\<lambda>r. r\<lparr>au_status := AUTH_EXPIRED, au_tokenBundleCiphertext := None\<rparr>)) (\<lambda>_. ret PollExpired)
               else poll_approved rt call pepper encryptionKey authorization)))"

section \<open>Sessions\<close>

definition agentSessionPredatesPasswordCredential :: "SessionRow \<Rightarrow> AgentDb \<Rightarrow> bool" where
  "agentSessionPredatesPasswordCredential session s =
     (case find_by cr_userId (se_userId session) (ag_credentials s) of
        None \<Rightarrow> False | Some c \<Rightarrow> cr_changedAt c > se_createdAt session)"

definition later_than :: "time option \<Rightarrow> time \<Rightarrow> bool" where
  "later_than t u = (case t of None \<Rightarrow> False | Some v \<Rightarrow> v > u)"

definition agentSessionPredatesMfaAuthorityChange :: "SessionRow \<Rightarrow> AgentDb \<Rightarrow> bool" where
  "agentSessionPredatesMfaAuthorityChange session s =
     (case find_by mf_userId (se_userId session) (ag_mfa s) of
        None \<Rightarrow> False
      | Some m \<Rightarrow> later_than (mf_enabledAt m) (se_createdAt session) \<or> later_than (mf_disabledAt m) (se_createdAt session))"

definition coalesce :: "'a option \<Rightarrow> 'a \<Rightarrow> 'a option" where
  "coalesce x v = (case x of None \<Rightarrow> Some v | Some u \<Rightarrow> Some u)"

definition revoke_session :: "time \<Rightarrow> SessionRow \<Rightarrow> SessionRow" where
  "revoke_session now r = r\<lparr>se_revokedAt := coalesce (se_revokedAt r) now\<rparr>"

definition revoke_token :: "time \<Rightarrow> TokenRow \<Rightarrow> TokenRow" where
  "revoke_token now r = r\<lparr>tk_status := TOKEN_REVOKED, tk_revokedAt := coalesce (tk_revokedAt r) now\<rparr>"

definition clear_bundle :: "time \<Rightarrow> AuthorizationRow \<Rightarrow> AuthorizationRow" where
  "clear_bundle now r = r\<lparr>au_tokenBundleCiphertext := None, au_handoffExpiresAt := Some now\<rparr>"

definition clear_session_bundle :: "ident \<Rightarrow> time \<Rightarrow> (AgentDb, unit) eff" where
  "clear_session_bundle sessionId now = write_auths (update_rows (\<lambda>r. au_sessionId r = Some sessionId) (clear_bundle now))"

definition revokeAgentSessionFamily :: "ident \<Rightarrow> time \<Rightarrow> (AgentDb, unit) eff" where
  "revokeAgentSessionFamily sessionId now =
     bnd (write_sessions (update_rows (\<lambda>r. se_id r = sessionId) (revoke_session now))) (\<lambda>_.
     bnd (write_tokens (update_rows (\<lambda>r. tk_sessionId r = sessionId \<and> tk_status r \<noteq> TOKEN_REVOKED) (revoke_token now))) (\<lambda>_.
     clear_session_bundle sessionId now))"

datatype RefreshResult = Refreshed AgentAccountTokenBundle | InvalidGrant | ReplayDetected

definition revoke_and :: "ident \<Rightarrow> time \<Rightarrow> 'a \<Rightarrow> (AgentDb, 'a) eff" where
  "revoke_and sessionId now r = bnd (revokeAgentSessionFamily sessionId now) (\<lambda>_. ret r)"

definition rotate_tokens :: "CryptoRuntime \<Rightarrow> AgentCall \<Rightarrow> string \<Rightarrow> TokenRow \<Rightarrow> SessionRow \<Rightarrow> UserRow \<Rightarrow>
    AgentDeviceAuthorizedAccount \<Rightarrow> (AgentDb, RefreshResult) eff" where
  "rotate_tokens rt call pepper token session user account =
     (let now = ca_now call; nextGeneration = se_refreshGeneration session + 1;
          accessToken = generateAgentSessionToken (ca_bytes call 0 48);
          refreshToken = generateAgentSessionToken (ca_bytes call 1 48);
          accessExpiresAt = now + ACCESS_TOKEN_TTL_MS
      in
      bnd (write_tokens (update_rows (\<lambda>r. tk_id r = tk_id token \<and> tk_status r = TOKEN_ACTIVE)
             (\<lambda>r. r\<lparr>tk_status := TOKEN_ROTATED, tk_rotatedAt := Some now\<rparr>))) (\<lambda>_.
      bnd (from_result (hashAgentRefreshToken rt refreshToken pepper)) (\<lambda>refreshTokenHash.
      bnd (write_tokens (\<lambda>rows. rows @ [new_token (ca_uuid call 0) (se_id session) refreshTokenHash nextGeneration (se_refreshExpiresAt session)])) (\<lambda>_.
      bnd (from_result (hashAgentAccessToken rt accessToken pepper)) (\<lambda>accessTokenHash.
      bnd (write_sessions (update_rows (\<lambda>r. se_id r = se_id session)
             (\<lambda>r. r\<lparr>se_accessTokenHash := accessTokenHash, se_accessExpiresAt := accessExpiresAt,
                    se_refreshGeneration := nextGeneration, se_lastSeenAt := Some now\<rparr>))) (\<lambda>_.
      bnd (clear_session_bundle (se_id session) now) (\<lambda>_.
      ret (Refreshed (token_bundle (se_id session) accessToken refreshToken accessExpiresAt (se_refreshExpiresAt session) user account)))))))))"

text \<open>The session and its user may still act: no later password or second-factor change, access to the account, an active user.\<close>

definition predates :: "SessionRow \<Rightarrow> AgentDb \<Rightarrow> bool" where
  "predates session s \<longleftrightarrow> agentSessionPredatesPasswordCredential session s \<or> agentSessionPredatesMfaAuthorityChange session s"

definition refresh_session :: "CryptoRuntime \<Rightarrow> AgentCall \<Rightarrow> string \<Rightarrow> TokenRow \<Rightarrow> SessionRow \<Rightarrow> (AgentDb, RefreshResult) eff" where
  "refresh_session rt call pepper token session =
     (let now = ca_now call in
      if tk_status token \<noteq> TOKEN_ACTIVE then revoke_and (se_id session) now ReplayDetected
      else if tk_expiresAt token \<le> now \<or> se_refreshExpiresAt session \<le> now \<or> se_revokedAt session \<noteq> None
      then revoke_and (se_id session) now InvalidGrant
      else
      bnd (gets (predates session)) (\<lambda>old.
      if old then revoke_and (se_id session) now InvalidGrant
      else
      bnd (caught (requireAgentDeviceAccountAccessInTransaction (se_userId session) (se_accountId session))) (\<lambda>access.
      case access of
        Inl _ \<Rightarrow> revoke_and (se_id session) now InvalidGrant
      | Inr account \<Rightarrow>
          bnd (gets (session_user (se_userId session))) (\<lambda>user.
          if \<not> user_active user then revoke_and (se_id session) now InvalidGrant
          else (case user of None \<Rightarrow> ret InvalidGrant
                | Some u \<Rightarrow> rotate_tokens rt call pepper token session u account)))))"

definition refreshAgentAccountSession :: "CryptoRuntime \<Rightarrow> AgentCall \<Rightarrow> string \<Rightarrow> string \<Rightarrow> (AgentDb, RefreshResult) eff" where
  "refreshAgentAccountSession rt call refreshToken pepper =
     bnd (from_result (hashAgentRefreshToken rt refreshToken pepper)) (\<lambda>tokenHash.
     bnd (gets (\<lambda>s. find_by tk_tokenHash tokenHash (ag_tokens s))) (\<lambda>found.
     case found of
       None \<Rightarrow> ret InvalidGrant
     | Some token \<Rightarrow>
         bnd (gets (\<lambda>s. find_by se_id (tk_sessionId token) (ag_sessions s))) (\<lambda>found.
         case found of
           None \<Rightarrow> ret InvalidGrant
         | Some session \<Rightarrow> refresh_session rt call pepper token session)))"

record AuthenticatedSession =
  at_sessionId :: ident
  at_userId :: ident
  at_accountId :: ident
  at_deviceId :: string

text \<open>\<open>authenticateAgentAccessToken\<close> gives the session, or nothing for \<open>invalid_token\<close>.\<close>

definition authenticate_session :: "AgentCall \<Rightarrow> SessionRow \<Rightarrow> (AgentDb, AuthenticatedSession option) eff" where
  "authenticate_session call session =
     (let now = ca_now call in
      bnd (gets (predates session)) (\<lambda>old.
      if old then revoke_and (se_id session) now None
      else
      bnd (caught (requireAgentDeviceAccountAccessInTransaction (se_userId session) (se_accountId session))) (\<lambda>access.
      case access of
        Inl _ \<Rightarrow> revoke_and (se_id session) now None
      | Inr _ \<Rightarrow>
          bnd (gets (session_user (se_userId session))) (\<lambda>user.
          if \<not> user_active user then revoke_and (se_id session) now None
          else
          bnd (write_sessions (update_rows (\<lambda>r. se_id r = se_id session) (\<lambda>r. r\<lparr>se_lastSeenAt := Some now\<rparr>))) (\<lambda>_.
          ret (Some \<lparr>at_sessionId = se_id session, at_userId = se_userId session, at_accountId = se_accountId session,
                     at_deviceId = se_deviceId session\<rparr>))))))"

definition authenticateAgentAccessToken ::
    "CryptoRuntime \<Rightarrow> AgentCall \<Rightarrow> string \<Rightarrow> string \<Rightarrow> (AgentDb, AuthenticatedSession option) eff" where
  "authenticateAgentAccessToken rt call accessToken pepper =
     bnd (from_result (hashAgentAccessToken rt accessToken pepper)) (\<lambda>h.
     bnd (gets (\<lambda>s. find_by se_accessTokenHash h (ag_sessions s))) (\<lambda>found.
     case found of
       None \<Rightarrow> ret None
     | Some session \<Rightarrow>
         if se_revokedAt session \<noteq> None \<or> se_accessExpiresAt session \<le> ca_now call then ret None
         else authenticate_session call session))"

definition acknowledgeAgentSessionHandoff :: "CryptoRuntime \<Rightarrow> AgentCall \<Rightarrow> string \<Rightarrow> string \<Rightarrow> (AgentDb, bool) eff" where
  "acknowledgeAgentSessionHandoff rt call accessToken pepper =
     bnd (authenticateAgentAccessToken rt call accessToken pepper) (\<lambda>authenticated.
     case authenticated of
       None \<Rightarrow> ret False
     | Some a \<Rightarrow> bnd (clear_session_bundle (at_sessionId a) (ca_txNow call)) (\<lambda>_. ret True))"

definition revoke_authorization :: "time \<Rightarrow> AuthorizationRow \<Rightarrow> AuthorizationRow" where
  "revoke_authorization now r =
     r\<lparr>au_status := (if au_status r = AUTH_APPROVED then AUTH_DENIED else au_status r),
       au_deniedAt := (if au_status r = AUTH_APPROVED then coalesce (au_deniedAt r) now else au_deniedAt r),
       au_tokenBundleCiphertext := None, au_handoffExpiresAt := Some now\<rparr>"

text \<open>
  The revocation of a user's sessions also runs in a transaction at the default isolation level, Read Committed, where each
  statement misses the rows that others insert or change into its condition after it has started. The ids of the rows
  that its three statements miss are an argument: none in a Serializable transaction.
\<close>

record MissedRows =
  mi_tokens :: "ident list"
  mi_sessions :: "ident list"
  mi_auths :: "ident list"

definition nothing_missed :: MissedRows where
  "nothing_missed = \<lparr>mi_tokens = [], mi_sessions = [], mi_auths = []\<rparr>"

definition revokeAgentAccountSessionsForUser :: "MissedRows \<Rightarrow> ident \<Rightarrow> time \<Rightarrow> (AgentDb, unit) eff" where
  "revokeAgentAccountSessionsForUser missed userId now =
     bnd (gets (\<lambda>s. map se_id (filter (\<lambda>r. se_userId r = userId) (ag_sessions s)))) (\<lambda>ids.
     bnd (write_tokens (update_rows (\<lambda>r. (tk_sessionId r \<in> set ids \<and> tk_status r \<noteq> TOKEN_REVOKED) \<and> tk_id r \<notin> set (mi_tokens missed))
            (revoke_token now))) (\<lambda>_.
     bnd (write_sessions (update_rows (\<lambda>r. se_userId r = userId \<and> se_id r \<notin> set (mi_sessions missed)) (revoke_session now))) (\<lambda>_.
     write_auths (update_rows (\<lambda>r. (au_approvedByUserId r = Some userId \<and> au_status r \<in> {AUTH_APPROVED, AUTH_CONSUMED}) \<and>
       au_id r \<notin> set (mi_auths missed)) (revoke_authorization now)))))"

definition revokeNativeAgentSessionsForUser :: "MissedRows \<Rightarrow> ident \<Rightarrow> time \<Rightarrow> (AgentDb, unit) eff" where
  "revokeNativeAgentSessionsForUser missed userId now = transaction (revokeAgentAccountSessionsForUser missed userId now)"

definition revokeAgentAccountSession :: "CryptoRuntime \<Rightarrow> AgentCall \<Rightarrow> string \<Rightarrow> string \<Rightarrow> (AgentDb, bool) eff" where
  "revokeAgentAccountSession rt call refreshToken pepper =
     bnd (from_result (hashAgentRefreshToken rt refreshToken pepper)) (\<lambda>tokenHash.
     bnd (gets (\<lambda>s. find_by tk_tokenHash tokenHash (ag_tokens s))) (\<lambda>found.
     case found of
       None \<Rightarrow> ret False
     | Some row \<Rightarrow> bnd (revokeAgentSessionFamily (tk_sessionId row) (ca_now call)) (\<lambda>_. ret True)))"

definition cancellable :: "string \<Rightarrow> AuthorizationRow \<Rightarrow> bool" where
  "cancellable deviceCodeHash r \<longleftrightarrow> au_deviceCodeHash r = deviceCodeHash \<and> au_status r \<in> {AUTH_PENDING, AUTH_APPROVED}"

definition cancelAgentDeviceAuthorization :: "CryptoRuntime \<Rightarrow> AgentCall \<Rightarrow> string \<Rightarrow> string \<Rightarrow> (AgentDb, bool) eff" where
  "cancelAgentDeviceAuthorization rt call deviceCode pepper =
     bnd (from_result (hashAgentDeviceCode rt deviceCode pepper)) (\<lambda>deviceCodeHash.
     bnd (gets (\<lambda>s. count_rows (cancellable deviceCodeHash) (ag_auths s))) (\<lambda>changed.
     bnd (write_auths (update_rows (cancellable deviceCodeHash)
            (\<lambda>r. r\<lparr>au_status := AUTH_DENIED, au_deniedAt := Some (ca_txNow call), au_tokenBundleCiphertext := None\<rparr>))) (\<lambda>_.
     ret (changed > 0))))"

section \<open>Native handoff\<close>

record IdentityPrincipal =
  pr_id :: ident
  pr_role :: string
  pr_emailVerified :: bool
  pr_lifecycleState :: LifecycleState

definition native_authorization :: "ident \<Rightarrow> string \<Rightarrow> string \<Rightarrow> DeviceInput \<Rightarrow> time \<Rightarrow> ident \<Rightarrow> ident \<Rightarrow> time \<Rightarrow> AuthorizationRow" where
  "native_authorization i deviceCodeHash userCodeHash d expiresAt principalId accountId approvedAt =
     (new_authorization i deviceCodeHash userCodeHash d expiresAt)
       \<lparr>au_kind := NATIVE_HANDOFF, au_status := AUTH_APPROVED, au_pollIntervalSeconds := 2,
        au_approvedByUserId := Some principalId, au_approvedAccountId := Some accountId, au_approvedAt := Some approvedAt\<rparr>"

record NativeHandoff =
  nh_handoffCode :: string
  nh_expiresAt :: time
  nh_expiresIn :: int
  nh_account :: AgentDeviceAuthorizedAccount

definition resolveNativeBkeAccounts :: "ident \<Rightarrow> (AgentDb, AgentDeviceAuthorizedAccount list) eff" where
  "resolveNativeBkeAccounts principalId = listAgentDeviceAccountsInTransaction principalId"

definition issueNativeBkeAgentHandoff ::
    "CryptoRuntime \<Rightarrow> AgentCall \<Rightarrow> IdentityPrincipal \<Rightarrow> ident \<Rightarrow> DeviceInput \<Rightarrow> string \<Rightarrow> (AgentDb, NativeHandoff) eff" where
  "issueNativeBkeAgentHandoff rt call who accountId input pepper =
     (let d = normalized_device input in
      if invalid_device d then throw ''INVALID_AGENT_DEVICE''
      else if pr_role who \<noteq> ''CUSTOMER'' \<or> \<not> pr_emailVerified who \<or> pr_lifecycleState who \<noteq> ACTIVE then throw ''FORBIDDEN''
      else
      bnd (requireAgentDeviceAccountAccessInTransaction (pr_id who) accountId) (\<lambda>account.
      let handoffCode = generateAgentDeviceCode (ca_bytes call 0 32); unusedUserCode = generateAgentUserCode (ca_bytes call 1 8);
          expiresAt = ca_now call + NATIVE_HANDOFF_TTL_MS
      in
      bnd (from_result (hashAgentDeviceCode rt handoffCode pepper)) (\<lambda>deviceCodeHash.
      bnd (from_result (hashAgentUserCode rt unusedUserCode pepper)) (\<lambda>userCodeHash.
      bnd (write_auths (\<lambda>rows. rows @ [native_authorization (ca_uuid call 0) deviceCodeHash userCodeHash d expiresAt
             (pr_id who) (aa_id account) (ca_txNow call)])) (\<lambda>_.
      bnd (audit_create
             \<lparr>ae_actorId = pr_id who, ae_accountId = aa_id account, ae_action = ''AGENT_NATIVE_HANDOFF_ISSUED'',
              ae_targetType = ''AgentDeviceAuthorization'', ae_targetId = ca_uuid call 0,
              ae_metadata = [(''deviceId'', JString (di_deviceId d)), (''accountRole'', JString (aa_effectiveRole account)),
                (''expiresAt'', JString (toISOString expiresAt))]\<rparr>) (\<lambda>_.
      ret \<lparr>nh_handoffCode = handoffCode, nh_expiresAt = expiresAt, nh_expiresIn = NATIVE_HANDOFF_TTL_MS div 1000, nh_account = account\<rparr>))))))"

section \<open>Recent authentication\<close>

definition AGENT_RECENT_AUTH_WINDOW_MINUTES :: int where "AGENT_RECENT_AUTH_WINDOW_MINUTES = 15"
definition AGENT_RECENT_AUTH_WINDOW_MS :: int where "AGENT_RECENT_AUTH_WINDOW_MS = AGENT_RECENT_AUTH_WINDOW_MINUTES * 60000"

definition same_session :: "AuthenticatedSession \<Rightarrow> SessionRow \<Rightarrow> bool" where
  "same_session a r \<longleftrightarrow> se_id r = at_sessionId a \<and> se_userId r = at_userId a \<and> se_accountId r = at_accountId a \<and>
     se_deviceId r = at_deviceId a \<and> se_revokedAt r = None"

definition mark_recent :: "AuthenticatedSession \<Rightarrow> string \<Rightarrow> time \<Rightarrow> (AgentDb, bool) eff" where
  "mark_recent a authMethod now =
     bnd (gets (\<lambda>s. count_rows (same_session a) (ag_sessions s))) (\<lambda>count.
     bnd (write_sessions (update_rows (same_session a) (\<lambda>r. r\<lparr>se_recentAuthenticatedAt := Some now\<rparr>))) (\<lambda>_.
     if count \<noteq> 1 then ret False
     else
     bnd (audit_create
            \<lparr>ae_actorId = at_userId a, ae_accountId = at_accountId a, ae_action = ''AGENT_RECENT_AUTH_VERIFIED'',
             ae_targetType = ''AgentAccountSession'', ae_targetId = at_sessionId a,
             ae_metadata = [(''channel'', JString ''BKE_AGENT_SESSION''), (''deviceId'', JString (at_deviceId a)),
               (''method'', JString authMethod), (''expiresAt'', JString (toISOString (now + AGENT_RECENT_AUTH_WINDOW_MS)))]\<rparr>)
       (\<lambda>_. ret True)))"

text \<open>The result is the time of the authentication and of its expiry.\<close>

definition markAgentSessionRecentlyAuthenticated ::
    "AgentCall \<Rightarrow> AuthenticatedSession \<Rightarrow> string \<Rightarrow> (AgentDb, time \<times> time) eff" where
  "markAgentSessionRecentlyAuthenticated call a authMethod =
     (let now = ca_now call in
      bnd (transaction (mark_recent a authMethod now)) (\<lambda>changed.
      if \<not> changed then throw ''INVALID_TOKEN'' else ret (now, now + AGENT_RECENT_AUTH_WINDOW_MS)))"

definition agentSessionRecentlyAuthenticated :: "AuthenticatedSession \<Rightarrow> time \<Rightarrow> AgentDb \<Rightarrow> bool" where
  "agentSessionRecentlyAuthenticated a now s =
     (case List.find (same_session a) (ag_sessions s) of
        None \<Rightarrow> False
      | Some r \<Rightarrow> (case se_recentAuthenticatedAt r of
            None \<Rightarrow> False | Some v \<Rightarrow> v \<ge> now - AGENT_RECENT_AUTH_WINDOW_MS \<and> v \<le> now))"

section \<open>Operations as requests\<close>

text \<open>
  The operations of the routes, each in its transaction; and what the rest of the system may change. The transactions are
  Serializable, but for two: the revocation after a change of the second factor, which may miss rows, and
  \<open>authenticateNativeAgentRequest\<close>, whose only session row is locked from its first statement on.
\<close>

datatype AgentRequest =
    Start DeviceInput string
  | Approve string ident ident
  | Poll string "string option"
  | Refresh string
  | Authenticate string
  | Acknowledge string
  | RevokeUser ident
  | RevokeUserNative MissedRows ident
  | Revoke string
  | Cancel string
  | Native IdentityPrincipal ident DeviceInput
  | MarkRecent AuthenticatedSession string

record AgentSecrets =
  as_runtime :: CryptoRuntime
  as_verificationUri :: "string \<Rightarrow> string \<Rightarrow> error + string"
  as_pepper :: string
  as_encryptionKey :: string

definition ignore_result :: "(AgentDb, 'a) eff \<Rightarrow> (AgentDb, unit) eff" where
  "ignore_result m = bnd m (\<lambda>_. ret ())"

fun request_body :: "AgentSecrets \<Rightarrow> AgentCall \<Rightarrow> AgentRequest \<Rightarrow> (AgentDb, unit) eff" where
  "request_body c call (Start d base) =
     ignore_result (startAgentDeviceAuthorization (as_runtime c) (as_verificationUri c) call d base (as_pepper c))"
| "request_body c call (Approve code who account) =
     ignore_result (approveAgentDeviceAuthorization (as_runtime c) call code who account (as_pepper c))"
| "request_body c call (Poll code device) =
     ignore_result (pollAgentDeviceAuthorization (as_runtime c) call code device (as_pepper c) (as_encryptionKey c))"
| "request_body c call (Refresh token) = ignore_result (refreshAgentAccountSession (as_runtime c) call token (as_pepper c))"
| "request_body c call (Authenticate token) = ignore_result (authenticateAgentAccessToken (as_runtime c) call token (as_pepper c))"
| "request_body c call (Acknowledge token) = ignore_result (acknowledgeAgentSessionHandoff (as_runtime c) call token (as_pepper c))"
| "request_body c call (RevokeUser who) = revokeAgentAccountSessionsForUser nothing_missed who (ca_now call)"
| "request_body c call (RevokeUserNative missed who) = revokeNativeAgentSessionsForUser missed who (ca_now call)"
| "request_body c call (Revoke token) = ignore_result (revokeAgentAccountSession (as_runtime c) call token (as_pepper c))"
| "request_body c call (Cancel code) = ignore_result (cancelAgentDeviceAuthorization (as_runtime c) call code (as_pepper c))"
| "request_body c call (Native who account d) = ignore_result (issueNativeBkeAgentHandoff (as_runtime c) call who account d (as_pepper c))"
| "request_body c call (MarkRecent a m) = ignore_result (markAgentSessionRecentlyAuthenticated call a m)"

inductive agent_step :: "AgentSecrets \<Rightarrow> AgentDb \<Rightarrow> AgentDb \<Rightarrow> bool" for c where
  request: "agent_step c s (snd (transaction (request_body c call r) s))"
| directory: "agent_step c s (s\<lparr>ag_users := us, ag_accounts := acs, ag_credentials := crs, ag_mfa := mfs\<rparr>)"

end
