(* ===== verification/Agent_Effects.thy ===== *)
theory Agent_Effects
  imports Agent_Sessions
begin

text \<open>
  What the operations of the agent sessions do to the session and token tables: every request touches,
  revokes, creates or rotates (\<open>table_effect\<close>). From this follow the invariant of the token families and the
  refinement of the abstract life of a session.
\<close>

section \<open>Runs that return\<close>

lemma write_auths_Inr: "write_auths f s = (Inr u, t) \<longleftrightarrow> auths_ok (f (ag_auths s)) \<and> t = s\<lparr>ag_auths := f (ag_auths s)\<rparr>"
  by (auto simp: write_auths_def)

lemma write_sessions_Inr: "write_sessions f s = (Inr u, t) \<longleftrightarrow>
    sessions_ok (ag_auths s) (f (ag_sessions s)) \<and> t = s\<lparr>ag_sessions := f (ag_sessions s)\<rparr>"
  by (auto simp: write_sessions_def)

lemma write_tokens_Inr: "write_tokens f s = (Inr u, t) \<longleftrightarrow>
    tokens_ok (ag_sessions s) (f (ag_tokens s)) \<and> t = s\<lparr>ag_tokens := f (ag_tokens s)\<rparr>"
  by (auto simp: write_tokens_def)

lemma audit_Inr: "audit_create e s = (Inr u, t) \<longleftrightarrow> t = s\<lparr>ag_audit := ag_audit s @ [e]\<rparr>"
  by (auto simp: audit_create_def modify_def)

lemma access_run: "requireAgentDeviceAccountAccessInTransaction p i s = (account_access (ag_accounts s) p i, s)"
  by (simp add: requireAgentDeviceAccountAccessInTransaction_def eff_simps)

lemma status_Inr:
  "(case st of AUTH_PENDING \<Rightarrow> f | AUTH_APPROVED \<Rightarrow> g | AUTH_DENIED \<Rightarrow> h | AUTH_EXPIRED \<Rightarrow> i | AUTH_CONSUMED \<Rightarrow> j) s = (Inr a, t) \<longleftrightarrow>
    st = AUTH_PENDING \<and> f s = (Inr a, t) \<or> st = AUTH_APPROVED \<and> g s = (Inr a, t) \<or> st = AUTH_DENIED \<and> h s = (Inr a, t) \<or>
    st = AUTH_EXPIRED \<and> i s = (Inr a, t) \<or> st = AUTH_CONSUMED \<and> j s = (Inr a, t)"
  by (cases st) simp_all

lemmas run_Inr = status_Inr if_Inr option_Inr sum_Inr bnd_Inr gets_Inr ret_Inr from_result_Inr throw_Inr caught_Inr transaction_Inr write_auths_Inr write_sessions_Inr
  write_tokens_Inr audit_Inr access_run set_auth_def set_auth_if_def clear_session_bundle_def ignore_result_def

section \<open>The tables\<close>

definition tables_ok :: "AgentDb \<Rightarrow> bool" where
  "tables_ok s \<longleftrightarrow> auths_ok (ag_auths s) \<and> sessions_ok (ag_auths s) (ag_sessions s) \<and> tokens_ok (ag_sessions s) (ag_tokens s)"

lemma sessions_ok_mono: "sessions_ok auths rows \<Longrightarrow> au_id ` set auths \<subseteq> au_id ` set auths' \<Longrightarrow> sessions_ok auths' rows"
  unfolding sessions_ok_def list_all_iff by blast

lemma tokens_ok_mono: "tokens_ok sessions rows \<Longrightarrow> se_id ` set sessions \<subseteq> se_id ` set sessions' \<Longrightarrow> tokens_ok sessions' rows"
  unfolding tokens_ok_def list_all_iff by blast

lemma keeps_write_auths:
  assumes ids: "\<And>rows. au_id ` set rows \<subseteq> au_id ` set (f rows)"
  shows "keeps tables_ok (write_auths f)"
  by (rule keepsI) (use sessions_ok_mono [OF _ ids] in \<open>simp add: write_auths_def tables_ok_def\<close>)

lemma keeps_write_sessions:
  assumes ids: "\<And>rows. se_id ` set rows \<subseteq> se_id ` set (f rows)"
  shows "keeps tables_ok (write_sessions f)"
  by (rule keepsI) (use tokens_ok_mono [OF _ ids] in \<open>simp add: write_sessions_def tables_ok_def\<close>)

lemma keeps_write_tokens: "keeps tables_ok (write_tokens f)"
  by (rule keepsI) (auto simp: write_tokens_def tables_ok_def)

lemma update_rows_ids: "(\<And>r. key (f r) = key r) \<Longrightarrow> key ` set rows \<subseteq> key ` set (update_rows p f rows)"
  unfolding set_update_rows image_image by (rule eq_refl, rule image_cong) simp_all

lemma append_ids: "key ` set rows \<subseteq> key ` set (rows @ new)"
  by auto

lemma row_ids [simp]:
  "se_id (revoke_session n r) = se_id r" "tk_id (revoke_token n t) = tk_id t" "tk_sessionId (revoke_token n t) = tk_sessionId t"
  "au_id (clear_bundle n a) = au_id a" "au_id (revoke_authorization n a) = au_id a"
  by (simp_all add: revoke_session_def revoke_token_def clear_bundle_def revoke_authorization_def)

lemma keeps_audit: "keeps tables_ok (audit_create e)"
  unfolding audit_create_def by (intro keeps_intro) (simp add: tables_ok_def)

lemma keeps_access: "keeps P (requireAgentDeviceAccountAccessInTransaction p i)"
  unfolding requireAgentDeviceAccountAccessInTransaction_def by (intro keeps_intro)

lemmas keeps_tables = keeps_write_auths keeps_write_sessions keeps_write_tokens keeps_audit keeps_access update_rows_ids append_ids

lemmas agent_parts = set_auth_def set_auth_if_def clear_session_bundle_def revoke_and_def revokeAgentSessionFamily_def
  deny_authorization_def poll_pending_def poll_consumed_def create_session_def poll_approved_def rotate_tokens_def refresh_session_def
  authenticate_session_def mark_recent_def ignore_result_def

lemmas agent_operations = startAgentDeviceAuthorization_def approveAgentDeviceAuthorization_def pollAgentDeviceAuthorization_def
  refreshAgentAccountSession_def authenticateAgentAccessToken_def acknowledgeAgentSessionHandoff_def
  revokeAgentAccountSessionsForUser_def revokeNativeAgentSessionsForUser_def revokeAgentAccountSession_def cancelAgentDeviceAuthorization_def
  issueNativeBkeAgentHandoff_def markAgentSessionRecentlyAuthenticated_def

lemma keeps_case_poll [keeps_intro]:
  "keeps P f \<Longrightarrow> keeps P g \<Longrightarrow> keeps P h \<Longrightarrow> keeps P i \<Longrightarrow> keeps P j \<Longrightarrow>
   keeps P (case st of AUTH_PENDING \<Rightarrow> f | AUTH_DENIED \<Rightarrow> g | AUTH_EXPIRED \<Rightarrow> h | AUTH_CONSUMED \<Rightarrow> i | AUTH_APPROVED \<Rightarrow> j)"
  by (cases st) simp_all

lemma tables_kept: "keeps tables_ok (request_body c call r)"
  by (cases r; simp only: request_body.simps agent_operations agent_parts Let_def)
    (intro keeps_intro keeps_tables; simp?; (intro keeps_intro keeps_tables; simp)?)+

section \<open>Effects\<close>

text \<open>What identifies a session and its life is left alone.\<close>

definition session_core :: "SessionRow \<Rightarrow> SessionRow \<Rightarrow> bool" where
  "session_core r r' \<longleftrightarrow> se_id r' = se_id r \<and> se_userId r' = se_userId r \<and> se_accountId r' = se_accountId r \<and>
     se_deviceId r' = se_deviceId r \<and> se_refreshGeneration r' = se_refreshGeneration r \<and> se_revokedAt r' = se_revokedAt r \<and>
     se_deviceAuthorizationId r' = se_deviceAuthorizationId r \<and> se_createdAt r' = se_createdAt r"

definition rotated :: "time \<Rightarrow> TokenRow \<Rightarrow> TokenRow" where
  "rotated now t = t\<lparr>tk_status := TOKEN_ROTATED, tk_rotatedAt := Some now\<rparr>"

definition advanced :: "string \<Rightarrow> time \<Rightarrow> int \<Rightarrow> time \<Rightarrow> SessionRow \<Rightarrow> SessionRow" where
  "advanced accessTokenHash accessExpiresAt generation now r =
     r\<lparr>se_accessTokenHash := accessTokenHash, se_accessExpiresAt := accessExpiresAt, se_refreshGeneration := generation,
       se_lastSeenAt := Some now\<rparr>"

inductive table_effect :: "SessionRow list \<Rightarrow> TokenRow list \<Rightarrow> SessionRow list \<Rightarrow> TokenRow list \<Rightarrow> bool" where
  nothing: "table_effect S T S T"
| touches: "(\<And>r. session_core r (f r)) \<Longrightarrow> table_effect S T (update_rows p f S) T"
| revokes: "table_effect S T (update_rows p (revoke_session now) S) (update_rows q (revoke_token now) T)"
| creates: "se_refreshGeneration r = 0 \<Longrightarrow> se_revokedAt r = None \<Longrightarrow> tk_sessionId t = se_id r \<Longrightarrow> tk_generation t = 0 \<Longrightarrow>
    tk_status t = TOKEN_ACTIVE \<Longrightarrow> table_effect S T (S @ [r]) (T @ [t])"
| rotates: "t \<in> set T \<Longrightarrow> tk_status t = TOKEN_ACTIVE \<Longrightarrow> tk_sessionId t = se_id r \<Longrightarrow> r \<in> set S \<Longrightarrow> se_revokedAt r = None \<Longrightarrow>
    tk_sessionId t' = se_id r \<Longrightarrow> tk_generation t' = se_refreshGeneration r + 1 \<Longrightarrow> tk_status t' = TOKEN_ACTIVE \<Longrightarrow>
    table_effect S T (update_rows (\<lambda>q. se_id q = se_id r) (advanced h x (se_refreshGeneration r + 1) now) S)
      (update_rows (\<lambda>q. tk_id q = tk_id t \<and> tk_status q = TOKEN_ACTIVE) (rotated now) T @ [t'])"

definition effect :: "AgentDb \<Rightarrow> AgentDb \<Rightarrow> bool" where
  "effect s t \<longleftrightarrow> table_effect (ag_sessions s) (ag_tokens s) (ag_sessions t) (ag_tokens t)"

lemma effect_nothing [simp]: "ag_sessions t = ag_sessions s \<Longrightarrow> ag_tokens t = ag_tokens s \<Longrightarrow> effect s t"
  by (simp add: effect_def table_effect.nothing)

lemma effect_revokes:
  assumes "revokeAgentSessionFamily i now s = (Inr u, t)"
  shows "effect s t"
proof -
  have t: "ag_sessions t = update_rows (\<lambda>r. se_id r = i) (revoke_session now) (ag_sessions s)"
    "ag_tokens t = update_rows (\<lambda>r. tk_sessionId r = i \<and> tk_status r \<noteq> TOKEN_REVOKED) (revoke_token now) (ag_tokens s)"
    using assms by (auto simp: revokeAgentSessionFamily_def run_Inr)
  show ?thesis unfolding effect_def t by (rule revokes)
qed

lemma effect_revoke_and: "revoke_and i now x s = (Inr u, t) \<Longrightarrow> effect s t"
  by (auto simp: revoke_and_def run_Inr dest: effect_revokes)

lemma session_update_core [simp]: "session_core r (r\<lparr>se_lastSeenAt := x\<rparr>)" "session_core r (r\<lparr>se_recentAuthenticatedAt := x\<rparr>)"
  by (simp_all add: session_core_def)

lemma effect_start: "startAgentDeviceAuthorization rt url call d base pepper s = (Inr a, t) \<Longrightarrow> effect s t"
  by (auto simp: startAgentDeviceAuthorization_def Let_def run_Inr)

lemma effect_approve: "approveAgentDeviceAuthorization rt call code p i pepper s = (Inr a, t) \<Longrightarrow> effect s t"
  by (auto simp: approveAgentDeviceAuthorization_def run_Inr)

lemma effect_create:
  assumes "create_session rt call pepper key a u account s = (Inr r, t)"
  shows "effect s t"
proof -
  obtain h h' where
    "ag_sessions t = ag_sessions s @ [new_session (ca_uuid call 0) a (us_id u) (aa_id account) h call]"
    "ag_tokens t = ag_tokens s @ [new_token (ca_uuid call 1) (ca_uuid call 0) h' 0 (ca_now call + REFRESH_TOKEN_TTL_MS)]"
    using assms by (auto simp: create_session_def Let_def run_Inr)
  then show ?thesis unfolding effect_def by (simp add: creates new_session_def new_token_def)
qed

lemma effect_poll:
  assumes "pollAgentDeviceAuthorization rt call code device pepper key s = (Inr a, t)"
  shows "effect s t"
  using assms
  by (auto simp: pollAgentDeviceAuthorization_def poll_pending_def poll_consumed_def poll_approved_def deny_authorization_def Let_def run_Inr
      dest: effect_create)

lemma effect_rotate:
  assumes "rotate_tokens rt call pepper token session u account s = (Inr r, t)"
    and "token \<in> set (ag_tokens s)" and "tk_status token = TOKEN_ACTIVE" and "tk_sessionId token = se_id session"
    and "session \<in> set (ag_sessions s)" and "se_revokedAt session = None"
  shows "effect s t"
proof -
  obtain h h' where
    s: "ag_sessions t = update_rows (\<lambda>q. se_id q = se_id session)
      (advanced h (ca_now call + ACCESS_TOKEN_TTL_MS) (se_refreshGeneration session + 1) (ca_now call)) (ag_sessions s)" and
    t: "ag_tokens t = update_rows (\<lambda>q. tk_id q = tk_id token \<and> tk_status q = TOKEN_ACTIVE) (rotated (ca_now call)) (ag_tokens s) @
      [new_token (ca_uuid call 0) (se_id session) h' (se_refreshGeneration session + 1) (se_refreshExpiresAt session)]"
    using assms(1) by (auto simp: rotate_tokens_def Let_def run_Inr advanced_def [abs_def] rotated_def [abs_def])
  show ?thesis unfolding effect_def s t by (rule rotates) (use assms in \<open>simp_all add: new_token_def\<close>)
qed

lemma effect_refresh:
  assumes "refreshAgentAccountSession rt call token pepper s = (Inr r, t)"
  shows "effect s t"
proof (cases "r = InvalidGrant \<and> t = s")
  case False
  then obtain row session where row: "row \<in> set (ag_tokens s)" "session \<in> set (ag_sessions s)" "tk_sessionId row = se_id session"
    and run: "refresh_session rt call pepper row session s = (Inr r, t)"
    using assms by (auto simp: refreshAgentAccountSession_def run_Inr dest!: find_by_key)
  show ?thesis
    using run row
    by (auto simp: refresh_session_def Let_def run_Inr dest: effect_revoke_and effect_rotate)
qed simp

lemma effect_authenticate:
  assumes "authenticateAgentAccessToken rt call token pepper s = (Inr r, t)"
  shows "effect s t"
  using assms
  by (auto simp: authenticateAgentAccessToken_def authenticate_session_def Let_def run_Inr effect_def
      dest: effect_revoke_and [unfolded effect_def] intro: table_effect.nothing intro!: touches)

lemma effect_acknowledge:
  assumes "acknowledgeAgentSessionHandoff rt call token pepper s = (Inr r, t)"
  shows "effect s t"
  using assms
  by (auto simp: acknowledgeAgentSessionHandoff_def run_Inr effect_def dest: effect_authenticate [unfolded effect_def])

lemma effect_revoke_user:
  assumes "revokeAgentAccountSessionsForUser missed who now s = (Inr u, t)"
  shows "effect s t"
proof -
  obtain p q where t: "ag_sessions t = update_rows p (revoke_session now) (ag_sessions s)" "ag_tokens t = update_rows q (revoke_token now) (ag_tokens s)"
    using assms by (auto simp: revokeAgentAccountSessionsForUser_def run_Inr)
  show ?thesis unfolding effect_def t by (rule revokes)
qed

lemma effect_revoke_native: "revokeNativeAgentSessionsForUser missed who now s = (Inr u, t) \<Longrightarrow> effect s t"
  by (auto simp: revokeNativeAgentSessionsForUser_def run_Inr dest: effect_revoke_user)

lemma effect_revoke: "revokeAgentAccountSession rt call token pepper s = (Inr r, t) \<Longrightarrow> effect s t"
  by (auto simp: revokeAgentAccountSession_def run_Inr dest: effect_revokes)

lemma effect_cancel: "cancelAgentDeviceAuthorization rt call code pepper s = (Inr r, t) \<Longrightarrow> effect s t"
  by (auto simp: cancelAgentDeviceAuthorization_def run_Inr)

lemma effect_native: "issueNativeBkeAgentHandoff rt call who i d pepper s = (Inr r, t) \<Longrightarrow> effect s t"
  by (auto simp: issueNativeBkeAgentHandoff_def Let_def run_Inr)

lemma effect_recent: "markAgentSessionRecentlyAuthenticated call a m s = (Inr r, t) \<Longrightarrow> effect s t"
  by (auto simp: markAgentSessionRecentlyAuthenticated_def mark_recent_def Let_def run_Inr effect_def intro!: touches)

lemmas operation_effects = effect_start effect_approve effect_poll effect_refresh effect_authenticate effect_acknowledge
  effect_revoke_user effect_revoke_native effect_revoke effect_cancel effect_native effect_recent

lemma request_effect:
  assumes "tables_ok s"
  shows "effect s (snd (transaction (request_body c call r) s))"
proof (cases "request_body c call r" s rule: eff_cases)
  case (1 e t)
  then show ?thesis by (simp add: transaction_def)
next
  case (2 a t)
  then have "effect s t" by (cases r) (auto simp: run_Inr dest: operation_effects)
  with 2 show ?thesis by (simp add: transaction_def)
qed

section \<open>Token families\<close>

text \<open>
  A token belongs to no later generation than its session, and an active one is of the session's own generation.
\<close>

definition family_ok :: "SessionRow list \<Rightarrow> TokenRow list \<Rightarrow> bool" where
  "family_ok S T \<longleftrightarrow> (\<forall>r\<in>set S. \<forall>t\<in>set T. tk_sessionId t = se_id r \<longrightarrow>
     tk_generation t \<le> se_refreshGeneration r \<and>
     (tk_status t = TOKEN_ACTIVE \<longrightarrow> tk_generation t = se_refreshGeneration r))"

definition agent_inv :: "AgentDb \<Rightarrow> bool" where
  "agent_inv s \<longleftrightarrow> tables_ok s \<and> family_ok (ag_sessions s) (ag_tokens s)"

lemma core_fields: "session_core r r' \<Longrightarrow> se_id r' = se_id r" "session_core r r' \<Longrightarrow> se_refreshGeneration r' = se_refreshGeneration r"
  "session_core r r' \<Longrightarrow> se_revokedAt r' = se_revokedAt r"
  by (simp_all add: session_core_def)

lemma family_create:
  assumes ok: "family_ok S T" and new: "se_id r \<notin> se_id ` set S" "\<forall>t\<in>set T. tk_sessionId t \<in> se_id ` set S"
    and r: "se_refreshGeneration r = 0" "se_revokedAt r = None"
    and t: "tk_sessionId t = se_id r" "tk_generation t = 0" "tk_status t = TOKEN_ACTIVE"
  shows "family_ok (S @ [r]) (T @ [t])"
  unfolding family_ok_def
proof (intro ballI impI)
  fix q u
  assume q: "q \<in> set (S @ [r])" and u: "u \<in> set (T @ [t])" and link: "tk_sessionId u = se_id q"
  show "tk_generation u \<le> se_refreshGeneration q \<and>
      (tk_status u = TOKEN_ACTIVE \<longrightarrow> tk_generation u = se_refreshGeneration q)"
    using q u link ok new r t unfolding family_ok_def by (metis UnE image_eqI insertE order_refl set_append empty_iff list.set)
qed

text \<open>Two active tokens of one family are the same token.\<close>

lemma active_unique:
  assumes "family_ok S T" and "tokens_ok S T" and "t \<in> set T" and "u \<in> set T"
    and "tk_status t = TOKEN_ACTIVE" and "tk_status u = TOKEN_ACTIVE" and "tk_sessionId t = tk_sessionId u"
  shows "t = u"
proof -
  from assms(2,3) obtain r where r: "r \<in> set S" "se_id r = tk_sessionId t" unfolding tokens_ok_def list_all_iff by auto
  have "tk_generation t = se_refreshGeneration r" "tk_generation u = se_refreshGeneration r"
    using assms r unfolding family_ok_def by metis+
  then show ?thesis
    using find_key_unique [where key = "\<lambda>t. (tk_sessionId t, tk_generation t)" and rows = T and r = t and q = u] assms
    by (simp add: tokens_ok_def)
qed

lemma family_rows:
  assumes "family_ok S T"
    and "\<And>r'. r' \<in> set S' \<Longrightarrow> \<exists>r\<in>set S. se_id r' = se_id r \<and> se_refreshGeneration r' = se_refreshGeneration r"
    and "\<And>t'. t' \<in> set T' \<Longrightarrow> \<exists>t\<in>set T. tk_sessionId t' = tk_sessionId t \<and> tk_generation t' = tk_generation t \<and>
      (tk_status t' = TOKEN_ACTIVE \<longrightarrow> tk_status t = TOKEN_ACTIVE)"
  shows "family_ok S' T'"
  unfolding family_ok_def
proof (intro ballI impI)
  fix r' t'
  assume "r' \<in> set S'" and "t' \<in> set T'" and link: "tk_sessionId t' = se_id r'"
  then obtain r t where r: "r \<in> set S" "se_id r' = se_id r" "se_refreshGeneration r' = se_refreshGeneration r"
    and t: "t \<in> set T" "tk_sessionId t' = tk_sessionId t" "tk_generation t' = tk_generation t"
      "tk_status t' = TOKEN_ACTIVE \<longrightarrow> tk_status t = TOKEN_ACTIVE"
    using assms(2,3) by meson
  have "tk_generation t \<le> se_refreshGeneration r \<and> (tk_status t = TOKEN_ACTIVE \<longrightarrow> tk_generation t = se_refreshGeneration r)"
    using assms(1) r(1) t(1) link r(2) t(2) unfolding family_ok_def by simp
  then show "tk_generation t' \<le> se_refreshGeneration r' \<and> (tk_status t' = TOKEN_ACTIVE \<longrightarrow> tk_generation t' = se_refreshGeneration r')"
    using r t link by auto
qed

lemma family_effect:
  assumes "table_effect S T S' T'" and "family_ok S T" and "tokens_ok S T" and "tokens_ok S' T'" and "sessions_ok A S" and "sessions_ok A' S'"
  shows "family_ok S' T'"
  using assms
proof (induction rule: table_effect.induct)
  case (nothing S T)
  then show ?case by simp
next
  case (touches f S T p)
  note f = core_fields [OF touches(1)]
  show ?case
    by (rule family_rows [OF touches(2)]) (auto simp: set_update_rows f)
next
  case (revokes S T p now q)
  show ?case
    by (rule family_rows [OF revokes(1)]) (auto simp: set_update_rows revoke_session_def revoke_token_def split: if_splits)
next
  case (creates r t S T)
  show ?case
    by (rule family_create [OF creates(6) _ _ creates(1-2) creates(3-5)])
      (use creates(7,10) in \<open>auto simp: sessions_ok_def tokens_ok_def list_all_iff\<close>)
next
  case (rotates t T r S t' h x now)
  let ?T = "update_rows (\<lambda>q. tk_id q = tk_id t \<and> tk_status q = TOKEN_ACTIVE) (rotated now) T"
  show ?case
    unfolding family_ok_def
  proof (intro ballI impI)
    fix q u
    assume q: "q \<in> set (update_rows (\<lambda>q. se_id q = se_id r) (advanced h x (se_refreshGeneration r + 1) now) S)"
      and u: "u \<in> set (?T @ [t'])" and link: "tk_sessionId u = se_id q"
    obtain q0 where q0: "q0 \<in> set S" "q = (if se_id q0 = se_id r then advanced h x (se_refreshGeneration r + 1) now q0 else q0)"
      using q by (auto simp: set_update_rows)
    have same: "q0 = r" if "se_id q0 = se_id r"
      using that rotates(4) q0(1) find_key_unique [where key = se_id] rotates(12) unfolding sessions_ok_def by metis
    have old: "u = t' \<or> (\<exists>v\<in>set T. u = (if tk_id v = tk_id t \<and> tk_status v = TOKEN_ACTIVE then rotated now v else v))"
      using u by (auto simp: set_update_rows)
    show "tk_generation u \<le> se_refreshGeneration q \<and>
        (tk_status u = TOKEN_ACTIVE \<longrightarrow> tk_generation u = se_refreshGeneration q)"
    proof (cases "se_id q0 = se_id r")
      case True
      with same q0 have q1: "q = advanced h x (se_refreshGeneration r + 1) now r" "q0 = r" by simp_all
      show ?thesis
      proof (cases "u = t'")
        case False
        then obtain v where v: "v \<in> set T" "u = (if tk_id v = tk_id t \<and> tk_status v = TOKEN_ACTIVE then rotated now v else v)"
          using old by blast
        have lv: "tk_sessionId v = se_id r" using v(2) link q1 by (simp add: rotated_def advanced_def split: if_splits)
        have gen: "tk_generation v \<le> se_refreshGeneration r" using rotates(9) v(1) lv rotates(4) unfolding family_ok_def by simp
        show ?thesis
        proof (cases "tk_status v = TOKEN_ACTIVE")
          case True
          have "v = t" by (rule active_unique [OF rotates(9,10) v(1) rotates(1) True rotates(2)]) (simp add: lv rotates(3))
          with v(2) True have "u = rotated now v" by simp
          with gen show ?thesis unfolding q1(1) by (simp add: rotated_def advanced_def)
        next
          case False
          with v(2) have "u = v" by simp
          with gen False show ?thesis unfolding q1(1) by (simp add: advanced_def)
        qed
      qed (use rotates q1 in \<open>simp add: advanced_def\<close>)
    next
      case False
      then have q1: "q = q0" using q0(2) by simp
      then have "u \<noteq> t'" using False link rotates(6) by auto
      then obtain v where v: "v \<in> set T" "u = (if tk_id v = tk_id t \<and> tk_status v = TOKEN_ACTIVE then rotated now v else v)"
        using old by blast
      have "tk_sessionId v = se_id q0" using v(2) link q1 by (simp add: rotated_def split: if_splits)
      then have "tk_generation v \<le> se_refreshGeneration q0 \<and>
          (tk_status v = TOKEN_ACTIVE \<longrightarrow> tk_generation v = se_refreshGeneration q0)"
        using rotates(9) v(1) q0(1) unfolding family_ok_def by simp
      then show ?thesis unfolding v(2) q1 by (simp add: rotated_def)
    qed
  qed
qed

lemma agent_inv_step:
  assumes "agent_step c s t" and "agent_inv s"
  shows "agent_inv t"
  using assms
proof (cases rule: agent_step.cases)
  case (request call r)
  have ok: "tables_ok s" using assms(2) by (simp add: agent_inv_def)
  have ok': "tables_ok t" unfolding request by (rule keeps_apply [OF keeps_transaction [OF tables_kept] ok])
  have "table_effect (ag_sessions s) (ag_tokens s) (ag_sessions t) (ag_tokens t)"
    using request_effect [OF ok, of c call r] by (simp add: effect_def request)
  then have "family_ok (ag_sessions t) (ag_tokens t)"
    by (rule family_effect [where A = "ag_auths s" and A' = "ag_auths t"]) (use ok ok' assms(2) in \<open>simp_all add: tables_ok_def agent_inv_def\<close>)
  then show ?thesis using ok' by (simp add: agent_inv_def)
qed (use assms(2) in \<open>simp add: agent_inv_def tables_ok_def\<close>)

lemma agent_inv_run: "(agent_step c)\<^sup>*\<^sup>* s t \<Longrightarrow> agent_inv s \<Longrightarrow> agent_inv t"
  by (induction rule: rtranclp_induct) (auto intro: agent_inv_step)

section \<open>The life of a session\<close>

text \<open>A session starts at generation 0, is refreshed generation by generation, and ends for good.\<close>

datatype session_life = Unborn | Live int | Ended

inductive life_step :: "session_life \<Rightarrow> session_life \<Rightarrow> bool" where
  stays: "life_step l l"
| starts: "life_step Unborn (Live 0)"
| refreshes: "life_step (Live g) (Live (g + 1))"
| ends: "life_step (Live g) Ended"

definition row_life :: "SessionRow option \<Rightarrow> session_life" where
  "row_life x = (case x of None \<Rightarrow> Unborn | Some r \<Rightarrow> if se_revokedAt r = None then Live (se_refreshGeneration r) else Ended)"

definition session_life :: "AgentDb \<Rightarrow> ident \<Rightarrow> session_life" where
  "session_life s i = row_life (find_by se_id i (ag_sessions s))"

lemma find_by_update_rows:
  "(\<And>r. key (f r) = key r) \<Longrightarrow> find_by key k (update_rows p f rows) = map_option (\<lambda>r. if p r then f r else r) (find_by key k rows)"
  unfolding find_by_def by (rule find_update_rows) simp

lemma life_effect:
  assumes "table_effect S T S' T'" and "sessions_ok A S" and "sessions_ok A' S'"
  shows "life_step (row_life (find_by se_id i S)) (row_life (find_by se_id i S'))"
  using assms
proof (induction rule: table_effect.induct)
  case (nothing S T)
  then show ?case by (simp add: stays)
next
  case (touches f S T p)
  note f = core_fields [OF touches(1)]
  have "row_life (find_by se_id i (update_rows p f S)) = row_life (find_by se_id i S)"
    by (cases "find_by se_id i S") (simp_all add: find_by_update_rows f row_life_def)
  then show ?case by (simp add: stays)
next
  case (revokes S T p now q)
  have "se_id (revoke_session now r) = se_id r" for r by simp
  then show ?case
    by (cases "find_by se_id i S")
      (auto simp: find_by_update_rows row_life_def revoke_session_def coalesce_def intro: life_step.intros split: option.splits)
next
  case (creates r t S T)
  have new: "se_id r \<notin> se_id ` set S" using creates(7) by (simp add: sessions_ok_def)
  have "find_by se_id i (S @ [r]) = (if i = se_id r then Some r else find_by se_id i S)"
  proof (cases "find_by se_id i S")
    case (Some q)
    then have "q \<in> set S" "se_id q = i" by (auto dest: find_by_key)
    then have "i \<noteq> se_id r" using new by (metis imageI)
    then show ?thesis using Some by (simp add: find_by_def find_append)
  qed (simp add: find_by_append_new)
  moreover have "find_by se_id (se_id r) S = None"
  proof (rule ccontr)
    assume "find_by se_id (se_id r) S \<noteq> None"
    then obtain q where "q \<in> set S" "se_id q = se_id r" by (auto dest: find_by_key)
    then show False using new by (metis imageI)
  qed
  ultimately show ?case using creates(1,2) by (auto simp: row_life_def intro: life_step.intros)
next
  case (rotates t T r S t' h x now)
  let ?f = "advanced h x (se_refreshGeneration r + 1) now"
  have f: "se_id (?f q) = se_id q" for q by (simp add: advanced_def)
  show ?case
  proof (cases "find_by se_id i S")
    case (Some q)
    then have q: "q \<in> set S" "se_id q = i" by (auto dest: find_by_key)
    show ?thesis
    proof (cases "i = se_id r")
      case True
      then have "q = r" using q rotates(4,9) find_key_unique [where key = se_id] unfolding sessions_ok_def by metis
      then show ?thesis using Some rotates(5) True
        by (simp add: find_by_update_rows f row_life_def) (simp add: advanced_def life_step.intros)
    qed (use Some q in \<open>simp add: find_by_update_rows f row_life_def stays\<close>)
  qed (simp add: find_by_update_rows f stays)
qed

lemma agent_step_life:
  assumes "agent_step c s t" and "tables_ok s"
  shows "life_step (session_life s i) (session_life t i)"
  using assms
proof (cases rule: agent_step.cases)
  case (request call r)
  have ok': "tables_ok t" unfolding request by (rule keeps_apply [OF keeps_transaction [OF tables_kept] assms(2)])
  have "table_effect (ag_sessions s) (ag_tokens s) (ag_sessions t) (ag_tokens t)"
    using request_effect [OF assms(2), of c call r] by (simp add: effect_def request)
  then show ?thesis
    unfolding session_life_def by (rule life_effect [where A = "ag_auths s" and A' = "ag_auths t"]) (use assms(2) ok' in \<open>simp_all add: tables_ok_def\<close>)
qed (simp add: session_life_def stays)

inductive_cases life_step_Ended: "life_step Ended l"

lemma ended_forever:
  assumes "(agent_step c)\<^sup>*\<^sup>* s t" and "agent_inv s" and "session_life s i = Ended"
  shows "session_life t i = Ended \<and> agent_inv t"
  using assms
proof (induction rule: rtranclp_induct)
  case (step u v)
  then show ?case
    using agent_step_life [OF step(2), of i] agent_inv_step [OF step(2)] by (auto simp: agent_inv_def elim: life_step_Ended)
qed simp

end
