(* ===== verification/Agent_Claims.thy ===== *)
theory Agent_Claims
  imports Agent_Effects
begin

text \<open>
  What the agent sessions promise: one active refresh token per session, replay ends the family for good,
  authentication and the device-code exchange only succeed for those entitled, and a lost response can be
  fetched again. A run is any interleaving of requests and of changes to users, accounts and credentials.
\<close>

section \<open>Revocation\<close>

lemma find_by_exists:
  assumes "i \<in> key ` set rows"
  obtains r where "find_by key i rows = Some r" and "key r = i" and "r \<in> set rows"
proof (cases "find_by key i rows")
  case None
  then show thesis using assms unfolding find_by_def find_None by blast
next
  case (Some r)
  then show thesis using that find_by_key by metis
qed

lemma revoke_rows_ok:
  "sessions_ok A S \<Longrightarrow> sessions_ok A (update_rows p (revoke_session now) S)"
  "tokens_ok S T \<Longrightarrow> tokens_ok S (update_rows q (revoke_token now) T)"
proof -
  have core: "se_id (revoke_session now r) = se_id r \<and> se_deviceAuthorizationId (revoke_session now r) = se_deviceAuthorizationId r \<and>
      se_accessTokenHash (revoke_session now r) = se_accessTokenHash r \<and> session_check (revoke_session now r) = session_check r" for r
    by (simp add: revoke_session_def session_check_def)
  show "sessions_ok A (update_rows p (revoke_session now) S)" if "sessions_ok A S"
    using that core unfolding sessions_ok_def list_all_iff by (auto simp: map_update_rows set_update_rows)
  have core': "tk_id (revoke_token now r) = tk_id r \<and> tk_tokenHash (revoke_token now r) = tk_tokenHash r \<and>
      (tk_sessionId (revoke_token now r), tk_generation (revoke_token now r)) = (tk_sessionId r, tk_generation r) \<and>
      (token_check r \<longrightarrow> token_check (revoke_token now r))" for r
    by (simp add: revoke_token_def token_check_def coalesce_def split: option.splits)
  show "tokens_ok S (update_rows q (revoke_token now) T)" if "tokens_ok S T"
    using that core' unfolding tokens_ok_def list_all_iff by (auto simp: map_update_rows set_update_rows)
qed

lemma map_filter_update_rows: "(\<And>r. key (f r) = key r) \<Longrightarrow> List.map_filter key (update_rows p f rows) = List.map_filter key rows"
  by (induction rows) (simp_all add: update_rows_Nil update_rows_Cons List.map_filter_simps split: option.splits)

lemma auths_ok_update:
  assumes "auths_ok rows" and "\<And>r. auth_check r \<Longrightarrow> p r \<Longrightarrow> auth_check (f r)"
    and "\<And>r. au_id (f r) = au_id r" and "\<And>r. au_deviceCodeHash (f r) = au_deviceCodeHash r"
    and "\<And>r. au_userCodeHash (f r) = au_userCodeHash r" and "\<And>r. au_sessionId (f r) = au_sessionId r"
  shows "auths_ok (update_rows p f rows)"
  using assms unfolding auths_ok_def list_all_iff by (auto simp: map_update_rows map_filter_update_rows set_update_rows)

lemma clear_bundle_ok: "auths_ok rows \<Longrightarrow> auths_ok (update_rows p (clear_bundle now) rows)"
  by (rule auths_ok_update) (simp_all add: clear_bundle_def auth_check_def)

lemma update_rows_cases:
  assumes "u \<in> set (update_rows p f rows)"
  obtains v where "v \<in> set rows" and "p v" and "u = f v" | "u \<in> set rows" and "\<not> p u"
  using assms unfolding set_update_rows by (auto split: if_splits)

lemma revoked_tokens:
  assumes "u \<in> set (update_rows (\<lambda>t. tk_sessionId t = i \<and> tk_status t \<noteq> TOKEN_REVOKED) (revoke_token now) T)" and "tk_sessionId u = i"
  shows "tk_status u \<noteq> TOKEN_ACTIVE"
  using assms(1) by (cases rule: update_rows_cases) (use assms(2) in \<open>simp_all add: revoke_token_def\<close>)

lemma cleared_bundles:
  assumes "u \<in> set (update_rows (\<lambda>r. au_sessionId r = Some i) (clear_bundle now) A)" and "au_sessionId u = Some i"
  shows "au_tokenBundleCiphertext u = None"
  using assms(1) by (cases rule: update_rows_cases) (use assms(2) in \<open>simp_all add: clear_bundle_def\<close>)

definition family_ended :: "ident \<Rightarrow> AgentDb \<Rightarrow> bool" where
  "family_ended i s \<longleftrightarrow> (\<forall>t\<in>set (ag_tokens s). tk_sessionId t = i \<longrightarrow> tk_status t \<noteq> TOKEN_ACTIVE) \<and>
     (\<forall>r\<in>set (ag_auths s). au_sessionId r = Some i \<longrightarrow> au_tokenBundleCiphertext r = None)"

text \<open>Revoking a family always succeeds, ends the session, and leaves no active token and no sealed bundle of it.\<close>

lemma revoke_family:
  assumes "tables_ok s" and "i \<in> se_id ` set (ag_sessions s)"
  obtains t where "revokeAgentSessionFamily i now s = (Inr (), t)" and "session_life t i = Ended" and "family_ended i t"
proof -
  let ?S = "update_rows (\<lambda>r. se_id r = i) (revoke_session now) (ag_sessions s)"
  let ?T = "update_rows (\<lambda>t. tk_sessionId t = i \<and> tk_status t \<noteq> TOKEN_REVOKED) (revoke_token now) (ag_tokens s)"
  let ?A = "update_rows (\<lambda>r. au_sessionId r = Some i) (clear_bundle now) (ag_auths s)"
  let ?t = "s\<lparr>ag_sessions := ?S, ag_tokens := ?T, ag_auths := ?A\<rparr>"
  have S: "sessions_ok (ag_auths s) ?S" using assms(1) by (simp add: tables_ok_def revoke_rows_ok)
  have "tokens_ok ?S (ag_tokens s)"
    by (rule tokens_ok_mono [of "ag_sessions s"]) (use assms(1) in \<open>simp_all add: tables_ok_def update_rows_ids\<close>)
  then have T: "tokens_ok ?S ?T" by (rule revoke_rows_ok)
  have A: "auths_ok ?A" using assms(1) by (simp add: tables_ok_def clear_bundle_ok)
  have run: "revokeAgentSessionFamily i now s = (Inr (), ?t)"
    unfolding revokeAgentSessionFamily_def clear_session_bundle_def using S T A
    by (simp add: bnd_def write_sessions_def write_tokens_def write_auths_def)
  obtain r where "find_by se_id i (ag_sessions s) = Some r" "se_id r = i"
    using find_by_exists [OF assms(2)] .
  then have "find_by se_id i ?S = Some (revoke_session now r)" by (simp add: find_by_update_rows)
  then have "session_life ?t i = Ended" by (simp add: session_life_def row_life_def revoke_session_def coalesce_def split: option.split)
  moreover have "tk_status u \<noteq> TOKEN_ACTIVE" if "u \<in> set ?T" "tk_sessionId u = i" for u
    by (rule revoked_tokens [OF that])
  moreover have "au_tokenBundleCiphertext u = None" if "u \<in> set ?A" "au_sessionId u = Some i" for u
    by (rule cleared_bundles [OF that])
  ultimately have "session_life ?t i = Ended" and "family_ended i ?t" by (simp_all add: family_ended_def)
  then show thesis using that run by blast
qed

lemma find_by_hash:
  assumes "row \<in> set rows" and "distinct (map key rows)"
  shows "find_by key (key row) rows = Some row"
  unfolding find_by_def by (rule find_key [OF assms(2,1)])

lemma token_session:
  assumes "tables_ok s" and "row \<in> set (ag_tokens s)"
  obtains session where "find_by se_id (tk_sessionId row) (ag_sessions s) = Some session" and "se_id session = tk_sessionId row"
    and "session \<in> set (ag_sessions s)"
proof -
  have "tk_sessionId row \<in> se_id ` set (ag_sessions s)" using assms by (auto simp: tables_ok_def tokens_ok_def list_all_iff)
  from find_by_exists [OF this] show thesis using that .
qed

lemma refresh_of_used_token:
  assumes "tables_ok s" and "hashAgentRefreshToken rt token pepper = Inr (tk_tokenHash row)" and "row \<in> set (ag_tokens s)"
    and "tk_status row \<noteq> TOKEN_ACTIVE"
  obtains t where "refreshAgentAccountSession rt call token pepper s = (Inr ReplayDetected, t)"
    and "session_life t (tk_sessionId row) = Ended" and "family_ended (tk_sessionId row) t"
proof -
  obtain session where session: "find_by se_id (tk_sessionId row) (ag_sessions s) = Some session" "se_id session = tk_sessionId row"
      "session \<in> set (ag_sessions s)" using token_session [OF assms(1,3)] .
  have row: "find_by tk_tokenHash (tk_tokenHash row) (ag_tokens s) = Some row"
    by (rule find_by_hash [OF assms(3)]) (use assms(1) in \<open>simp add: tables_ok_def tokens_ok_def\<close>)
  obtain t where t: "revokeAgentSessionFamily (tk_sessionId row) (ca_now call) s = (Inr (), t)"
      "session_life t (tk_sessionId row) = Ended" "family_ended (tk_sessionId row) t"
    using revoke_family [OF assms(1), of "tk_sessionId row" "ca_now call"] session by (metis image_eqI)
  have "refreshAgentAccountSession rt call token pepper s = (Inr ReplayDetected, t)"
    using t(1) assms(4) session(2)
    by (simp add: refreshAgentAccountSession_def refresh_session_def revoke_and_def Let_def assms(2) row session(1) eff_simps)
  then show thesis using that t by blast
qed

section \<open>Claims\<close>

lemma refresh_of_left_token:
  assumes "tables_ok s" and "hashAgentRefreshToken rt token pepper = Inr (tk_tokenHash row)" and "row \<in> set (ag_tokens s)"
    and "tk_status row = TOKEN_ACTIVE" and "session_life s (tk_sessionId row) = Ended"
  obtains t where "refreshAgentAccountSession rt call token pepper s = (Inr InvalidGrant, t)" and "family_ended (tk_sessionId row) t"
proof -
  obtain session where session: "find_by se_id (tk_sessionId row) (ag_sessions s) = Some session" "se_id session = tk_sessionId row"
      "session \<in> set (ag_sessions s)" using token_session [OF assms(1,3)] .
  have ended: "se_revokedAt session \<noteq> None" using assms(5) session(1) by (auto simp: session_life_def row_life_def split: if_splits)
  have row: "find_by tk_tokenHash (tk_tokenHash row) (ag_tokens s) = Some row"
    by (rule find_by_hash [OF assms(3)]) (use assms(1) in \<open>simp add: tables_ok_def tokens_ok_def\<close>)
  obtain t where t: "revokeAgentSessionFamily (tk_sessionId row) (ca_now call) s = (Inr (), t)" "family_ended (tk_sessionId row) t"
    using revoke_family [OF assms(1), of "tk_sessionId row" "ca_now call"] session by (metis image_eqI)
  have "refreshAgentAccountSession rt call token pepper s = (Inr InvalidGrant, t)"
    using t(1) assms(4) session(2) ended
    by (simp add: refreshAgentAccountSession_def refresh_session_def revoke_and_def Let_def assms(2) row session(1) eff_simps)
  then show thesis using that t by blast
qed

text \<open>C2 Under every interleaving, also with a revocation at Read Committed that misses rows, each agent session has at most one
  active refresh token, and it is of the session's current generation; one that such a revocation leaves to an ended session
  is not refreshed: presenting it answers an invalid grant and leaves no active token.\<close>

theorem one_active_token:
  assumes "(agent_step c)\<^sup>*\<^sup>* s t" and "agent_inv s"
    and "a \<in> set (ag_tokens t)" and "tk_status a = TOKEN_ACTIVE"
  shows "(\<forall>b\<in>set (ag_tokens t). tk_status b = TOKEN_ACTIVE \<longrightarrow> tk_sessionId b = tk_sessionId a \<longrightarrow> b = a) \<and>
    map_option se_refreshGeneration (find_by se_id (tk_sessionId a) (ag_sessions t)) = Some (tk_generation a) \<and>
    (session_life t (tk_sessionId a) = Ended \<longrightarrow> hashAgentRefreshToken rt token pepper = Inr (tk_tokenHash a) \<longrightarrow>
       (\<exists>u. refreshAgentAccountSession rt call token pepper t = (Inr InvalidGrant, u) \<and> family_ended (tk_sessionId a) u))"
proof (intro conjI impI)
  have inv: "agent_inv t" by (rule agent_inv_run [OF assms(1,2)])
  then have ok: "tables_ok t" by (simp add: agent_inv_def)
  show "\<forall>b\<in>set (ag_tokens t). tk_status b = TOKEN_ACTIVE \<longrightarrow> tk_sessionId b = tk_sessionId a \<longrightarrow> b = a"
    using active_unique [of "ag_sessions t" "ag_tokens t"] assms(3,4) inv by (auto simp: agent_inv_def tables_ok_def)
  obtain r where r: "find_by se_id (tk_sessionId a) (ag_sessions t) = Some r" "se_id r = tk_sessionId a" "r \<in> set (ag_sessions t)"
    using token_session [OF ok assms(3)] .
  then show "map_option se_refreshGeneration (find_by se_id (tk_sessionId a) (ag_sessions t)) = Some (tk_generation a)"
    using inv assms(3,4) by (simp add: agent_inv_def family_ok_def)
  assume "session_life t (tk_sessionId a) = Ended" "hashAgentRefreshToken rt token pepper = Inr (tk_tokenHash a)"
  from refresh_of_left_token [OF ok this(2) assms(3,4) this(1)]
  show "\<exists>u. refreshAgentAccountSession rt call token pepper t = (Inr InvalidGrant, u) \<and> family_ended (tk_sessionId a) u" by metis
qed

text \<open>C3 The session tables refine the abstract life of a session: in every step each session stays as it is, is
  born at generation 0, advances by one generation, or ends; so generations only grow and an ended session
  never lives again.\<close>

theorem session_refines_life:
  assumes "agent_step c s t" and "agent_inv s"
  shows "life_step (session_life s i) (session_life t i)"
  by (rule agent_step_life [OF assms(1)]) (use assms(2) in \<open>simp add: agent_inv_def\<close>)

lemma authenticated_live:
  assumes "authenticateAgentAccessToken rt call token pepper s = (Inr (Some a), t)" and "tables_ok s"
  shows "\<exists>g. session_life s (at_sessionId a) = Live g"
proof -
  obtain r where r: "r \<in> set (ag_sessions s)" "se_revokedAt r = None" "at_sessionId a = se_id r"
    using assms(1)
    by (auto simp: authenticateAgentAccessToken_def authenticate_session_def revoke_and_def Let_def run_Inr dest!: find_by_key)
  have "find_by se_id (se_id r) (ag_sessions s) = Some r"
    by (rule find_by_hash [OF r(1)]) (use assms(2) in \<open>simp add: tables_ok_def sessions_ok_def\<close>)
  then show ?thesis using r by (simp add: session_life_def row_life_def)
qed

text \<open>C1 Presenting a refresh token that was already rotated or revoked is detected and ends its session for good: the
  call reports the replay, no token of the family stays active, the sealed bundle is gone, and whatever
  happens afterwards, no access token ever authenticates as this session again.\<close>

theorem replay_ends_family:
  assumes "agent_inv s" and "hashAgentRefreshToken rt token pepper = Inr (tk_tokenHash row)" and "row \<in> set (ag_tokens s)"
    and "tk_status row \<noteq> TOKEN_ACTIVE"
  shows "\<exists>t. refreshAgentAccountSession rt call token pepper s = (Inr ReplayDetected, t) \<and>
    family_ended (tk_sessionId row) t \<and>
    (\<forall>u access call' a v. (agent_step c)\<^sup>*\<^sup>* t u \<longrightarrow>
       authenticateAgentAccessToken rt call' access pepper u = (Inr (Some a), v) \<longrightarrow> at_sessionId a \<noteq> tk_sessionId row)"
proof -
  have ok: "tables_ok s" using assms(1) by (simp add: agent_inv_def)
  obtain t where t: "refreshAgentAccountSession rt call token pepper s = (Inr ReplayDetected, t)"
      "session_life t (tk_sessionId row) = Ended" "family_ended (tk_sessionId row) t"
    using refresh_of_used_token [OF ok assms(2-4)] .
  have "agent_step (\<lparr>as_runtime = rt, as_verificationUri = (\<lambda>_ _. Inl []), as_pepper = pepper, as_encryptionKey = []\<rparr>) s t"
    using request [of "\<lparr>as_runtime = rt, as_verificationUri = (\<lambda>_ _. Inl []), as_pepper = pepper, as_encryptionKey = []\<rparr>" s call "Refresh token"] t(1)
    by (simp add: transaction_run ignore_result_def bnd_run ret_run)
  then have inv: "agent_inv t" using assms(1) by (rule agent_inv_step)
  have "at_sessionId a \<noteq> tk_sessionId row"
    if "(agent_step c)\<^sup>*\<^sup>* t u" "authenticateAgentAccessToken rt call' access pepper u = (Inr (Some a), v)" for u access call' a v
    using ended_forever [OF that(1) inv t(2)] authenticated_live [OF that(2)] by (auto simp: agent_inv_def)
  then show ?thesis using t by blast
qed

text \<open>C4 An access token authenticates only for a session with its hash that is neither revoked nor expired, whose user
  has since changed neither password nor second factor, is verified and active, and still has access to
  the account; the answer names that session, user, account and device.\<close>

theorem authentication_sound:
  assumes "authenticateAgentAccessToken rt call token pepper s = (Inr (Some a), t)"
  shows "\<exists>r\<in>set (ag_sessions s). hashAgentAccessToken rt token pepper = Inr (se_accessTokenHash r) \<and>
    a = \<lparr>at_sessionId = se_id r, at_userId = se_userId r, at_accountId = se_accountId r, at_deviceId = se_deviceId r\<rparr> \<and>
    se_revokedAt r = None \<and> ca_now call < se_accessExpiresAt r \<and>
    \<not> agentSessionPredatesPasswordCredential r s \<and> \<not> agentSessionPredatesMfaAuthorityChange r s \<and>
    user_active (session_user (se_userId r) s) \<and> (\<exists>account. account_access (ag_accounts s) (se_userId r) (se_accountId r) = Inr account)"
  using assms
  by (auto simp: authenticateAgentAccessToken_def authenticate_session_def revoke_and_def predates_def Let_def run_Inr not_le
      dest!: find_by_key intro!: bexI)

end
