(* ===== verification/Agent_Exchange.thy ===== *)
theory Agent_Exchange
  imports Agent_Claims
begin

text \<open>
  The device-code exchange and the rotation of refresh tokens: who may be handed a token bundle, that a lost
  answer can be fetched again within the handoff time, that a refresh token works once, what revoking a user
  does, and how long a recent authentication counts.
\<close>

section \<open>Exchange\<close>

lemma create_session_run:
  assumes "create_session rt call pepper key a u account s = (Inr r, t)"
  obtains sealed tokens h where
    "r = PollApproved tokens" and "encryptAgentTokenBundle rt (ca_bytes call 2 12) tokens key = Inr sealed"
    and "bu_userId tokens = us_id u" and "bu_accountId tokens = aa_id account"
    and "ag_sessions t = ag_sessions s @ [new_session (ca_uuid call 0) a (us_id u) (aa_id account) h call]"
    and "hashAgentAccessToken rt (bu_accessToken tokens) pepper = Inr h"
    and "ag_auths t = update_rows (\<lambda>r. au_id r = au_id a \<and> au_status r = AUTH_APPROVED)
       (\<lambda>r. r\<lparr>au_status := AUTH_CONSUMED, au_consumedAt := Some (ca_txNow call),
              au_handoffExpiresAt := Some (ca_now call + HANDOFF_TTL_MS), au_sessionId := Some (ca_uuid call 0),
              au_tokenBundleCiphertext := Some sealed\<rparr>) (ag_auths s)"
  using assms by (auto simp: create_session_def Let_def token_bundle_def run_Inr)

lemma find_by_in: "find_by key k rows = Some r \<Longrightarrow> r \<in> set rows \<and> key r = k"
  by (auto dest: find_by_key)

text \<open>An approved answer comes from an approved authorization, which it consumes, or from one consumed within the handoff time.\<close>

lemma poll_approved_cases:
  assumes "pollAgentDeviceAuthorization rt call code device pepper key s = (Inr (PollApproved b), t)"
  obtains a u account where "find_by au_deviceCodeHash (au_deviceCodeHash a) (ag_auths s) = Some a"
      and "hashAgentDeviceCode rt code pepper = Inr (au_deviceCodeHash a)"
      and "au_kind a = NATIVE_HANDOFF \<longrightarrow> truthy device \<and> js_trim (or_else device []) = au_deviceId a"
      and "au_status a = AUTH_APPROVED" and "ca_now call < au_expiresAt a"
      and "account_access (ag_accounts s) (or_else (au_approvedByUserId a) []) (or_else (au_approvedAccountId a) []) = Inr account"
      and "user_active (Some u)" and "us_id u = or_else (au_approvedByUserId a) []" and "session_user (us_id u) s = Some u"
      and "create_session rt call pepper key a u account s = (Inr (PollApproved b), t)"
  | a x where "find_by au_deviceCodeHash (au_deviceCodeHash a) (ag_auths s) = Some a"
      and "hashAgentDeviceCode rt code pepper = Inr (au_deviceCodeHash a)"
      and "au_kind a = NATIVE_HANDOFF \<longrightarrow> truthy device \<and> js_trim (or_else device []) = au_deviceId a"
      and "au_status a = AUTH_CONSUMED" and "au_handoffExpiresAt a = Some x" and "ca_now call < x" and "t = s"
      and "decryptAgentTokenBundle rt (or_else (au_tokenBundleCiphertext a) []) key = Inr b"
proof -
  obtain h a where h: "hashAgentDeviceCode rt code pepper = Inr h" and a: "find_by au_deviceCodeHash h (ag_auths s) = Some a"
    and device: "au_kind a = NATIVE_HANDOFF \<longrightarrow> truthy device \<and> js_trim (or_else device []) = au_deviceId a"
    and run: "au_status a = AUTH_APPROVED \<and> ca_now call < au_expiresAt a \<and> poll_approved rt call pepper key a s = (Inr (PollApproved b), t) \<or>
      au_status a = AUTH_CONSUMED \<and> poll_consumed rt call key a s = (Inr (PollApproved b), t)"
    using assms
    by (auto simp: pollAgentDeviceAuthorization_def poll_pending_def Let_def run_Inr not_le)
  have key: "au_deviceCodeHash a = h" using find_by_in [OF a] by simp
  from run show thesis
  proof
    assume approved: "au_status a = AUTH_APPROVED \<and> ca_now call < au_expiresAt a \<and> poll_approved rt call pepper key a s = (Inr (PollApproved b), t)"
    then obtain account u where
      "account_access (ag_accounts s) (or_else (au_approvedByUserId a) []) (or_else (au_approvedAccountId a) []) = Inr account"
      and u: "session_user (or_else (au_approvedByUserId a) []) s = Some u" and "user_active (Some u)"
      and "create_session rt call pepper key a u account s = (Inr (PollApproved b), t)"
      by (auto simp: poll_approved_def deny_authorization_def Let_def run_Inr)
    moreover have id: "us_id u = or_else (au_approvedByUserId a) []" using find_by_in u unfolding session_user_def by metis
    moreover have "session_user (us_id u) s = Some u" using u id by simp
    ultimately show thesis using that(1) [of a account u] a h key device approved by blast
  next
    assume consumed: "au_status a = AUTH_CONSUMED \<and> poll_consumed rt call key a s = (Inr (PollApproved b), t)"
    then obtain x where "au_handoffExpiresAt a = Some x" "ca_now call < x" "t = s"
        "decryptAgentTokenBundle rt (or_else (au_tokenBundleCiphertext a) []) key = Inr b"
      by (cases "au_handoffExpiresAt a") (auto simp: poll_consumed_def run_Inr not_le split: if_splits)
    then show thesis using that(2) [of a x] a h key device consumed by blast
  qed
qed

text \<open>C5 A device code is exchanged for tokens only as approved: a poll that hands out a bundle found an authorization
  with the code's hash (on the right device, for a native handoff) that is either approved, not expired,
  by a user who is active and still has access to the approved account, for whom it opens the one new
  session; or already consumed and within its handoff time, when nothing changes.\<close>

theorem exchange_sound:
  assumes "pollAgentDeviceAuthorization rt call code device pepper key s = (Inr (PollApproved b), t)"
  shows "\<exists>a\<in>set (ag_auths s). hashAgentDeviceCode rt code pepper = Inr (au_deviceCodeHash a) \<and>
    (au_kind a = NATIVE_HANDOFF \<longrightarrow> truthy device \<and> js_trim (or_else device []) = au_deviceId a) \<and>
    ((au_status a = AUTH_APPROVED \<and> ca_now call < au_expiresAt a \<and>
      (\<exists>account r. account_access (ag_accounts s) (or_else (au_approvedByUserId a) []) (or_else (au_approvedAccountId a) []) = Inr account \<and>
         au_approvedByUserId a = Some (bu_userId b) \<and> user_active (session_user (bu_userId b) s) \<and> bu_accountId b = aa_id account \<and>
         ag_sessions t = ag_sessions s @ [r] \<and> se_userId r = bu_userId b \<and> se_accountId r = bu_accountId b \<and> se_deviceId r = au_deviceId a)) \<or>
     (au_status a = AUTH_CONSUMED \<and> (\<exists>x. au_handoffExpiresAt a = Some x \<and> ca_now call < x) \<and> t = s))"
proof (rule poll_approved_cases [OF assms])
  fix a u account
  assume 1: "find_by au_deviceCodeHash (au_deviceCodeHash a) (ag_auths s) = Some a"
    "hashAgentDeviceCode rt code pepper = Inr (au_deviceCodeHash a)"
    "au_kind a = NATIVE_HANDOFF \<longrightarrow> truthy device \<and> js_trim (or_else device []) = au_deviceId a"
    "au_status a = AUTH_APPROVED" "ca_now call < au_expiresAt a"
    "account_access (ag_accounts s) (or_else (au_approvedByUserId a) []) (or_else (au_approvedAccountId a) []) = Inr account"
    "us_id u = or_else (au_approvedByUserId a) []" "user_active (Some u)" "session_user (us_id u) s = Some u"
    and run: "create_session rt call pepper key a u account s = (Inr (PollApproved b), t)"
  have "au_approvedByUserId a \<noteq> None"
  proof
    assume "au_approvedByUserId a = None"
    then show False using 1(6) by (simp add: account_access_def js_trim_def)
  qed
  then have who: "au_approvedByUserId a = Some (us_id u)" using 1(7) by auto
  from run obtain tokens h where "PollApproved b = PollApproved tokens" "bu_userId tokens = us_id u" "bu_accountId tokens = aa_id account"
      "ag_sessions t = ag_sessions s @ [new_session (ca_uuid call 0) a (us_id u) (aa_id account) h call]"
    by (rule create_session_run) blast
  moreover have "a \<in> set (ag_auths s)" using find_by_in [OF 1(1)] by simp
  ultimately show ?thesis using 1(2-6,8,9) who
    by (intro bexI [of _ a] conjI disjI1 exI [of _ account]
      exI [of _ "new_session (ca_uuid call 0) a (us_id u) (aa_id account) h call"]) (simp_all add: new_session_def)
next
  fix a x
  assume 2: "find_by au_deviceCodeHash (au_deviceCodeHash a) (ag_auths s) = Some a"
    "hashAgentDeviceCode rt code pepper = Inr (au_deviceCodeHash a)"
    "au_kind a = NATIVE_HANDOFF \<longrightarrow> truthy device \<and> js_trim (or_else device []) = au_deviceId a"
    "au_status a = AUTH_CONSUMED" "au_handoffExpiresAt a = Some x" "ca_now call < x" "t = s"
  have "a \<in> set (ag_auths s)" using find_by_in [OF 2(1)] by simp
  then show ?thesis using 2(2-7) by blast
qed

text \<open>The exchange succeeded: the authorization is now consumed and holds the sealed bundle.\<close>

lemma exchanged_authorization:
  assumes ok: "tables_ok s" and a: "find_by au_deviceCodeHash h (ag_auths s) = Some a" and status: "au_status a = AUTH_APPROVED"
    and t: "ag_auths t = update_rows (\<lambda>r. au_id r = au_id a \<and> au_status r = AUTH_APPROVED) f (ag_auths s)"
    and f: "\<And>r. au_deviceCodeHash (f r) = au_deviceCodeHash r"
  shows "find_by au_deviceCodeHash h (ag_auths t) = Some (f a)"
  using a status unfolding t by (simp add: find_by_update_rows f)

text \<open>C7 A lost answer can be fetched again: after a poll that opened a session, polling with the same code (and
  device) before the handoff expires returns the same bundle and changes nothing, when the cipher opens what
  it sealed of that bundle and the nonce has its 12 bytes.\<close>

theorem lost_answer_refetched:
  assumes "tables_ok s" and "pollAgentDeviceAuthorization rt call code device pepper key s = (Inr (PollApproved b), t)" and "t \<noteq> s"
    and "\<And>k c g. cr_seal rt k (ca_bytes call 2 12) (bundle_json b) = (c, g) \<Longrightarrow>
      cr_open rt k (ca_bytes call 2 12) g c = Some (bundle_json b) \<and> length g = 16 \<and> c \<noteq> []"
    and "length (ca_bytes call 2 12) = 12" and "ca_now call' < ca_now call + HANDOFF_TTL_MS"
  shows "pollAgentDeviceAuthorization rt call' code device pepper key t = (Inr (PollApproved b), t)"
  using assms(2)
proof (cases rule: poll_approved_cases)
  case (1 a u account)
  let ?h = "au_deviceCodeHash a"
  from 1(10) obtain sealed tokens where b: "PollApproved b = PollApproved tokens"
      and sealed: "encryptAgentTokenBundle rt (ca_bytes call 2 12) tokens key = Inr sealed"
      and t: "ag_auths t = update_rows (\<lambda>r. au_id r = au_id a \<and> au_status r = AUTH_APPROVED)
       (\<lambda>r. r\<lparr>au_status := AUTH_CONSUMED, au_consumedAt := Some (ca_txNow call),
              au_handoffExpiresAt := Some (ca_now call + HANDOFF_TTL_MS), au_sessionId := Some (ca_uuid call 0),
              au_tokenBundleCiphertext := Some sealed\<rparr>) (ag_auths s)"
    by (rule create_session_run) blast
  note found = exchanged_authorization [OF assms(1) 1(1,4) t]
  have "decryptAgentTokenBundle rt sealed key = Inr b"
    by (rule sealed_bundle_opens [OF assms(4,5)]) (use sealed b in simp_all)
  moreover have "truthy (Some sealed)"
    using sealed by (auto simp: encryptAgentTokenBundle_def TOKEN_BUNDLE_VERSION_def truthy_def map_sum_def split: sum.splits prod.splits)
  ultimately show ?thesis
    using found 1(2,3) assms(6)
    by (auto simp: pollAgentDeviceAuthorization_def poll_consumed_def eff_simps)
next
  case (2 a x)
  then show ?thesis using assms(3) by simp
qed

section \<open>Rotation\<close>

lemma rotate_tokens_run:
  assumes "rotate_tokens rt call pepper token session u account s = (Inr r, t)"
  obtains tokens h h' where "r = Refreshed tokens" and "hashAgentRefreshToken rt (bu_refreshToken tokens) pepper = Inr h'"
    and "ag_tokens t = update_rows (\<lambda>r. tk_id r = tk_id token \<and> tk_status r = TOKEN_ACTIVE) (rotated (ca_now call)) (ag_tokens s) @
      [new_token (ca_uuid call 0) (se_id session) h' (se_refreshGeneration session + 1) (se_refreshExpiresAt session)]"
    and "ag_sessions t = update_rows (\<lambda>r. se_id r = se_id session)
      (advanced h (ca_now call + ACCESS_TOKEN_TTL_MS) (se_refreshGeneration session + 1) (ca_now call)) (ag_sessions s)"
    and "sessions_ok (ag_auths s) (ag_sessions t)"
  using assms by (auto simp: rotate_tokens_def Let_def token_bundle_def run_Inr advanced_def [abs_def] rotated_def [abs_def])

lemma refreshed_cases:
  assumes "refreshAgentAccountSession rt call token pepper s = (Inr (Refreshed b), t)"
  obtains row session u account where "hashAgentRefreshToken rt token pepper = Inr (tk_tokenHash row)"
    and "row \<in> set (ag_tokens s)" and "tk_status row = TOKEN_ACTIVE" and "session \<in> set (ag_sessions s)" and "se_id session = tk_sessionId row"
    and "rotate_tokens rt call pepper row session u account s = (Inr (Refreshed b), t)"
  using assms
  by (auto simp: refreshAgentAccountSession_def refresh_session_def revoke_and_def Let_def run_Inr dest!: find_by_key)

text \<open>C6 A refresh token works once: after a refresh, presenting the same token again, at any time, is detected as a
  replay and ends the session that the first use had refreshed.\<close>

theorem refresh_token_single_use:
  assumes "agent_inv s" and "refreshAgentAccountSession rt call token pepper s = (Inr (Refreshed b), t)"
  shows "\<exists>u. refreshAgentAccountSession rt call' token pepper t = (Inr ReplayDetected, u) \<and>
    session_life u (bu_sessionId b) = Ended \<and> family_ended (bu_sessionId b) u"
  using assms(2)
proof (cases rule: refreshed_cases)
  case (1 row session u account)
  obtain tokens h h' where b: "Refreshed b = Refreshed tokens"
    and T: "ag_tokens t = update_rows (\<lambda>r. tk_id r = tk_id row \<and> tk_status r = TOKEN_ACTIVE) (rotated (ca_now call)) (ag_tokens s) @
      [new_token (ca_uuid call 0) (se_id session) h' (se_refreshGeneration session + 1) (se_refreshExpiresAt session)]"
    using rotate_tokens_run [OF 1(6)] by metis
  have sid: "bu_sessionId b = tk_sessionId row"
    using 1(5,6) by (auto simp: rotate_tokens_def Let_def token_bundle_def run_Inr)
  have used: "rotated (ca_now call) row \<in> set (ag_tokens t)"
    using 1(2,3) unfolding T by (auto simp: set_update_rows image_iff intro!: bexI [of _ row])
  have step: "agent_step (\<lparr>as_runtime = rt, as_verificationUri = (\<lambda>_ _. Inl []), as_pepper = pepper, as_encryptionKey = []\<rparr>) s t"
    using request [of "\<lparr>as_runtime = rt, as_verificationUri = (\<lambda>_ _. Inl []), as_pepper = pepper, as_encryptionKey = []\<rparr>" s call "Refresh token"] assms(2)
    by (simp add: transaction_run ignore_result_def bnd_run ret_run)
  have ok: "tables_ok t" using agent_inv_step [OF step assms(1)] by (simp add: agent_inv_def)
  obtain u where "refreshAgentAccountSession rt call' token pepper t = (Inr ReplayDetected, u)"
      "session_life u (tk_sessionId row) = Ended" "family_ended (tk_sessionId row) u"
    by (rule refresh_of_used_token [OF ok _ used, of rt token pepper call']) (simp_all add: rotated_def 1(1))
  then show ?thesis using sid by auto
qed

text \<open>In the last fifteen minutes of a session's thirty days no refresh succeeds: the access token would outlive
  the session, which the check on the table forbids, so the call throws although token, session and user are
  in order.\<close>

theorem late_refresh_fails:
  assumes "refreshAgentAccountSession rt call token pepper s = (r, t)"
    and "hashAgentRefreshToken rt token pepper = Inr h"
    and "\<forall>row\<in>set (ag_tokens s). tk_tokenHash row = h \<longrightarrow>
      (\<forall>session\<in>set (ag_sessions s). se_id session = tk_sessionId row \<longrightarrow> se_refreshExpiresAt session \<le> ca_now call + ACCESS_TOKEN_TTL_MS)"
  shows "\<forall>b. r \<noteq> Inr (Refreshed b)"
proof (intro allI notI)
  fix b
  assume "r = Inr (Refreshed b)"
  with assms(1) have "refreshAgentAccountSession rt call token pepper s = (Inr (Refreshed b), t)" by simp
  then show False
  proof (cases rule: refreshed_cases)
    case (1 row session u account)
    obtain tokens h' h'' where S: "ag_sessions t = update_rows (\<lambda>r. se_id r = se_id session)
        (advanced h' (ca_now call + ACCESS_TOKEN_TTL_MS) (se_refreshGeneration session + 1) (ca_now call)) (ag_sessions s)"
      and ok: "sessions_ok (ag_auths s) (ag_sessions t)"
      using rotate_tokens_run [OF 1(6)] by metis
    have "advanced h' (ca_now call + ACCESS_TOKEN_TTL_MS) (se_refreshGeneration session + 1) (ca_now call) session \<in> set (ag_sessions t)"
      using 1(4) unfolding S by (auto simp: set_update_rows image_iff intro!: bexI [of _ session])
    then have "ca_now call + ACCESS_TOKEN_TTL_MS < se_refreshExpiresAt session"
      using ok by (auto simp: sessions_ok_def list_all_iff session_check_def advanced_def)
    moreover have "se_refreshExpiresAt session \<le> ca_now call + ACCESS_TOKEN_TTL_MS" using assms(2,3) 1 by auto
    ultimately show False by simp
  qed
qed

section \<open>Revoking a user\<close>

lemma auth_revoked_ok: "auths_ok rows \<Longrightarrow> auths_ok (update_rows p (revoke_authorization now) rows)"
  by (rule auths_ok_update) (auto simp: revoke_authorization_def auth_check_def coalesce_def split: option.splits)

text \<open>Revoking a user's sessions always succeeds and leaves none of them usable: each is ended, no refresh token of
  them is active, and every authorization the user had approved is denied or has lost its bundle and its
  handoff time.\<close>

theorem user_revoked:
  assumes "agent_inv s"
  shows "\<exists>t. revokeAgentAccountSessionsForUser nothing_missed who now s = (Inr (), t) \<and>
    (\<forall>r\<in>set (ag_sessions t). se_userId r = who \<longrightarrow> se_revokedAt r \<noteq> None \<and>
       (\<forall>k\<in>set (ag_tokens t). tk_sessionId k = se_id r \<longrightarrow> tk_status k \<noteq> TOKEN_ACTIVE)) \<and>
    (\<forall>a\<in>set (ag_auths t). au_approvedByUserId a = Some who \<longrightarrow> au_status a \<noteq> AUTH_APPROVED \<and>
       (au_status a = AUTH_CONSUMED \<longrightarrow> au_tokenBundleCiphertext a = None \<and> au_handoffExpiresAt a = Some now))"
proof -
  let ?X = "set (map se_id (filter (\<lambda>r. se_userId r = who) (ag_sessions s)))"
  let ?T = "update_rows (\<lambda>r. tk_sessionId r \<in> ?X \<and> tk_status r \<noteq> TOKEN_REVOKED) (revoke_token now) (ag_tokens s)"
  let ?S = "update_rows (\<lambda>r. se_userId r = who) (revoke_session now) (ag_sessions s)"
  let ?p = "\<lambda>r. au_approvedByUserId r = Some who \<and> au_status r \<in> {AUTH_APPROVED, AUTH_CONSUMED}"
  let ?A = "update_rows ?p (revoke_authorization now) (ag_auths s)"
  let ?t = "s\<lparr>ag_tokens := ?T, ag_sessions := ?S, ag_auths := ?A\<rparr>"
  have ok: "tables_ok s" and inv: "agent_inv s" using assms by (simp_all add: agent_inv_def)
  have "tokens_ok (ag_sessions s) ?T" "sessions_ok (ag_auths s) ?S" "auths_ok ?A"
    using ok by (simp_all only: tables_ok_def revoke_rows_ok auth_revoked_ok)
  then have run: "revokeAgentAccountSessionsForUser nothing_missed who now s = (Inr (), ?t)"
    unfolding revokeAgentAccountSessionsForUser_def nothing_missed_def
    by (simp add: bnd_def gets_def write_sessions_def write_tokens_def write_auths_def)
  have sessions: "se_revokedAt r \<noteq> None" "se_id r \<in> ?X" if "r \<in> set ?S" "se_userId r = who" for r
    using that(1) by (cases rule: update_rows_cases; use that(2) in \<open>auto simp: revoke_session_def coalesce_def split: option.splits\<close>)+
  have tokens: "tk_status k \<noteq> TOKEN_ACTIVE" if "k \<in> set ?T" "tk_sessionId k \<in> ?X" for k
    using that(1) by (cases rule: update_rows_cases) (use that(2) in \<open>simp_all add: revoke_token_def\<close>)
  have auths: "au_status a \<noteq> AUTH_APPROVED \<and>
       (au_status a = AUTH_CONSUMED \<longrightarrow> au_tokenBundleCiphertext a = None \<and> au_handoffExpiresAt a = Some now)"
    if "a \<in> set ?A" "au_approvedByUserId a = Some who" for a
    using that(1) by (cases rule: update_rows_cases) (use that(2) in \<open>auto simp: revoke_authorization_def\<close>)
  show ?thesis using run sessions tokens auths by (intro exI [of _ ?t]) simp
qed

end
