(* ===== verification/Agent_Demo.thy ===== *)
theory Agent_Demo
  imports Agent_Exchange
begin

text \<open>Recent authentication, and a small database on which the claims on agent sessions are applied.\<close>

section \<open>Recent authentication\<close>

text \<open>After a session was marked as recently authenticated, it counts as such exactly from that time on for
  fifteen minutes.\<close>

theorem recent_authentication_window:
  assumes "markAgentSessionRecentlyAuthenticated call a authMethod s = (Inr win, t)"
  shows "agentSessionRecentlyAuthenticated a now t \<longleftrightarrow> ca_now call \<le> now \<and> now \<le> ca_now call + AGENT_RECENT_AUTH_WINDOW_MS"
proof -
  have t: "ag_sessions t = update_rows (same_session a) (\<lambda>r. r\<lparr>se_recentAuthenticatedAt := Some (ca_now call)\<rparr>) (ag_sessions s)"
    and one: "count_rows (same_session a) (ag_sessions s) = 1"
    using assms by (auto simp: markAgentSessionRecentlyAuthenticated_def mark_recent_def Let_def run_Inr)
  have "0 < count_rows (same_session a) (ag_sessions s)" using one by simp
  then obtain r where "List.find (same_session a) (ag_sessions s) = Some r"
    unfolding count_rows_pos by (cases "List.find (same_session a) (ag_sessions s)") (auto simp: find_None)
  moreover have "same_session a (r\<lparr>se_recentAuthenticatedAt := v\<rparr>) = same_session a r" for r v by (simp add: same_session_def)
  ultimately have "List.find (same_session a) (ag_sessions t) = Some (r\<lparr>se_recentAuthenticatedAt := Some (ca_now call)\<rparr>)"
    using find_in_set [of "same_session a" "ag_sessions s" r] unfolding t by (simp add: find_update_rows)
  then show ?thesis by (auto simp: agentSessionRecentlyAuthenticated_def)
qed

section \<open>A small database\<close>

text \<open>
  One user with an account, one approved authorization, one consumed with its session in generation 1, whose
  first refresh token is rotated. Hashes write out their domain and value.
\<close>

definition demo_hash :: "string \<Rightarrow> string \<Rightarrow> string" where
  "demo_hash domain v = domain @ CHR 0x00 # v"

definition demo_authorization :: "ident \<Rightarrow> AuthorizationStatus \<Rightarrow> ident option \<Rightarrow> AuthorizationRow" where
  "demo_authorization i status sessionId =
     \<lparr>au_id = i, au_deviceCodeHash = demo_hash ''bke-agent-device-code-v1'' i, au_userCodeHash = demo_hash ''bke-agent-user-code-v1'' i,
      au_deviceId = ''device'', au_deviceName = None, au_platform = ''linux'', au_architecture = ''x64'', au_kind = DEVICE_CODE,
      au_status = status, au_expiresAt = 1000, au_pollIntervalSeconds = 5, au_lastPollAt = None, au_approvedByUserId = Some ''u1'',
      au_approvedAccountId = Some ''c1'', au_approvedAt = Some 0, au_deniedAt = None, au_consumedAt = Some 0,
      au_handoffExpiresAt = Some 0, au_sessionId = sessionId, au_tokenBundleCiphertext = None\<rparr>"

definition demo_session :: SessionRow where
  "demo_session = \<lparr>se_id = ''s1'', se_deviceAuthorizationId = ''a2'', se_userId = ''u1'', se_accountId = ''c1'', se_deviceId = ''device'',
     se_accessTokenHash = demo_hash ''bke-agent-access-token-v1'' ''access'', se_accessExpiresAt = 900000, se_refreshExpiresAt = 2592000000,
     se_refreshGeneration = 1, se_revokedAt = None, se_lastSeenAt = None, se_recentAuthenticatedAt = None, se_createdAt = 0\<rparr>"

definition demo_token :: "ident \<Rightarrow> int \<Rightarrow> TokenStatus \<Rightarrow> TokenRow" where
  "demo_token i g status = \<lparr>tk_id = i, tk_sessionId = ''s1'', tk_tokenHash = demo_hash ''bke-agent-refresh-token-v1'' i, tk_generation = g,
     tk_status = status, tk_expiresAt = 2592000000, tk_rotatedAt = Some 0, tk_revokedAt = None\<rparr>"

definition demo_agent :: AgentDb where
  "demo_agent = \<lparr>ag_auths = [demo_authorization ''a1'' AUTH_APPROVED None, demo_authorization ''a2'' AUTH_CONSUMED (Some ''s1'')],
     ag_sessions = [demo_session], ag_tokens = [demo_token ''k0'' 0 TOKEN_ROTATED, demo_token ''k1'' 1 TOKEN_ACTIVE],
     ag_users = [\<lparr>us_id = ''u1'', us_email = ''e'', us_emailVerified = Some 0, us_lifecycleState = ACTIVE\<rparr>],
     ag_accounts = [\<lparr>ac_id = ''c1'', ac_type = INDIVIDUAL, ac_displayName = ''n'', ac_ownerId = ''u1'', ac_lifecycleState = ACTIVE,
       ac_memberships = []\<rparr>],
     ag_credentials = [], ag_mfa = [], ag_audit = []\<rparr>"

definition demo_call :: "time \<Rightarrow> AgentCall" where
  "demo_call t = \<lparr>ca_now = t, ca_txNow = t, ca_bytes = (\<lambda>i n. if n = 12 then ''twelve bytes'' else replicate (Suc i) CHR ''b''),
     ca_uuid = (\<lambda>i. replicate (Suc i) CHR ''x'')\<rparr>"

definition demo_secrets :: AgentSecrets where
  "demo_secrets = \<lparr>as_runtime = plain_runtime, as_verificationUri = (\<lambda>b c. Inr (b @ c)), as_pepper = demo_secret, as_encryptionKey = demo_secret\<rparr>"

lemma demo_inv: "agent_inv demo_agent"
  by code_simp

text \<open>A revocation that runs while the session is refreshed misses the new token, which stays active; it is not refreshed.\<close>

definition left_behind :: AgentDb where
  "left_behind = snd (transaction (request_body demo_secrets (demo_call 10)
     (RevokeUserNative \<lparr>mi_tokens = [''k1''], mi_sessions = [], mi_auths = []\<rparr> ''u1'')) demo_agent)"

lemma one_active_token_witness:
  "demo_token ''k1'' 1 TOKEN_ACTIVE \<in> set (ag_tokens left_behind) \<and> session_life left_behind ''s1'' = Ended \<and>
   (\<exists>u. refreshAgentAccountSession plain_runtime (demo_call 20) ''k1'' demo_secret left_behind = (Inr InvalidGrant, u) \<and> family_ended ''s1'' u)"
proof -
  have run: "(agent_step demo_secrets)\<^sup>*\<^sup>* demo_agent left_behind" unfolding left_behind_def by (intro r_into_rtranclp request)
  have token: "demo_token ''k1'' 1 TOKEN_ACTIVE \<in> set (ag_tokens left_behind)" by code_simp
  have ended: "session_life left_behind ''s1'' = Ended" by code_simp
  have key: "hashAgentRefreshToken plain_runtime ''k1'' demo_secret = Inr (tk_tokenHash (demo_token ''k1'' 1 TOKEN_ACTIVE))" by code_simp
  have "\<exists>u. refreshAgentAccountSession plain_runtime (demo_call 20) ''k1'' demo_secret left_behind = (Inr InvalidGrant, u) \<and> family_ended ''s1'' u"
    using one_active_token [OF run demo_inv token] ended key by (simp add: demo_token_def)
  with token ended show ?thesis by blast
qed

lemma session_refines_life_witness:
  "\<exists>t. agent_step demo_secrets demo_agent t \<and> session_life t ''s1'' = Live 2 \<and>
     life_step (session_life demo_agent ''s1'') (session_life t ''s1'')"
proof -
  let ?t = "snd (transaction (request_body demo_secrets (demo_call 10) (Refresh ''k1'')) demo_agent)"
  have step: "agent_step demo_secrets demo_agent ?t" by (rule request)
  have "session_life ?t ''s1'' = Live 2" by code_simp
  then show ?thesis using step session_refines_life [OF step demo_inv] by blast
qed

lemma replay_ends_family_witness:
  "\<exists>t. refreshAgentAccountSession plain_runtime (demo_call 10) ''k0'' demo_secret demo_agent = (Inr ReplayDetected, t) \<and> family_ended ''s1'' t"
proof -
  let ?row = "demo_token ''k0'' 0 TOKEN_ROTATED"
  have "hashAgentRefreshToken plain_runtime ''k0'' demo_secret = Inr (tk_tokenHash ?row)" by code_simp
  moreover have "?row \<in> set (ag_tokens demo_agent)" by (simp add: demo_agent_def)
  moreover have "tk_status ?row \<noteq> TOKEN_ACTIVE" "tk_sessionId ?row = ''s1''" by (simp_all add: demo_token_def)
  ultimately show ?thesis using replay_ends_family [OF demo_inv] by metis
qed

lemma authentication_sound_witness:
  "\<exists>a t. authenticateAgentAccessToken plain_runtime (demo_call 10) ''access'' demo_secret demo_agent = (Inr (Some a), t) \<and>
     at_userId a = ''u1'' \<and> user_active (session_user ''u1'' demo_agent)"
proof -
  let ?run = "authenticateAgentAccessToken plain_runtime (demo_call 10) ''access'' demo_secret demo_agent"
  let ?a = "\<lparr>at_sessionId = ''s1'', at_userId = ''u1'', at_accountId = ''c1'', at_deviceId = ''device''\<rparr>"
  have "fst ?run = Inr (Some ?a)" by code_simp
  then have run: "?run = (Inr (Some ?a), snd ?run)" by (metis prod.collapse)
  from authentication_sound [OF run] have "user_active (session_user ''u1'' demo_agent)" by auto
  then show ?thesis using run by (intro exI [of _ ?a] exI [of _ "snd ?run"]) simp
qed

definition demo_poll :: "(error + PollResult) \<times> AgentDb" where
  "demo_poll = pollAgentDeviceAuthorization plain_runtime (demo_call 10) ''a1'' None demo_secret demo_secret demo_agent"

lemma demo_poll_ok:
  obtains b where "pollAgentDeviceAuthorization plain_runtime (demo_call 10) ''a1'' None demo_secret demo_secret demo_agent =
    (Inr (PollApproved b), snd demo_poll)" and "snd demo_poll \<noteq> demo_agent"
proof -
  have "case fst demo_poll of Inr (PollApproved b) \<Rightarrow> True | _ \<Rightarrow> False" by code_simp
  then obtain b where "fst demo_poll = Inr (PollApproved b)" by (auto split: sum.splits PollResult.splits)
  moreover have "length (ag_sessions (snd demo_poll)) \<noteq> length (ag_sessions demo_agent)" by code_simp
  ultimately show thesis using that [of b] unfolding demo_poll_def by (metis prod.collapse)
qed

lemma exchange_sound_witness:
  "\<exists>b t. pollAgentDeviceAuthorization plain_runtime (demo_call 10) ''a1'' None demo_secret demo_secret demo_agent = (Inr (PollApproved b), t) \<and>
     (\<exists>a\<in>set (ag_auths demo_agent). au_status a = AUTH_APPROVED \<and> au_approvedByUserId a = Some (bu_userId b))"
proof -
  obtain b where b: "pollAgentDeviceAuthorization plain_runtime (demo_call 10) ''a1'' None demo_secret demo_secret demo_agent =
    (Inr (PollApproved b), snd demo_poll)" and changed: "snd demo_poll \<noteq> demo_agent" by (rule demo_poll_ok)
  from exchange_sound [OF b] changed show ?thesis using b by blast
qed

lemma lost_answer_refetched_witness:
  "\<exists>b. pollAgentDeviceAuthorization plain_runtime (demo_call 20) ''a1'' None demo_secret demo_secret (snd demo_poll) =
     (Inr (PollApproved b), snd demo_poll)"
proof -
  obtain b where b: "pollAgentDeviceAuthorization plain_runtime (demo_call 10) ''a1'' None demo_secret demo_secret demo_agent =
    (Inr (PollApproved b), snd demo_poll)" and changed: "snd demo_poll \<noteq> demo_agent" by (rule demo_poll_ok)
  have "pollAgentDeviceAuthorization plain_runtime (demo_call 20) ''a1'' None demo_secret demo_secret (snd demo_poll) =
     (Inr (PollApproved b), snd demo_poll)"
    by (rule lost_answer_refetched [OF _ b changed plain_runtime_opens])
      (use demo_inv in \<open>simp_all add: agent_inv_def demo_call_def HANDOFF_TTL_MS_def\<close>)
  then show ?thesis by blast
qed

lemma refresh_token_single_use_witness:
  "\<exists>b t u. refreshAgentAccountSession plain_runtime (demo_call 10) ''k1'' demo_secret demo_agent = (Inr (Refreshed b), t) \<and>
     refreshAgentAccountSession plain_runtime (demo_call 20) ''k1'' demo_secret t = (Inr ReplayDetected, u)"
proof -
  let ?run = "refreshAgentAccountSession plain_runtime (demo_call 10) ''k1'' demo_secret demo_agent"
  have "case fst ?run of Inr (Refreshed b) \<Rightarrow> True | _ \<Rightarrow> False" by code_simp
  then obtain b where "fst ?run = Inr (Refreshed b)" by (auto split: sum.splits RefreshResult.splits)
  then have run: "?run = (Inr (Refreshed b), snd ?run)" by (metis prod.collapse)
  from refresh_token_single_use [OF demo_inv run, of "demo_call 20"] run show ?thesis by blast
qed

text \<open>Ten minutes before the end of the thirty days everything is in order, and the refresh throws.\<close>

lemma late_refresh_fails_witness:
  "fst (refreshAgentAccountSession plain_runtime (demo_call 2591400000) ''k1'' demo_secret demo_agent) = Inl CONSTRAINT \<and>
   (\<forall>b. fst (refreshAgentAccountSession plain_runtime (demo_call 2591400000) ''k1'' demo_secret demo_agent) \<noteq> Inr (Refreshed b))"
proof
  let ?run = "refreshAgentAccountSession plain_runtime (demo_call 2591400000) ''k1'' demo_secret demo_agent"
  show "fst ?run = Inl CONSTRAINT" by code_simp
  have h: "hashAgentRefreshToken plain_runtime ''k1'' demo_secret = Inr (demo_hash ''bke-agent-refresh-token-v1'' ''k1'')" by code_simp
  have "\<forall>session\<in>set (ag_sessions demo_agent). se_refreshExpiresAt session \<le> ca_now (demo_call 2591400000) + ACCESS_TOKEN_TTL_MS"
    by (simp add: demo_agent_def demo_session_def demo_call_def ACCESS_TOKEN_TTL_MS_def)
  then show "\<forall>b. fst ?run \<noteq> Inr (Refreshed b)"
    using late_refresh_fails [OF _ h, of "demo_call 2591400000" demo_agent "fst ?run" "snd ?run"] by simp
qed

lemma user_revoked_witness:
  "\<exists>t. revokeAgentAccountSessionsForUser nothing_missed ''u1'' 5 demo_agent = (Inr (), t) \<and> (\<forall>a\<in>set (ag_auths t). au_approvedByUserId a = Some ''u1'' \<longrightarrow> au_status a \<noteq> AUTH_APPROVED)"
  using user_revoked [OF demo_inv, of "''u1''" 5] by blast

lemma recent_authentication_window_witness:
  "\<exists>win t. markAgentSessionRecentlyAuthenticated (demo_call 10)
       \<lparr>at_sessionId = ''s1'', at_userId = ''u1'', at_accountId = ''c1'', at_deviceId = ''device''\<rparr> ''PASSWORD'' demo_agent = (Inr win, t) \<and>
     agentSessionRecentlyAuthenticated \<lparr>at_sessionId = ''s1'', at_userId = ''u1'', at_accountId = ''c1'', at_deviceId = ''device''\<rparr> 900010 t"
proof -
  let ?a = "\<lparr>at_sessionId = ''s1'', at_userId = ''u1'', at_accountId = ''c1'', at_deviceId = ''device''\<rparr>"
  let ?run = "markAgentSessionRecentlyAuthenticated (demo_call 10) ?a ''PASSWORD'' demo_agent"
  have "\<not> isl (fst ?run)" by code_simp
  then obtain win where "fst ?run = Inr win" by (cases "fst ?run") auto
  then have run: "?run = (Inr win, snd ?run)" by (metis prod.collapse)
  have "ca_now (demo_call 10) \<le> 900010 \<and> 900010 \<le> ca_now (demo_call 10) + AGENT_RECENT_AUTH_WINDOW_MS"
    by (simp add: demo_call_def AGENT_RECENT_AUTH_WINDOW_MS_def AGENT_RECENT_AUTH_WINDOW_MINUTES_def)
  then show ?thesis using recent_authentication_window [OF run, of 900010] run by blast
qed

end
