(* ===== verification/Spec2Isabelle.thy ===== *)
theory Spec2Isabelle
  imports Audit_Log Composition Claim_Demo Notification_Center Settlement Payment_Demo Provider_Admin Customer_Demo Scheduler_Outcomes Storage_Cleanup_Workers Email_Web Agent_Demo
begin

text \<open>Verification development (header to be completed).\<close>

end
